(* ===== verification/Prelude.thy ===== *)
theory Prelude
  imports Complex_Main "HOL-Library.Char_ord" "HOL-Library.List_Lexorder" "HOL-Library.Product_Lexorder"
begin

text \<open>
  The vocabulary the components share: names for the scalar types of the Go
  sources, tables as lists of rows with the three statement shapes the stores
  use (select, update-where, delete-where), the uniqueness and reference
  predicates the SQL schema declares, paging, case folding, and the lemma
  collections.

  Scalars.  Identifiers and enumerations are Go strings, so they are strings
  here and every value a caller can pass is a value of the model.  A
  time.Time is an integer number of microseconds (the resolution of the
  TIMESTAMPTZ(6) columns) counted from Go's zero time, so IsZero is equality
  with 0.  An int64 that is only stored and compared is an int; a float64 that
  is only stored and compared is a rat.
\<close>

type_synonym id = string
type_synonym time = int
type_synonym 'r table = "'r list"

named_theorems run_simps "what one primitive step of an operation does"
named_theorems store_defs "the definitions of the store functions"
named_theorems schema_defs "the constraint lists of the tables"
named_theorems atomic_intros "operations that leave database and event log alone when they fail"
named_theorems readonly_intros "operations that never write"
named_theorems keeps_intros "operations that keep an invariant of the database"
named_theorems txkeeps_intros "transaction bodies that keep an invariant of the working copy"

subsection \<open>Tables\<close>

definition select_where :: "('r \<Rightarrow> bool) \<Rightarrow> 'r table \<Rightarrow> 'r table" where
  "select_where P t = filter P t"

definition update_where :: "('r \<Rightarrow> bool) \<Rightarrow> ('r \<Rightarrow> 'r) \<Rightarrow> 'r table \<Rightarrow> 'r table" where
  "update_where P f t = map (\<lambda>r. if P r then f r else r) t"

definition delete_where :: "('r \<Rightarrow> bool) \<Rightarrow> 'r table \<Rightarrow> 'r table" where
  "delete_where P t = filter (\<lambda>r. \<not> P r) t"

definition insert_row :: "'r \<Rightarrow> 'r table \<Rightarrow> 'r table" where
  "insert_row r t = t @ [r]"

text \<open>UNIQUE / PRIMARY KEY over the columns f, and FOREIGN KEY from the
  column f of cs to the column g of ps; the optional
  versions are those over a NULLable column, where a NULL satisfies both.\<close>

definition uniq :: "('r \<Rightarrow> 'k) \<Rightarrow> 'r table \<Rightarrow> bool" where
  "uniq f t = distinct (map f t)"

definition uniq_opt :: "('r \<Rightarrow> 'k option) \<Rightarrow> 'r table \<Rightarrow> bool" where
  "uniq_opt f t = distinct (filter (\<lambda>k. k \<noteq> None) (map f t))"

definition refs :: "('c \<Rightarrow> 'k) \<Rightarrow> 'c table \<Rightarrow> ('p \<Rightarrow> 'k) \<Rightarrow> 'p table \<Rightarrow> bool" where
  "refs f cs g ps = list_all (\<lambda>c. f c \<in> set (map g ps)) cs"

definition refs_opt :: "('c \<Rightarrow> 'k option) \<Rightarrow> 'c table \<Rightarrow> ('p \<Rightarrow> 'k) \<Rightarrow> 'p table \<Rightarrow> bool" where
  "refs_opt f cs g ps = list_all (\<lambda>c. case f c of None \<Rightarrow> True | Some k \<Rightarrow> k \<in> set (map g ps)) cs"

text \<open>The first declared constraint that does not hold, by name.\<close>

fun first_violation :: "(string \<times> bool) list \<Rightarrow> string option" where
  "first_violation [] = None"
| "first_violation ((c, ok) # cs) = (if ok then first_violation cs else Some c)"

subsection \<open>Paging and case folding\<close>

text \<open>LIMIT / OFFSET on an ordered result.\<close>

definition page_rows :: "int \<Rightarrow> int \<Rightarrow> 'r list \<Rightarrow> 'r list" where
  "page_rows limit offset rs = take (nat limit) (drop (nat offset) rs)"

text \<open>The clamping every paged list of the stores applies: limit <= 0 is 50, more than 200 is 200,
  a negative offset is 0.\<close>

definition clampLimit :: "int \<Rightarrow> int" where
  "clampLimit limit = (let l = (if limit \<le> 0 then 50 else limit) in if l > 200 then 200 else l)"

definition clampOffset :: "int \<Rightarrow> int" where
  "clampOffset offset = (if offset < 0 then 0 else offset)"

definition lower_char :: "char \<Rightarrow> char" where
  "lower_char c =
     (let n = of_char c :: nat in if 65 \<le> n \<and> n \<le> 90 then char_of (n + 32) else c)"

definition lower :: "string \<Rightarrow> string" where
  "lower s = map lower_char s"

text \<open>SQL LIKE: a percent sign stands for any string, an underscore for any character, a backslash
  quotes the next character; ILIKE folds case first.\<close>

fun like :: "string \<Rightarrow> string \<Rightarrow> bool" where
  "like [] s = (s = [])"
| "like [q] [] = (q = CHR ''%'')"
| "like (q # q' # p) [] = (q = CHR ''%'' \<and> like (q' # p) [])"
| "like [q] (c # s) = (q = CHR ''%'' \<or> (q = CHR ''_'' \<or> q = c) \<and> s = [])"
| "like (q # q' # p) (c # s) =
     (if q = CHR ''%'' then like (q' # p) (c # s) \<or> like (q # q' # p) s
      else if q = CHR ''_'' then like (q' # p) s
      else if q = CHR 0x5C then q' = c \<and> like p s
      else q = c \<and> like (q' # p) s)"

definition ilike :: "string \<Rightarrow> string \<Rightarrow> bool" where
  "ilike s p = like (lower p) (lower s)"

definition contains_pattern :: "string \<Rightarrow> string" where
  "contains_pattern q = ''%'' @ q @ ''%''"

subsection \<open>Lemmas on tables\<close>

lemma set_update_where [simp]:
  "set (update_where P f t) = (\<lambda>r. if P r then f r else r) ` set t"
  by (auto simp: update_where_def)

lemma set_delete_where [simp]: "set (delete_where P t) = {r \<in> set t. \<not> P r}"
  by (auto simp: delete_where_def)

lemma set_insert_row [simp]: "set (insert_row r t) = insert r (set t)"
  by (auto simp: insert_row_def)

lemma set_select_where [simp]: "set (select_where P t) = {r \<in> set t. P r}"
  by (auto simp: select_where_def)

lemma map_key_update_where:
  assumes "\<And>r. P r \<Longrightarrow> g (f r) = g r"
  shows "map g (update_where P f t) = map g t"
  using assms by (induction t) (auto simp: update_where_def)

lemma uniq_update_where:
  assumes "\<And>r. P r \<Longrightarrow> g (f r) = g r" "uniq g t"
  shows "uniq g (update_where P f t)"
  using map_key_update_where [of P g f t] assms by (simp add: uniq_def)

lemma uniq_delete_where [simp]: "uniq g t \<Longrightarrow> uniq g (delete_where P t)"
  by (simp add: uniq_def delete_where_def distinct_map_filter)

lemma uniq_opt_delete_where [simp]:
  assumes "uniq_opt g t"
  shows "uniq_opt g (delete_where P t)"
  using assms
  by (induction t) (auto simp: uniq_opt_def delete_where_def split: if_splits)

lemma uniq_insert_row [simp]:
  "uniq g (insert_row r t) \<longleftrightarrow> uniq g t \<and> g r \<notin> g ` set t"
  by (auto simp: uniq_def insert_row_def)

lemma uniqD: "uniq g t \<Longrightarrow> r \<in> set t \<Longrightarrow> r' \<in> set t \<Longrightarrow> g r = g r' \<Longrightarrow> r = r'"
  by (auto simp: uniq_def distinct_map dest: inj_onD)

lemma refs_iff: "refs f cs g ps \<longleftrightarrow> (\<forall>c\<in>set cs. \<exists>p\<in>set ps. f c = g p)"
  by (auto simp: refs_def list_all_iff)

lemma refs_opt_iff:
  "refs_opt f cs g ps \<longleftrightarrow> (\<forall>c\<in>set cs. \<forall>k. f c = Some k \<longrightarrow> (\<exists>p\<in>set ps. k = g p))"
  by (auto simp: refs_opt_def list_all_iff split: option.splits)

lemma image_update_where:
  assumes "\<And>r. P r \<Longrightarrow> g (f r) = g r"
  shows "g ` set (update_where P f t) = g ` set t"
  using map_key_update_where [of P g f t] assms by (metis list.set_map)

lemma list_all_delete_where [simp]: "list_all Q t \<Longrightarrow> list_all Q (delete_where P t)"
  by (auto simp: list_all_iff)

lemma refs_insert_parent [simp]: "refs f cs g ps \<Longrightarrow> refs f cs g (insert_row r ps)"
  by (auto simp: refs_iff)

lemma refs_opt_insert_parent [simp]: "refs_opt f cs g ps \<Longrightarrow> refs_opt f cs g (insert_row r ps)"
  by (auto simp: refs_opt_iff)

lemma refs_update_parent [simp]:
  "(\<And>r. P r \<Longrightarrow> g (h r) = g r) \<Longrightarrow> refs f cs g (update_where P h ps) = refs f cs g ps"
  by (simp add: refs_def map_key_update_where)

lemma refs_opt_update_parent [simp]:
  "(\<And>r. P r \<Longrightarrow> g (h r) = g r) \<Longrightarrow> refs_opt f cs g (update_where P h ps) = refs_opt f cs g ps"
  using map_key_update_where [of P g h ps] by (simp only: refs_opt_def)

lemma refs_delete_child [simp]: "refs f cs g ps \<Longrightarrow> refs f (delete_where P cs) g ps"
  by (auto simp: refs_iff)

lemma refs_opt_delete_child [simp]: "refs_opt f cs g ps \<Longrightarrow> refs_opt f (delete_where P cs) g ps"
  by (auto simp: refs_opt_iff)

lemma refs_cascade [simp]:
  "refs f cs g ps \<Longrightarrow> refs f (delete_where (\<lambda>c. f c = k) cs) g (delete_where (\<lambda>p. g p = k) ps)"
  by (auto simp: refs_iff)

lemma refs_cascade_set:
  "refs f cs g ps \<Longrightarrow>
     refs f (delete_where (\<lambda>c. f c \<in> g ` {p \<in> set ps. Q p}) cs) g (delete_where Q ps)"
  by (fastforce simp: refs_iff)

lemma refs_opt_set_null:
  assumes "refs_opt f cs g ps" "\<And>c. f (h c) = None"
  shows "refs_opt f (update_where (\<lambda>c. f c = Some k) h cs) g (delete_where (\<lambda>p. g p = k) ps)"
  using assms by (auto simp: refs_opt_iff)

lemma refs_update_child [simp]:
  "(\<And>r. P r \<Longrightarrow> f (h r) = f r) \<Longrightarrow> refs f (update_where P h cs) g ps = refs f cs g ps"
  by (induction cs) (auto simp: refs_def update_where_def)

lemma clampLimit_bounds: "1 \<le> clampLimit limit" "clampLimit limit \<le> 200"
  by (auto simp: clampLimit_def Let_def)

lemma clampOffset_nonneg: "0 \<le> clampOffset offset"
  by (simp add: clampOffset_def)

lemma first_violation_None [simp]: "first_violation cs = None \<longleftrightarrow> list_all snd cs"
  by (induction cs rule: first_violation.induct) auto

lemma find_uniq_iff:
  assumes "uniq g t"
  shows "find (\<lambda>r. g r = k) t = Some r \<longleftrightarrow> r \<in> set t \<and> g r = k"
  using assms
  by (induction t) (auto simp: uniq_def)

lemma find_None_iff_image: "find (\<lambda>r. g r = k) t = None \<longleftrightarrow> k \<notin> g ` set t"
  by (induction t) auto

lemma find_SomeD: "find P t = Some r \<Longrightarrow> r \<in> set t \<and> P r"
  by (induction t) (auto split: if_splits)

lemma length_page_rows: "0 \<le> limit \<Longrightarrow> int (length (page_rows limit offset rs)) \<le> limit"
  by (simp add: page_rows_def)

lemma set_page_rows: "set (page_rows limit offset rs) \<subseteq> set rs"
  unfolding page_rows_def by (meson in_set_dropD in_set_takeD subsetI)

subsection \<open>Lookups after a write\<close>

lemma find_insert_row:
  "find P (insert_row r t) = (case find P t of Some x \<Rightarrow> Some x | None \<Rightarrow> if P r then Some r else None)"
  by (induction t) (auto simp: insert_row_def)

lemma find_delete_where:
  "find P (delete_where Q t) = find (\<lambda>r. P r \<and> \<not> Q r) t"
  by (induction t) (auto simp: delete_where_def)

lemma find_update_where:
  "(\<And>r. P (g r) = P r) \<Longrightarrow> find P (update_where Q g t) = map_option (\<lambda>r. if Q r then g r else r) (find P t)"
  by (induction t) (auto simp: update_where_def)

lemma list_all_update_where:
  "(\<And>r. P (g r) = P r) \<Longrightarrow> list_all P (update_where Q g t) = list_all P t"
  by (induction t) (auto simp: update_where_def)

end
