(* ===== verification/Models.thy ===== *)
theory Models
  imports Prelude
begin

text \<open>
  The data of pkg/models: one record per Go struct with the struct's fields in
  order (each prefixed by a three-letter tag, since record fields are global),
  the enumeration values, the registered privilege keys and the governance
  roles.
\<close>

subsection \<open>Enumerations\<close>

abbreviation "UserPending \<equiv> ''PENDING''"
abbreviation "UserActive \<equiv> ''ACTIVE''"
abbreviation "UserInactive \<equiv> ''INACTIVE''"
abbreviation "UserSuspended \<equiv> ''SUSPENDED''"
abbreviation "UserMerged \<equiv> ''MERGED''"

abbreviation "UserTypeClusterLocal \<equiv> ''CLUSTER_LOCAL''"
abbreviation "UserTypeVirtual \<equiv> ''VIRTUAL''"
abbreviation "UserTypeSystem \<equiv> ''SYSTEM''"

abbreviation "ProjectActive \<equiv> ''ACTIVE''"
abbreviation "ProjectInactive \<equiv> ''INACTIVE''"
abbreviation "ProjectDeleted \<equiv> ''DELETED''"

abbreviation "AllocationACTIVE \<equiv> ''ACTIVE''"
abbreviation "AllocationINACTIVE \<equiv> ''INACTIVE''"
abbreviation "AllocationDELETED \<equiv> ''DELETED''"

abbreviation "ProjectRolePI \<equiv> ''PI''"
abbreviation "ProjectRoleCoPI \<equiv> ''CO_PI''"
abbreviation "ProjectRoleAllocationManager \<equiv> ''ALLOCATION_MANAGER''"

abbreviation "SystemRoleSuperAdmin \<equiv> ''super_admin''"

definition GovernanceRoles :: "string list" where
  "GovernanceRoles = [ProjectRolePI, ProjectRoleCoPI, ProjectRoleAllocationManager]"

text \<open>The loop over GovernanceRoles that returns at the first match.\<close>

definition IsGovernanceRole :: "string \<Rightarrow> bool" where
  "IsGovernanceRole role = list_ex (\<lambda>r. r = role) GovernanceRoles"

subsection \<open>Privilege keys\<close>

abbreviation "ClustersRead \<equiv> ''core:clusters:read''"
abbreviation "ClustersWrite \<equiv> ''core:clusters:write''"
abbreviation "AllocationsRead \<equiv> ''core:allocations:read''"
abbreviation "AllocationsWrite \<equiv> ''core:allocations:write''"
abbreviation "ProjectsRead \<equiv> ''core:projects:read''"
abbreviation "ProjectsWrite \<equiv> ''core:projects:write''"
abbreviation "UsersRead \<equiv> ''core:users:read''"
abbreviation "UsersWrite \<equiv> ''core:users:write''"
abbreviation "OrganizationsRead \<equiv> ''core:organizations:read''"
abbreviation "OrganizationsWrite \<equiv> ''core:organizations:write''"
abbreviation "TracesRead \<equiv> ''core:traces:read''"
abbreviation "PrivilegesGrant \<equiv> ''core:privileges:grant''"
abbreviation "RolesManage \<equiv> ''core:roles:manage''"

text \<open>The registry is a set of keys.  Register adds keys to it; the keys the
  core package registers in its init function are core_privileges; connectors
  register further ones, so operations that consult the registry take it from
  the environment.\<close>

type_synonym registry = "string list"

fun Register :: "string list \<Rightarrow> registry \<Rightarrow> registry" where
  "Register [] reg = reg"
| "Register (k # ks) reg = Register ks (if k \<in> set reg then reg else reg @ [k])"

definition core_privileges :: "string list" where
  "core_privileges =
     [ClustersRead, ClustersWrite, AllocationsRead, AllocationsWrite,
      ProjectsRead, ProjectsWrite, UsersRead, UsersWrite,
      OrganizationsRead, OrganizationsWrite, TracesRead,
      PrivilegesGrant, RolesManage]"

definition KnownPrivileges :: "registry \<Rightarrow> string list" where
  "KnownPrivileges reg = sort reg"

definition IsKnownPrivilege :: "registry \<Rightarrow> string \<Rightarrow> bool" where
  "IsKnownPrivilege reg p = (p \<in> set reg)"

subsection \<open>Structs\<close>

record organization =
  org_ID :: id
  org_OriginatedID :: string
  org_Name :: string

record user =
  usr_ID :: id
  usr_OrganizationID :: id
  usr_FirstName :: string
  usr_LastName :: string
  usr_MiddleName :: string
  usr_Email :: string
  usr_Status :: string
  usr_Type :: string

record user_identity =
  uid_ID :: id
  uid_UserID :: id
  uid_Source :: string
  uid_ExternalID :: string
  uid_Email :: string
  uid_OIDCSub :: string
  uid_Metadata :: string
  uid_CreatedAt :: time

record project =
  prj_ID :: id
  prj_OriginatedID :: string
  prj_Title :: string
  prj_Origination :: string
  prj_ProjectPIID :: id
  prj_Status :: string
  prj_CreatedTime :: time

record project_membership =
  pmb_ProjectID :: id
  pmb_UserID :: id
  pmb_Role :: string
  pmb_AddedTime :: time

record compute_cluster =
  ccl_ID :: id
  ccl_Name :: string

record compute_cluster_user =
  ccu_ID :: id
  ccu_ComputeClusterID :: id
  ccu_UserID :: id
  ccu_LocalUsername :: string
  ccu_ProvisionedAt :: "time option"

record compute_allocation =
  alc_ID :: id
  alc_ProjectID :: id
  alc_Name :: string
  alc_Status :: string
  alc_ComputeClusterID :: id
  alc_InitialSUAmount :: int
  alc_StartTime :: time
  alc_EndTime :: time

record compute_allocation_resource =
  res_ID :: id
  res_Name :: string
  res_ResourceType :: string
  res_ResourceAmount :: int
  res_ComputeClusterID :: id

record compute_allocation_resource_mapping =
  rmp_ID :: id
  rmp_ComputeAllocationID :: id
  rmp_ComputeAllocationResourceID :: id
  rmp_ResourceAmount :: int
  rmp_ResourceTime :: int

record compute_allocation_resource_rate =
  rat_ID :: id
  rat_ComputeAllocationResourceID :: id
  rat_Rate :: rat
  rat_StartTime :: time
  rat_EndTime :: time

record compute_allocation_diff =
  dif_ID :: id
  dif_ComputeAllocationID :: id
  dif_DiffType :: string
  dif_NewSUAmount :: int
  dif_Status :: string
  dif_Timestamp :: time
  dif_Description :: string

record compute_allocation_change_request =
  chr_ID :: id
  chr_ComputeAllocationID :: id
  chr_RequestedSUAmount :: int
  chr_RequestedStatus :: string
  chr_Reason :: string
  chr_ChangeStatus :: string
  chr_RequesterID :: id
  chr_ApproverID :: id
  chr_Timestamp :: time

record compute_allocation_change_request_event =
  cre_ID :: id
  cre_ComputeAllocationChangeRequestID :: id
  cre_EventType :: string
  cre_Description :: string
  cre_Timestamp :: time

record compute_allocation_usage =
  usg_ID :: id
  usg_ComputeAllocationID :: id
  usg_UsedRawAmount :: rat
  usg_UsedSUAmount :: rat
  usg_CalculatedTime :: time
  usg_UserID :: id
  usg_JobID :: string
  usg_ComputeAllocationResourceID :: id

record compute_allocation_membership_resource_override =
  ovr_ID :: id
  ovr_ComputeAllocationMembershipID :: id
  ovr_ComputeAllocationResourceID :: id
  ovr_OverrideResourceAmount :: int
  ovr_OverrideResourceTime :: int

record compute_allocation_membership =
  mem_ID :: id
  mem_ComputeAllocationID :: id
  mem_UserID :: id
  mem_StartTime :: time
  mem_EndTime :: time
  mem_MembershipStatus :: string

record audit_event =
  aud_ID :: id
  aud_EventType :: string
  aud_EventTime :: time
  aud_EntityID :: id
  aud_EntityType :: string
  aud_Details :: string
  aud_Source :: string
  aud_TraceID :: string
  aud_SpanID :: string
  aud_ParentSpanID :: string

record user_privilege =
  upv_ID :: id
  upv_UserID :: id
  upv_Privilege :: string
  upv_GrantedBy :: "id option"
  upv_GrantedAt :: time
  upv_Reason :: "string option"

record role =
  rol_ID :: id
  rol_Name :: string
  rol_Description :: "string option"
  rol_IsSystem :: bool
  rol_CreatedAt :: time

record role_privilege =
  rpv_RoleID :: id
  rpv_Privilege :: string

record user_role =
  url_UserID :: id
  url_RoleID :: id
  url_GrantedBy :: "id option"
  url_GrantedAt :: time
  url_Reason :: "string option"

subsection \<open>The registry as a set\<close>

lemma set_Register [simp]: "set (Register ks reg) = set ks \<union> set reg"
  by (induction ks reg rule: Register.induct) auto

lemma distinct_Register: "distinct reg \<Longrightarrow> distinct (Register ks reg)"
  by (induction ks reg rule: Register.induct) auto

lemma KnownPrivileges_iff [simp]:
  "p \<in> set (KnownPrivileges reg) \<longleftrightarrow> IsKnownPrivilege reg p"
  by (simp add: KnownPrivileges_def IsKnownPrivilege_def)

lemma IsGovernanceRole_iff:
  "IsGovernanceRole role \<longleftrightarrow>
     role = ProjectRolePI \<or> role = ProjectRoleCoPI \<or> role = ProjectRoleAllocationManager"
  by (auto simp: IsGovernanceRole_def GovernanceRoles_def)

end
