(* ===== verification/Database.thy ===== *)
theory Database
  imports Models
begin

text \<open>
  The PostgreSQL schema of internal/db/migrations: the database is a record
  with one table per CREATE TABLE, each table a list of rows in insertion
  order; every table has the list of its declared constraints (primary keys,
  UNIQUE, FOREIGN KEY, CHECK) under the names the migrations give them.  A
  statement is accepted when the constraints it can affect hold of the
  resulting database; schema_ok says that all of them hold.  Columns no Go struct
  reads (created_at, updated_at) are left out, and length limits are part of
  the failures the environment decides (see Runtime).
\<close>

record database =
  organizations :: "organization table"
  users :: "user table"
  user_identities :: "user_identity table"
  compute_clusters :: "compute_cluster table"
  compute_cluster_users :: "compute_cluster_user table"
  projects :: "project table"
  project_memberships :: "project_membership table"
  compute_allocations :: "compute_allocation table"
  compute_allocation_resources :: "compute_allocation_resource table"
  compute_allocation_resource_mappings :: "compute_allocation_resource_mapping table"
  compute_allocation_resource_rates :: "compute_allocation_resource_rate table"
  compute_allocation_diffs :: "compute_allocation_diff table"
  compute_allocation_change_requests :: "compute_allocation_change_request table"
  compute_allocation_change_request_events :: "compute_allocation_change_request_event table"
  compute_allocation_memberships :: "compute_allocation_membership table"
  compute_allocation_usages :: "compute_allocation_usage table"
  compute_allocation_membership_resource_overrides ::
    "compute_allocation_membership_resource_override table"
  audit_events :: "audit_event table"
  user_privileges :: "user_privilege table"
  roles :: "role table"
  role_privileges :: "role_privilege table"
  user_roles :: "user_role table"

definition empty_db :: database where
  "empty_db = \<lparr> organizations = [], users = [], user_identities = [], compute_clusters = [],
     compute_cluster_users = [], projects = [], project_memberships = [],
     compute_allocations = [], compute_allocation_resources = [],
     compute_allocation_resource_mappings = [], compute_allocation_resource_rates = [],
     compute_allocation_diffs = [], compute_allocation_change_requests = [],
     compute_allocation_change_request_events = [], compute_allocation_memberships = [],
     compute_allocation_usages = [], compute_allocation_membership_resource_overrides = [],
     audit_events = [], user_privileges = [], roles = [], role_privileges = [],
     user_roles = [] \<rparr>"

subsection \<open>Constraints, per table\<close>

text \<open>CITEXT compares case-insensitively.\<close>

definition citext :: "string \<Rightarrow> string" where
  "citext s = lower s"

text \<open>nullableString writes the empty string as NULL; UNIQUE ignores NULLs.\<close>

definition nullable :: "string \<Rightarrow> string option" where
  "nullable s = (if s = '''' then None else Some s)"

definition organizations_cons :: "database \<Rightarrow> (string \<times> bool) list" where
  [schema_defs]: "organizations_cons d =
    [(''organizations_pkey'', uniq org_ID (organizations d))]"

definition users_cons :: "database \<Rightarrow> (string \<times> bool) list" where
  [schema_defs]: "users_cons d =
    [(''users_pkey'', uniq usr_ID (users d)),
     (''uq_users_email'', uniq (\<lambda>u. citext (usr_Email u)) (users d)),
     (''fk_users_organization'', refs usr_OrganizationID (users d) org_ID (organizations d))]"

definition user_identities_cons :: "database \<Rightarrow> (string \<times> bool) list" where
  [schema_defs]: "user_identities_cons d =
    [(''user_identities_pkey'', uniq uid_ID (user_identities d)),
     (''uq_user_identities_source_external'',
        uniq (\<lambda>i. (uid_Source i, uid_ExternalID i)) (user_identities d)),
     (''uq_user_identities_oidc_sub'', uniq_opt (\<lambda>i. nullable (uid_OIDCSub i)) (user_identities d)),
     (''fk_user_identities_user'', refs uid_UserID (user_identities d) usr_ID (users d))]"

definition compute_clusters_cons :: "database \<Rightarrow> (string \<times> bool) list" where
  [schema_defs]: "compute_clusters_cons d =
    [(''compute_clusters_pkey'', uniq ccl_ID (compute_clusters d)),
     (''uq_compute_clusters_name'', uniq ccl_Name (compute_clusters d))]"

definition compute_cluster_users_cons :: "database \<Rightarrow> (string \<times> bool) list" where
  [schema_defs]: "compute_cluster_users_cons d =
    [(''compute_cluster_users_pkey'', uniq ccu_ID (compute_cluster_users d)),
     (''uq_compute_cluster_users_pair'',
        uniq (\<lambda>c. (ccu_ComputeClusterID c, ccu_UserID c)) (compute_cluster_users d)),
     (''uq_compute_cluster_users_local_username'',
        uniq (\<lambda>c. (ccu_ComputeClusterID c, ccu_LocalUsername c)) (compute_cluster_users d)),
     (''fk_compute_cluster_users_cluster'',
        refs ccu_ComputeClusterID (compute_cluster_users d) ccl_ID (compute_clusters d)),
     (''fk_compute_cluster_users_user'',
        refs ccu_UserID (compute_cluster_users d) usr_ID (users d))]"

definition projects_cons :: "database \<Rightarrow> (string \<times> bool) list" where
  [schema_defs]: "projects_cons d =
    [(''projects_pkey'', uniq prj_ID (projects d)),
     (''fk_projects_pi'', refs prj_ProjectPIID (projects d) usr_ID (users d))]"

definition project_memberships_cons :: "database \<Rightarrow> (string \<times> bool) list" where
  [schema_defs]: "project_memberships_cons d =
    [(''project_memberships_pkey'',
        uniq (\<lambda>m. (pmb_ProjectID m, pmb_UserID m)) (project_memberships d)),
     (''fk_project_memberships_project'',
        refs pmb_ProjectID (project_memberships d) prj_ID (projects d)),
     (''fk_project_memberships_user'', refs pmb_UserID (project_memberships d) usr_ID (users d)),
     (''chk_project_memberships_role'',
        list_all (\<lambda>m. pmb_Role m \<in> {''PI'', ''CO_PI'', ''ALLOCATION_MANAGER''})
          (project_memberships d))]"

definition compute_allocations_cons :: "database \<Rightarrow> (string \<times> bool) list" where
  [schema_defs]: "compute_allocations_cons d =
    [(''compute_allocations_pkey'', uniq alc_ID (compute_allocations d)),
     (''fk_compute_allocations_project'',
        refs alc_ProjectID (compute_allocations d) prj_ID (projects d)),
     (''fk_compute_allocations_cluster'',
        refs alc_ComputeClusterID (compute_allocations d) ccl_ID (compute_clusters d))]"

definition resources_cons :: "database \<Rightarrow> (string \<times> bool) list" where
  [schema_defs]: "resources_cons d =
    [(''compute_allocation_resources_pkey'', uniq res_ID (compute_allocation_resources d)),
     (''uq_compute_allocation_resources_cluster_name'',
        uniq (\<lambda>r. (res_ComputeClusterID r, res_Name r)) (compute_allocation_resources d)),
     (''fk_compute_allocation_resources_cluster'',
        refs res_ComputeClusterID (compute_allocation_resources d) ccl_ID (compute_clusters d))]"

definition mappings_cons :: "database \<Rightarrow> (string \<times> bool) list" where
  [schema_defs]: "mappings_cons d =
    [(''compute_allocation_resource_mappings_pkey'',
        uniq rmp_ID (compute_allocation_resource_mappings d)),
     (''uq_carm_pair'',
        uniq (\<lambda>m. (rmp_ComputeAllocationID m, rmp_ComputeAllocationResourceID m))
          (compute_allocation_resource_mappings d)),
     (''fk_carm_allocation'',
        refs rmp_ComputeAllocationID (compute_allocation_resource_mappings d)
          alc_ID (compute_allocations d)),
     (''fk_carm_resource'',
        refs rmp_ComputeAllocationResourceID (compute_allocation_resource_mappings d)
          res_ID (compute_allocation_resources d))]"

definition rates_cons :: "database \<Rightarrow> (string \<times> bool) list" where
  [schema_defs]: "rates_cons d =
    [(''compute_allocation_resource_rates_pkey'', uniq rat_ID (compute_allocation_resource_rates d)),
     (''fk_carr_rates_resource'',
        refs rat_ComputeAllocationResourceID (compute_allocation_resource_rates d)
          res_ID (compute_allocation_resources d))]"

definition diffs_cons :: "database \<Rightarrow> (string \<times> bool) list" where
  [schema_defs]: "diffs_cons d =
    [(''compute_allocation_diffs_pkey'', uniq dif_ID (compute_allocation_diffs d)),
     (''fk_compute_allocation_diffs_allocation'',
        refs dif_ComputeAllocationID (compute_allocation_diffs d) alc_ID (compute_allocations d))]"

definition change_requests_cons :: "database \<Rightarrow> (string \<times> bool) list" where
  [schema_defs]: "change_requests_cons d =
    [(''compute_allocation_change_requests_pkey'',
        uniq chr_ID (compute_allocation_change_requests d)),
     (''fk_compute_allocation_change_requests_allocation'',
        refs chr_ComputeAllocationID (compute_allocation_change_requests d)
          alc_ID (compute_allocations d))]"

definition change_events_cons :: "database \<Rightarrow> (string \<times> bool) list" where
  [schema_defs]: "change_events_cons d =
    [(''compute_allocation_change_request_events_pkey'',
        uniq cre_ID (compute_allocation_change_request_events d))]"

definition memberships_cons :: "database \<Rightarrow> (string \<times> bool) list" where
  [schema_defs]: "memberships_cons d =
    [(''compute_allocation_memberships_pkey'', uniq mem_ID (compute_allocation_memberships d)),
     (''uq_compute_allocation_memberships_allocation_user'',
        uniq (\<lambda>m. (mem_ComputeAllocationID m, mem_UserID m)) (compute_allocation_memberships d)),
     (''fk_compute_allocation_memberships_allocation'',
        refs mem_ComputeAllocationID (compute_allocation_memberships d)
          alc_ID (compute_allocations d))]"

definition usages_cons :: "database \<Rightarrow> (string \<times> bool) list" where
  [schema_defs]: "usages_cons d =
    [(''compute_allocation_usages_pkey'', uniq usg_ID (compute_allocation_usages d))]"

definition overrides_cons :: "database \<Rightarrow> (string \<times> bool) list" where
  [schema_defs]: "overrides_cons d =
    [(''compute_allocation_membership_resource_overrides_pkey'',
        uniq ovr_ID (compute_allocation_membership_resource_overrides d)),
     (''uq_camro_membership_resource'',
        uniq (\<lambda>v. (ovr_ComputeAllocationMembershipID v, ovr_ComputeAllocationResourceID v))
          (compute_allocation_membership_resource_overrides d)),
     (''fk_camro_membership'',
        refs ovr_ComputeAllocationMembershipID (compute_allocation_membership_resource_overrides d)
          mem_ID (compute_allocation_memberships d)),
     (''fk_camro_resource'',
        refs ovr_ComputeAllocationResourceID (compute_allocation_membership_resource_overrides d)
          res_ID (compute_allocation_resources d))]"

definition audit_events_cons :: "database \<Rightarrow> (string \<times> bool) list" where
  [schema_defs]: "audit_events_cons d = [(''audit_events_pkey'', uniq aud_ID (audit_events d))]"

definition user_privileges_cons :: "database \<Rightarrow> (string \<times> bool) list" where
  [schema_defs]: "user_privileges_cons d =
    [(''user_privileges_pkey'', uniq upv_ID (user_privileges d)),
     (''uq_user_privileges'', uniq (\<lambda>p. (upv_UserID p, upv_Privilege p)) (user_privileges d)),
     (''fk_user_privileges_user'', refs upv_UserID (user_privileges d) usr_ID (users d)),
     (''fk_user_privileges_granted_by'',
        refs_opt upv_GrantedBy (user_privileges d) usr_ID (users d))]"

definition roles_cons :: "database \<Rightarrow> (string \<times> bool) list" where
  [schema_defs]: "roles_cons d =
    [(''roles_pkey'', uniq rol_ID (roles d)),
     (''uq_roles_name'', uniq rol_Name (roles d))]"

definition role_privileges_cons :: "database \<Rightarrow> (string \<times> bool) list" where
  [schema_defs]: "role_privileges_cons d =
    [(''role_privileges_pkey'', uniq (\<lambda>p. (rpv_RoleID p, rpv_Privilege p)) (role_privileges d)),
     (''fk_role_privileges_role'', refs rpv_RoleID (role_privileges d) rol_ID (roles d))]"

definition user_roles_cons :: "database \<Rightarrow> (string \<times> bool) list" where
  [schema_defs]: "user_roles_cons d =
    [(''user_roles_pkey'', uniq (\<lambda>r. (url_UserID r, url_RoleID r)) (user_roles d)),
     (''fk_user_roles_user'', refs url_UserID (user_roles d) usr_ID (users d)),
     (''fk_user_roles_role'', refs url_RoleID (user_roles d) rol_ID (roles d)),
     (''fk_user_roles_granted_by'', refs_opt url_GrantedBy (user_roles d) usr_ID (users d))]"

definition schema_cons :: "database \<Rightarrow> (string \<times> bool) list" where
  "schema_cons d =
     organizations_cons d @ users_cons d @ user_identities_cons d @ compute_clusters_cons d @
     compute_cluster_users_cons d @ projects_cons d @ project_memberships_cons d @
     compute_allocations_cons d @ resources_cons d @ mappings_cons d @ rates_cons d @
     diffs_cons d @ change_requests_cons d @ change_events_cons d @ memberships_cons d @
     usages_cons d @ overrides_cons d @ audit_events_cons d @ user_privileges_cons d @
     roles_cons d @ role_privileges_cons d @ user_roles_cons d"

definition schema_ok :: "database \<Rightarrow> bool" where
  "schema_ok d = list_all snd (schema_cons d)"

lemma schema_ok_empty: "schema_ok empty_db"
  by (simp add: schema_ok_def schema_cons_def schema_defs empty_db_def uniq_def uniq_opt_def
      refs_def refs_opt_def)

text \<open>Every table's own constraints follow from the schema.\<close>

lemma schema_okD:
  assumes "schema_ok d"
  shows "list_all snd (organizations_cons d)" "list_all snd (users_cons d)"
    "list_all snd (user_identities_cons d)" "list_all snd (compute_clusters_cons d)"
    "list_all snd (compute_cluster_users_cons d)" "list_all snd (projects_cons d)"
    "list_all snd (project_memberships_cons d)" "list_all snd (compute_allocations_cons d)"
    "list_all snd (resources_cons d)" "list_all snd (mappings_cons d)" "list_all snd (rates_cons d)"
    "list_all snd (diffs_cons d)" "list_all snd (change_requests_cons d)"
    "list_all snd (change_events_cons d)" "list_all snd (memberships_cons d)"
    "list_all snd (usages_cons d)" "list_all snd (overrides_cons d)"
    "list_all snd (audit_events_cons d)" "list_all snd (user_privileges_cons d)"
    "list_all snd (roles_cons d)" "list_all snd (role_privileges_cons d)"
    "list_all snd (user_roles_cons d)"
  using assms by (simp_all add: schema_ok_def schema_cons_def)

end
