(* ===== verification/Runtime.thy ===== *)
theory Runtime
  imports Database
begin

text \<open>
  How an operation of pkg/service runs.  An operation is a function from the
  environment and the state of the process to an error or a value, together
  with the new state.

  The state holds the committed database, the working copy of the open
  transaction, the events published so far, the resolver's cache, and two
  counters.  The environment decides what the code cannot: which database
  calls fail (fault n is the outcome of the n-th round trip, so every failure
  pattern is some fault; it also stands for lost connections, cancelled
  contexts and over-long values), what the clock shows, which identifiers
  uuid.NewString returns, which privilege keys are registered, what SUM over a
  DOUBLE PRECISION column adds up to, and the audit metadata carried by the
  context.

  Two views of the database exist while a transaction is open: statements that
  go through the transaction handle (txq, txx) see and change the working
  copy; reads that go through the pool (dbq) see the committed database.

  Errors keep the wrapping structure of fmt.Errorf with the verb w, since
  callers inspect it with errors.Is; the format string and its operands stand
  for the text.
\<close>

datatype sqlerr = DriverError | ConstraintViolation string

datatype err =
    ErrNotFound
  | ErrAlreadyExists
  | ErrInvalidInput
  | ErrPIChange
  | ErrNotLinked
  | SQLError sqlerr
  | NewError string "string list"
  | Errorf string "string list" err

text \<open>errors.Is: equality somewhere along the chain of wrapped errors.\<close>

fun errors_Is :: "err \<Rightarrow> err \<Rightarrow> bool" where
  "errors_Is (Errorf f as e) target = (Errorf f as e = target \<or> errors_Is e target)"
| "errors_Is e target = (e = target)"

text \<open>The constraint named by the driver error at the end of the chain, if any.\<close>

fun violated_constraint :: "err \<Rightarrow> string option" where
  "violated_constraint (Errorf f as e) = violated_constraint e"
| "violated_constraint (SQLError (ConstraintViolation c)) = Some c"
| "violated_constraint e = None"

record caller = cal_UserID :: id

record identity_cache_entry =
  ice_caller :: caller
  ice_privs :: "string list"
  ice_expires :: time

datatype payload =
    POrganization organization
  | PUser user
  | PUserIdentity user_identity
  | PProject project
  | PComputeCluster compute_cluster
  | PComputeClusterUser compute_cluster_user
  | PComputeAllocation compute_allocation
  | PComputeAllocationResource compute_allocation_resource
  | PComputeAllocationResourceMapping compute_allocation_resource_mapping
  | PComputeAllocationDiff compute_allocation_diff
  | PComputeAllocationMembership compute_allocation_membership
  | PComputeAllocationMembershipResourceOverride compute_allocation_membership_resource_override

record event =
  ev_Type :: string
  ev_Payload :: payload

record env =
  fault :: "nat \<Rightarrow> bool"
  clock :: "nat \<Rightarrow> time"
  uuid :: "nat \<Rightarrow> id"
  registered :: registry
  float_sum :: "rat list \<Rightarrow> rat"
  ctx_Source :: string
  ctx_TraceID :: string
  ctx_SpanID :: string
  ctx_ParentSpanID :: string

record state =
  db :: database
  txdb :: database
  bus :: "event list"
  cache :: "string \<Rightarrow> identity_cache_entry option"
  cache_ttl :: int
  ticks :: nat
  uuids :: nat

type_synonym 'a M = "env \<Rightarrow> state \<Rightarrow> (err + 'a) \<times> state"

subsection \<open>Sequencing\<close>

definition retM :: "'a \<Rightarrow> 'a M" where
  "retM x e s = (Inr x, s)"

definition throwM :: "err \<Rightarrow> 'a M" where
  "throwM x e s = (Inl x, s)"

definition bindM :: "'a M \<Rightarrow> ('a \<Rightarrow> 'b M) \<Rightarrow> 'b M" where
  "bindM m f e s = (case m e s of (Inl x, s') \<Rightarrow> (Inl x, s') | (Inr x, s') \<Rightarrow> f x e s')"

text \<open>if err != nil { return fmt.Errorf("lbl: %w", err) }\<close>

definition wrapM :: "string \<Rightarrow> 'a M \<Rightarrow> 'a M" where
  "wrapM lbl m e s =
     (case m e s of (Inl x, s') \<Rightarrow> (Inl (Errorf (lbl @ '': %w'') [] x), s') | (Inr x, s') \<Rightarrow> (Inr x, s'))"

definition invalid :: "string \<Rightarrow> string list \<Rightarrow> 'a M" where
  "invalid msg as = throwM (Errorf (''%w: '' @ msg) as ErrInvalidInput)"

definition already_exists :: "string \<Rightarrow> string list \<Rightarrow> 'a M" where
  "already_exists msg as = throwM (Errorf (''%w: '' @ msg) as ErrAlreadyExists)"

subsection \<open>Clock, identifiers, context\<close>

definition nowUTC :: "time M" where
  "nowUTC e s = (Inr (clock e (ticks s)), s)"

definition newID :: "id M" where
  "newID e s = (Inr (uuid e (uuids s)), s\<lparr>uuids := Suc (uuids s)\<rparr>)"

text \<open>if x == "" { x = newID() }\<close>

definition idOrNew :: "id \<Rightarrow> id M" where
  "idOrNew x = (if x = '''' then newID else retM x)"

definition askM :: "(env \<Rightarrow> 'a) \<Rightarrow> 'a M" where
  "askM f e s = (Inr (f e), s)"

subsection \<open>Statements\<close>

definition tick :: "state \<Rightarrow> state" where
  "tick s = s\<lparr>ticks := Suc (ticks s)\<rparr>"

definition dbq :: "(database \<Rightarrow> 'a) \<Rightarrow> 'a M" where
  "dbq q e s =
     (if fault e (ticks s) then (Inl (SQLError DriverError), tick s)
      else (Inr (q (db s)), tick s))"

definition txq :: "(database \<Rightarrow> 'a) \<Rightarrow> 'a M" where
  "txq q e s =
     (if fault e (ticks s) then (Inl (SQLError DriverError), tick s)
      else (Inr (q (txdb s)), tick s))"

definition txx :: "(database \<Rightarrow> (string \<times> bool) list) \<Rightarrow> (database \<Rightarrow> database) \<Rightarrow> unit M" where
  "txx cons upd e s =
     (if fault e (ticks s) then (Inl (SQLError DriverError), tick s)
      else let d = upd (txdb s) in
        case first_violation (cons d) of
          Some c \<Rightarrow> (Inl (SQLError (ConstraintViolation c)), tick s)
        | None \<Rightarrow> (Inr (), (tick s)\<lparr>txdb := d\<rparr>))"

definition no_cons :: "database \<Rightarrow> (string \<times> bool) list" where
  "no_cons d = []"

text \<open>db.TxFn: begin, run the body, roll back if it fails, commit if it does not.
  A commit that fails leaves the committed database as it was.\<close>

definition TxFn :: "'a M \<Rightarrow> 'a M" where
  "TxFn fn e s =
     (if fault e (ticks s)
      then (Inl (Errorf ''begin transaction: %w'' [] (SQLError DriverError)), tick s)
      else case fn e ((tick s)\<lparr>txdb := db s\<rparr>) of
        (Inl x, s') \<Rightarrow>
          (if fault e (ticks s')
           then (Inl (Errorf ''rollback failed: %v (original error: %w)'' [] x), tick s')
           else (Inl x, tick s'))
      | (Inr x, s') \<Rightarrow>
          (if fault e (ticks s')
           then (Inl (Errorf ''commit transaction: %w'' [] (SQLError DriverError)), tick s')
           else (Inr x, (tick s')\<lparr>db := txdb s'\<rparr>)))"

text \<open>Service.inTx hands the service's database handle to db.TxFn.\<close>

definition inTx :: "'a M \<Rightarrow> 'a M" where
  "inTx fn = TxFn fn"

text \<open>Bus.Publish as its callers see it: the event is recorded, the caller is never blocked
  and never sees an error.\<close>

definition publish :: "string \<Rightarrow> payload \<Rightarrow> unit M" where
  "publish topic p e s = (Inr (), s\<lparr>bus := bus s @ [\<lparr> ev_Type = topic, ev_Payload = p \<rparr>]\<rparr>)"

text \<open>The two ways a writing operation ends: publish and return, or just return.\<close>

definition andPublish :: "'b M \<Rightarrow> string \<Rightarrow> payload \<Rightarrow> 'a \<Rightarrow> 'a M" where
  "andPublish m topic p r = bindM m (\<lambda>_. bindM (publish topic p) (\<lambda>_. retM r))"

definition andReturn :: "'b M \<Rightarrow> 'a \<Rightarrow> 'a M" where
  "andReturn m r = bindM m (\<lambda>_. retM r)"

text \<open>An error turned into another one, and a lookup whose nil becomes ErrNotFound.\<close>

definition mapErrM :: "(err \<Rightarrow> err) \<Rightarrow> 'a M \<Rightarrow> 'a M" where
  "mapErrM g m e s = (case m e s of (Inl x, s') \<Rightarrow> (Inl (g x), s') | (Inr x, s') \<Rightarrow> (Inr x, s'))"

definition orNotFound :: "'a option M \<Rightarrow> 'a M" where
  "orNotFound m = bindM m (\<lambda>r. case r of None \<Rightarrow> throwM ErrNotFound | Some x \<Rightarrow> retM x)"

text \<open>if x == "" { x = y }, and the same for the zero time.\<close>

definition orElse :: "string \<Rightarrow> string \<Rightarrow> string" where
  "orElse x y = (if x = '''' then y else x)"

definition orElseTime :: "time \<Rightarrow> time \<Rightarrow> time" where
  "orElseTime t u = (if t = 0 then u else t)"

text \<open>A loop over a list that stops at the first error.\<close>

fun eachM :: "'a list \<Rightarrow> ('a \<Rightarrow> unit M) \<Rightarrow> unit M" where
  "eachM [] f = retM ()"
| "eachM (x # xs) f = bindM (f x) (\<lambda>_. eachM xs f)"

text \<open>A call whose result is not used.\<close>

definition voidM :: "'a M \<Rightarrow> unit M" where
  "voidM m = bindM m (\<lambda>_. retM ())"

subsection \<open>An environment for examples\<close>

text \<open>No call fails, the clock shows the number of the round trip, identifiers are numbered in unary,
  the core keys are registered.\<close>

definition quiet_env :: env where
  "quiet_env = \<lparr> fault = \<lambda>_. False, clock = \<lambda>n. 1000 + int n, uuid = \<lambda>n. ''id-'' @ replicate n CHR ''i'',
     registered = core_privileges, float_sum = sum_list, ctx_Source = '''', ctx_TraceID = '''',
     ctx_SpanID = '''', ctx_ParentSpanID = '''' \<rparr>"

definition fresh_state :: "database \<Rightarrow> state" where
  "fresh_state d = \<lparr> db = d, txdb = d, bus = [], cache = \<lambda>_. None, cache_ttl = 30000000,
     ticks = 0, uuids = 0 \<rparr>"

subsection \<open>What a run can do to the state\<close>

definition frame :: "state \<Rightarrow> state \<Rightarrow> bool" where
  "frame s s' = (db s' = db s \<and> bus s' = bus s)"

definition readonly :: "'a M \<Rightarrow> bool" where
  "readonly m = (\<forall>e s r s'. m e s = (r, s') \<longrightarrow> frame s s')"

definition nofail :: "'a M \<Rightarrow> bool" where
  "nofail m = (\<forall>e s x s'. m e s \<noteq> (Inl x, s'))"

definition atomicM :: "'a M \<Rightarrow> bool" where
  "atomicM m = (\<forall>e s x s'. m e s = (Inl x, s') \<longrightarrow> frame s s')"

definition keeps :: "(database \<Rightarrow> bool) \<Rightarrow> 'a M \<Rightarrow> bool" where
  "keeps I m = (\<forall>e s r s'. I (db s) \<longrightarrow> m e s = (r, s') \<longrightarrow> I (db s'))"

definition txkeeps :: "(database \<Rightarrow> bool) \<Rightarrow> 'a M \<Rightarrow> bool" where
  "txkeeps I m = (\<forall>e s x s'. I (txdb s) \<longrightarrow> m e s = (Inr x, s') \<longrightarrow> I (txdb s'))"

subsection \<open>Runs, step by step\<close>

lemma tick_simps [simp]:
  "db (tick s) = db s" "txdb (tick s) = txdb s" "bus (tick s) = bus s" "cache (tick s) = cache s"
  "cache_ttl (tick s) = cache_ttl s" "ticks (tick s) = Suc (ticks s)" "uuids (tick s) = uuids s"
  by (simp_all add: tick_def)

lemma bindM_cases:
  "bindM m f e s = (r, s') \<longleftrightarrow>
     (\<exists>y. r = Inl y \<and> m e s = (Inl y, s')) \<or> (\<exists>x s1. m e s = (Inr x, s1) \<and> f x e s1 = (r, s'))"
  by (auto simp: bindM_def split: prod.splits sum.splits)

lemma wrapM_cases:
  "wrapM lbl m e s = (r, s') \<longleftrightarrow>
     (\<exists>y. r = Inl (Errorf (lbl @ '': %w'') [] y) \<and> m e s = (Inl y, s')) \<or>
     (\<exists>x. r = Inr x \<and> m e s = (Inr x, s'))"
  by (auto simp: wrapM_def split: prod.splits sum.splits)

lemma bindM_Inr [run_simps]:
  "bindM m f e s = (Inr y, s') \<longleftrightarrow> (\<exists>x s1. m e s = (Inr x, s1) \<and> f x e s1 = (Inr y, s'))"
  by (auto simp: bindM_def split: prod.splits sum.splits)

lemma bindM_Inl [run_simps]:
  "bindM m f e s = (Inl y, s') \<longleftrightarrow>
     m e s = (Inl y, s') \<or> (\<exists>x s1. m e s = (Inr x, s1) \<and> f x e s1 = (Inl y, s'))"
  by (auto simp: bindM_def split: prod.splits sum.splits)

lemma retM_iff [run_simps]: "retM x e s = (r, s') \<longleftrightarrow> r = Inr x \<and> s' = s"
  by (auto simp: retM_def)

lemma throwM_iff [run_simps]: "throwM x e s = (r, s') \<longleftrightarrow> r = Inl x \<and> s' = s"
  by (auto simp: throwM_def)

lemma invalid_iff [run_simps]:
  "invalid msg as e s = (r, s') \<longleftrightarrow> r = Inl (Errorf (''%w: '' @ msg) as ErrInvalidInput) \<and> s' = s"
  by (auto simp: invalid_def throwM_def)

lemma already_exists_iff [run_simps]:
  "already_exists msg as e s = (r, s') \<longleftrightarrow>
     r = Inl (Errorf (''%w: '' @ msg) as ErrAlreadyExists) \<and> s' = s"
  by (auto simp: already_exists_def throwM_def)

lemma wrapM_Inr [run_simps]: "wrapM lbl m e s = (Inr x, s') \<longleftrightarrow> m e s = (Inr x, s')"
  by (auto simp: wrapM_def split: prod.splits sum.splits)

lemma wrapM_Inl [run_simps]:
  "wrapM lbl m e s = (Inl y, s') \<longleftrightarrow> (\<exists>x. y = Errorf (lbl @ '': %w'') [] x \<and> m e s = (Inl x, s'))"
  by (auto simp: wrapM_def split: prod.splits sum.splits)

lemma nowUTC_iff [run_simps]: "nowUTC e s = (r, s') \<longleftrightarrow> r = Inr (clock e (ticks s)) \<and> s' = s"
  by (auto simp: nowUTC_def)

lemma newID_iff [run_simps]:
  "newID e s = (r, s') \<longleftrightarrow> r = Inr (uuid e (uuids s)) \<and> s' = s\<lparr>uuids := Suc (uuids s)\<rparr>"
  by (auto simp: newID_def)

lemma askM_iff [run_simps]: "askM f e s = (r, s') \<longleftrightarrow> r = Inr (f e) \<and> s' = s"
  by (auto simp: askM_def)

lemma dbq_Inr [run_simps]:
  "dbq q e s = (Inr x, s') \<longleftrightarrow> \<not> fault e (ticks s) \<and> x = q (db s) \<and> s' = tick s"
  by (auto simp: dbq_def)

lemma dbq_Inl [run_simps]:
  "dbq q e s = (Inl x, s') \<longleftrightarrow> fault e (ticks s) \<and> x = SQLError DriverError \<and> s' = tick s"
  by (auto simp: dbq_def)

lemma txq_Inr [run_simps]:
  "txq q e s = (Inr x, s') \<longleftrightarrow> \<not> fault e (ticks s) \<and> x = q (txdb s) \<and> s' = tick s"
  by (auto simp: txq_def)

lemma txq_Inl [run_simps]:
  "txq q e s = (Inl x, s') \<longleftrightarrow> fault e (ticks s) \<and> x = SQLError DriverError \<and> s' = tick s"
  by (auto simp: txq_def)

lemma txx_Inr [run_simps]:
  "txx cons upd e s = (Inr x, s') \<longleftrightarrow>
     \<not> fault e (ticks s) \<and> list_all snd (cons (upd (txdb s))) \<and>
     s' = (tick s)\<lparr>txdb := upd (txdb s)\<rparr>"
  by (auto simp: txx_def Let_def split: option.splits simp flip: first_violation_None)

lemma publish_iff [run_simps]:
  "publish topic p e s = (r, s') \<longleftrightarrow>
     r = Inr () \<and> s' = s\<lparr>bus := bus s @ [\<lparr> ev_Type = topic, ev_Payload = p \<rparr>]\<rparr>"
  by (auto simp: publish_def)

lemma andPublish_Inr [run_simps]:
  "andPublish m topic p r e s = (Inr y, s') \<longleftrightarrow>
     (\<exists>x s1. m e s = (Inr x, s1) \<and> y = r \<and>
        s' = s1\<lparr>bus := bus s1 @ [\<lparr> ev_Type = topic, ev_Payload = p \<rparr>]\<rparr>)"
  by (auto simp: andPublish_def bindM_Inr publish_iff retM_iff)

lemma andReturn_Inr [run_simps]:
  "andReturn m r e s = (Inr y, s') \<longleftrightarrow> (\<exists>x. m e s = (Inr x, s')) \<and> y = r"
  by (auto simp: andReturn_def bindM_Inr retM_iff)

lemma mapErrM_Inr [run_simps]: "mapErrM g m e s = (Inr x, s') \<longleftrightarrow> m e s = (Inr x, s')"
  by (auto simp: mapErrM_def split: prod.splits sum.splits)

lemma mapErrM_Inl [run_simps]:
  "mapErrM g m e s = (Inl y, s') \<longleftrightarrow> (\<exists>x. y = g x \<and> m e s = (Inl x, s'))"
  by (auto simp: mapErrM_def split: prod.splits sum.splits)

lemma orNotFound_Inr [run_simps]:
  "orNotFound m e s = (Inr x, s') \<longleftrightarrow> m e s = (Inr (Some x), s')"
  by (auto simp: orNotFound_def bindM_Inr throwM_iff retM_iff split: option.splits)

lemma idOrNew_Inr [run_simps]:
  "idOrNew i e s = (Inr x, s') \<longleftrightarrow>
     (if i = '''' then x = uuid e (uuids s) \<and> s' = s\<lparr>uuids := Suc (uuids s)\<rparr> else x = i \<and> s' = s)"
  by (auto simp: idOrNew_def newID_def retM_def)

lemma inTx_Inr [run_simps]:
  "inTx fn e s = (Inr x, s') \<longleftrightarrow>
     \<not> fault e (ticks s) \<and>
     (\<exists>s1. fn e ((tick s)\<lparr>txdb := db s\<rparr>) = (Inr x, s1) \<and> \<not> fault e (ticks s1) \<and>
        s' = (tick s1)\<lparr>db := txdb s1\<rparr>)"
  by (auto simp: inTx_def TxFn_def split: prod.splits sum.splits)

lemma inTx_cases:
  fixes s :: state
  assumes "inTx fn e s = (r, s')"
  obtains (beginfail) x where "r = Inl x" "s' = tick s"
    | (rollback) x y s1 where "fn e ((tick s)\<lparr>txdb := db s\<rparr>) = (Inl x, s1)" "r = Inl y" "s' = tick s1"
    | (commitfail) x y s1 where "fn e ((tick s)\<lparr>txdb := db s\<rparr>) = (Inr x, s1)" "r = Inl y" "s' = tick s1"
    | (commit) x s1 where "fn e ((tick s)\<lparr>txdb := db s\<rparr>) = (Inr x, s1)" "r = Inr x"
        "s' = (tick s1)\<lparr>db := txdb s1\<rparr>"
  using assms by (auto simp: inTx_def TxFn_def split: prod.splits sum.splits if_splits)

subsection \<open>Frame and atomicity calculus\<close>

lemma frame_refl [simp]: "frame s s"
  by (simp add: frame_def)

lemma frame_trans: "frame s s1 \<Longrightarrow> frame s1 s2 \<Longrightarrow> frame s s2"
  by (simp add: frame_def)

lemma readonlyD: "readonly m \<Longrightarrow> m e s = (r, s') \<Longrightarrow> db s' = db s \<and> bus s' = bus s"
  unfolding readonly_def frame_def by blast

lemma readonly_prims [readonly_intros]:
  "readonly (retM x)" "readonly (throwM y)" "readonly (invalid msg as)"
  "readonly (already_exists msg as)" "readonly nowUTC" "readonly newID" "readonly (askM f)"
  "readonly (dbq q)" "readonly (txq q')"
  by (auto simp: readonly_def frame_def retM_def throwM_def invalid_def already_exists_def
      nowUTC_def newID_def askM_def dbq_def txq_def)

lemma readonly_txx [readonly_intros]: "readonly (txx cons upd)"
  by (auto simp: readonly_def frame_def txx_def Let_def split: option.splits if_splits)

lemma readonly_bindM [readonly_intros]:
  "readonly m \<Longrightarrow> (\<And>x. readonly (f x)) \<Longrightarrow> readonly (bindM m f)"
  unfolding readonly_def bindM_cases by (blast intro: frame_trans)

lemma readonly_wrapM [readonly_intros]: "readonly m \<Longrightarrow> readonly (wrapM lbl m)"
  unfolding readonly_def wrapM_cases by blast

lemma readonly_if [readonly_intros]:
  "(b \<Longrightarrow> readonly m) \<Longrightarrow> (\<not> b \<Longrightarrow> readonly m') \<Longrightarrow> readonly (if b then m else m')"
  by simp

lemma readonly_idOrNew [readonly_intros]: "readonly (idOrNew i)"
  unfolding idOrNew_def by (intro readonly_intros)

lemma readonly_case_option [readonly_intros]:
  "readonly m \<Longrightarrow> (\<And>x. readonly (f x)) \<Longrightarrow> readonly (case v of None \<Rightarrow> m | Some x \<Rightarrow> f x)"
  by (simp split: option.splits)

lemma readonly_case_prod [readonly_intros]:
  "(\<And>x y. readonly (f x y)) \<Longrightarrow> readonly (case v of (x, y) \<Rightarrow> f x y)"
  by (simp split: prod.splits)

lemma readonly_Let [readonly_intros]: "(\<And>x. readonly (f x)) \<Longrightarrow> readonly (let x = v in f x)"
  by (simp add: Let_def)

lemma readonly_eachM [readonly_intros]: "(\<And>x. readonly (f x)) \<Longrightarrow> readonly (eachM xs f)"
  by (induction xs) (auto intro: readonly_intros)

lemma readonly_mapErrM [readonly_intros]: "readonly m \<Longrightarrow> readonly (mapErrM g m)"
  unfolding readonly_def mapErrM_def by (auto split: prod.splits sum.splits)

lemma readonly_orNotFound [readonly_intros]: "readonly m \<Longrightarrow> readonly (orNotFound m)"
  unfolding orNotFound_def by (intro readonly_intros)

lemma readonly_andReturn [readonly_intros]: "readonly m \<Longrightarrow> readonly (andReturn m r)"
  unfolding andReturn_def by (intro readonly_intros)

lemma nofail_prims [atomic_intros]:
  "nofail (retM x)" "nofail nowUTC" "nofail newID" "nofail (askM f)" "nofail (publish t p)"
  by (auto simp: nofail_def retM_def nowUTC_def newID_def askM_def publish_def)

lemma nofail_bindM [atomic_intros]:
  "nofail m \<Longrightarrow> (\<And>x. nofail (f x)) \<Longrightarrow> nofail (bindM m f)"
  unfolding nofail_def bindM_Inl by blast

lemma atomicM_readonly: "readonly m \<Longrightarrow> atomicM m"
  unfolding readonly_def atomicM_def by blast

lemma atomicM_nofail: "nofail m \<Longrightarrow> atomicM m"
  unfolding nofail_def atomicM_def by blast

lemma atomicMD: "atomicM m \<Longrightarrow> m e s = (Inl x, s') \<Longrightarrow> db s' = db s \<and> bus s' = bus s"
  unfolding atomicM_def frame_def by blast

lemma atomicM_bind_read [atomic_intros]:
  "readonly m \<Longrightarrow> (\<And>x. atomicM (f x)) \<Longrightarrow> atomicM (bindM m f)"
  unfolding atomicM_def readonly_def bindM_Inl by (blast intro: frame_trans)

lemma atomicM_bind_commit:
  "atomicM m \<Longrightarrow> (\<And>x. nofail (f x)) \<Longrightarrow> atomicM (bindM m f)"
  unfolding atomicM_def nofail_def bindM_Inl by blast

lemma atomicM_andPublish [atomic_intros]: "atomicM m \<Longrightarrow> atomicM (andPublish m topic p r)"
  unfolding andPublish_def by (intro atomicM_bind_commit atomic_intros)

lemma atomicM_andReturn [atomic_intros]: "atomicM m \<Longrightarrow> atomicM (andReturn m r)"
  unfolding andReturn_def by (intro atomicM_bind_commit atomic_intros)

lemma atomicM_mapErrM [atomic_intros]: "atomicM m \<Longrightarrow> atomicM (mapErrM g m)"
  unfolding atomicM_def mapErrM_Inl by blast

lemma atomicM_wrapM [atomic_intros]: "atomicM m \<Longrightarrow> atomicM (wrapM lbl m)"
  unfolding atomicM_def wrapM_Inl by blast

lemma atomicM_if [atomic_intros]:
  "(b \<Longrightarrow> atomicM m) \<Longrightarrow> (\<not> b \<Longrightarrow> atomicM m') \<Longrightarrow> atomicM (if b then m else m')"
  by simp

lemma atomicM_case_option [atomic_intros]:
  "atomicM m \<Longrightarrow> (\<And>x. atomicM (f x)) \<Longrightarrow> atomicM (case v of None \<Rightarrow> m | Some x \<Rightarrow> f x)"
  by (simp split: option.splits)

lemma atomicM_Let [atomic_intros]: "(\<And>x. atomicM (f x)) \<Longrightarrow> atomicM (let x = v in f x)"
  by (simp add: Let_def)

text \<open>The body of a transaction writes nothing but the working copy, so a transaction that does
  not return a value has no effect.\<close>

lemma atomicM_inTx [atomic_intros]:
  assumes "readonly fn"
  shows "atomicM (inTx fn)"
  unfolding atomicM_def
proof (intro allI impI)
  fix e and s :: state and x s'
  assume "inTx fn e s = (Inl x, s')"
  then show "frame s s'"
    by (cases rule: inTx_cases) (auto simp: frame_def dest!: readonlyD [OF assms])
qed

lemma atomicM_prims [atomic_intros]:
  "atomicM (retM x)" "atomicM (throwM y)" "atomicM (invalid msg as)"
  "atomicM (already_exists msg as)"
  by (simp_all add: atomicM_readonly readonly_prims)

subsection \<open>Invariants of the database\<close>

lemma keeps_readonly: "readonly m \<Longrightarrow> keeps I m"
  unfolding keeps_def readonly_def frame_def by metis

lemma keepsD: "keeps I m \<Longrightarrow> I (db s) \<Longrightarrow> m e s = (r, s') \<Longrightarrow> I (db s')"
  unfolding keeps_def by blast

lemma keeps_publish [keeps_intros]: "keeps I (publish t p)"
  by (auto simp: keeps_def publish_def)

lemma keeps_bindM [keeps_intros]:
  "keeps I m \<Longrightarrow> (\<And>x. keeps I (f x)) \<Longrightarrow> keeps I (bindM m f)"
  unfolding keeps_def bindM_cases by blast

lemma keeps_wrapM [keeps_intros]: "keeps I m \<Longrightarrow> keeps I (wrapM lbl m)"
  unfolding keeps_def wrapM_cases by blast

lemma keeps_mapErrM [keeps_intros]: "keeps I m \<Longrightarrow> keeps I (mapErrM g m)"
  unfolding keeps_def mapErrM_def by (auto split: prod.splits sum.splits)

lemma keeps_andPublish [keeps_intros]: "keeps I m \<Longrightarrow> keeps I (andPublish m topic p r)"
  unfolding andPublish_def
  by (intro keeps_bindM keeps_publish) (simp_all add: keeps_readonly readonly_prims)

lemma keeps_andReturn [keeps_intros]: "keeps I m \<Longrightarrow> keeps I (andReturn m r)"
  unfolding andReturn_def by (intro keeps_bindM) (simp_all add: keeps_readonly readonly_prims)

lemma keeps_if [keeps_intros]:
  "(b \<Longrightarrow> keeps I m) \<Longrightarrow> (\<not> b \<Longrightarrow> keeps I m') \<Longrightarrow> keeps I (if b then m else m')"
  by simp

lemma keeps_case_option [keeps_intros]:
  "keeps I m \<Longrightarrow> (\<And>x. keeps I (f x)) \<Longrightarrow> keeps I (case v of None \<Rightarrow> m | Some x \<Rightarrow> f x)"
  by (simp split: option.splits)

lemma keeps_Let [keeps_intros]: "(\<And>x. keeps I (f x)) \<Longrightarrow> keeps I (let x = v in f x)"
  by (simp add: Let_def)

lemma keeps_prims [keeps_intros]:
  "keeps I (retM x)" "keeps I (throwM y)" "keeps I (invalid msg as)"
  "keeps I (already_exists msg as)" "keeps I nowUTC" "keeps I newID" "keeps I (askM f)"
  "keeps I (dbq q)" "keeps I (idOrNew i)"
  by (simp_all add: keeps_readonly readonly_prims readonly_idOrNew)

lemma keeps_inTx [keeps_intros]:
  assumes "readonly fn" "txkeeps I fn"
  shows "keeps I (inTx fn)"
  unfolding keeps_def
proof (intro allI impI)
  fix e and s :: state and r s'
  assume I: "I (db s)" and "inTx fn e s = (r, s')"
  from this(2) show "I (db s')"
  proof (cases rule: inTx_cases)
    case (commit x s1)
    have "I (txdb s1)"
      using assms(2) I commit(1) unfolding txkeeps_def
      by (metis (no_types) state.select_convs(2) state.surjective state.update_convs(2))
    with commit(3) show ?thesis
      by simp
  qed (use I in \<open>auto dest!: readonlyD [OF assms(1)]\<close>)
qed

lemma txkeepsI: "(\<And>e s x s'. I (txdb s) \<Longrightarrow> m e s = (Inr x, s') \<Longrightarrow> I (txdb s')) \<Longrightarrow> txkeeps I m"
  unfolding txkeeps_def by blast

lemma txkeepsD: "txkeeps I m \<Longrightarrow> I (txdb s) \<Longrightarrow> m e s = (Inr x, s') \<Longrightarrow> I (txdb s')"
  unfolding txkeeps_def by blast

lemma txkeeps_prims [txkeeps_intros]:
  "txkeeps I (retM x)" "txkeeps I (throwM y)" "txkeeps I (invalid msg as)"
  "txkeeps I (already_exists msg as)" "txkeeps I nowUTC" "txkeeps I newID" "txkeeps I (askM f)"
  "txkeeps I (dbq q)" "txkeeps I (txq q')" "txkeeps I (idOrNew i)"
  by (auto simp: txkeeps_def run_simps idOrNew_def)

lemma txkeeps_bindM [txkeeps_intros]:
  "txkeeps I m \<Longrightarrow> (\<And>x. txkeeps I (f x)) \<Longrightarrow> txkeeps I (bindM m f)"
  unfolding txkeeps_def bindM_Inr by blast

lemma txkeeps_wrapM [txkeeps_intros]: "txkeeps I m \<Longrightarrow> txkeeps I (wrapM lbl m)"
  unfolding txkeeps_def wrapM_Inr by blast

lemma txkeeps_if [txkeeps_intros]:
  "(b \<Longrightarrow> txkeeps I m) \<Longrightarrow> (\<not> b \<Longrightarrow> txkeeps I m') \<Longrightarrow> txkeeps I (if b then m else m')"
  by simp

lemma txkeeps_case_option [txkeeps_intros]:
  "txkeeps I m \<Longrightarrow> (\<And>x. txkeeps I (f x)) \<Longrightarrow> txkeeps I (case v of None \<Rightarrow> m | Some x \<Rightarrow> f x)"
  by (simp split: option.splits)

lemma txkeeps_Let [txkeeps_intros]: "(\<And>x. txkeeps I (f x)) \<Longrightarrow> txkeeps I (let x = v in f x)"
  by (simp add: Let_def)

lemma txkeeps_eachM [txkeeps_intros]: "(\<And>x. txkeeps I (f x)) \<Longrightarrow> txkeeps I (eachM xs f)"
  by (induction xs) (auto intro: txkeeps_intros)

lemma txkeeps_txx:
  "(\<And>d. I d \<Longrightarrow> list_all snd (cons (upd d)) \<Longrightarrow> I (upd d)) \<Longrightarrow> txkeeps I (txx cons upd)"
  by (auto simp: txkeeps_def txx_Inr)

subsection \<open>Evaluated runs\<close>

lemma run_fst: "fst p = r \<Longrightarrow> p = (r, snd p)"
  by (simp add: prod_eq_iff)

lemma voidM_run: "voidM m e s = (r, s') \<Longrightarrow> \<exists>r0. m e s = (r0, s') \<and> isl r0 = isl r"
  by (auto simp: voidM_def bindM_cases retM_iff)

lemma voidM_Inr [run_simps]: "voidM m e s = (Inr x, s') \<longleftrightarrow> (\<exists>y. m e s = (Inr y, s'))"
  by (auto simp: voidM_def bindM_Inr retM_iff)

end
