(* ===== verification/Store_Directory.thy ===== *)
theory Store_Directory
  imports Runtime
begin

text \<open>
  The stores of internal/store behind the directory part of the service:
  organizations, users, identities, clusters, cluster accounts, projects,
  project memberships, privileges, roles and audit rows.  One function per
  store method.  A lookup that maps sql.ErrNoRows to nil returns an option; a
  query without ORDER BY returns rows in insertion order; ORDER BY sorts by
  byte order.  Deletes carry the ON DELETE actions of the schema, and each
  statement names the constraints it can violate.
\<close>

subsection \<open>Organizations\<close>

definition orgs_FindByID :: "id \<Rightarrow> organization option M" where
  [store_defs]: "orgs_FindByID x = dbq (\<lambda>d. find (\<lambda>o'. org_ID o' = x) (organizations d))"

definition orgs_FindByOriginatedID :: "string \<Rightarrow> organization option M" where
  [store_defs]: "orgs_FindByOriginatedID oid =
     dbq (\<lambda>d. find (\<lambda>o'. org_OriginatedID o' = oid) (organizations d))"

definition orgs_List :: "int \<Rightarrow> int \<Rightarrow> (organization list \<times> nat) M" where
  [store_defs]: "orgs_List limit offset =
     bindM (dbq (\<lambda>d. length (organizations d))) (\<lambda>total.
     bindM (dbq (\<lambda>d. page_rows (clampLimit limit) (clampOffset offset)
                      (sort_key org_Name (organizations d)))) (\<lambda>rows.
     retM (rows, total)))"

definition orgs_Create :: "organization \<Rightarrow> unit M" where
  [store_defs]: "orgs_Create o' =
     txx organizations_cons (\<lambda>d. d\<lparr>organizations := insert_row o' (organizations d)\<rparr>)"

definition orgs_Update :: "organization \<Rightarrow> unit M" where
  [store_defs]: "orgs_Update o' =
     txx organizations_cons (\<lambda>d. d\<lparr>organizations :=
       update_where (\<lambda>r. org_ID r = org_ID o')
         (\<lambda>r. r\<lparr>org_OriginatedID := org_OriginatedID o', org_Name := org_Name o'\<rparr>) (organizations d)\<rparr>)"

definition orgs_Delete :: "id \<Rightarrow> unit M" where
  [store_defs]: "orgs_Delete x =
     txx users_cons (\<lambda>d. d\<lparr>organizations :=
       delete_where (\<lambda>r. org_ID r = x) (organizations d)\<rparr>)"

subsection \<open>Users\<close>

definition users_FindByID :: "id \<Rightarrow> user option M" where
  [store_defs]: "users_FindByID x = dbq (\<lambda>d. find (\<lambda>u. usr_ID u = x) (users d))"

definition users_List :: "int \<Rightarrow> int \<Rightarrow> (user list \<times> nat) M" where
  [store_defs]: "users_List limit offset =
     bindM (dbq (\<lambda>d. length (users d))) (\<lambda>total.
     bindM (dbq (\<lambda>d. page_rows (clampLimit limit) (clampOffset offset)
                      (sort_key (\<lambda>u. citext (usr_Email u)) (users d)))) (\<lambda>rows.
     retM (rows, total)))"

definition users_FindByEmail :: "string \<Rightarrow> user option M" where
  [store_defs]: "users_FindByEmail email =
     dbq (\<lambda>d. find (\<lambda>u. citext (usr_Email u) = citext email) (users d))"

text \<open>The join of users and user_identities on user_id, filtered by oidc_sub.\<close>

definition users_GetUserByOIDCSub :: "string \<Rightarrow> user option M" where
  [store_defs]: "users_GetUserByOIDCSub sub =
     (if sub = '''' then retM None
      else dbq (\<lambda>d. find (\<lambda>u. list_ex (\<lambda>i. uid_UserID i = usr_ID u \<and> nullable (uid_OIDCSub i) = Some sub)
                              (user_identities d)) (users d)))"

definition users_FindByOrganization :: "id \<Rightarrow> user list M" where
  [store_defs]: "users_FindByOrganization oid =
     dbq (\<lambda>d. select_where (\<lambda>u. usr_OrganizationID u = oid) (users d))"

definition users_Create :: "user \<Rightarrow> unit M" where
  [store_defs]: "users_Create u = txx users_cons (\<lambda>d. d\<lparr>users := insert_row u (users d)\<rparr>)"

definition users_Update :: "user \<Rightarrow> unit M" where
  [store_defs]: "users_Update u =
     txx users_cons (\<lambda>d. d\<lparr>users := update_where (\<lambda>r. usr_ID r = usr_ID u)
       (\<lambda>r. r\<lparr>usr_OrganizationID := usr_OrganizationID u, usr_FirstName := usr_FirstName u,
              usr_LastName := usr_LastName u, usr_MiddleName := usr_MiddleName u,
              usr_Email := usr_Email u, usr_Status := usr_Status u, usr_Type := usr_Type u\<rparr>)
       (users d)\<rparr>)"

definition users_UpdateStatus :: "id \<Rightarrow> string \<Rightarrow> unit M" where
  [store_defs]: "users_UpdateStatus x status =
     txx users_cons (\<lambda>d. d\<lparr>users :=
       update_where (\<lambda>r. usr_ID r = x) (\<lambda>r. r\<lparr>usr_Status := status\<rparr>) (users d)\<rparr>)"

text \<open>DELETE FROM users: identities, cluster accounts, project memberships, privilege and role
  grants of the user go with it, grants made by the user keep their row without a granter, and a
  project that names the user as its PI blocks the statement.\<close>

definition users_Delete :: "id \<Rightarrow> unit M" where
  [store_defs]: "users_Delete x =
     txx projects_cons (\<lambda>d. d\<lparr>
       users := delete_where (\<lambda>r. usr_ID r = x) (users d),
       user_identities := delete_where (\<lambda>r. uid_UserID r = x) (user_identities d),
       compute_cluster_users := delete_where (\<lambda>r. ccu_UserID r = x) (compute_cluster_users d),
       project_memberships := delete_where (\<lambda>r. pmb_UserID r = x) (project_memberships d),
       user_privileges := update_where (\<lambda>r. upv_GrantedBy r = Some x) (\<lambda>r. r\<lparr>upv_GrantedBy := None\<rparr>)
         (delete_where (\<lambda>r. upv_UserID r = x) (user_privileges d)),
       user_roles := update_where (\<lambda>r. url_GrantedBy r = Some x) (\<lambda>r. r\<lparr>url_GrantedBy := None\<rparr>)
         (delete_where (\<lambda>r. url_UserID r = x) (user_roles d))\<rparr>)"

subsection \<open>User identities\<close>

definition userIdentities_FindByID :: "id \<Rightarrow> user_identity option M" where
  [store_defs]: "userIdentities_FindByID x = dbq (\<lambda>d. find (\<lambda>r. uid_ID r = x) (user_identities d))"

definition userIdentities_FindBySourceAndExternalID :: "string \<Rightarrow> string \<Rightarrow> user_identity option M" where
  [store_defs]: "userIdentities_FindBySourceAndExternalID source ext =
     dbq (\<lambda>d. find (\<lambda>r. uid_Source r = source \<and> uid_ExternalID r = ext) (user_identities d))"

definition userIdentities_FindByOIDCSub :: "string \<Rightarrow> user_identity option M" where
  [store_defs]: "userIdentities_FindByOIDCSub sub =
     (if sub = '''' then retM None
      else dbq (\<lambda>d. find (\<lambda>r. nullable (uid_OIDCSub r) = Some sub) (user_identities d)))"

definition userIdentities_FindByUser :: "id \<Rightarrow> user_identity list M" where
  [store_defs]: "userIdentities_FindByUser uid =
     dbq (\<lambda>d. sort_key uid_CreatedAt (select_where (\<lambda>r. uid_UserID r = uid) (user_identities d)))"

definition userIdentities_FindByUserAndSource :: "id \<Rightarrow> string \<Rightarrow> user_identity option M" where
  [store_defs]: "userIdentities_FindByUserAndSource uid source =
     dbq (\<lambda>d. find (\<lambda>r. uid_UserID r = uid \<and> uid_Source r = source) (user_identities d))"

text \<open>created_at is not among the inserted columns: the table's default applies.\<close>

definition userIdentities_Create :: "user_identity \<Rightarrow> unit M" where
  [store_defs]: "userIdentities_Create r = bindM nowUTC (\<lambda>now.
     txx user_identities_cons (\<lambda>d. d\<lparr>user_identities :=
       insert_row (r\<lparr>uid_CreatedAt := now\<rparr>) (user_identities d)\<rparr>))"

definition userIdentities_Update :: "user_identity \<Rightarrow> unit M" where
  [store_defs]: "userIdentities_Update i =
     txx user_identities_cons (\<lambda>d. d\<lparr>user_identities :=
       update_where (\<lambda>r. uid_ID r = uid_ID i)
         (\<lambda>r. r\<lparr>uid_UserID := uid_UserID i, uid_Source := uid_Source i,
                uid_ExternalID := uid_ExternalID i, uid_Email := uid_Email i,
                uid_OIDCSub := uid_OIDCSub i, uid_Metadata := uid_Metadata i\<rparr>)
         (user_identities d)\<rparr>)"

definition userIdentities_ReassignUser :: "id \<Rightarrow> id \<Rightarrow> unit M" where
  [store_defs]: "userIdentities_ReassignUser fromID toID =
     txx user_identities_cons (\<lambda>d. d\<lparr>user_identities :=
       update_where (\<lambda>r. uid_UserID r = fromID) (\<lambda>r. r\<lparr>uid_UserID := toID\<rparr>) (user_identities d)\<rparr>)"

definition userIdentities_Delete :: "id \<Rightarrow> unit M" where
  [store_defs]: "userIdentities_Delete x =
     txx no_cons (\<lambda>d. d\<lparr>user_identities := delete_where (\<lambda>r. uid_ID r = x) (user_identities d)\<rparr>)"

subsection \<open>Compute clusters and cluster accounts\<close>

definition clusters_FindByID :: "id \<Rightarrow> compute_cluster option M" where
  [store_defs]: "clusters_FindByID x = dbq (\<lambda>d. find (\<lambda>r. ccl_ID r = x) (compute_clusters d))"

definition clusters_FindByName :: "string \<Rightarrow> compute_cluster option M" where
  [store_defs]: "clusters_FindByName name = dbq (\<lambda>d. find (\<lambda>r. ccl_Name r = name) (compute_clusters d))"

definition clusters_List :: "compute_cluster list M" where
  [store_defs]: "clusters_List = dbq (\<lambda>d. sort_key ccl_Name (compute_clusters d))"

definition clusters_Create :: "compute_cluster \<Rightarrow> unit M" where
  [store_defs]: "clusters_Create c =
     txx compute_clusters_cons (\<lambda>d. d\<lparr>compute_clusters := insert_row c (compute_clusters d)\<rparr>)"

definition clusters_Update :: "compute_cluster \<Rightarrow> unit M" where
  [store_defs]: "clusters_Update c =
     txx compute_clusters_cons (\<lambda>d. d\<lparr>compute_clusters :=
       update_where (\<lambda>r. ccl_ID r = ccl_ID c) (\<lambda>r. r\<lparr>ccl_Name := ccl_Name c\<rparr>) (compute_clusters d)\<rparr>)"

definition clusters_Delete :: "id \<Rightarrow> unit M" where
  [store_defs]: "clusters_Delete x =
     txx (\<lambda>d. compute_allocations_cons d @ resources_cons d) (\<lambda>d. d\<lparr>
       compute_clusters := delete_where (\<lambda>r. ccl_ID r = x) (compute_clusters d),
       compute_cluster_users := delete_where (\<lambda>r. ccu_ComputeClusterID r = x) (compute_cluster_users d)\<rparr>)"

definition clusterUsers_FindByID :: "id \<Rightarrow> compute_cluster_user option M" where
  [store_defs]: "clusterUsers_FindByID x = dbq (\<lambda>d. find (\<lambda>r. ccu_ID r = x) (compute_cluster_users d))"

definition clusterUsers_FindByPair :: "id \<Rightarrow> id \<Rightarrow> compute_cluster_user option M" where
  [store_defs]: "clusterUsers_FindByPair cid uid =
     dbq (\<lambda>d. find (\<lambda>r. ccu_ComputeClusterID r = cid \<and> ccu_UserID r = uid) (compute_cluster_users d))"

definition clusterUsers_FindByClusterAndLocalUsername :: "id \<Rightarrow> string \<Rightarrow> compute_cluster_user option M" where
  [store_defs]: "clusterUsers_FindByClusterAndLocalUsername cid name =
     dbq (\<lambda>d. find (\<lambda>r. ccu_ComputeClusterID r = cid \<and> ccu_LocalUsername r = name)
                    (compute_cluster_users d))"

definition clusterUsers_FindByCluster :: "id \<Rightarrow> compute_cluster_user list M" where
  [store_defs]: "clusterUsers_FindByCluster cid =
     dbq (\<lambda>d. sort_key ccu_LocalUsername
       (select_where (\<lambda>r. ccu_ComputeClusterID r = cid) (compute_cluster_users d)))"

definition clusterUsers_FindByUser :: "id \<Rightarrow> compute_cluster_user list M" where
  [store_defs]: "clusterUsers_FindByUser uid =
     dbq (\<lambda>d. sort_key ccu_ComputeClusterID
       (select_where (\<lambda>r. ccu_UserID r = uid) (compute_cluster_users d)))"

text \<open>The insert leaves provisioned_at to its default, NULL, whatever the struct holds.\<close>

definition clusterUsers_Create :: "compute_cluster_user \<Rightarrow> unit M" where
  [store_defs]: "clusterUsers_Create c =
     txx compute_cluster_users_cons (\<lambda>d. d\<lparr>compute_cluster_users :=
       insert_row (c\<lparr>ccu_ProvisionedAt := None\<rparr>) (compute_cluster_users d)\<rparr>)"

definition clusterUsers_Update :: "compute_cluster_user \<Rightarrow> unit M" where
  [store_defs]: "clusterUsers_Update c =
     txx compute_cluster_users_cons (\<lambda>d. d\<lparr>compute_cluster_users :=
       update_where (\<lambda>r. ccu_ID r = ccu_ID c)
         (\<lambda>r. r\<lparr>ccu_ComputeClusterID := ccu_ComputeClusterID c, ccu_UserID := ccu_UserID c,
                ccu_LocalUsername := ccu_LocalUsername c\<rparr>)
         (compute_cluster_users d)\<rparr>)"

definition clusterUsers_MarkProvisioned :: "id \<Rightarrow> unit M" where
  [store_defs]: "clusterUsers_MarkProvisioned x = bindM nowUTC (\<lambda>now.
     txx compute_cluster_users_cons (\<lambda>d. d\<lparr>compute_cluster_users :=
       update_where (\<lambda>r. ccu_ID r = x) (\<lambda>r. r\<lparr>ccu_ProvisionedAt := Some now\<rparr>)
         (compute_cluster_users d)\<rparr>))"

definition clusterUsers_ReassignUser :: "id \<Rightarrow> id \<Rightarrow> unit M" where
  [store_defs]: "clusterUsers_ReassignUser fromID toID =
     bindM (txx no_cons (\<lambda>d. d\<lparr>compute_cluster_users :=
       delete_where (\<lambda>r. ccu_UserID r = fromID \<and> ccu_ComputeClusterID r \<in>
           set (map ccu_ComputeClusterID (select_where (\<lambda>q. ccu_UserID q = toID) (compute_cluster_users d))))
         (compute_cluster_users d)\<rparr>)) (\<lambda>_.
     txx compute_cluster_users_cons (\<lambda>d. d\<lparr>compute_cluster_users :=
       update_where (\<lambda>r. ccu_UserID r = fromID) (\<lambda>r. r\<lparr>ccu_UserID := toID\<rparr>)
         (compute_cluster_users d)\<rparr>))"

definition clusterUsers_Delete :: "id \<Rightarrow> unit M" where
  [store_defs]: "clusterUsers_Delete x =
     txx no_cons (\<lambda>d. d\<lparr>compute_cluster_users :=
       delete_where (\<lambda>r. ccu_ID r = x) (compute_cluster_users d)\<rparr>)"

subsection \<open>Projects\<close>

record project_with_pi =
  pwp_Project :: project
  pwp_PIFirstName :: string
  pwp_PILastName :: string
  pwp_PIEmail :: string

record project_list_filter =
  plf_PIID :: id
  plf_Status :: string
  plf_Query :: string
  plf_Limit :: int
  plf_Offset :: int

text \<open>The LEFT JOIN of a project row with its PI's user row.\<close>

definition projectWithPI :: "database \<Rightarrow> project \<Rightarrow> project_with_pi" where
  "projectWithPI d p =
     (case find (\<lambda>u. usr_ID u = prj_ProjectPIID p) (users d) of
        None \<Rightarrow> \<lparr> pwp_Project = p, pwp_PIFirstName = '''', pwp_PILastName = '''', pwp_PIEmail = '''' \<rparr>
      | Some u \<Rightarrow> \<lparr> pwp_Project = p, pwp_PIFirstName = usr_FirstName u,
                    pwp_PILastName = usr_LastName u, pwp_PIEmail = usr_Email u \<rparr>)"

definition projs_FindByIDWithPI :: "id \<Rightarrow> project_with_pi option M" where
  [store_defs]: "projs_FindByIDWithPI x =
     dbq (\<lambda>d. map_option (projectWithPI d) (find (\<lambda>r. prj_ID r = x) (projects d)))"

definition projs_FindByID :: "id \<Rightarrow> project option M" where
  [store_defs]: "projs_FindByID x = dbq (\<lambda>d. find (\<lambda>r. prj_ID r = x) (projects d))"

definition projs_FindByOriginatedID :: "string \<Rightarrow> project option M" where
  [store_defs]: "projs_FindByOriginatedID oid =
     dbq (\<lambda>d. find (\<lambda>r. prj_OriginatedID r = oid) (projects d))"

definition projs_FindByPI :: "id \<Rightarrow> project list M" where
  [store_defs]: "projs_FindByPI uid = dbq (\<lambda>d. select_where (\<lambda>r. prj_ProjectPIID r = uid) (projects d))"

definition projs_Create :: "project \<Rightarrow> unit M" where
  [store_defs]: "projs_Create p = txx projects_cons (\<lambda>d. d\<lparr>projects := insert_row p (projects d)\<rparr>)"

definition projs_Update :: "project \<Rightarrow> unit M" where
  [store_defs]: "projs_Update p =
     txx projects_cons (\<lambda>d. d\<lparr>projects := update_where (\<lambda>r. prj_ID r = prj_ID p)
       (\<lambda>r. r\<lparr>prj_OriginatedID := prj_OriginatedID p, prj_Title := prj_Title p,
              prj_Origination := prj_Origination p, prj_ProjectPIID := prj_ProjectPIID p,
              prj_Status := prj_Status p\<rparr>) (projects d)\<rparr>)"

definition projs_UpdateStatus :: "id \<Rightarrow> string \<Rightarrow> unit M" where
  [store_defs]: "projs_UpdateStatus x status =
     txx projects_cons (\<lambda>d. d\<lparr>projects :=
       update_where (\<lambda>r. prj_ID r = x) (\<lambda>r. r\<lparr>prj_Status := status\<rparr>) (projects d)\<rparr>)"

definition projs_ReassignPI :: "id \<Rightarrow> id \<Rightarrow> unit M" where
  [store_defs]: "projs_ReassignPI fromID toID =
     txx projects_cons (\<lambda>d. d\<lparr>projects :=
       update_where (\<lambda>r. prj_ProjectPIID r = fromID) (\<lambda>r. r\<lparr>prj_ProjectPIID := toID\<rparr>) (projects d)\<rparr>)"

definition projs_Delete :: "id \<Rightarrow> unit M" where
  [store_defs]: "projs_Delete x =
     txx compute_allocations_cons (\<lambda>d. d\<lparr>
       projects := delete_where (\<lambda>r. prj_ID r = x) (projects d),
       project_memberships := delete_where (\<lambda>r. pmb_ProjectID r = x) (project_memberships d)\<rparr>)"

definition project_filter :: "project_list_filter \<Rightarrow> project \<Rightarrow> bool" where
  "project_filter f p =
     ((plf_PIID f = '''' \<or> prj_ProjectPIID p = plf_PIID f) \<and>
      (plf_Status f = '''' \<or> prj_Status p = plf_Status f) \<and>
      (plf_Query f = '''' \<or> ilike (prj_Title p) (contains_pattern (plf_Query f)) \<or>
         ilike (prj_OriginatedID p) (contains_pattern (plf_Query f))))"

definition projs_List :: "project_list_filter \<Rightarrow> (project list \<times> nat) M" where
  [store_defs]: "projs_List f =
     bindM (dbq (\<lambda>d. length (select_where (project_filter f) (projects d)))) (\<lambda>total.
     bindM (dbq (\<lambda>d. page_rows (clampLimit (plf_Limit f)) (clampOffset (plf_Offset f))
       (sort_key (\<lambda>p. - prj_CreatedTime p) (select_where (project_filter f) (projects d))))) (\<lambda>rows.
     retM (rows, total)))"

text \<open>A project membership, or an active membership on one of the project's allocations.\<close>

definition isParticipant :: "database \<Rightarrow> id \<Rightarrow> id \<Rightarrow> bool" where
  "isParticipant d pid uid =
     (list_ex (\<lambda>m. pmb_ProjectID m = pid \<and> pmb_UserID m = uid) (project_memberships d) \<or>
      list_ex (\<lambda>m. mem_UserID m = uid \<and> mem_MembershipStatus m = ''ACTIVE'' \<and>
                   list_ex (\<lambda>a. alc_ID a = mem_ComputeAllocationID m \<and> alc_ProjectID a = pid)
                     (compute_allocations d)) (compute_allocation_memberships d))"

definition projs_ListWithPIForParticipant :: "id \<Rightarrow> project_with_pi list M" where
  [store_defs]: "projs_ListWithPIForParticipant uid =
     dbq (\<lambda>d. map (projectWithPI d) (sort_key (\<lambda>p. - prj_CreatedTime p)
       (select_where (\<lambda>p. isParticipant d (prj_ID p) uid) (projects d))))"

definition projs_ListWithPI :: "project_list_filter \<Rightarrow> (project_with_pi list \<times> nat) M" where
  [store_defs]: "projs_ListWithPI f =
     bindM (dbq (\<lambda>d. length (select_where (project_filter f) (projects d)))) (\<lambda>total.
     bindM (dbq (\<lambda>d. map (projectWithPI d)
       (page_rows (clampLimit (plf_Limit f)) (clampOffset (plf_Offset f))
         (sort_key (\<lambda>p. - prj_CreatedTime p) (select_where (project_filter f) (projects d)))))) (\<lambda>rows.
     retM (rows, total)))"

subsection \<open>Project memberships\<close>

definition projMemberships_FindByPair :: "id \<Rightarrow> id \<Rightarrow> project_membership option M" where
  [store_defs]: "projMemberships_FindByPair pid uid =
     dbq (\<lambda>d. find (\<lambda>r. pmb_ProjectID r = pid \<and> pmb_UserID r = uid) (project_memberships d))"

definition projMemberships_FindByProject :: "id \<Rightarrow> project_membership list M" where
  [store_defs]: "projMemberships_FindByProject pid =
     dbq (\<lambda>d. sort_key pmb_AddedTime (select_where (\<lambda>r. pmb_ProjectID r = pid) (project_memberships d)))"

definition projMemberships_FindPIByProject :: "id \<Rightarrow> project_membership option M" where
  [store_defs]: "projMemberships_FindPIByProject pid =
     dbq (\<lambda>d. find (\<lambda>r. pmb_ProjectID r = pid \<and> pmb_Role r = ''PI'') (project_memberships d))"

definition projMemberships_IsParticipant :: "id \<Rightarrow> id \<Rightarrow> bool M" where
  [store_defs]: "projMemberships_IsParticipant pid uid = dbq (\<lambda>d. isParticipant d pid uid)"

definition projMemberships_Create :: "project_membership \<Rightarrow> unit M" where
  [store_defs]: "projMemberships_Create m =
     txx project_memberships_cons (\<lambda>d. d\<lparr>project_memberships := insert_row m (project_memberships d)\<rparr>)"

definition projMemberships_UpdateRole :: "id \<Rightarrow> id \<Rightarrow> string \<Rightarrow> unit M" where
  [store_defs]: "projMemberships_UpdateRole pid uid role =
     txx project_memberships_cons (\<lambda>d. d\<lparr>project_memberships :=
       update_where (\<lambda>r. pmb_ProjectID r = pid \<and> pmb_UserID r = uid) (\<lambda>r. r\<lparr>pmb_Role := role\<rparr>)
         (project_memberships d)\<rparr>)"

definition projMemberships_Delete :: "id \<Rightarrow> id \<Rightarrow> unit M" where
  [store_defs]: "projMemberships_Delete pid uid =
     txx no_cons (\<lambda>d. d\<lparr>project_memberships :=
       delete_where (\<lambda>r. pmb_ProjectID r = pid \<and> pmb_UserID r = uid) (project_memberships d)\<rparr>)"

definition projMemberships_ReassignUser :: "id \<Rightarrow> id \<Rightarrow> unit M" where
  [store_defs]: "projMemberships_ReassignUser fromID toID =
     bindM (txx no_cons (\<lambda>d. d\<lparr>project_memberships :=
       delete_where (\<lambda>r. pmb_UserID r = fromID \<and> pmb_ProjectID r \<in>
           set (map pmb_ProjectID (select_where (\<lambda>q. pmb_UserID q = toID) (project_memberships d))))
         (project_memberships d)\<rparr>)) (\<lambda>_.
     txx project_memberships_cons (\<lambda>d. d\<lparr>project_memberships :=
       update_where (\<lambda>r. pmb_UserID r = fromID) (\<lambda>r. r\<lparr>pmb_UserID := toID\<rparr>)
         (project_memberships d)\<rparr>))"

subsection \<open>Privileges\<close>

definition privileges_Find :: "id \<Rightarrow> string \<Rightarrow> user_privilege option M" where
  [store_defs]: "privileges_Find uid p =
     dbq (\<lambda>d. find (\<lambda>r. upv_UserID r = uid \<and> upv_Privilege r = p) (user_privileges d))"

definition privileges_FindForUpdate :: "id \<Rightarrow> string \<Rightarrow> user_privilege option M" where
  [store_defs]: "privileges_FindForUpdate uid p =
     txq (\<lambda>d. find (\<lambda>r. upv_UserID r = uid \<and> upv_Privilege r = p) (user_privileges d))"

definition privileges_ListByUser :: "id \<Rightarrow> user_privilege list M" where
  [store_defs]: "privileges_ListByUser uid =
     dbq (\<lambda>d. sort_key upv_GrantedAt (select_where (\<lambda>r. upv_UserID r = uid) (user_privileges d)))"

definition privileges_ListByPrivilege :: "string \<Rightarrow> user_privilege list M" where
  [store_defs]: "privileges_ListByPrivilege p =
     dbq (\<lambda>d. sort_key upv_GrantedAt (select_where (\<lambda>r. upv_Privilege r = p) (user_privileges d)))"

definition privileges_CountByPrivilege :: "string \<Rightarrow> nat M" where
  [store_defs]: "privileges_CountByPrivilege p =
     txq (\<lambda>d. length (select_where (\<lambda>r. upv_Privilege r = p) (user_privileges d)))"

definition privileges_Create :: "user_privilege \<Rightarrow> unit M" where
  [store_defs]: "privileges_Create r =
     txx user_privileges_cons (\<lambda>d. d\<lparr>user_privileges := insert_row r (user_privileges d)\<rparr>)"

definition privileges_Delete :: "id \<Rightarrow> string \<Rightarrow> unit M" where
  [store_defs]: "privileges_Delete uid p =
     txx no_cons (\<lambda>d. d\<lparr>user_privileges :=
       delete_where (\<lambda>r. upv_UserID r = uid \<and> upv_Privilege r = p) (user_privileges d)\<rparr>)"

subsection \<open>Roles\<close>

definition roles_FindByID :: "id \<Rightarrow> role option M" where
  [store_defs]: "roles_FindByID x = dbq (\<lambda>d. find (\<lambda>r. rol_ID r = x) (roles d))"

definition roles_FindByName :: "string \<Rightarrow> role option M" where
  [store_defs]: "roles_FindByName name = dbq (\<lambda>d. find (\<lambda>r. rol_Name r = name) (roles d))"

definition roles_List :: "role list M" where
  [store_defs]: "roles_List = dbq (\<lambda>d. sort_key rol_Name (roles d))"

definition roles_Create :: "role \<Rightarrow> unit M" where
  [store_defs]: "roles_Create r = bindM nowUTC (\<lambda>now.
     txx roles_cons (\<lambda>d. d\<lparr>roles := insert_row (r\<lparr>rol_CreatedAt := now\<rparr>) (roles d)\<rparr>))"

definition roles_Update :: "role \<Rightarrow> unit M" where
  [store_defs]: "roles_Update r' =
     txx roles_cons (\<lambda>d. d\<lparr>roles := update_where (\<lambda>r. rol_ID r = rol_ID r')
       (\<lambda>r. r\<lparr>rol_Name := rol_Name r', rol_Description := rol_Description r'\<rparr>) (roles d)\<rparr>)"

definition roles_Delete :: "id \<Rightarrow> unit M" where
  [store_defs]: "roles_Delete x =
     txx no_cons (\<lambda>d. d\<lparr>
       roles := delete_where (\<lambda>r. rol_ID r = x) (roles d),
       role_privileges := delete_where (\<lambda>r. rpv_RoleID r = x) (role_privileges d),
       user_roles := delete_where (\<lambda>r. url_RoleID r = x) (user_roles d)\<rparr>)"

definition roles_ListPrivileges :: "id \<Rightarrow> string list M" where
  [store_defs]: "roles_ListPrivileges rid =
     dbq (\<lambda>d. sort (map rpv_Privilege (select_where (\<lambda>r. rpv_RoleID r = rid) (role_privileges d))))"

definition roles_AddPrivilege :: "id \<Rightarrow> string \<Rightarrow> unit M" where
  [store_defs]: "roles_AddPrivilege rid p =
     txx role_privileges_cons (\<lambda>d. d\<lparr>role_privileges :=
       insert_row \<lparr> rpv_RoleID = rid, rpv_Privilege = p \<rparr> (role_privileges d)\<rparr>)"

definition roles_RemovePrivilege :: "id \<Rightarrow> string \<Rightarrow> unit M" where
  [store_defs]: "roles_RemovePrivilege rid p =
     txx no_cons (\<lambda>d. d\<lparr>role_privileges :=
       delete_where (\<lambda>r. rpv_RoleID r = rid \<and> rpv_Privilege r = p) (role_privileges d)\<rparr>)"

definition roles_HasPrivilege :: "id \<Rightarrow> string \<Rightarrow> bool M" where
  [store_defs]: "roles_HasPrivilege rid p =
     txq (\<lambda>d. length (select_where (\<lambda>r. rpv_RoleID r = rid \<and> rpv_Privilege r = p) (role_privileges d)) > 0)"

definition roles_CountRolesGrantingPrivilege :: "string \<Rightarrow> nat M" where
  [store_defs]: "roles_CountRolesGrantingPrivilege p =
     txq (\<lambda>d. length (select_where (\<lambda>r. rpv_Privilege r = p) (role_privileges d)))"

subsection \<open>User roles\<close>

record user_role_detail =
  urd_Role :: role
  urd_Privileges :: "string list"
  urd_GrantedAt :: time

definition userRoles_Find :: "id \<Rightarrow> id \<Rightarrow> user_role option M" where
  [store_defs]: "userRoles_Find uid rid =
     dbq (\<lambda>d. find (\<lambda>r. url_UserID r = uid \<and> url_RoleID r = rid) (user_roles d))"

definition userRoles_FindForUpdate :: "id \<Rightarrow> id \<Rightarrow> user_role option M" where
  [store_defs]: "userRoles_FindForUpdate uid rid =
     txq (\<lambda>d. find (\<lambda>r. url_UserID r = uid \<and> url_RoleID r = rid) (user_roles d))"

definition userRoles_ListByUser :: "id \<Rightarrow> user_role list M" where
  [store_defs]: "userRoles_ListByUser uid =
     dbq (\<lambda>d. sort_key url_GrantedAt (select_where (\<lambda>r. url_UserID r = uid) (user_roles d)))"

definition userRoles_ListByRole :: "id \<Rightarrow> user_role list M" where
  [store_defs]: "userRoles_ListByRole rid =
     dbq (\<lambda>d. sort_key url_GrantedAt (select_where (\<lambda>r. url_RoleID r = rid) (user_roles d)))"

definition userRoles_ListUserIDsByRole :: "id \<Rightarrow> id list M" where
  [store_defs]: "userRoles_ListUserIDsByRole rid =
     dbq (\<lambda>d. map url_UserID (select_where (\<lambda>r. url_RoleID r = rid) (user_roles d)))"

definition userRoles_Create :: "user_role \<Rightarrow> unit M" where
  [store_defs]: "userRoles_Create r =
     txx user_roles_cons (\<lambda>d. d\<lparr>user_roles := insert_row r (user_roles d)\<rparr>)"

definition userRoles_Delete :: "id \<Rightarrow> id \<Rightarrow> unit M" where
  [store_defs]: "userRoles_Delete uid rid =
     txx no_cons (\<lambda>d. d\<lparr>user_roles :=
       delete_where (\<lambda>r. url_UserID r = uid \<and> url_RoleID r = rid) (user_roles d)\<rparr>)"

text \<open>The rows of the detail query: each held role, joined with its privileges (None when the role
  carries none), ordered by role name and privilege.\<close>

definition role_detail_rows :: "database \<Rightarrow> id \<Rightarrow> (role \<times> time \<times> string option) list" where
  "role_detail_rows d uid =
     sort_key (\<lambda>(r, t, p). (rol_Name r, case p of None \<Rightarrow> '''' | Some k \<Rightarrow> k))
       (concat (map (\<lambda>ur. concat (map (\<lambda>r.
          (let ps = map rpv_Privilege (select_where (\<lambda>q. rpv_RoleID q = rol_ID r) (role_privileges d))
           in if ps = [] then [(r, url_GrantedAt ur, None)]
              else map (\<lambda>p. (r, url_GrantedAt ur, Some p)) ps))
          (select_where (\<lambda>r. rol_ID r = url_RoleID ur) (roles d))))
        (select_where (\<lambda>ur. url_UserID ur = uid) (user_roles d))))"

text \<open>The loop that groups the rows by role, in first-seen order.\<close>

fun add_detail :: "user_role_detail list \<Rightarrow> role \<times> time \<times> string option \<Rightarrow> user_role_detail list" where
  "add_detail [] (r, t, p) =
     [\<lparr> urd_Role = r, urd_Privileges = (case p of None \<Rightarrow> [] | Some k \<Rightarrow> [k]), urd_GrantedAt = t \<rparr>]"
| "add_detail (x # xs) (r, t, p) =
     (if rol_ID (urd_Role x) = rol_ID r
      then x\<lparr>urd_Privileges := urd_Privileges x @ (case p of None \<Rightarrow> [] | Some k \<Rightarrow> [k])\<rparr> # xs
      else x # add_detail xs (r, t, p))"

definition userRoles_ListDetailedByUser :: "id \<Rightarrow> user_role_detail list M" where
  [store_defs]: "userRoles_ListDetailedByUser uid =
     dbq (\<lambda>d. foldl add_detail [] (role_detail_rows d uid))"

text \<open>The privileges a user holds through roles: SELECT DISTINCT over the join of the user's role
  grants with the roles' privileges.\<close>

definition role_privs_of :: "database \<Rightarrow> id \<Rightarrow> string list" where
  "role_privs_of d uid =
     remdups (concat (map (\<lambda>ur. map rpv_Privilege
         (select_where (\<lambda>rp. rpv_RoleID rp = url_RoleID ur) (role_privileges d)))
       (select_where (\<lambda>ur. url_UserID ur = uid) (user_roles d))))"

definition userRoles_PrivilegesForUser :: "id \<Rightarrow> string list M" where
  [store_defs]: "userRoles_PrivilegesForUser uid = dbq (\<lambda>d. role_privs_of d uid)"

definition role_holders_of :: "database \<Rightarrow> string \<Rightarrow> id list" where
  "role_holders_of d p =
     remdups (map url_UserID (select_where (\<lambda>ur. list_ex (\<lambda>rp. rpv_RoleID rp = url_RoleID ur \<and>
         rpv_Privilege rp = p) (role_privileges d)) (user_roles d)))"

definition userRoles_UsersHoldingPrivilege :: "string \<Rightarrow> id list M" where
  [store_defs]: "userRoles_UsersHoldingPrivilege p = dbq (\<lambda>d. role_holders_of d p)"

subsection \<open>Audit events\<close>

definition auditEvents_FindByID :: "id \<Rightarrow> audit_event option M" where
  [store_defs]: "auditEvents_FindByID x = dbq (\<lambda>d. find (\<lambda>r. aud_ID r = x) (audit_events d))"

definition auditEvents_FindByEntity :: "id \<Rightarrow> audit_event list M" where
  [store_defs]: "auditEvents_FindByEntity eid =
     dbq (\<lambda>d. sort_key aud_EventTime (select_where (\<lambda>r. aud_EntityID r = eid) (audit_events d)))"

definition auditEvents_FindByEventType :: "string \<Rightarrow> audit_event list M" where
  [store_defs]: "auditEvents_FindByEventType t =
     dbq (\<lambda>d. sort_key aud_EventTime (select_where (\<lambda>r. aud_EventType r = t) (audit_events d)))"

definition auditEvents_ListAll :: "audit_event list M" where
  [store_defs]: "auditEvents_ListAll = dbq (\<lambda>d. sort_key aud_EventTime (audit_events d))"

definition auditEvents_Create :: "audit_event \<Rightarrow> unit M" where
  [store_defs]: "auditEvents_Create r =
     txx audit_events_cons (\<lambda>d. d\<lparr>audit_events := insert_row r (audit_events d)\<rparr>)"

definition auditEvents_Delete :: "id \<Rightarrow> unit M" where
  [store_defs]: "auditEvents_Delete x =
     txx no_cons (\<lambda>d. d\<lparr>audit_events := delete_where (\<lambda>r. aud_ID r = x) (audit_events d)\<rparr>)"

subsection \<open>Which statements write\<close>

text \<open>No store function touches the committed database; the queries leave the working copy alone
  as well.\<close>

lemma directory_store_readonly [readonly_intros]:
  "readonly (orgs_FindByID x)" "readonly (orgs_FindByOriginatedID x)" "readonly (orgs_List i j)"
  "readonly (orgs_Create o')" "readonly (orgs_Update o')" "readonly (orgs_Delete x)"
  "readonly (users_FindByID x)" "readonly (users_List i j)" "readonly (users_FindByEmail x)"
  "readonly (users_GetUserByOIDCSub x)" "readonly (users_FindByOrganization x)"
  "readonly (users_Create u')" "readonly (users_Update u')" "readonly (users_UpdateStatus x y)"
  "readonly (users_Delete x)" "readonly (userIdentities_FindByID x)"
  "readonly (userIdentities_FindBySourceAndExternalID x y)"
  "readonly (userIdentities_FindByOIDCSub x)" "readonly (userIdentities_FindByUser x)"
  "readonly (userIdentities_FindByUserAndSource x y)" "readonly (userIdentities_Create ui')"
  "readonly (userIdentities_Update ui')" "readonly (userIdentities_ReassignUser x y)"
  "readonly (userIdentities_Delete x)" "readonly (clusters_FindByID x)"
  "readonly (clusters_FindByName x)" "readonly clusters_List" "readonly (clusters_Create cc')"
  "readonly (clusters_Update cc')" "readonly (clusters_Delete x)"
  "readonly (clusterUsers_FindByID x)" "readonly (clusterUsers_FindByPair x y)"
  "readonly (clusterUsers_FindByClusterAndLocalUsername x y)"
  "readonly (clusterUsers_FindByCluster x)" "readonly (clusterUsers_FindByUser x)"
  "readonly (clusterUsers_Create ccu')" "readonly (clusterUsers_Update ccu')"
  "readonly (clusterUsers_MarkProvisioned x)" "readonly (clusterUsers_ReassignUser x y)"
  "readonly (clusterUsers_Delete x)" "readonly (projs_FindByIDWithPI x)"
  "readonly (projs_FindByID x)" "readonly (projs_FindByOriginatedID x)"
  "readonly (projs_FindByPI x)" "readonly (projs_Create p')" "readonly (projs_Update p')"
  "readonly (projs_UpdateStatus x y)" "readonly (projs_ReassignPI x y)"
  "readonly (projs_Delete x)" "readonly (projs_List plf')"
  "readonly (projs_ListWithPIForParticipant x)" "readonly (projs_ListWithPI plf')"
  "readonly (projMemberships_FindByPair x y)" "readonly (projMemberships_FindByProject x)"
  "readonly (projMemberships_FindPIByProject x)" "readonly (projMemberships_IsParticipant x y)"
  "readonly (projMemberships_Create pm')" "readonly (projMemberships_UpdateRole x y z)"
  "readonly (projMemberships_Delete x y)" "readonly (projMemberships_ReassignUser x y)"
  "readonly (privileges_Find x y)" "readonly (privileges_FindForUpdate x y)"
  "readonly (privileges_ListByUser x)" "readonly (privileges_ListByPrivilege x)"
  "readonly (privileges_CountByPrivilege x)" "readonly (privileges_Create up')"
  "readonly (privileges_Delete x y)" "readonly (roles_FindByID x)" "readonly (roles_FindByName x)"
  "readonly roles_List" "readonly (roles_Create r')" "readonly (roles_Update r')"
  "readonly (roles_Delete x)" "readonly (roles_ListPrivileges x)"
  "readonly (roles_AddPrivilege x y)" "readonly (roles_RemovePrivilege x y)"
  "readonly (roles_HasPrivilege x y)" "readonly (roles_CountRolesGrantingPrivilege x)"
  "readonly (userRoles_Find x y)" "readonly (userRoles_FindForUpdate x y)"
  "readonly (userRoles_ListByUser x)" "readonly (userRoles_ListByRole x)"
  "readonly (userRoles_ListUserIDsByRole x)" "readonly (userRoles_Create ur')"
  "readonly (userRoles_Delete x y)" "readonly (userRoles_ListDetailedByUser x)"
  "readonly (userRoles_PrivilegesForUser x)" "readonly (userRoles_UsersHoldingPrivilege x)"
  "readonly (auditEvents_FindByID x)" "readonly (auditEvents_FindByEntity x)"
  "readonly (auditEvents_FindByEventType x)" "readonly auditEvents_ListAll"
  "readonly (auditEvents_Create ae')" "readonly (auditEvents_Delete x)"
  unfolding store_defs by (intro readonly_intros)+

lemmas directory_store_keeps [keeps_intros] = directory_store_readonly [THEN keeps_readonly]

lemma directory_query_txkeeps [txkeeps_intros]:
  "txkeeps I (orgs_FindByID x)" "txkeeps I (orgs_FindByOriginatedID x)"
  "txkeeps I (orgs_List i j)" "txkeeps I (users_FindByID x)" "txkeeps I (users_List i j)"
  "txkeeps I (users_FindByEmail x)" "txkeeps I (users_GetUserByOIDCSub x)"
  "txkeeps I (users_FindByOrganization x)" "txkeeps I (userIdentities_FindByID x)"
  "txkeeps I (userIdentities_FindBySourceAndExternalID x y)"
  "txkeeps I (userIdentities_FindByOIDCSub x)" "txkeeps I (userIdentities_FindByUser x)"
  "txkeeps I (userIdentities_FindByUserAndSource x y)" "txkeeps I (clusters_FindByID x)"
  "txkeeps I (clusters_FindByName x)" "txkeeps I clusters_List"
  "txkeeps I (clusterUsers_FindByID x)" "txkeeps I (clusterUsers_FindByPair x y)"
  "txkeeps I (clusterUsers_FindByClusterAndLocalUsername x y)"
  "txkeeps I (clusterUsers_FindByCluster x)" "txkeeps I (clusterUsers_FindByUser x)"
  "txkeeps I (projs_FindByIDWithPI x)" "txkeeps I (projs_FindByID x)"
  "txkeeps I (projs_FindByOriginatedID x)" "txkeeps I (projs_FindByPI x)"
  "txkeeps I (projs_List plf')" "txkeeps I (projs_ListWithPIForParticipant x)"
  "txkeeps I (projs_ListWithPI plf')" "txkeeps I (projMemberships_FindByPair x y)"
  "txkeeps I (projMemberships_FindByProject x)" "txkeeps I (projMemberships_FindPIByProject x)"
  "txkeeps I (projMemberships_IsParticipant x y)" "txkeeps I (privileges_Find x y)"
  "txkeeps I (privileges_FindForUpdate x y)" "txkeeps I (privileges_ListByUser x)"
  "txkeeps I (privileges_ListByPrivilege x)" "txkeeps I (privileges_CountByPrivilege x)"
  "txkeeps I (roles_FindByID x)" "txkeeps I (roles_FindByName x)" "txkeeps I roles_List"
  "txkeeps I (roles_ListPrivileges x)" "txkeeps I (roles_HasPrivilege x y)"
  "txkeeps I (roles_CountRolesGrantingPrivilege x)" "txkeeps I (userRoles_Find x y)"
  "txkeeps I (userRoles_FindForUpdate x y)" "txkeeps I (userRoles_ListByUser x)"
  "txkeeps I (userRoles_ListByRole x)" "txkeeps I (userRoles_ListUserIDsByRole x)"
  "txkeeps I (userRoles_ListDetailedByUser x)" "txkeeps I (userRoles_PrivilegesForUser x)"
  "txkeeps I (userRoles_UsersHoldingPrivilege x)" "txkeeps I (auditEvents_FindByID x)"
  "txkeeps I (auditEvents_FindByEntity x)" "txkeeps I (auditEvents_FindByEventType x)"
  "txkeeps I auditEvents_ListAll"
  unfolding store_defs by (intro txkeeps_intros)+

end
