(* ===== verification/Store_Allocation.thy ===== *)
theory Store_Allocation
  imports Runtime
begin

text \<open>
  The stores of internal/store behind the allocation part of the service:
  allocations, resources, resource mappings, rates, diffs, change requests and
  their events, memberships, resource overrides and usage rows.  The
  conventions are those of Store_Directory.
\<close>

subsection \<open>Allocations\<close>

record allocation_list_filter =
  alf_ProjectID :: id
  alf_Status :: string
  alf_Query :: string
  alf_Limit :: int
  alf_Offset :: int

definition allocs_FindByID :: "id \<Rightarrow> compute_allocation option M" where
  [store_defs]: "allocs_FindByID x = dbq (\<lambda>d. find (\<lambda>r. alc_ID r = x) (compute_allocations d))"

definition allocs_FindByProject :: "id \<Rightarrow> compute_allocation list M" where
  [store_defs]: "allocs_FindByProject pid =
     dbq (\<lambda>d. select_where (\<lambda>r. alc_ProjectID r = pid) (compute_allocations d))"

definition allocs_FindByCluster :: "id \<Rightarrow> compute_allocation list M" where
  [store_defs]: "allocs_FindByCluster cid =
     dbq (\<lambda>d. select_where (\<lambda>r. alc_ComputeClusterID r = cid) (compute_allocations d))"

definition allocs_Create :: "compute_allocation \<Rightarrow> unit M" where
  [store_defs]: "allocs_Create a =
     txx compute_allocations_cons (\<lambda>d. d\<lparr>compute_allocations := insert_row a (compute_allocations d)\<rparr>)"

definition allocs_Update :: "compute_allocation \<Rightarrow> unit M" where
  [store_defs]: "allocs_Update a =
     txx compute_allocations_cons (\<lambda>d. d\<lparr>compute_allocations :=
       update_where (\<lambda>r. alc_ID r = alc_ID a)
         (\<lambda>r. r\<lparr>alc_ProjectID := alc_ProjectID a, alc_Name := alc_Name a, alc_Status := alc_Status a,
                alc_ComputeClusterID := alc_ComputeClusterID a,
                alc_InitialSUAmount := alc_InitialSUAmount a,
                alc_StartTime := alc_StartTime a, alc_EndTime := alc_EndTime a\<rparr>)
         (compute_allocations d)\<rparr>)"

text \<open>DELETE FROM compute_allocations cascades to resource mappings, diffs, change requests and
  memberships, and through memberships to their resource overrides.\<close>

definition allocs_Delete :: "id \<Rightarrow> unit M" where
  [store_defs]: "allocs_Delete x =
     txx no_cons (\<lambda>d. d\<lparr>
       compute_allocations := delete_where (\<lambda>r. alc_ID r = x) (compute_allocations d),
       compute_allocation_resource_mappings :=
         delete_where (\<lambda>r. rmp_ComputeAllocationID r = x) (compute_allocation_resource_mappings d),
       compute_allocation_diffs :=
         delete_where (\<lambda>r. dif_ComputeAllocationID r = x) (compute_allocation_diffs d),
       compute_allocation_change_requests :=
         delete_where (\<lambda>r. chr_ComputeAllocationID r = x) (compute_allocation_change_requests d),
       compute_allocation_memberships :=
         delete_where (\<lambda>r. mem_ComputeAllocationID r = x) (compute_allocation_memberships d),
       compute_allocation_membership_resource_overrides :=
         delete_where (\<lambda>r. ovr_ComputeAllocationMembershipID r \<in>
             mem_ID ` set (filter (\<lambda>m. mem_ComputeAllocationID m = x) (compute_allocation_memberships d)))
           (compute_allocation_membership_resource_overrides d)\<rparr>)"

definition allocs_FindByParticipant :: "id \<Rightarrow> compute_allocation list M" where
  [store_defs]: "allocs_FindByParticipant uid =
     dbq (\<lambda>d. sort_key (\<lambda>a. - alc_StartTime a) (select_where (\<lambda>a.
       list_ex (\<lambda>m. mem_ComputeAllocationID m = alc_ID a \<and> mem_UserID m = uid \<and>
                    mem_MembershipStatus m = ''ACTIVE'') (compute_allocation_memberships d) \<or>
       list_ex (\<lambda>m. pmb_ProjectID m = alc_ProjectID a \<and> pmb_UserID m = uid \<and>
                    pmb_Role m \<in> set GovernanceRoles) (project_memberships d))
       (compute_allocations d)))"

definition allocation_filter :: "allocation_list_filter \<Rightarrow> compute_allocation \<Rightarrow> bool" where
  "allocation_filter f a =
     ((alf_ProjectID f = '''' \<or> alc_ProjectID a = alf_ProjectID f) \<and>
      (alf_Status f = '''' \<or> alc_Status a = alf_Status f) \<and>
      (alf_Query f = '''' \<or> ilike (alc_Name a) (contains_pattern (alf_Query f))))"

definition allocs_List :: "allocation_list_filter \<Rightarrow> (compute_allocation list \<times> nat) M" where
  [store_defs]: "allocs_List f =
     bindM (dbq (\<lambda>d. length (select_where (allocation_filter f) (compute_allocations d)))) (\<lambda>total.
     bindM (dbq (\<lambda>d. page_rows (clampLimit (alf_Limit f)) (clampOffset (alf_Offset f))
       (sort_key (\<lambda>a. - alc_StartTime a)
         (select_where (allocation_filter f) (compute_allocations d))))) (\<lambda>rows.
     retM (rows, total)))"

subsection \<open>Resources\<close>

record resource_summary =
  rsm_Resource :: compute_allocation_resource
  rsm_AllocationCount :: nat
  rsm_TotalAllocated :: int
  rsm_TotalUsedSU :: rat
  rsm_RateCount :: nat

definition resources_FindByID :: "id \<Rightarrow> compute_allocation_resource option M" where
  [store_defs]: "resources_FindByID x = dbq (\<lambda>d. find (\<lambda>r. res_ID r = x) (compute_allocation_resources d))"

definition resources_FindByNameAndCluster :: "string \<Rightarrow> id \<Rightarrow> compute_allocation_resource option M" where
  [store_defs]: "resources_FindByNameAndCluster name cid =
     dbq (\<lambda>d. find (\<lambda>r. res_Name r = name \<and> res_ComputeClusterID r = cid) (compute_allocation_resources d))"

definition resources_FindByTypeAndCluster :: "string \<Rightarrow> id \<Rightarrow> compute_allocation_resource list M" where
  [store_defs]: "resources_FindByTypeAndCluster t cid =
     dbq (\<lambda>d. sort_key res_Name (select_where (\<lambda>r. res_ResourceType r = t \<and> res_ComputeClusterID r = cid)
       (compute_allocation_resources d)))"

definition resources_List :: "compute_allocation_resource list M" where
  [store_defs]: "resources_List = dbq (\<lambda>d. sort_key res_Name (compute_allocation_resources d))"

text \<open>The three grouped sub-selects joined to each resource; COALESCE turns a missing group into 0,
  which is what the empty count and the empty integer sum are.\<close>

definition resource_summary_of ::
    "(rat list \<Rightarrow> rat) \<Rightarrow> database \<Rightarrow> compute_allocation_resource \<Rightarrow> resource_summary" where
  "resource_summary_of fsum d r =
     (let ms = select_where (\<lambda>m. rmp_ComputeAllocationResourceID m = res_ID r)
                 (compute_allocation_resource_mappings d);
          us = select_where (\<lambda>u. usg_ComputeAllocationResourceID u = res_ID r)
                 (compute_allocation_usages d)
      in \<lparr> rsm_Resource = r,
           rsm_AllocationCount = length (remdups (map rmp_ComputeAllocationID ms)),
           rsm_TotalAllocated = sum_list (map rmp_ResourceAmount ms),
           rsm_TotalUsedSU = (if us = [] then 0 else fsum (map usg_UsedSUAmount us)),
           rsm_RateCount = length (select_where (\<lambda>q. rat_ComputeAllocationResourceID q = res_ID r)
             (compute_allocation_resource_rates d)) \<rparr>)"

definition resources_ListSummaries :: "resource_summary list M" where
  [store_defs]: "resources_ListSummaries = bindM (askM float_sum) (\<lambda>fsum.
     dbq (\<lambda>d. map (resource_summary_of fsum d) (sort_key res_Name (compute_allocation_resources d))))"

definition resources_Create :: "compute_allocation_resource \<Rightarrow> unit M" where
  [store_defs]: "resources_Create r =
     txx resources_cons (\<lambda>d. d\<lparr>compute_allocation_resources :=
       insert_row r (compute_allocation_resources d)\<rparr>)"

definition resources_Update :: "compute_allocation_resource \<Rightarrow> unit M" where
  [store_defs]: "resources_Update r' =
     txx resources_cons (\<lambda>d. d\<lparr>compute_allocation_resources :=
       update_where (\<lambda>r. res_ID r = res_ID r')
         (\<lambda>r. r\<lparr>res_Name := res_Name r', res_ResourceType := res_ResourceType r',
                res_ResourceAmount := res_ResourceAmount r',
                res_ComputeClusterID := res_ComputeClusterID r'\<rparr>)
         (compute_allocation_resources d)\<rparr>)"

definition resources_Delete :: "id \<Rightarrow> unit M" where
  [store_defs]: "resources_Delete x =
     txx no_cons (\<lambda>d. d\<lparr>
       compute_allocation_resources := delete_where (\<lambda>r. res_ID r = x) (compute_allocation_resources d),
       compute_allocation_resource_mappings :=
         delete_where (\<lambda>r. rmp_ComputeAllocationResourceID r = x) (compute_allocation_resource_mappings d),
       compute_allocation_resource_rates :=
         delete_where (\<lambda>r. rat_ComputeAllocationResourceID r = x) (compute_allocation_resource_rates d),
       compute_allocation_membership_resource_overrides :=
         delete_where (\<lambda>r. ovr_ComputeAllocationResourceID r = x)
           (compute_allocation_membership_resource_overrides d)\<rparr>)"

subsection \<open>Resource mappings\<close>

definition resourceMappings_FindByID :: "id \<Rightarrow> compute_allocation_resource_mapping option M" where
  [store_defs]: "resourceMappings_FindByID x =
     dbq (\<lambda>d. find (\<lambda>r. rmp_ID r = x) (compute_allocation_resource_mappings d))"

definition resourceMappings_FindByPair :: "id \<Rightarrow> id \<Rightarrow> compute_allocation_resource_mapping option M" where
  [store_defs]: "resourceMappings_FindByPair aid rid =
     dbq (\<lambda>d. find (\<lambda>r. rmp_ComputeAllocationID r = aid \<and> rmp_ComputeAllocationResourceID r = rid)
       (compute_allocation_resource_mappings d))"

definition resourceMappings_FindResourcesByAllocation :: "id \<Rightarrow> compute_allocation_resource list M" where
  [store_defs]: "resourceMappings_FindResourcesByAllocation aid =
     dbq (\<lambda>d. sort_key res_Name (concat (map (\<lambda>r.
        map (\<lambda>_. r) (select_where (\<lambda>m. rmp_ComputeAllocationResourceID m = res_ID r \<and>
            rmp_ComputeAllocationID m = aid) (compute_allocation_resource_mappings d)))
       (compute_allocation_resources d))))"

definition resourceMappings_FindAllocationsByResource :: "id \<Rightarrow> compute_allocation list M" where
  [store_defs]: "resourceMappings_FindAllocationsByResource rid =
     dbq (\<lambda>d. sort_key alc_Name (concat (map (\<lambda>a.
        map (\<lambda>_. a) (select_where (\<lambda>m. rmp_ComputeAllocationID m = alc_ID a \<and>
            rmp_ComputeAllocationResourceID m = rid) (compute_allocation_resource_mappings d)))
       (compute_allocations d))))"

definition resourceMappings_Create :: "compute_allocation_resource_mapping \<Rightarrow> unit M" where
  [store_defs]: "resourceMappings_Create m =
     txx mappings_cons (\<lambda>d. d\<lparr>compute_allocation_resource_mappings :=
       insert_row m (compute_allocation_resource_mappings d)\<rparr>)"

definition resourceMappings_Update :: "compute_allocation_resource_mapping \<Rightarrow> unit M" where
  [store_defs]: "resourceMappings_Update m =
     txx mappings_cons (\<lambda>d. d\<lparr>compute_allocation_resource_mappings :=
       update_where (\<lambda>r. rmp_ID r = rmp_ID m)
         (\<lambda>r. r\<lparr>rmp_ResourceAmount := rmp_ResourceAmount m, rmp_ResourceTime := rmp_ResourceTime m\<rparr>)
         (compute_allocation_resource_mappings d)\<rparr>)"

definition resourceMappings_DeleteByPair :: "id \<Rightarrow> id \<Rightarrow> unit M" where
  [store_defs]: "resourceMappings_DeleteByPair aid rid =
     txx no_cons (\<lambda>d. d\<lparr>compute_allocation_resource_mappings :=
       delete_where (\<lambda>r. rmp_ComputeAllocationID r = aid \<and> rmp_ComputeAllocationResourceID r = rid)
         (compute_allocation_resource_mappings d)\<rparr>)"

subsection \<open>Rates\<close>

definition resourceRates_FindByID :: "id \<Rightarrow> compute_allocation_resource_rate option M" where
  [store_defs]: "resourceRates_FindByID x =
     dbq (\<lambda>d. find (\<lambda>r. rat_ID r = x) (compute_allocation_resource_rates d))"

definition resourceRates_FindByResource :: "id \<Rightarrow> compute_allocation_resource_rate list M" where
  [store_defs]: "resourceRates_FindByResource rid =
     dbq (\<lambda>d. sort_key rat_StartTime (select_where (\<lambda>r. rat_ComputeAllocationResourceID r = rid)
       (compute_allocation_resource_rates d)))"

text \<open>The rates whose half-open interval contains the instant, latest start first, first row.\<close>

definition effective_rate ::
    "compute_allocation_resource_rate list \<Rightarrow> id \<Rightarrow> time \<Rightarrow> compute_allocation_resource_rate option" where
  "effective_rate rs rid instant =
     (case sort_key (\<lambda>r. - rat_StartTime r) (select_where (\<lambda>r.
        rat_ComputeAllocationResourceID r = rid \<and> rat_StartTime r \<le> instant \<and> instant < rat_EndTime r) rs) of
        [] \<Rightarrow> None | r # _ \<Rightarrow> Some r)"

definition resourceRates_FindEffective :: "id \<Rightarrow> time \<Rightarrow> compute_allocation_resource_rate option M" where
  [store_defs]: "resourceRates_FindEffective rid instant =
     dbq (\<lambda>d. effective_rate (compute_allocation_resource_rates d) rid instant)"

definition resourceRates_Create :: "compute_allocation_resource_rate \<Rightarrow> unit M" where
  [store_defs]: "resourceRates_Create r =
     txx rates_cons (\<lambda>d. d\<lparr>compute_allocation_resource_rates :=
       insert_row r (compute_allocation_resource_rates d)\<rparr>)"

definition resourceRates_Update :: "compute_allocation_resource_rate \<Rightarrow> unit M" where
  [store_defs]: "resourceRates_Update r' =
     txx rates_cons (\<lambda>d. d\<lparr>compute_allocation_resource_rates :=
       update_where (\<lambda>r. rat_ID r = rat_ID r')
         (\<lambda>r. r\<lparr>rat_Rate := rat_Rate r', rat_StartTime := rat_StartTime r', rat_EndTime := rat_EndTime r'\<rparr>)
         (compute_allocation_resource_rates d)\<rparr>)"

definition resourceRates_Delete :: "id \<Rightarrow> unit M" where
  [store_defs]: "resourceRates_Delete x =
     txx no_cons (\<lambda>d. d\<lparr>compute_allocation_resource_rates :=
       delete_where (\<lambda>r. rat_ID r = x) (compute_allocation_resource_rates d)\<rparr>)"

subsection \<open>Diffs\<close>

definition allocDiffs_FindByID :: "id \<Rightarrow> compute_allocation_diff option M" where
  [store_defs]: "allocDiffs_FindByID x = dbq (\<lambda>d. find (\<lambda>r. dif_ID r = x) (compute_allocation_diffs d))"

definition allocDiffs_FindByAllocation :: "id \<Rightarrow> compute_allocation_diff list M" where
  [store_defs]: "allocDiffs_FindByAllocation aid =
     dbq (\<lambda>d. sort_key dif_Timestamp (select_where (\<lambda>r. dif_ComputeAllocationID r = aid)
       (compute_allocation_diffs d)))"

definition allocDiffs_FindLatestByAllocation :: "id \<Rightarrow> compute_allocation_diff option M" where
  [store_defs]: "allocDiffs_FindLatestByAllocation aid =
     dbq (\<lambda>d. case sort_key (\<lambda>r. - dif_Timestamp r) (select_where (\<lambda>r. dif_ComputeAllocationID r = aid)
       (compute_allocation_diffs d)) of [] \<Rightarrow> None | r # _ \<Rightarrow> Some r)"

definition allocDiffs_Create :: "compute_allocation_diff \<Rightarrow> unit M" where
  [store_defs]: "allocDiffs_Create r =
     txx diffs_cons (\<lambda>d. d\<lparr>compute_allocation_diffs := insert_row r (compute_allocation_diffs d)\<rparr>)"

definition allocDiffs_Delete :: "id \<Rightarrow> unit M" where
  [store_defs]: "allocDiffs_Delete x =
     txx no_cons (\<lambda>d. d\<lparr>compute_allocation_diffs :=
       delete_where (\<lambda>r. dif_ID r = x) (compute_allocation_diffs d)\<rparr>)"

subsection \<open>Change requests and their events\<close>

record change_request_list_filter =
  clf_Status :: string
  clf_Limit :: int

definition changeRequests_FindByID :: "id \<Rightarrow> compute_allocation_change_request option M" where
  [store_defs]: "changeRequests_FindByID x =
     dbq (\<lambda>d. find (\<lambda>r. chr_ID r = x) (compute_allocation_change_requests d))"

definition changeRequests_FindByAllocation :: "id \<Rightarrow> compute_allocation_change_request list M" where
  [store_defs]: "changeRequests_FindByAllocation aid =
     dbq (\<lambda>d. sort_key chr_Timestamp (select_where (\<lambda>r. chr_ComputeAllocationID r = aid)
       (compute_allocation_change_requests d)))"

definition changeRequests_FindByRequester :: "id \<Rightarrow> compute_allocation_change_request list M" where
  [store_defs]: "changeRequests_FindByRequester uid =
     dbq (\<lambda>d. sort_key chr_Timestamp (select_where (\<lambda>r. chr_RequesterID r = uid)
       (compute_allocation_change_requests d)))"

definition changeRequests_Create :: "compute_allocation_change_request \<Rightarrow> unit M" where
  [store_defs]: "changeRequests_Create r =
     txx change_requests_cons (\<lambda>d. d\<lparr>compute_allocation_change_requests :=
       insert_row r (compute_allocation_change_requests d)\<rparr>)"

definition changeRequests_Update :: "compute_allocation_change_request \<Rightarrow> unit M" where
  [store_defs]: "changeRequests_Update c =
     txx change_requests_cons (\<lambda>d. d\<lparr>compute_allocation_change_requests :=
       update_where (\<lambda>r. chr_ID r = chr_ID c)
         (\<lambda>r. r\<lparr>chr_ComputeAllocationID := chr_ComputeAllocationID c,
                chr_RequestedSUAmount := chr_RequestedSUAmount c,
                chr_RequestedStatus := chr_RequestedStatus c, chr_Reason := chr_Reason c,
                chr_ChangeStatus := chr_ChangeStatus c, chr_RequesterID := chr_RequesterID c,
                chr_ApproverID := chr_ApproverID c, chr_Timestamp := chr_Timestamp c\<rparr>)
         (compute_allocation_change_requests d)\<rparr>)"

definition changeRequests_Delete :: "id \<Rightarrow> unit M" where
  [store_defs]: "changeRequests_Delete x =
     txx no_cons (\<lambda>d. d\<lparr>compute_allocation_change_requests :=
       delete_where (\<lambda>r. chr_ID r = x) (compute_allocation_change_requests d)\<rparr>)"

definition changeRequests_List :: "change_request_list_filter \<Rightarrow> compute_allocation_change_request list M" where
  [store_defs]: "changeRequests_List f =
     (if clf_Status f \<noteq> ''''
      then dbq (\<lambda>d. take (nat (clampLimit (clf_Limit f))) (sort_key (\<lambda>r. - chr_Timestamp r)
             (select_where (\<lambda>r. chr_ChangeStatus r = clf_Status f) (compute_allocation_change_requests d))))
      else dbq (\<lambda>d. take (nat (clampLimit (clf_Limit f))) (sort_key (\<lambda>r. - chr_Timestamp r)
             (compute_allocation_change_requests d))))"

definition changeEvents_FindByID :: "id \<Rightarrow> compute_allocation_change_request_event option M" where
  [store_defs]: "changeEvents_FindByID x =
     dbq (\<lambda>d. find (\<lambda>r. cre_ID r = x) (compute_allocation_change_request_events d))"

definition changeEvents_FindByChangeRequest :: "id \<Rightarrow> compute_allocation_change_request_event list M" where
  [store_defs]: "changeEvents_FindByChangeRequest cid =
     dbq (\<lambda>d. sort_key cre_Timestamp (select_where (\<lambda>r. cre_ComputeAllocationChangeRequestID r = cid)
       (compute_allocation_change_request_events d)))"

definition changeEvents_FindLatestByChangeRequest ::
    "id \<Rightarrow> compute_allocation_change_request_event option M" where
  [store_defs]: "changeEvents_FindLatestByChangeRequest cid =
     dbq (\<lambda>d. case sort_key (\<lambda>r. - cre_Timestamp r)
         (select_where (\<lambda>r. cre_ComputeAllocationChangeRequestID r = cid)
           (compute_allocation_change_request_events d)) of [] \<Rightarrow> None | r # _ \<Rightarrow> Some r)"

definition changeEvents_Create :: "compute_allocation_change_request_event \<Rightarrow> unit M" where
  [store_defs]: "changeEvents_Create r =
     txx change_events_cons (\<lambda>d. d\<lparr>compute_allocation_change_request_events :=
       insert_row r (compute_allocation_change_request_events d)\<rparr>)"

definition changeEvents_Delete :: "id \<Rightarrow> unit M" where
  [store_defs]: "changeEvents_Delete x =
     txx no_cons (\<lambda>d. d\<lparr>compute_allocation_change_request_events :=
       delete_where (\<lambda>r. cre_ID r = x) (compute_allocation_change_request_events d)\<rparr>)"

subsection \<open>Memberships\<close>

record membership_with_user =
  mwu_Membership :: compute_allocation_membership
  mwu_Role :: string
  mwu_DisplayName :: string
  mwu_Email :: string
  mwu_AllocationName :: string

definition memberships_FindByID :: "id \<Rightarrow> compute_allocation_membership option M" where
  [store_defs]: "memberships_FindByID x =
     dbq (\<lambda>d. find (\<lambda>r. mem_ID r = x) (compute_allocation_memberships d))"

definition memberships_FindByPair :: "id \<Rightarrow> id \<Rightarrow> compute_allocation_membership option M" where
  [store_defs]: "memberships_FindByPair aid uid =
     dbq (\<lambda>d. find (\<lambda>r. mem_ComputeAllocationID r = aid \<and> mem_UserID r = uid)
       (compute_allocation_memberships d))"

definition memberships_FindByAllocation :: "id \<Rightarrow> compute_allocation_membership list M" where
  [store_defs]: "memberships_FindByAllocation aid =
     dbq (\<lambda>d. sort_key mem_StartTime (select_where (\<lambda>r. mem_ComputeAllocationID r = aid)
       (compute_allocation_memberships d)))"

definition memberships_FindByUser :: "id \<Rightarrow> compute_allocation_membership list M" where
  [store_defs]: "memberships_FindByUser uid =
     dbq (\<lambda>d. sort_key mem_StartTime (select_where (\<lambda>r. mem_UserID r = uid)
       (compute_allocation_memberships d)))"

definition memberships_Create :: "compute_allocation_membership \<Rightarrow> unit M" where
  [store_defs]: "memberships_Create m =
     txx memberships_cons (\<lambda>d. d\<lparr>compute_allocation_memberships :=
       insert_row m (compute_allocation_memberships d)\<rparr>)"

definition memberships_Update :: "compute_allocation_membership \<Rightarrow> unit M" where
  [store_defs]: "memberships_Update m =
     txx memberships_cons (\<lambda>d. d\<lparr>compute_allocation_memberships :=
       update_where (\<lambda>r. mem_ID r = mem_ID m)
         (\<lambda>r. r\<lparr>mem_ComputeAllocationID := mem_ComputeAllocationID m, mem_UserID := mem_UserID m,
                mem_StartTime := mem_StartTime m, mem_EndTime := mem_EndTime m,
                mem_MembershipStatus := mem_MembershipStatus m\<rparr>)
         (compute_allocation_memberships d)\<rparr>)"

definition memberships_delete_rows ::
    "(compute_allocation_membership \<Rightarrow> bool) \<Rightarrow> database \<Rightarrow> database" where
  "memberships_delete_rows P d = d\<lparr>
       compute_allocation_memberships := delete_where P (compute_allocation_memberships d),
       compute_allocation_membership_resource_overrides :=
         delete_where (\<lambda>r. ovr_ComputeAllocationMembershipID r \<in>
             mem_ID ` set (filter P (compute_allocation_memberships d)))
           (compute_allocation_membership_resource_overrides d)\<rparr>"

definition memberships_ReassignUser :: "id \<Rightarrow> id \<Rightarrow> unit M" where
  [store_defs]: "memberships_ReassignUser fromID toID =
     bindM (txx no_cons (\<lambda>d. memberships_delete_rows (\<lambda>r. mem_UserID r = fromID \<and>
         mem_ComputeAllocationID r \<in> set (map mem_ComputeAllocationID
           (select_where (\<lambda>q. mem_UserID q = toID) (compute_allocation_memberships d)))) d)) (\<lambda>_.
     txx memberships_cons (\<lambda>d. d\<lparr>compute_allocation_memberships :=
       update_where (\<lambda>r. mem_UserID r = fromID) (\<lambda>r. r\<lparr>mem_UserID := toID\<rparr>)
         (compute_allocation_memberships d)\<rparr>))"

definition memberships_Delete :: "id \<Rightarrow> unit M" where
  [store_defs]: "memberships_Delete x = txx no_cons (memberships_delete_rows (\<lambda>r. mem_ID r = x))"

definition displayName :: "string \<Rightarrow> string \<Rightarrow> string \<Rightarrow> string" where
  "displayName firstN lastN email =
     (let full = (if firstN \<noteq> '''' \<or> lastN \<noteq> ''''
                  then firstN @ (if firstN \<noteq> '''' \<and> lastN \<noteq> '''' then '' '' else '''') @ lastN
                  else '''')
      in if full = '''' then email else full)"

text \<open>The joined row of a membership: its user, its allocation and the project-level role, MEMBER
  when the user has none.  The inner joins drop a membership whose user or allocation is gone.\<close>

definition membership_row ::
    "bool \<Rightarrow> database \<Rightarrow> compute_allocation_membership \<Rightarrow> membership_with_user list" where
  "membership_row withName d m =
     (case (find (\<lambda>a. alc_ID a = mem_ComputeAllocationID m) (compute_allocations d),
            find (\<lambda>u. usr_ID u = mem_UserID m) (users d)) of
        (Some a, Some u) \<Rightarrow>
          [\<lparr> mwu_Membership = m,
             mwu_Role = (case find (\<lambda>p. pmb_ProjectID p = alc_ProjectID a \<and> pmb_UserID p = mem_UserID m)
                           (project_memberships d) of None \<Rightarrow> ''MEMBER'' | Some p \<Rightarrow> pmb_Role p),
             mwu_DisplayName = displayName (usr_FirstName u) (usr_LastName u) (usr_Email u),
             mwu_Email = usr_Email u,
             mwu_AllocationName = (if withName then alc_Name a else '''') \<rparr>]
      | _ \<Rightarrow> [])"

definition memberships_FindByAllocationWithUser :: "id \<Rightarrow> membership_with_user list M" where
  [store_defs]: "memberships_FindByAllocationWithUser aid =
     dbq (\<lambda>d. concat (map (membership_row False d) (sort_key mem_StartTime
       (select_where (\<lambda>m. mem_ComputeAllocationID m = aid) (compute_allocation_memberships d)))))"

definition memberships_FindByProjectWithUser :: "id \<Rightarrow> membership_with_user list M" where
  [store_defs]: "memberships_FindByProjectWithUser pid =
     dbq (\<lambda>d. sort_key (\<lambda>w. (citext (mwu_Email w), mwu_AllocationName w))
       (concat (map (membership_row True d)
         (select_where (\<lambda>m. list_ex (\<lambda>a. alc_ID a = mem_ComputeAllocationID m \<and> alc_ProjectID a = pid)
             (compute_allocations d)) (compute_allocation_memberships d)))))"

subsection \<open>Membership resource overrides\<close>

definition membershipOverrides_FindByID ::
    "id \<Rightarrow> compute_allocation_membership_resource_override option M" where
  [store_defs]: "membershipOverrides_FindByID x =
     dbq (\<lambda>d. find (\<lambda>r. ovr_ID r = x) (compute_allocation_membership_resource_overrides d))"

definition membershipOverrides_FindByPair ::
    "id \<Rightarrow> id \<Rightarrow> compute_allocation_membership_resource_override option M" where
  [store_defs]: "membershipOverrides_FindByPair mid rid =
     dbq (\<lambda>d. find (\<lambda>r. ovr_ComputeAllocationMembershipID r = mid \<and> ovr_ComputeAllocationResourceID r = rid)
       (compute_allocation_membership_resource_overrides d))"

definition membershipOverrides_FindByMembership ::
    "id \<Rightarrow> compute_allocation_membership_resource_override list M" where
  [store_defs]: "membershipOverrides_FindByMembership mid =
     dbq (\<lambda>d. sort_key ovr_ComputeAllocationResourceID
       (select_where (\<lambda>r. ovr_ComputeAllocationMembershipID r = mid)
         (compute_allocation_membership_resource_overrides d)))"

definition membershipOverrides_FindByResource ::
    "id \<Rightarrow> compute_allocation_membership_resource_override list M" where
  [store_defs]: "membershipOverrides_FindByResource rid =
     dbq (\<lambda>d. sort_key ovr_ComputeAllocationMembershipID
       (select_where (\<lambda>r. ovr_ComputeAllocationResourceID r = rid)
         (compute_allocation_membership_resource_overrides d)))"

definition membershipOverrides_Create :: "compute_allocation_membership_resource_override \<Rightarrow> unit M" where
  [store_defs]: "membershipOverrides_Create r =
     txx overrides_cons (\<lambda>d. d\<lparr>compute_allocation_membership_resource_overrides :=
       insert_row r (compute_allocation_membership_resource_overrides d)\<rparr>)"

definition membershipOverrides_Update :: "compute_allocation_membership_resource_override \<Rightarrow> unit M" where
  [store_defs]: "membershipOverrides_Update v =
     txx overrides_cons (\<lambda>d. d\<lparr>compute_allocation_membership_resource_overrides :=
       update_where (\<lambda>r. ovr_ID r = ovr_ID v)
         (\<lambda>r. r\<lparr>ovr_ComputeAllocationMembershipID := ovr_ComputeAllocationMembershipID v,
                ovr_ComputeAllocationResourceID := ovr_ComputeAllocationResourceID v,
                ovr_OverrideResourceAmount := ovr_OverrideResourceAmount v,
                ovr_OverrideResourceTime := ovr_OverrideResourceTime v\<rparr>)
         (compute_allocation_membership_resource_overrides d)\<rparr>)"

definition membershipOverrides_Delete :: "id \<Rightarrow> unit M" where
  [store_defs]: "membershipOverrides_Delete x =
     txx no_cons (\<lambda>d. d\<lparr>compute_allocation_membership_resource_overrides :=
       delete_where (\<lambda>r. ovr_ID r = x) (compute_allocation_membership_resource_overrides d)\<rparr>)"

subsection \<open>Usage\<close>

definition usages_FindByID :: "id \<Rightarrow> compute_allocation_usage option M" where
  [store_defs]: "usages_FindByID x = dbq (\<lambda>d. find (\<lambda>r. usg_ID r = x) (compute_allocation_usages d))"

definition usages_FindByAllocation :: "id \<Rightarrow> compute_allocation_usage list M" where
  [store_defs]: "usages_FindByAllocation aid =
     dbq (\<lambda>d. sort_key usg_CalculatedTime (select_where (\<lambda>r. usg_ComputeAllocationID r = aid)
       (compute_allocation_usages d)))"

definition usages_FindByUser :: "id \<Rightarrow> compute_allocation_usage list M" where
  [store_defs]: "usages_FindByUser uid =
     dbq (\<lambda>d. sort_key usg_CalculatedTime (select_where (\<lambda>r. usg_UserID r = uid)
       (compute_allocation_usages d)))"

definition usages_FindByComputeAllocationIDAndJobID ::
    "id \<Rightarrow> string \<Rightarrow> compute_allocation_usage option M" where
  [store_defs]: "usages_FindByComputeAllocationIDAndJobID aid jid =
     dbq (\<lambda>d. find (\<lambda>r. usg_ComputeAllocationID r = aid \<and> usg_JobID r = jid) (compute_allocation_usages d))"

text \<open>ROUND of a DOUBLE PRECISION rounds a tie to the even neighbour.\<close>

definition round_half_even :: "rat \<Rightarrow> int" where
  "round_half_even x =
     (let f = \<lfloor>x\<rfloor>; r = x - of_int f in
      if r < 1/2 then f else if r > 1/2 then f + 1 else if even f then f else f + 1)"

definition su_total :: "(rat list \<Rightarrow> rat) \<Rightarrow> compute_allocation_usage list \<Rightarrow> int" where
  "su_total fsum us = round_half_even (if us = [] then 0 else fsum (map usg_UsedSUAmount us))"

definition usages_SumSUForAllocation :: "id \<Rightarrow> int M" where
  [store_defs]: "usages_SumSUForAllocation aid = bindM (askM float_sum) (\<lambda>fsum.
     dbq (\<lambda>d. su_total fsum (select_where (\<lambda>r. usg_ComputeAllocationID r = aid)
       (compute_allocation_usages d))))"

definition usages_SumSUForUserInAllocation :: "id \<Rightarrow> id \<Rightarrow> int M" where
  [store_defs]: "usages_SumSUForUserInAllocation aid uid = bindM (askM float_sum) (\<lambda>fsum.
     dbq (\<lambda>d. su_total fsum (select_where (\<lambda>r. usg_ComputeAllocationID r = aid \<and> usg_UserID r = uid)
       (compute_allocation_usages d))))"

definition usages_Create :: "compute_allocation_usage \<Rightarrow> unit M" where
  [store_defs]: "usages_Create r =
     txx usages_cons (\<lambda>d. d\<lparr>compute_allocation_usages := insert_row r (compute_allocation_usages d)\<rparr>)"

definition usages_Delete :: "id \<Rightarrow> unit M" where
  [store_defs]: "usages_Delete x =
     txx no_cons (\<lambda>d. d\<lparr>compute_allocation_usages :=
       delete_where (\<lambda>r. usg_ID r = x) (compute_allocation_usages d)\<rparr>)"

subsection \<open>Which statements write\<close>

text \<open>No store function touches the committed database; the queries leave the working copy alone
  as well.\<close>

lemma allocation_store_readonly [readonly_intros]:
  "readonly (allocs_FindByID x)" "readonly (allocs_FindByProject x)"
  "readonly (allocs_FindByCluster x)" "readonly (allocs_Create ca')"
  "readonly (allocs_Update ca')" "readonly (allocs_Delete x)"
  "readonly (allocs_FindByParticipant x)" "readonly (allocs_List alf')"
  "readonly (resources_FindByID x)" "readonly (resources_FindByNameAndCluster x y)"
  "readonly (resources_FindByTypeAndCluster x y)" "readonly resources_List"
  "readonly resources_ListSummaries" "readonly (resources_Create car')"
  "readonly (resources_Update car')" "readonly (resources_Delete x)"
  "readonly (resourceMappings_FindByID x)" "readonly (resourceMappings_FindByPair x y)"
  "readonly (resourceMappings_FindResourcesByAllocation x)"
  "readonly (resourceMappings_FindAllocationsByResource x)"
  "readonly (resourceMappings_Create carm')" "readonly (resourceMappings_Update carm')"
  "readonly (resourceMappings_DeleteByPair x y)" "readonly (resourceRates_FindByID x)"
  "readonly (resourceRates_FindByResource x)" "readonly (resourceRates_FindEffective x t')"
  "readonly (resourceRates_Create carr')" "readonly (resourceRates_Update carr')"
  "readonly (resourceRates_Delete x)" "readonly (allocDiffs_FindByID x)"
  "readonly (allocDiffs_FindByAllocation x)" "readonly (allocDiffs_FindLatestByAllocation x)"
  "readonly (allocDiffs_Create cad')" "readonly (allocDiffs_Delete x)"
  "readonly (changeRequests_FindByID x)" "readonly (changeRequests_FindByAllocation x)"
  "readonly (changeRequests_FindByRequester x)" "readonly (changeRequests_Create cacr')"
  "readonly (changeRequests_Update cacr')" "readonly (changeRequests_Delete x)"
  "readonly (changeRequests_List crlf')" "readonly (changeEvents_FindByID x)"
  "readonly (changeEvents_FindByChangeRequest x)"
  "readonly (changeEvents_FindLatestByChangeRequest x)" "readonly (changeEvents_Create cacre')"
  "readonly (changeEvents_Delete x)" "readonly (memberships_FindByID x)"
  "readonly (memberships_FindByPair x y)" "readonly (memberships_FindByAllocation x)"
  "readonly (memberships_FindByUser x)" "readonly (memberships_Create cam')"
  "readonly (memberships_Update cam')" "readonly (memberships_ReassignUser x y)"
  "readonly (memberships_Delete x)" "readonly (memberships_FindByAllocationWithUser x)"
  "readonly (memberships_FindByProjectWithUser x)" "readonly (membershipOverrides_FindByID x)"
  "readonly (membershipOverrides_FindByPair x y)"
  "readonly (membershipOverrides_FindByMembership x)"
  "readonly (membershipOverrides_FindByResource x)" "readonly (membershipOverrides_Create camro')"
  "readonly (membershipOverrides_Update camro')" "readonly (membershipOverrides_Delete x)"
  "readonly (usages_FindByID x)" "readonly (usages_FindByAllocation x)"
  "readonly (usages_FindByUser x)" "readonly (usages_FindByComputeAllocationIDAndJobID x y)"
  "readonly (usages_SumSUForAllocation x)" "readonly (usages_SumSUForUserInAllocation x y)"
  "readonly (usages_Create cau')" "readonly (usages_Delete x)"
  unfolding store_defs by (intro readonly_intros)+

lemmas allocation_store_keeps [keeps_intros] = allocation_store_readonly [THEN keeps_readonly]

lemma allocation_query_txkeeps [txkeeps_intros]:
  "txkeeps I (allocs_FindByID x)" "txkeeps I (allocs_FindByProject x)"
  "txkeeps I (allocs_FindByCluster x)" "txkeeps I (allocs_FindByParticipant x)"
  "txkeeps I (allocs_List alf')" "txkeeps I (resources_FindByID x)"
  "txkeeps I (resources_FindByNameAndCluster x y)"
  "txkeeps I (resources_FindByTypeAndCluster x y)" "txkeeps I resources_List"
  "txkeeps I resources_ListSummaries" "txkeeps I (resourceMappings_FindByID x)"
  "txkeeps I (resourceMappings_FindByPair x y)"
  "txkeeps I (resourceMappings_FindResourcesByAllocation x)"
  "txkeeps I (resourceMappings_FindAllocationsByResource x)"
  "txkeeps I (resourceRates_FindByID x)" "txkeeps I (resourceRates_FindByResource x)"
  "txkeeps I (resourceRates_FindEffective x t')" "txkeeps I (allocDiffs_FindByID x)"
  "txkeeps I (allocDiffs_FindByAllocation x)" "txkeeps I (allocDiffs_FindLatestByAllocation x)"
  "txkeeps I (changeRequests_FindByID x)" "txkeeps I (changeRequests_FindByAllocation x)"
  "txkeeps I (changeRequests_FindByRequester x)" "txkeeps I (changeRequests_List crlf')"
  "txkeeps I (changeEvents_FindByID x)" "txkeeps I (changeEvents_FindByChangeRequest x)"
  "txkeeps I (changeEvents_FindLatestByChangeRequest x)" "txkeeps I (memberships_FindByID x)"
  "txkeeps I (memberships_FindByPair x y)" "txkeeps I (memberships_FindByAllocation x)"
  "txkeeps I (memberships_FindByUser x)" "txkeeps I (memberships_FindByAllocationWithUser x)"
  "txkeeps I (memberships_FindByProjectWithUser x)" "txkeeps I (membershipOverrides_FindByID x)"
  "txkeeps I (membershipOverrides_FindByPair x y)"
  "txkeeps I (membershipOverrides_FindByMembership x)"
  "txkeeps I (membershipOverrides_FindByResource x)" "txkeeps I (usages_FindByID x)"
  "txkeeps I (usages_FindByAllocation x)" "txkeeps I (usages_FindByUser x)"
  "txkeeps I (usages_FindByComputeAllocationIDAndJobID x y)"
  "txkeeps I (usages_SumSUForAllocation x)" "txkeeps I (usages_SumSUForUserInAllocation x y)"
  unfolding store_defs by (intro txkeeps_intros)+

end
