(* ===== verification/Store_Contract.thy ===== *)
theory Store_Contract
  imports Store_Directory Store_Allocation
begin

text \<open>
  What the services ask of the stores when they are to keep a property I of the
  database: every statement that a store issues keeps I.  The services'
  lemmas are proved once, inside these locales, and hold for every property
  whose provider discharges the laws: the schema (Schema_Invariant), one PI per
  project (PI_Invariant), known privilege keys only (Grant_Invariant).

  The statements that add or change a project role, and those that attach a
  privilege key, are laws of the two extensions: they keep the schema, but the
  other two properties hold only because the services check before they issue
  them.
\<close>

locale store_contract =
  fixes I :: "database \<Rightarrow> bool"
  assumes orgs_Create_keeps [txkeeps_intros]: "\<And>r. txkeeps I (orgs_Create r)"
    and orgs_Update_keeps [txkeeps_intros]: "\<And>r. txkeeps I (orgs_Update r)"
    and orgs_Delete_keeps [txkeeps_intros]: "\<And>x. txkeeps I (orgs_Delete x)"
    and users_Create_keeps [txkeeps_intros]: "\<And>r. txkeeps I (users_Create r)"
    and users_Update_keeps [txkeeps_intros]: "\<And>r. txkeeps I (users_Update r)"
    and users_UpdateStatus_keeps [txkeeps_intros]: "\<And>x st. txkeeps I (users_UpdateStatus x st)"
    and users_Delete_keeps [txkeeps_intros]: "\<And>x. txkeeps I (users_Delete x)"
    and userIdentities_Create_keeps [txkeeps_intros]: "\<And>i. txkeeps I (userIdentities_Create i)"
    and userIdentities_Update_keeps [txkeeps_intros]: "\<And>i. txkeeps I (userIdentities_Update i)"
    and userIdentities_ReassignUser_keeps [txkeeps_intros]: "\<And>a b. txkeeps I (userIdentities_ReassignUser a b)"
    and userIdentities_Delete_keeps [txkeeps_intros]: "\<And>x. txkeeps I (userIdentities_Delete x)"
    and clusters_Create_keeps [txkeeps_intros]: "\<And>c. txkeeps I (clusters_Create c)"
    and clusters_Update_keeps [txkeeps_intros]: "\<And>c. txkeeps I (clusters_Update c)"
    and clusters_Delete_keeps [txkeeps_intros]: "\<And>x. txkeeps I (clusters_Delete x)"
    and clusterUsers_Create_keeps [txkeeps_intros]: "\<And>u. txkeeps I (clusterUsers_Create u)"
    and clusterUsers_Update_keeps [txkeeps_intros]: "\<And>u. txkeeps I (clusterUsers_Update u)"
    and clusterUsers_MarkProvisioned_keeps [txkeeps_intros]: "\<And>x. txkeeps I (clusterUsers_MarkProvisioned x)"
    and clusterUsers_ReassignUser_keeps [txkeeps_intros]: "\<And>a b. txkeeps I (clusterUsers_ReassignUser a b)"
    and clusterUsers_Delete_keeps [txkeeps_intros]: "\<And>x. txkeeps I (clusterUsers_Delete x)"
    and projs_Create_keeps [txkeeps_intros]: "\<And>p. txkeeps I (projs_Create p)"
    and projs_Update_keeps [txkeeps_intros]: "\<And>p. txkeeps I (projs_Update p)"
    and projs_UpdateStatus_keeps [txkeeps_intros]: "\<And>x st. txkeeps I (projs_UpdateStatus x st)"
    and projs_ReassignPI_keeps [txkeeps_intros]: "\<And>a b. txkeeps I (projs_ReassignPI a b)"
    and projs_Delete_keeps [txkeeps_intros]: "\<And>x. txkeeps I (projs_Delete x)"
    and projMemberships_Delete_keeps [txkeeps_intros]: "\<And>a b. txkeeps I (projMemberships_Delete a b)"
    and projMemberships_ReassignUser_keeps [txkeeps_intros]: "\<And>a b. txkeeps I (projMemberships_ReassignUser a b)"
    and privileges_Delete_keeps [txkeeps_intros]: "\<And>a k. txkeeps I (privileges_Delete a k)"
    and roles_Create_keeps [txkeeps_intros]: "\<And>r. txkeeps I (roles_Create r)"
    and roles_Update_keeps [txkeeps_intros]: "\<And>r. txkeeps I (roles_Update r)"
    and roles_Delete_keeps [txkeeps_intros]: "\<And>x. txkeeps I (roles_Delete x)"
    and roles_RemovePrivilege_keeps [txkeeps_intros]: "\<And>x k. txkeeps I (roles_RemovePrivilege x k)"
    and userRoles_Create_keeps [txkeeps_intros]: "\<And>r. txkeeps I (userRoles_Create r)"
    and userRoles_Delete_keeps [txkeeps_intros]: "\<And>a b. txkeeps I (userRoles_Delete a b)"
    and auditEvents_Create_keeps [txkeeps_intros]: "\<And>r. txkeeps I (auditEvents_Create r)"
    and auditEvents_Delete_keeps [txkeeps_intros]: "\<And>x. txkeeps I (auditEvents_Delete x)"
    and allocs_Create_keeps [txkeeps_intros]: "\<And>a. txkeeps I (allocs_Create a)"
    and allocs_Update_keeps [txkeeps_intros]: "\<And>a. txkeeps I (allocs_Update a)"
    and allocs_Delete_keeps [txkeeps_intros]: "\<And>x. txkeeps I (allocs_Delete x)"
    and resources_Create_keeps [txkeeps_intros]: "\<And>r. txkeeps I (resources_Create r)"
    and resources_Update_keeps [txkeeps_intros]: "\<And>r. txkeeps I (resources_Update r)"
    and resources_Delete_keeps [txkeeps_intros]: "\<And>x. txkeeps I (resources_Delete x)"
    and resourceMappings_Create_keeps [txkeeps_intros]: "\<And>m. txkeeps I (resourceMappings_Create m)"
    and resourceMappings_Update_keeps [txkeeps_intros]: "\<And>m. txkeeps I (resourceMappings_Update m)"
    and resourceMappings_DeleteByPair_keeps [txkeeps_intros]: "\<And>a b. txkeeps I (resourceMappings_DeleteByPair a b)"
    and resourceRates_Create_keeps [txkeeps_intros]: "\<And>r. txkeeps I (resourceRates_Create r)"
    and resourceRates_Update_keeps [txkeeps_intros]: "\<And>r. txkeeps I (resourceRates_Update r)"
    and resourceRates_Delete_keeps [txkeeps_intros]: "\<And>x. txkeeps I (resourceRates_Delete x)"
    and allocDiffs_Create_keeps [txkeeps_intros]: "\<And>f. txkeeps I (allocDiffs_Create f)"
    and allocDiffs_Delete_keeps [txkeeps_intros]: "\<And>x. txkeeps I (allocDiffs_Delete x)"
    and changeRequests_Create_keeps [txkeeps_intros]: "\<And>c. txkeeps I (changeRequests_Create c)"
    and changeRequests_Update_keeps [txkeeps_intros]: "\<And>c. txkeeps I (changeRequests_Update c)"
    and changeRequests_Delete_keeps [txkeeps_intros]: "\<And>x. txkeeps I (changeRequests_Delete x)"
    and changeEvents_Create_keeps [txkeeps_intros]: "\<And>v. txkeeps I (changeEvents_Create v)"
    and changeEvents_Delete_keeps [txkeeps_intros]: "\<And>x. txkeeps I (changeEvents_Delete x)"
    and memberships_Create_keeps [txkeeps_intros]: "\<And>m. txkeeps I (memberships_Create m)"
    and memberships_Update_keeps [txkeeps_intros]: "\<And>m. txkeeps I (memberships_Update m)"
    and memberships_ReassignUser_keeps [txkeeps_intros]: "\<And>a b. txkeeps I (memberships_ReassignUser a b)"
    and memberships_Delete_keeps [txkeeps_intros]: "\<And>x. txkeeps I (memberships_Delete x)"
    and membershipOverrides_Create_keeps [txkeeps_intros]: "\<And>v. txkeeps I (membershipOverrides_Create v)"
    and membershipOverrides_Update_keeps [txkeeps_intros]: "\<And>v. txkeeps I (membershipOverrides_Update v)"
    and membershipOverrides_Delete_keeps [txkeeps_intros]: "\<And>x. txkeeps I (membershipOverrides_Delete x)"
    and usages_Create_keeps [txkeeps_intros]: "\<And>u. txkeeps I (usages_Create u)"
    and usages_Delete_keeps [txkeeps_intros]: "\<And>x. txkeeps I (usages_Delete x)"

locale membership_contract = store_contract +
  assumes projMemberships_Create_keeps [txkeeps_intros]: "\<And>m. txkeeps I (projMemberships_Create m)"
    and projMemberships_UpdateRole_keeps [txkeeps_intros]: "\<And>a b r. txkeeps I (projMemberships_UpdateRole a b r)"

locale grant_contract = store_contract +
  assumes privileges_Create_keeps [txkeeps_intros]: "\<And>p. txkeeps I (privileges_Create p)"
    and roles_AddPrivilege_keeps [txkeeps_intros]: "\<And>x k. txkeeps I (roles_AddPrivilege x k)"

locale full_contract = membership_contract + grant_contract

end
