(* ===== verification/Schema_Invariant.thy ===== *)
theory Schema_Invariant
  imports Store_Contract
begin

text \<open>
  Every statement the stores issue keeps the schema: whatever it is given, the
  working copy satisfies all constraints of Database afterwards if it did
  before.  Inserts and updates are checked by the database on their own table;
  what is proved is that the rows of every other table keep their references,
  that deletes cascade, set NULL or are refused wherever the migrations say
  so, and that the two-statement reassignments go through a state that is
  still well formed.
\<close>

lemmas schema_simps = schema_ok_def schema_cons_def schema_defs no_cons_def

lemma txx_keeps_schema:
  assumes "\<And>d. schema_ok d \<Longrightarrow> list_all snd (cons (upd d)) \<Longrightarrow> schema_ok (upd d)"
  shows "txkeeps schema_ok (txx cons upd)"
  using assms by (rule txkeeps_txx)

lemma orgs_keep_schema [txkeeps_intros]:
  "txkeeps schema_ok (orgs_Create r)" "txkeeps schema_ok (orgs_Update r)"
  "txkeeps schema_ok (orgs_Delete x)"
  unfolding store_defs by (rule txx_keeps_schema; simp add: schema_simps)+

lemma users_keep_schema [txkeeps_intros]:
  "txkeeps schema_ok (users_Create r)" "txkeeps schema_ok (users_Update r)"
  "txkeeps schema_ok (users_UpdateStatus x st)"
  unfolding store_defs by (rule txx_keeps_schema; simp add: schema_simps)+

lemma users_Delete_keeps_schema [txkeeps_intros]: "txkeeps schema_ok (users_Delete x)"
  unfolding store_defs
  by (rule txx_keeps_schema) (simp add: schema_simps uniq_update_where refs_opt_set_null)

lemma userIdentities_keep_schema [txkeeps_intros]:
  "txkeeps schema_ok (userIdentities_Create i)" "txkeeps schema_ok (userIdentities_Update i)"
  "txkeeps schema_ok (userIdentities_ReassignUser a b)" "txkeeps schema_ok (userIdentities_Delete x)"
  unfolding store_defs
  by (intro txkeeps_intros txx_keeps_schema; simp add: schema_simps)+

lemma clusters_keep_schema [txkeeps_intros]:
  "txkeeps schema_ok (clusters_Create c)" "txkeeps schema_ok (clusters_Update c)"
  "txkeeps schema_ok (clusters_Delete x)"
  unfolding store_defs
  by (intro txx_keeps_schema; simp add: schema_simps)+

lemma clusterUsers_keep_schema [txkeeps_intros]:
  "txkeeps schema_ok (clusterUsers_Create u)" "txkeeps schema_ok (clusterUsers_Update u)"
  "txkeeps schema_ok (clusterUsers_MarkProvisioned x)" "txkeeps schema_ok (clusterUsers_ReassignUser a b)"
  "txkeeps schema_ok (clusterUsers_Delete x)"
  unfolding store_defs
  by (intro txkeeps_intros txx_keeps_schema; simp add: schema_simps)+

lemma projs_keep_schema [txkeeps_intros]:
  "txkeeps schema_ok (projs_Create p)" "txkeeps schema_ok (projs_Update p)"
  "txkeeps schema_ok (projs_UpdateStatus x st)" "txkeeps schema_ok (projs_ReassignPI a b)"
  "txkeeps schema_ok (projs_Delete x)"
  unfolding store_defs
  by (intro txx_keeps_schema; simp add: schema_simps)+

lemma projMemberships_keep_schema [txkeeps_intros]:
  "txkeeps schema_ok (projMemberships_Create m)" "txkeeps schema_ok (projMemberships_UpdateRole a b r)"
  "txkeeps schema_ok (projMemberships_Delete a b)" "txkeeps schema_ok (projMemberships_ReassignUser a b)"
  unfolding store_defs
  by (intro txkeeps_intros txx_keeps_schema; simp add: schema_simps)+

lemma privileges_keep_schema [txkeeps_intros]:
  "txkeeps schema_ok (privileges_Create p)" "txkeeps schema_ok (privileges_Delete a k)"
  unfolding store_defs
  by (intro txx_keeps_schema; simp add: schema_simps)+

lemma roles_keep_schema [txkeeps_intros]:
  "txkeeps schema_ok (roles_Create r)" "txkeeps schema_ok (roles_Update r)"
  "txkeeps schema_ok (roles_Delete x)" "txkeeps schema_ok (roles_AddPrivilege x k)"
  "txkeeps schema_ok (roles_RemovePrivilege x k)"
  unfolding store_defs
  by (intro txkeeps_intros txx_keeps_schema; simp add: schema_simps)+

lemma userRoles_keep_schema [txkeeps_intros]:
  "txkeeps schema_ok (userRoles_Create r)" "txkeeps schema_ok (userRoles_Delete a b)"
  unfolding store_defs
  by (intro txx_keeps_schema; simp add: schema_simps)+

lemma auditEvents_keep_schema [txkeeps_intros]:
  "txkeeps schema_ok (auditEvents_Create r)" "txkeeps schema_ok (auditEvents_Delete x)"
  unfolding store_defs
  by (intro txx_keeps_schema; simp add: schema_simps)+

lemma allocs_keep_schema [txkeeps_intros]:
  "txkeeps schema_ok (allocs_Create a)" "txkeeps schema_ok (allocs_Update a)"
  "txkeeps schema_ok (allocs_Delete x)"
  unfolding store_defs
  by (intro txx_keeps_schema; simp add: schema_simps refs_cascade_set)+

lemma resources_keep_schema [txkeeps_intros]:
  "txkeeps schema_ok (resources_Create r)" "txkeeps schema_ok (resources_Update r)"
  "txkeeps schema_ok (resources_Delete x)"
  unfolding store_defs
  by (intro txx_keeps_schema; simp add: schema_simps)+

lemma resourceMappings_keep_schema [txkeeps_intros]:
  "txkeeps schema_ok (resourceMappings_Create m)" "txkeeps schema_ok (resourceMappings_Update m)"
  "txkeeps schema_ok (resourceMappings_DeleteByPair a b)"
  unfolding store_defs
  by (intro txx_keeps_schema; simp add: schema_simps)+

lemma resourceRates_keep_schema [txkeeps_intros]:
  "txkeeps schema_ok (resourceRates_Create r)" "txkeeps schema_ok (resourceRates_Update r)"
  "txkeeps schema_ok (resourceRates_Delete x)"
  unfolding store_defs
  by (intro txx_keeps_schema; simp add: schema_simps)+

lemma allocDiffs_keep_schema [txkeeps_intros]:
  "txkeeps schema_ok (allocDiffs_Create f)" "txkeeps schema_ok (allocDiffs_Delete x)"
  unfolding store_defs
  by (intro txx_keeps_schema; simp add: schema_simps)+

lemma changeRequests_keep_schema [txkeeps_intros]:
  "txkeeps schema_ok (changeRequests_Create c)" "txkeeps schema_ok (changeRequests_Update c)"
  "txkeeps schema_ok (changeRequests_Delete x)" "txkeeps schema_ok (changeEvents_Create v)"
  "txkeeps schema_ok (changeEvents_Delete x)"
  unfolding store_defs
  by (intro txx_keeps_schema; simp add: schema_simps)+

lemma memberships_delete_rows_schema:
  "schema_ok d \<Longrightarrow> schema_ok (memberships_delete_rows P d)"
  by (simp add: schema_simps memberships_delete_rows_def refs_cascade_set)

lemma memberships_keep_schema [txkeeps_intros]:
  "txkeeps schema_ok (memberships_Create m)" "txkeeps schema_ok (memberships_Update m)"
  "txkeeps schema_ok (memberships_ReassignUser a b)" "txkeeps schema_ok (memberships_Delete x)"
  unfolding store_defs
     apply (intro txx_keeps_schema; simp add: schema_simps)
    apply (intro txx_keeps_schema; simp add: schema_simps)
   apply (intro txkeeps_bindM txx_keeps_schema)
    apply (simp add: memberships_delete_rows_schema)
   apply (simp add: schema_simps)
  apply (intro txx_keeps_schema memberships_delete_rows_schema; assumption)
  done

lemma membershipOverrides_keep_schema [txkeeps_intros]:
  "txkeeps schema_ok (membershipOverrides_Create v)" "txkeeps schema_ok (membershipOverrides_Update v)"
  "txkeeps schema_ok (membershipOverrides_Delete x)"
  unfolding store_defs
  by (intro txx_keeps_schema; simp add: schema_simps)+

lemma usages_keep_schema [txkeeps_intros]:
  "txkeeps schema_ok (usages_Create u)" "txkeeps schema_ok (usages_Delete x)"
  unfolding store_defs
  by (intro txx_keeps_schema; simp add: schema_simps)+

interpretation schema: full_contract schema_ok
  by unfold_locales (intro txkeeps_intros)+

end
