(* ===== verification/PI_Invariant.thy ===== *)
theory PI_Invariant
  imports Store_Contract
begin

text \<open>
  No project has two rows of project_memberships with the role PI.  The schema
  does not say so: the services establish it.  Here, that every statement other
  than the two that set a role keeps it.
\<close>

definition pi_rows :: "database \<Rightarrow> project_membership list" where
  "pi_rows d = filter (\<lambda>m. pmb_Role m = ProjectRolePI) (project_memberships d)"

definition one_pi :: "database \<Rightarrow> bool" where
  "one_pi d = uniq pmb_ProjectID (pi_rows d)"

definition role_of :: "database \<Rightarrow> id \<Rightarrow> id \<Rightarrow> string option" where
  "role_of d pid uid =
     map_option pmb_Role (find (\<lambda>m. pmb_ProjectID m = pid \<and> pmb_UserID m = uid) (project_memberships d))"

abbreviation pm_pkey :: "database \<Rightarrow> bool" where
  "pm_pkey d \<equiv> uniq (\<lambda>m. (pmb_ProjectID m, pmb_UserID m)) (project_memberships d)"

lemma schema_pm_pkey: "schema_ok d \<Longrightarrow> pm_pkey d"
  using schema_okD(7) [of d] by (simp add: project_memberships_cons_def)

lemma one_pi_iff:
  "pm_pkey d \<Longrightarrow> one_pi d \<longleftrightarrow>
     (\<forall>m\<in>set (project_memberships d). \<forall>m'\<in>set (project_memberships d).
        pmb_Role m = ProjectRolePI \<longrightarrow> pmb_Role m' = ProjectRolePI \<longrightarrow>
        pmb_ProjectID m = pmb_ProjectID m' \<longrightarrow> m = m')"
  unfolding one_pi_def pi_rows_def uniq_def distinct_map
  by (auto simp: inj_on_def)

lemma one_pi_insert:
  assumes "one_pi d"
    and "\<And>m'. pmb_Role m = ProjectRolePI \<Longrightarrow> m' \<in> set (project_memberships d) \<Longrightarrow>
      pmb_Role m' = ProjectRolePI \<Longrightarrow> pmb_ProjectID m' \<noteq> pmb_ProjectID m"
  shows "one_pi (d\<lparr>project_memberships := insert_row m (project_memberships d)\<rparr>)"
  using assms by (fastforce simp: one_pi_def pi_rows_def uniq_def insert_row_def)

lemma one_pi_set_role:
  assumes "pm_pkey d" "one_pi d"
    and "\<And>m'. role = ProjectRolePI \<Longrightarrow> m' \<in> set (project_memberships d) \<Longrightarrow>
      pmb_Role m' = ProjectRolePI \<Longrightarrow> pmb_ProjectID m' \<noteq> pid"
  shows "one_pi (d\<lparr>project_memberships :=
     update_where (\<lambda>r. pmb_ProjectID r = pid \<and> pmb_UserID r = uid) (\<lambda>r. r\<lparr>pmb_Role := role\<rparr>)
       (project_memberships d)\<rparr>)" (is "one_pi ?d")
proof -
  have pk: "pm_pkey ?d" using assms(1) by (simp add: uniq_update_where)
  have "pmb_ProjectID m = pmb_ProjectID m' \<Longrightarrow> pmb_UserID m = pmb_UserID m' \<Longrightarrow> m = m'"
    if "m \<in> set (project_memberships d)" "m' \<in> set (project_memberships d)" for m m'
    using uniqD [OF assms(1) that] by simp
  then show ?thesis
    using assms(2,3) unfolding one_pi_iff [OF pk] one_pi_iff [OF assms(1)]
    by (auto simp: update_where_def split: if_splits) blast+
qed

lemma uniq_filter_delete_where:
  "uniq f (filter P t) \<Longrightarrow> uniq f (filter P (delete_where Q t))"
  by (induction t) (auto simp: uniq_def delete_where_def)

lemma uniq_filter_update_where:
  assumes "\<And>r. P (g r) = P r" "\<And>r. f (g r) = f r"
  shows "uniq f (filter P (update_where Q g t)) = uniq f (filter P t)"
proof -
  have "map f (filter P (update_where Q g t)) = map f (filter P t)"
    by (induction t) (auto simp: update_where_def assms)
  then show ?thesis by (simp add: uniq_def)
qed

lemma one_pi_frame:
  assumes "\<And>d. project_memberships (upd d) = project_memberships d"
  shows "txkeeps one_pi (txx cons upd)"
  by (rule txkeeps_txx) (simp add: assms one_pi_def pi_rows_def)

lemma one_pi_narrow:
  assumes "\<And>d. project_memberships (upd d) = delete_where (Q d) (project_memberships d)"
  shows "txkeeps one_pi (txx cons upd)"
  by (rule txkeeps_txx) (simp add: assms one_pi_def pi_rows_def uniq_filter_delete_where)

lemma one_pi_reassign: "txkeeps one_pi (projMemberships_ReassignUser a b)"
  unfolding store_defs
  by (intro txkeeps_bindM one_pi_narrow txkeeps_txx)
    (simp_all add: one_pi_def pi_rows_def uniq_filter_update_where)

lemma one_pi_deletes:
  "txkeeps one_pi (users_Delete x)" "txkeeps one_pi (projs_Delete x)"
  "txkeeps one_pi (projMemberships_Delete x y)"
  unfolding store_defs by (rule one_pi_narrow, simp)+

text \<open>Every other statement leaves project_memberships alone.\<close>

interpretation pi: grant_contract one_pi
  by (unfold_locales;
      (rule one_pi_reassign one_pi_deletes |
       (unfold store_defs, (intro txkeeps_intros one_pi_frame; simp add: memberships_delete_rows_def))))

subsection \<open>Roles of users in projects\<close>

lemma role_of_iff:
  "pm_pkey d \<Longrightarrow> role_of d pid uid = Some role \<longleftrightarrow>
     (\<exists>m\<in>set (project_memberships d). pmb_ProjectID m = pid \<and> pmb_UserID m = uid \<and> pmb_Role m = role)"
  using find_uniq_iff [of "\<lambda>m. (pmb_ProjectID m, pmb_UserID m)" "project_memberships d" "(pid, uid)"]
  by (auto simp: role_of_def)

end
