(* ===== verification/Grant_Invariant.thy ===== *)
theory Grant_Invariant
  imports Store_Contract
begin

text \<open>
  Every privilege key held by a user or carried by a role is registered.  The
  schema has no table of keys to refer to: the services check the key before
  they attach it.  Here, that every statement other than the two that attach a
  key keeps the property.
\<close>

definition known_grants :: "registry \<Rightarrow> database \<Rightarrow> bool" where
  "known_grants reg d =
     (list_all (\<lambda>g. IsKnownPrivilege reg (upv_Privilege g)) (user_privileges d) \<and>
      list_all (\<lambda>r. IsKnownPrivilege reg (rpv_Privilege r)) (role_privileges d))"

lemma known_grants_frame:
  assumes "\<And>d. user_privileges (upd d) = user_privileges d"
    and "\<And>d. role_privileges (upd d) = role_privileges d"
  shows "txkeeps (known_grants reg) (txx cons upd)"
  by (rule txkeeps_txx) (simp add: assms known_grants_def)

lemma known_grants_deletes:
  "txkeeps (known_grants reg) (users_Delete x)" "txkeeps (known_grants reg) (roles_Delete x)"
  "txkeeps (known_grants reg) (privileges_Delete x k)"
  "txkeeps (known_grants reg) (roles_RemovePrivilege x k)"
  unfolding store_defs
  by (rule txkeeps_txx; simp add: known_grants_def list_all_update_where)+

text \<open>The two statements that attach a key keep the property if the key is registered.\<close>

lemma known_grants_attach:
  "IsKnownPrivilege reg (upv_Privilege g) \<Longrightarrow> txkeeps (known_grants reg) (privileges_Create g)"
  "IsKnownPrivilege reg k \<Longrightarrow> txkeeps (known_grants reg) (roles_AddPrivilege x k)"
  unfolding store_defs
  by (rule txkeeps_txx; auto simp: known_grants_def insert_row_def)+

subsection \<open>Runs under a fixed registry\<close>

text \<open>The registry is filled before the first request and read by the operations through askM; the
  property is kept by the runs whose environment has that registry.\<close>

definition keeps_at :: "env \<Rightarrow> (database \<Rightarrow> bool) \<Rightarrow> 'a M \<Rightarrow> bool" where
  "keeps_at e I m = (\<forall>s r s'. I (db s) \<longrightarrow> m e s = (r, s') \<longrightarrow> I (db s'))"

definition txkeeps_at :: "env \<Rightarrow> (database \<Rightarrow> bool) \<Rightarrow> 'a M \<Rightarrow> bool" where
  "txkeeps_at e I m = (\<forall>s x s'. I (txdb s) \<longrightarrow> m e s = (Inr x, s') \<longrightarrow> I (txdb s'))"

lemma keeps_at_keeps: "keeps I m \<Longrightarrow> keeps_at e I m"
  by (auto simp: keeps_def keeps_at_def)

lemma keeps_at_ask: "keeps_at e I (f (g e)) \<Longrightarrow> keeps_at e I (bindM (askM g) f)"
  by (auto simp: keeps_at_def bindM_def askM_def)

lemma keeps_at_bindM:
  "keeps_at e I m \<Longrightarrow> (\<And>x. keeps_at e I (f x)) \<Longrightarrow> keeps_at e I (bindM m f)"
  unfolding keeps_at_def bindM_cases by blast

lemma keeps_at_if:
  "(b \<Longrightarrow> keeps_at e I m) \<Longrightarrow> (\<not> b \<Longrightarrow> keeps_at e I m') \<Longrightarrow> keeps_at e I (if b then m else m')"
  by simp

lemma txkeeps_at_txkeeps: "txkeeps I m \<Longrightarrow> txkeeps_at e I m"
  by (auto simp: txkeeps_def txkeeps_at_def)

lemma txkeeps_at_ask: "txkeeps_at e I (f (g e)) \<Longrightarrow> txkeeps_at e I (bindM (askM g) f)"
  by (auto simp: txkeeps_at_def bindM_def askM_def)

lemma txkeeps_at_bindM:
  "txkeeps_at e I m \<Longrightarrow> (\<And>x. txkeeps_at e I (f x)) \<Longrightarrow> txkeeps_at e I (bindM m f)"
  unfolding txkeeps_at_def bindM_Inr by blast

lemma txkeeps_at_wrapM: "txkeeps_at e I m \<Longrightarrow> txkeeps_at e I (wrapM lbl m)"
  by (simp add: txkeeps_at_def wrapM_Inr)

lemma txkeeps_eachM_mem:
  "(\<And>x. x \<in> set xs \<Longrightarrow> txkeeps I (f x)) \<Longrightarrow> txkeeps I (eachM xs f)"
  by (induction xs) (auto intro: txkeeps_intros)

lemma keeps_at_inTx:
  assumes ro: "readonly fn" and tx: "txkeeps_at e I fn"
  shows "keeps_at e I (inTx fn)"
  unfolding keeps_at_def
proof (intro allI impI)
  fix s :: state and r s'
  assume I: "I (db s)" and run: "inTx fn e s = (r, s')"
  show "I (db s')"
  proof (cases "fn e ((tick s)\<lparr>txdb := db s\<rparr>)")
    case (Pair q s1)
    then have "frame ((tick s)\<lparr>txdb := db s\<rparr>) s1" using ro by (auto simp: readonly_def)
    moreover have "q = Inr x \<Longrightarrow> I (txdb s1)" for x
      using tx [unfolded txkeeps_at_def, rule_format, of "(tick s)\<lparr>txdb := db s\<rparr>" x s1] Pair I by simp
    ultimately show ?thesis
      using I run Pair
      by (auto simp: inTx_def TxFn_def frame_def split: if_splits sum.splits)
  qed
qed

lemmas at_rules = keeps_at_if keeps_at_ask keeps_at_bindM keeps_at_inTx
  txkeeps_at_wrapM txkeeps_at_ask txkeeps_at_bindM

text \<open>Every other statement leaves the two tables alone.\<close>

interpretation grants: membership_contract "known_grants reg" for reg
  by (unfold_locales;
      (rule known_grants_deletes |
       (unfold store_defs, (intro txkeeps_intros known_grants_frame; simp add: memberships_delete_rows_def))))

end
