(* ===== verification/Sample_Data.thy ===== *)
theory Sample_Data
  imports Runtime
begin

text \<open>
  Concrete rows and a small consistent database, on which the examples of the
  other theories run: an organization with three users, one project whose PI is
  alice, one role that carries the two meta privileges.
\<close>

definition sample_org :: organization where
  "sample_org = \<lparr> org_ID = ''o1'', org_OriginatedID = ''orig-o1'', org_Name = ''Org'' \<rparr>"

definition sample_user :: "id \<Rightarrow> string \<Rightarrow> user" where
  "sample_user x st = \<lparr> usr_ID = x, usr_OrganizationID = ''o1'', usr_FirstName = ''F'', usr_LastName = ''L'',
     usr_MiddleName = '''', usr_Email = x @ ''@x.org'', usr_Status = st,
     usr_Type = UserTypeClusterLocal \<rparr>"

definition sample_project :: project where
  "sample_project = \<lparr> prj_ID = ''p1'', prj_OriginatedID = ''orig-p1'', prj_Title = ''P'',
     prj_Origination = ''x'', prj_ProjectPIID = ''alice'', prj_Status = AllocationACTIVE, prj_CreatedTime = 5 \<rparr>"

definition sample_membership :: "id \<Rightarrow> string \<Rightarrow> project_membership" where
  "sample_membership uid role =
     \<lparr> pmb_ProjectID = ''p1'', pmb_UserID = uid, pmb_Role = role, pmb_AddedTime = 7 \<rparr>"

definition sample_role :: role where
  "sample_role = \<lparr> rol_ID = ''r1'', rol_Name = ''admins'', rol_Description = None, rol_IsSystem = False,
     rol_CreatedAt = 3 \<rparr>"

definition sample_user_role :: "id \<Rightarrow> user_role" where
  "sample_user_role uid = \<lparr> url_UserID = uid, url_RoleID = ''r1'', url_GrantedBy = None, url_GrantedAt = 4,
     url_Reason = None \<rparr>"

definition sample_db :: database where
  "sample_db = empty_db\<lparr>
     organizations := [sample_org],
     users := [sample_user ''alice'' UserActive, sample_user ''bob'' UserPending,
               sample_user ''carol'' UserActive],
     projects := [sample_project],
     project_memberships := [sample_membership ''alice'' ProjectRolePI],
     roles := [sample_role],
     role_privileges := [\<lparr> rpv_RoleID = ''r1'', rpv_Privilege = PrivilegesGrant \<rparr>,
                         \<lparr> rpv_RoleID = ''r1'', rpv_Privilege = RolesManage \<rparr>],
     user_roles := [sample_user_role ''alice'', sample_user_role ''carol'']\<rparr>"

lemma schema_ok_sample_db: "schema_ok sample_db"
  by code_simp

text \<open>The same database with a cluster, one allocation of the project, a resource with two rates that
  touch at 100, an active member bob, and a pending change request of alice.\<close>

definition sample_allocation :: compute_allocation where
  "sample_allocation = \<lparr> alc_ID = ''a1'', alc_ProjectID = ''p1'', alc_Name = ''A'', alc_Status = AllocationACTIVE,
     alc_ComputeClusterID = ''c1'', alc_InitialSUAmount = 1000, alc_StartTime = 10, alc_EndTime = 1000 \<rparr>"

definition sample_rate :: "id \<Rightarrow> rat \<Rightarrow> time \<Rightarrow> time \<Rightarrow> compute_allocation_resource_rate" where
  "sample_rate x r t0 t1 = \<lparr> rat_ID = x, rat_ComputeAllocationResourceID = ''res1'', rat_Rate = r,
     rat_StartTime = t0, rat_EndTime = t1 \<rparr>"

definition sample_change_request :: compute_allocation_change_request where
  "sample_change_request = \<lparr> chr_ID = ''q1'', chr_ComputeAllocationID = ''a1'', chr_RequestedSUAmount = 1500,
     chr_RequestedStatus = AllocationACTIVE, chr_Reason = ''more'', chr_ChangeStatus = ''PENDING'',
     chr_RequesterID = ''alice'', chr_ApproverID = '''', chr_Timestamp = 20 \<rparr>"

definition alloc_db :: database where
  "alloc_db = sample_db\<lparr>
     compute_clusters := [\<lparr> ccl_ID = ''c1'', ccl_Name = ''cluster'' \<rparr>],
     compute_allocations := [sample_allocation],
     compute_allocation_resources := [\<lparr> res_ID = ''res1'', res_Name = ''cpu'', res_ResourceType = ''CPU'',
        res_ResourceAmount = 10, res_ComputeClusterID = ''c1'' \<rparr>],
     compute_allocation_resource_rates := [sample_rate ''t1'' 1 0 100, sample_rate ''t2'' 2 100 1000],
     compute_allocation_memberships := [\<lparr> mem_ID = ''m1'', mem_ComputeAllocationID = ''a1'', mem_UserID = ''bob'',
        mem_StartTime = 10, mem_EndTime = 1000, mem_MembershipStatus = ''ACTIVE'' \<rparr>],
     compute_allocation_change_requests := [sample_change_request]\<rparr>"

lemma schema_ok_alloc_db: "schema_ok alloc_db"
  by code_simp

end
