(* ===== verification/Svc_Authz.thy ===== *)
theory Svc_Authz
  imports Schema_Invariant PI_Invariant Grant_Invariant Sample_Data
begin

text \<open>
  pkg/service for authorization: user_privilege.go, role.go, user_role.go.  A
  user holds a privilege directly (user_privileges) or through a role
  (user_roles joined with role_privileges).  Every change of a grant runs in
  one transaction that also writes one row of audit_events.

  The actor check reads the actor's direct grant through the transaction and
  the role grants through the pool, that is, from the committed database; the
  same holds for the role lookups.
\<close>

subsection \<open>Details of audit rows\<close>

text \<open>encoding/json for a map from strings to strings: an object with sorted keys; quotes,
  backslashes, control characters, the three HTML characters and the two line separators U+2028 and
  U+2029 are escaped.\<close>

definition hex_digit :: "nat \<Rightarrow> char" where
  "hex_digit n = char_of (if n < 10 then 48 + n else 87 + n)"

definition json_char :: "char \<Rightarrow> string" where
  "json_char c =
     (let n = of_char c :: nat in
      if n = 34 \<or> n = 92 then [CHR 0x5C, c]
      else if n = 8 then [CHR 0x5C, CHR ''b'']
      else if n = 12 then [CHR 0x5C, CHR ''f'']
      else if n = 10 then [CHR 0x5C, CHR ''n'']
      else if n = 13 then [CHR 0x5C, CHR ''r'']
      else if n = 9 then [CHR 0x5C, CHR ''t'']
      else if n < 32 \<or> n = 38 \<or> n = 60 \<or> n = 62
      then CHR 0x5C # ''u00'' @ [hex_digit (n div 16), hex_digit (n mod 16)]
      else [c])"

function json_escape :: "string \<Rightarrow> string" where
  "json_escape [] = []"
| "json_escape (c # s) =
     (if c = CHR 0xE2 \<and> take 2 s = [CHR 0x80, CHR 0xA8] then [CHR 0x5C] @ ''u2028'' @ json_escape (drop 2 s)
      else if c = CHR 0xE2 \<and> take 2 s = [CHR 0x80, CHR 0xA9] then [CHR 0x5C] @ ''u2029'' @ json_escape (drop 2 s)
      else json_char c @ json_escape s)"
  by pat_completeness auto
termination
  by (relation "measure length") auto

definition json_string :: "string \<Rightarrow> string" where
  "json_string s = [CHR 0x22] @ json_escape s @ [CHR 0x22]"

fun json_members :: "(string \<times> string) list \<Rightarrow> string" where
  "json_members [] = ''''"
| "json_members [(k, v)] = json_string k @ '':'' @ json_string v"
| "json_members ((k, v) # kvs) = json_string k @ '':'' @ json_string v @ '','' @ json_members kvs"

definition json_Marshal :: "(string \<times> string) list \<Rightarrow> string" where
  "json_Marshal kvs = ''{'' @ json_members (sort_key fst kvs) @ ''}''"

definition auditRow :: "id \<Rightarrow> time \<Rightarrow> string \<Rightarrow> string \<Rightarrow> id \<Rightarrow> string \<Rightarrow> audit_event" where
  "auditRow x now etype entType entID details =
     \<lparr> aud_ID = x, aud_EventType = etype, aud_EventTime = now, aud_EntityID = entID,
       aud_EntityType = entType, aud_Details = details, aud_Source = '''', aud_TraceID = '''',
       aud_SpanID = '''', aud_ParentSpanID = '''' \<rparr>"

definition stringPtrOrNil :: "string \<Rightarrow> string option" where
  "stringPtrOrNil s = (if s = '''' then None else Some s)"

definition writePrivilegeAuditTx :: "string \<Rightarrow> id \<Rightarrow> (string \<times> string) list \<Rightarrow> unit M" where
  "writePrivilegeAuditTx etype entID details =
     bindM newID (\<lambda>x. bindM nowUTC (\<lambda>now.
     auditEvents_Create (auditRow x now etype ''user'' entID (json_Marshal details))))"

definition writeRoleAuditTx :: "string \<Rightarrow> id \<Rightarrow> (string \<times> string) list \<Rightarrow> unit M" where
  "writeRoleAuditTx etype entID details =
     bindM newID (\<lambda>x. bindM nowUTC (\<lambda>now.
     auditEvents_Create (auditRow x now etype ''role'' entID (json_Marshal details))))"

definition writeUserBootstrappedAuditTx :: "id \<Rightarrow> (string \<times> string) list \<Rightarrow> unit M" where
  "writeUserBootstrappedAuditTx uid details =
     bindM newID (\<lambda>x. bindM nowUTC (\<lambda>now.
     auditEvents_Create (auditRow x now ''USER_BOOTSTRAPPED'' ''user'' uid (json_Marshal details))))"

subsection \<open>The actor check\<close>

definition not_found :: "string \<Rightarrow> string list \<Rightarrow> 'a M" where
  "not_found msg as = throwM (Errorf (''%w: '' @ msg) as ErrNotFound)"

definition assertHasPrivilegeTx :: "id \<Rightarrow> string \<Rightarrow> unit M" where
  "assertHasPrivilegeTx actor required =
     bindM (wrapM ''lookup actor direct privilege'' (privileges_FindForUpdate actor required)) (\<lambda>direct.
     case direct of Some _ \<Rightarrow> retM ()
     | None \<Rightarrow>
       bindM (wrapM ''lookup actor role privileges'' (userRoles_PrivilegesForUser actor)) (\<lambda>roleKeys.
       if list_ex (\<lambda>k. k = required) roleKeys then retM ()
       else invalid ''actor does not hold %s'' [required]))"

definition assertGranterTx :: "id \<Rightarrow> unit M" where
  "assertGranterTx actor = assertHasPrivilegeTx actor PrivilegesGrant"

subsection \<open>user_privilege.go\<close>

definition GrantPrivilege :: "id \<Rightarrow> string \<Rightarrow> id \<Rightarrow> string \<Rightarrow> user_privilege M" where
  "GrantPrivilege uid p granter reason =
     (if uid = '''' then invalid ''user_id is required'' []
      else if granter = '''' then invalid ''granter_id is required'' []
      else bindM (askM registered) (\<lambda>reg.
        if \<not> IsKnownPrivilege reg p then invalid ''unknown privilege %q'' [p]
        else bindM newID (\<lambda>x. bindM nowUTC (\<lambda>now.
          let grant = \<lparr> upv_ID = x, upv_UserID = uid, upv_Privilege = p,
                        upv_GrantedBy = stringPtrOrNil granter, upv_GrantedAt = now,
                        upv_Reason = stringPtrOrNil reason \<rparr> in
          andReturn (inTx (
            bindM (assertGranterTx granter) (\<lambda>_.
            bindM (wrapM ''lookup existing grant'' (privileges_FindForUpdate uid p)) (\<lambda>existing.
            case existing of Some _ \<Rightarrow> already_exists ''privilege %q is already active for user'' [p]
            | None \<Rightarrow>
              bindM (wrapM ''insert privilege grant'' (privileges_Create grant)) (\<lambda>_.
              writePrivilegeAuditTx ''PRIVILEGE_GRANTED'' uid
                [(''privilege'', p), (''actor_id'', granter), (''reason'', reason)]))))) grant))))"

definition RevokePrivilege :: "id \<Rightarrow> string \<Rightarrow> id \<Rightarrow> string \<Rightarrow> unit M" where
  "RevokePrivilege uid p revoker reason =
     (if uid = '''' then invalid ''user_id is required'' []
      else if revoker = '''' then invalid ''revoker_id is required'' []
      else bindM (askM registered) (\<lambda>reg.
        if \<not> IsKnownPrivilege reg p then invalid ''unknown privilege %q'' [p]
        else if p = PrivilegesGrant \<and> revoker = uid then invalid ''cannot self-revoke %s'' [PrivilegesGrant]
        else inTx (
          bindM (assertGranterTx revoker) (\<lambda>_.
          bindM (wrapM ''lookup active grant'' (privileges_FindForUpdate uid p)) (\<lambda>existing.
          case existing of None \<Rightarrow> not_found ''no active grant for privilege %q'' [p]
          | Some _ \<Rightarrow>
            bindM (if p = PrivilegesGrant
                   then bindM (wrapM ''count meta holders'' (privileges_CountByPrivilege PrivilegesGrant)) (\<lambda>count.
                     if count \<le> 1 then invalid ''cannot revoke the last active %s'' [PrivilegesGrant]
                     else retM ())
                   else retM ()) (\<lambda>_.
            bindM (wrapM ''delete grant'' (privileges_Delete uid p)) (\<lambda>_.
            writePrivilegeAuditTx ''PRIVILEGE_REVOKED'' uid
              [(''privilege'', p), (''actor_id'', revoker), (''reason'', reason)])))))))"

definition HasPrivilege :: "id \<Rightarrow> string \<Rightarrow> bool M" where
  "HasPrivilege uid p =
     (if uid = '''' then invalid ''user_id is required'' []
      else bindM (askM registered) (\<lambda>reg.
        if \<not> IsKnownPrivilege reg p then invalid ''unknown privilege %q'' [p]
        else bindM (wrapM ''lookup direct privilege'' (privileges_Find uid p)) (\<lambda>direct.
          case direct of Some _ \<Rightarrow> retM True
          | None \<Rightarrow>
            bindM (wrapM ''lookup role privileges'' (userRoles_PrivilegesForUser uid)) (\<lambda>roleKeys.
            retM (list_ex (\<lambda>k. k = p) roleKeys)))))"

definition ListUserPrivileges :: "id \<Rightarrow> user_privilege list M" where
  "ListUserPrivileges uid =
     (if uid = '''' then invalid ''user_id is required'' []
      else wrapM ''list privileges'' (privileges_ListByUser uid))"

text \<open>The keys of the set built from the direct grants and the role keys; Go's map iteration leaves
  their order open.\<close>

definition EffectivePrivileges :: "id \<Rightarrow> string list M" where
  "EffectivePrivileges uid =
     (if uid = '''' then invalid ''user_id is required'' []
      else bindM (wrapM ''list direct privileges'' (privileges_ListByUser uid)) (\<lambda>direct.
        bindM (wrapM ''list role privileges'' (userRoles_PrivilegesForUser uid)) (\<lambda>roleKeys.
        retM (remdups (map upv_Privilege direct @ roleKeys)))))"

definition ListPrivilegeHolders :: "string \<Rightarrow> user_privilege list M" where
  "ListPrivilegeHolders p = bindM (askM registered) (\<lambda>reg.
     if \<not> IsKnownPrivilege reg p then invalid ''unknown privilege %q'' [p]
     else wrapM ''list privilege holders'' (privileges_ListByPrivilege p))"

definition PrivilegeCatalog :: "string list M" where
  "PrivilegeCatalog = bindM (askM registered) (\<lambda>reg. retM (KnownPrivileges reg))"

subsection \<open>role.go\<close>

definition CreateRole :: "string \<Rightarrow> string \<Rightarrow> id \<Rightarrow> role M" where
  "CreateRole name description actor =
     (if name = '''' then invalid ''name is required'' []
      else if actor = '''' then invalid ''actor_id is required'' []
      else bindM newID (\<lambda>x.
        let r = \<lparr> rol_ID = x, rol_Name = name, rol_Description = stringPtrOrNil description,
                  rol_IsSystem = False, rol_CreatedAt = 0 \<rparr> in
        andReturn (inTx (
          bindM (assertHasPrivilegeTx actor RolesManage) (\<lambda>_.
          bindM (wrapM ''lookup role by name'' (roles_FindByName name)) (\<lambda>existing.
          case existing of Some _ \<Rightarrow> already_exists ''role %q already exists'' [name]
          | None \<Rightarrow>
            bindM (wrapM ''insert role'' (roles_Create r)) (\<lambda>_.
            writeRoleAuditTx ''ROLE_CREATED'' x [(''name'', name), (''actor_id'', actor)]))))) r))"

definition UpdateRole :: "id \<Rightarrow> string \<Rightarrow> string \<Rightarrow> id \<Rightarrow> role M" where
  "UpdateRole rid name description actor =
     (if rid = '''' then invalid ''role_id is required'' []
      else if actor = '''' then invalid ''actor_id is required'' []
      else inTx (
        bindM (assertHasPrivilegeTx actor RolesManage) (\<lambda>_.
        bindM (wrapM ''lookup role'' (roles_FindByID rid)) (\<lambda>existing.
        case existing of None \<Rightarrow> not_found ''role %q does not exist'' [rid]
        | Some r0 \<Rightarrow>
          if rol_IsSystem r0 \<and> name \<noteq> '''' \<and> name \<noteq> rol_Name r0
          then invalid ''cannot rename system role %q'' [rol_Name r0]
          else
            let r1 = r0\<lparr>rol_Name := orElse name (rol_Name r0),
                        rol_Description := (if description \<noteq> '''' then stringPtrOrNil description
                                            else rol_Description r0)\<rparr> in
            bindM (wrapM ''update role'' (roles_Update r1)) (\<lambda>_.
            andReturn (writeRoleAuditTx ''ROLE_UPDATED'' (rol_ID r1)
              [(''actor_id'', actor), (''name'', rol_Name r1)]) r1)))))"

definition DeleteRole :: "id \<Rightarrow> id \<Rightarrow> unit M" where
  "DeleteRole rid actor =
     (if rid = '''' then invalid ''role_id is required'' []
      else if actor = '''' then invalid ''actor_id is required'' []
      else inTx (
        bindM (assertHasPrivilegeTx actor RolesManage) (\<lambda>_.
        bindM (wrapM ''lookup role'' (roles_FindByID rid)) (\<lambda>existing.
        case existing of None \<Rightarrow> not_found ''role %q does not exist'' [rid]
        | Some r0 \<Rightarrow>
          if rol_IsSystem r0 then invalid ''cannot delete system role %q'' [rol_Name r0]
          else bindM (wrapM ''delete role'' (roles_Delete rid)) (\<lambda>_.
            writeRoleAuditTx ''ROLE_DELETED'' rid
              [(''actor_id'', actor), (''name'', rol_Name r0)])))))"

definition GetRole :: "id \<Rightarrow> role M" where
  "GetRole rid = orNotFound (wrapM ''get role'' (roles_FindByID rid))"

definition ListRoles :: "role list M" where
  "ListRoles = roles_List"

definition ListRolePrivileges :: "id \<Rightarrow> string list M" where
  "ListRolePrivileges rid =
     (if rid = '''' then invalid ''role_id is required'' [] else roles_ListPrivileges rid)"

definition AddPrivilegeToRole :: "id \<Rightarrow> string \<Rightarrow> id \<Rightarrow> unit M" where
  "AddPrivilegeToRole rid p actor =
     (if rid = '''' then invalid ''role_id is required'' []
      else bindM (askM registered) (\<lambda>reg.
        if \<not> IsKnownPrivilege reg p then invalid ''unknown privilege %q'' [p]
        else if actor = '''' then invalid ''actor_id is required'' []
        else inTx (
          bindM (assertHasPrivilegeTx actor RolesManage) (\<lambda>_.
          bindM (wrapM ''lookup role'' (roles_FindByID rid)) (\<lambda>existing.
          case existing of None \<Rightarrow> not_found ''role %q does not exist'' [rid]
          | Some r0 \<Rightarrow>
            bindM (wrapM ''check role privilege'' (roles_HasPrivilege rid p)) (\<lambda>has.
            if has then already_exists ''role %q already carries %q'' [rol_Name r0, p]
            else bindM (wrapM ''add role privilege'' (roles_AddPrivilege rid p)) (\<lambda>_.
              writeRoleAuditTx ''ROLE_PRIVILEGE_ADDED'' rid
                [(''actor_id'', actor), (''privilege'', p), (''role_name'', rol_Name r0)])))))))"

definition RemovePrivilegeFromRole :: "id \<Rightarrow> string \<Rightarrow> id \<Rightarrow> unit M" where
  "RemovePrivilegeFromRole rid p actor =
     (if rid = '''' then invalid ''role_id is required'' []
      else bindM (askM registered) (\<lambda>reg.
        if \<not> IsKnownPrivilege reg p then invalid ''unknown privilege %q'' [p]
        else if actor = '''' then invalid ''actor_id is required'' []
        else inTx (
          bindM (assertHasPrivilegeTx actor RolesManage) (\<lambda>_.
          bindM (wrapM ''lookup role'' (roles_FindByID rid)) (\<lambda>existing.
          case existing of None \<Rightarrow> not_found ''role %q does not exist'' [rid]
          | Some r0 \<Rightarrow>
            bindM (wrapM ''check role privilege'' (roles_HasPrivilege rid p)) (\<lambda>has.
            if \<not> has then not_found ''role %q does not carry %q'' [rol_Name r0, p]
            else
              bindM (if p = PrivilegesGrant \<or> p = RolesManage
                     then bindM (wrapM ''count roles granting privilege''
                             (roles_CountRolesGrantingPrivilege p)) (\<lambda>count.
                       if count \<le> 1
                       then invalid ''cannot remove the last source of %q from any role'' [p]
                       else retM ())
                     else retM ()) (\<lambda>_.
              bindM (wrapM ''remove role privilege'' (roles_RemovePrivilege rid p)) (\<lambda>_.
              writeRoleAuditTx ''ROLE_PRIVILEGE_REMOVED'' rid
                [(''actor_id'', actor), (''privilege'', p), (''role_name'', rol_Name r0)]))))))))"

subsection \<open>user_role.go\<close>

definition GrantRoleToUser :: "id \<Rightarrow> id \<Rightarrow> id \<Rightarrow> string \<Rightarrow> user_role M" where
  "GrantRoleToUser uid rid granter reason =
     (if uid = '''' then invalid ''user_id is required'' []
      else if rid = '''' then invalid ''role_id is required'' []
      else if granter = '''' then invalid ''granter_id is required'' []
      else bindM nowUTC (\<lambda>now.
        let a = \<lparr> url_UserID = uid, url_RoleID = rid, url_GrantedBy = stringPtrOrNil granter,
                  url_GrantedAt = now, url_Reason = stringPtrOrNil reason \<rparr> in
        andReturn (inTx (
          bindM (assertHasPrivilegeTx granter RolesManage) (\<lambda>_.
          bindM (wrapM ''lookup role'' (roles_FindByID rid)) (\<lambda>role.
          case role of None \<Rightarrow> not_found ''role %q does not exist'' [rid]
          | Some r0 \<Rightarrow>
            bindM (wrapM ''lookup existing assignment'' (userRoles_FindForUpdate uid rid)) (\<lambda>existing.
            case existing of Some _ \<Rightarrow> already_exists ''user already holds role %q'' [rol_Name r0]
            | None \<Rightarrow>
              bindM (wrapM ''insert role assignment'' (userRoles_Create a)) (\<lambda>_.
              writeRoleAuditTx ''ROLE_GRANTED'' uid
                [(''actor_id'', granter), (''role_id'', rid), (''role_name'', rol_Name r0),
                 (''reason'', reason)])))))) a))"

text \<open>The distinct users that hold a key, directly or through a role.\<close>

definition holders_of :: "database \<Rightarrow> string \<Rightarrow> id list" where
  "holders_of d key =
     remdups (map upv_UserID (select_where (\<lambda>r. upv_Privilege r = key) (user_privileges d)) @
              map url_UserID (select_where (\<lambda>ur. list_ex (\<lambda>rp. rpv_RoleID rp = url_RoleID ur \<and>
                rpv_Privilege rp = key) (role_privileges d)) (user_roles d)))"

definition countUsersHoldingPrivilegeTx :: "string \<Rightarrow> nat M" where
  "countUsersHoldingPrivilegeTx key = txq (\<lambda>d. length (holders_of d key))"

text \<open>UNION ALL of the direct grant and the join rows of the user's other roles, counted.\<close>

definition sources_outside :: "database \<Rightarrow> id \<Rightarrow> string \<Rightarrow> id \<Rightarrow> nat" where
  "sources_outside d uid key exclude =
     length (select_where (\<lambda>r. upv_UserID r = uid \<and> upv_Privilege r = key) (user_privileges d)) +
     length (concat (map (\<lambda>ur. select_where (\<lambda>rp. rpv_RoleID rp = url_RoleID ur \<and> rpv_Privilege rp = key)
         (role_privileges d))
       (select_where (\<lambda>ur. url_UserID ur = uid \<and> url_RoleID ur \<noteq> exclude) (user_roles d))))"

definition userHasPrivilegeOutsideTx :: "id \<Rightarrow> string \<Rightarrow> id \<Rightarrow> bool M" where
  "userHasPrivilegeOutsideTx uid key exclude = txq (\<lambda>d. sources_outside d uid key exclude > 0)"

text \<open>One round of the loop over the two meta privileges, and the loop.\<close>

definition assertNotLastHolderOf :: "id \<Rightarrow> id \<Rightarrow> string \<Rightarrow> unit M" where
  "assertNotLastHolderOf uid rid key =
     bindM (wrapM ''list role privileges'' (roles_ListPrivileges rid)) (\<lambda>rolePrivs.
     if \<not> list_ex (\<lambda>k. k = key) rolePrivs then retM ()
     else bindM (mapErrM (Errorf ''count holders of %s: %w'' [key]) (countUsersHoldingPrivilegeTx key)) (\<lambda>count.
       if count \<le> 1
       then bindM (wrapM ''check alternative source'' (userHasPrivilegeOutsideTx uid key rid)) (\<lambda>other.
         if \<not> other then invalid ''cannot revoke; would leave no holder of %s'' [key] else retM ())
       else retM ()))"

definition assertNotLastMetaHolderTx :: "id \<Rightarrow> id \<Rightarrow> unit M" where
  "assertNotLastMetaHolderTx uid rid = eachM [PrivilegesGrant, RolesManage] (assertNotLastHolderOf uid rid)"

definition RevokeRoleFromUser :: "id \<Rightarrow> id \<Rightarrow> id \<Rightarrow> string \<Rightarrow> unit M" where
  "RevokeRoleFromUser uid rid revoker reason =
     (if uid = '''' then invalid ''user_id is required'' []
      else if rid = '''' then invalid ''role_id is required'' []
      else if revoker = '''' then invalid ''revoker_id is required'' []
      else inTx (
        bindM (assertHasPrivilegeTx revoker RolesManage) (\<lambda>_.
        bindM (wrapM ''lookup role'' (roles_FindByID rid)) (\<lambda>role.
        case role of None \<Rightarrow> not_found ''role %q does not exist'' [rid]
        | Some r0 \<Rightarrow>
          bindM (wrapM ''lookup assignment'' (userRoles_FindForUpdate uid rid)) (\<lambda>existing.
          case existing of None \<Rightarrow> not_found ''user does not hold role %q'' [rol_Name r0]
          | Some _ \<Rightarrow>
            bindM (assertNotLastMetaHolderTx uid rid) (\<lambda>_.
            bindM (wrapM ''delete role assignment'' (userRoles_Delete uid rid)) (\<lambda>_.
            writeRoleAuditTx ''ROLE_REVOKED'' uid
              [(''actor_id'', revoker), (''role_id'', rid), (''role_name'', rol_Name r0),
               (''reason'', reason)])))))))"

definition ListUserRoles :: "id \<Rightarrow> user_role list M" where
  "ListUserRoles uid =
     (if uid = '''' then invalid ''user_id is required'' [] else userRoles_ListByUser uid)"

definition ListUserRolesWithPrivileges :: "id \<Rightarrow> user_role_detail list M" where
  "ListUserRolesWithPrivileges uid =
     (if uid = '''' then invalid ''user_id is required'' [] else userRoles_ListDetailedByUser uid)"

definition ListRoleHolders :: "id \<Rightarrow> user_role list M" where
  "ListRoleHolders rid =
     (if rid = '''' then invalid ''role_id is required'' [] else userRoles_ListByRole rid)"

abbreviation "bootstrapSystemOrgID \<equiv> ''system''"

definition createBootstrapUser :: "string \<Rightarrow> string \<Rightarrow> user M" where
  "createBootstrapUser email source = inTx (
     bindM (wrapM ''lookup system org'' (orgs_FindByID bootstrapSystemOrgID)) (\<lambda>org.
     bindM (case org of Some o0 \<Rightarrow> retM o0
            | None \<Rightarrow>
              let o1 = \<lparr> org_ID = bootstrapSystemOrgID, org_OriginatedID = bootstrapSystemOrgID,
                         org_Name = ''System'' \<rparr> in
              andReturn (wrapM ''create system org'' (orgs_Create o1)) o1) (\<lambda>o1.
     bindM newID (\<lambda>x.
     let u = \<lparr> usr_ID = x, usr_OrganizationID = org_ID o1, usr_FirstName = '''', usr_LastName = '''',
               usr_MiddleName = '''', usr_Email = email, usr_Status = UserPending,
               usr_Type = UserTypeSystem \<rparr> in
     bindM (wrapM ''insert bootstrap user'' (users_Create u)) (\<lambda>_.
     andReturn (writeUserBootstrappedAuditTx x [(''email'', email), (''source'', source)]) u)))))"

definition ensureSuperAdminRoleTx :: "role M" where
  "ensureSuperAdminRoleTx =
     bindM (wrapM ''lookup super_admin role'' (roles_FindByName SystemRoleSuperAdmin)) (\<lambda>existing.
     bindM (case existing of Some r0 \<Rightarrow> retM r0
            | None \<Rightarrow>
              bindM newID (\<lambda>x.
              let r1 = \<lparr> rol_ID = x, rol_Name = SystemRoleSuperAdmin,
                         rol_Description = stringPtrOrNil ''bootstrap role carrying every registered privilege'',
                         rol_IsSystem = True, rol_CreatedAt = 0 \<rparr> in
              andReturn (wrapM ''create super_admin role'' (roles_Create r1)) r1)) (\<lambda>r1.
     bindM (askM registered) (\<lambda>reg.
     andReturn (eachM (KnownPrivileges reg) (\<lambda>key.
       bindM (mapErrM (Errorf ''check super_admin privilege %s: %w'' [key]) (roles_HasPrivilege (rol_ID r1) key)) (\<lambda>has.
       if \<not> has
       then mapErrM (Errorf ''attach %s to super_admin: %w'' [key]) (roles_AddPrivilege (rol_ID r1) key)
       else retM ()))) r1)))"

definition bootstrapGrantTx :: "user \<Rightarrow> string \<Rightarrow> unit M" where
  "bootstrapGrantTx user source =
     bindM (wrapM ''ensure super_admin role'' ensureSuperAdminRoleTx) (\<lambda>role.
     bindM (wrapM ''lookup existing assignment'' (userRoles_FindForUpdate (usr_ID user) (rol_ID role))) (\<lambda>existing.
     case existing of Some _ \<Rightarrow> retM ()
     | None \<Rightarrow>
       bindM (wrapM ''count super_admin holders'' (userRoles_ListByRole (rol_ID role))) (\<lambda>holders.
       if length holders > 0 then retM ()
       else bindM nowUTC (\<lambda>now.
         bindM (wrapM ''insert bootstrap assignment'' (userRoles_Create
           \<lparr> url_UserID = usr_ID user, url_RoleID = rol_ID role, url_GrantedBy = None,
             url_GrantedAt = now, url_Reason = stringPtrOrNil ''bootstrap'' \<rparr>)) (\<lambda>_.
         wrapM ''audit bootstrap assignment'' (writeRoleAuditTx ''ROLE_BOOTSTRAPPED'' (usr_ID user)
           [(''role_id'', rol_ID role), (''role_name'', rol_Name role), (''source'', source)]))))))"

definition BootstrapSuperAdmin :: "string \<Rightarrow> string \<Rightarrow> unit M" where
  "BootstrapSuperAdmin email source =
     (if email = '''' then retM ()
      else bindM (wrapM ''lookup bootstrap user'' (users_FindByEmail email)) (\<lambda>found.
        bindM (case found of Some u \<Rightarrow> retM u
               | None \<Rightarrow> wrapM ''create bootstrap user'' (createBootstrapUser email source)) (\<lambda>user.
        inTx (bootstrapGrantTx user source))))"

subsection \<open>Failed operations leave no trace, and the schema is kept\<close>

lemma writeAudit_readonly [readonly_intros]:
  "readonly (writePrivilegeAuditTx t x kvs)" "readonly (writeRoleAuditTx t x kvs)"
  "readonly (writeUserBootstrappedAuditTx x kvs)"
  unfolding writePrivilegeAuditTx_def writeRoleAuditTx_def writeUserBootstrappedAuditTx_def
  by (intro readonly_intros)+

lemma assert_readonly [readonly_intros]:
  "readonly (not_found msg as)" "readonly (assertHasPrivilegeTx x p)" "readonly (assertGranterTx x)"
  "readonly (assertNotLastMetaHolderTx x y)" "readonly ensureSuperAdminRoleTx"
  "readonly (bootstrapGrantTx user source)"
  unfolding not_found_def assertHasPrivilegeTx_def assertGranterTx_def assertNotLastMetaHolderTx_def assertNotLastHolderOf_def
    countUsersHoldingPrivilegeTx_def userHasPrivilegeOutsideTx_def ensureSuperAdminRoleTx_def
    bootstrapGrantTx_def writeRoleAuditTx_def
  by (intro readonly_intros)+

lemmas authz_op_defs =
  GrantPrivilege_def RevokePrivilege_def CreateRole_def UpdateRole_def DeleteRole_def
  AddPrivilegeToRole_def RemovePrivilegeFromRole_def GrantRoleToUser_def RevokeRoleFromUser_def
  createBootstrapUser_def

lemma authz_atomic [atomic_intros]:
  "atomicM (GrantPrivilege x p y r)" "atomicM (RevokePrivilege x p y r)"
  "atomicM (CreateRole n d x)" "atomicM (UpdateRole y n d x)" "atomicM (DeleteRole y x)"
  "atomicM (AddPrivilegeToRole y p x)" "atomicM (RemovePrivilegeFromRole y p x)"
  "atomicM (GrantRoleToUser x y z r)" "atomicM (RevokeRoleFromUser x y z r)"
  "atomicM (createBootstrapUser email source)"
  unfolding authz_op_defs by (intro atomic_intros readonly_intros)+

lemma txkeeps_mapErrM [txkeeps_intros]: "txkeeps I m \<Longrightarrow> txkeeps I (mapErrM g m)"
  unfolding txkeeps_def mapErrM_Inr by blast

lemma txkeeps_andReturn [txkeeps_intros]: "txkeeps I m \<Longrightarrow> txkeeps I (andReturn m r)"
  unfolding txkeeps_def andReturn_Inr by blast

lemma assert_txkeeps [txkeeps_intros]:
  "txkeeps I (not_found msg as)" "txkeeps I (assertHasPrivilegeTx x p)" "txkeeps I (assertGranterTx x)"
  "txkeeps I (assertNotLastMetaHolderTx x y)"
  unfolding not_found_def assertHasPrivilegeTx_def assertGranterTx_def assertNotLastMetaHolderTx_def assertNotLastHolderOf_def
    countUsersHoldingPrivilegeTx_def userHasPrivilegeOutsideTx_def
  by (intro txkeeps_intros)+

context store_contract
begin

lemma writeAudit_keeps:
  "txkeeps I (writePrivilegeAuditTx t x kvs)" "txkeeps I (writeRoleAuditTx t x kvs)"
  "txkeeps I (writeUserBootstrappedAuditTx x kvs)"
  unfolding writePrivilegeAuditTx_def writeRoleAuditTx_def writeUserBootstrappedAuditTx_def
  by (intro txkeeps_intros)+

lemma authz_keeps:
  "keeps I (RevokePrivilege x p y r)" "keeps I (CreateRole n d x)" "keeps I (UpdateRole y n d x)"
  "keeps I (DeleteRole y x)" "keeps I (RemovePrivilegeFromRole y p x)"
  "keeps I (GrantRoleToUser x y z r)" "keeps I (RevokeRoleFromUser x y z r)"
  "keeps I (createBootstrapUser email source)"
  unfolding authz_op_defs
  by (intro keeps_intros readonly_intros txkeeps_intros writeAudit_keeps)+

end

context grant_contract
begin

lemma bootstrap_keeps:
  "txkeeps I ensureSuperAdminRoleTx" "txkeeps I (bootstrapGrantTx user source)"
  unfolding ensureSuperAdminRoleTx_def bootstrapGrantTx_def
  by (intro txkeeps_intros writeAudit_keeps)+

lemma grant_keeps:
  "keeps I (GrantPrivilege x p y r)" "keeps I (AddPrivilegeToRole y p x)"
  "keeps I (BootstrapSuperAdmin email source)"
  unfolding GrantPrivilege_def AddPrivilegeToRole_def BootstrapSuperAdmin_def
  by (intro keeps_intros readonly_intros txkeeps_intros writeAudit_keeps bootstrap_keeps authz_keeps)+

end

subsection \<open>Only registered keys are attached\<close>

lemma GrantPrivilege_keeps_known:
  "keeps_at e (known_grants (registered e)) (GrantPrivilege x p y r)"
  unfolding GrantPrivilege_def Let_def
  by (intro keeps_at_if keeps_at_ask; intro keeps_at_keeps keeps_intros readonly_intros txkeeps_intros
      grants.writeAudit_keeps known_grants_attach; simp)

lemma AddPrivilegeToRole_keeps_known:
  "keeps_at e (known_grants (registered e)) (AddPrivilegeToRole y p x)"
  unfolding AddPrivilegeToRole_def
  by (intro keeps_at_if keeps_at_ask; intro keeps_at_keeps keeps_intros readonly_intros txkeeps_intros
      grants.writeAudit_keeps known_grants_attach; simp)

lemma ensureSuperAdminRoleTx_keeps_known:
  "txkeeps_at e (known_grants (registered e)) ensureSuperAdminRoleTx"
  unfolding ensureSuperAdminRoleTx_def
  by (intro txkeeps_at_bindM [OF txkeeps_at_txkeeps] txkeeps_at_ask;
      intro txkeeps_at_txkeeps txkeeps_mapErrM txkeeps_andReturn txkeeps_eachM_mem txkeeps_intros
        known_grants_attach; simp)

lemma BootstrapSuperAdmin_keeps_known:
  "keeps_at e (known_grants (registered e)) (BootstrapSuperAdmin email source)"
  unfolding BootstrapSuperAdmin_def bootstrapGrantTx_def
  by (rule keeps_at_if keeps_at_bindM keeps_at_inTx txkeeps_at_bindM
        txkeeps_at_wrapM [OF ensureSuperAdminRoleTx_keeps_known] |
      intro keeps_at_keeps txkeeps_at_txkeeps keeps_intros readonly_intros txkeeps_intros
        grants.writeAudit_keeps grants.authz_keeps)+

end
