(* ===== verification/Svc_Identity.thy ===== *)
theory Svc_Identity
  imports Svc_Authz
begin

text \<open>
  pkg/service/identity_resolver.go: from verified OIDC claims to a caller and
  the caller's effective privileges.  Resolved callers are cached per subject;
  an entry is served only before its expiry, and expired entries are dropped
  when they are read.  A subject that has no binding yet is bound to the PENDING
  user with the claimed e-mail address.

  The cache's mutex makes each of its operations one step, as here.
\<close>

record claims =
  clm_Sub :: string
  clm_Email :: string
  clm_EmailVerified :: bool

definition ErrEmailNotVerified :: err where
  "ErrEmailNotVerified = Errorf ''%w: verified email claim missing'' [] ErrNotLinked"

definition ErrNoUserMatchesEmail :: err where
  "ErrNoUserMatchesEmail = Errorf ''%w: no user matches email'' [] ErrNotLinked"

definition ErrUserNotPending :: err where
  "ErrUserNotPending = Errorf ''%w: user is not pending'' [] ErrNotLinked"

definition ErrUserAlreadyOIDCLinked :: err where
  "ErrUserAlreadyOIDCLinked = Errorf ''%w: user already has an OIDC binding'' [] ErrNotLinked"

subsection \<open>The cache\<close>

text \<open>30 * time.Second, in microseconds.\<close>

definition identityCacheDefaultTTL :: int where
  "identityCacheDefaultTTL = 30000000"

definition identityCache_get :: "string \<Rightarrow> time \<Rightarrow> identity_cache_entry option M" where
  "identityCache_get sub now e s =
     (case cache s sub of
        None \<Rightarrow> (Inr None, s)
      | Some en \<Rightarrow>
          if \<not> now < ice_expires en then (Inr None, s\<lparr>cache := (cache s)(sub := None)\<rparr>)
          else (Inr (Some en), s))"

definition identityCache_set :: "string \<Rightarrow> caller \<Rightarrow> string list \<Rightarrow> time \<Rightarrow> unit M" where
  "identityCache_set sub cl privs now e s =
     (Inr (), s\<lparr>cache := (cache s)(sub \<mapsto>
        \<lparr> ice_caller = cl, ice_privs = privs, ice_expires = now + cache_ttl s \<rparr>)\<rparr>)"

definition identityCache_invalidateAll :: "unit M" where
  "identityCache_invalidateAll e s = (Inr (), s\<lparr>cache := \<lambda>_. None\<rparr>)"

definition identityCache_setTTL :: "int \<Rightarrow> unit M" where
  "identityCache_setTTL t e s =
     (Inr (), s\<lparr>cache_ttl := (if t \<le> 0 then identityCacheDefaultTTL else t)\<rparr>)"

definition SetIdentityCacheTTL :: "int \<Rightarrow> unit M" where
  "SetIdentityCacheTTL t = identityCache_setTTL t"

definition InvalidateAllIdentities :: "unit M" where
  "InvalidateAllIdentities = identityCache_invalidateAll"

subsection \<open>Resolution\<close>

definition writeIdentityAuditTx :: "id \<Rightarrow> (string \<times> string) list \<Rightarrow> unit M" where
  "writeIdentityAuditTx uid details =
     bindM newID (\<lambda>x. bindM nowUTC (\<lambda>now.
     auditEvents_Create (auditRow x now ''IDENTITY_LINKED'' ''user'' uid (json_Marshal details))))"

abbreviation "identitySourceOIDC \<equiv> ''oidc''"

definition linkTx :: "claims \<Rightarrow> user \<Rightarrow> unit M" where
  "linkTx c u =
     bindM newID (\<lambda>x.
     bindM (wrapM ''create oidc identity'' (userIdentities_Create
       \<lparr> uid_ID = x, uid_UserID = usr_ID u, uid_Source = identitySourceOIDC,
         uid_ExternalID = clm_Sub c, uid_Email = clm_Email c, uid_OIDCSub = clm_Sub c,
         uid_Metadata = '''', uid_CreatedAt = 0 \<rparr>)) (\<lambda>_.
     bindM (wrapM ''activate user'' (users_UpdateStatus (usr_ID u) UserActive)) (\<lambda>_.
     writeIdentityAuditTx (usr_ID u)
       [(''oidc_sub'', clm_Sub c), (''email'', clm_Email c), (''source'', ''oidc_email_fallback'')])))"

definition linkBySub :: "claims \<Rightarrow> user M" where
  "linkBySub c =
     (if clm_Email c = '''' then throwM ErrEmailNotVerified
      else bindM (wrapM ''email-fallback lookup'' (users_FindByEmail (clm_Email c))) (\<lambda>found.
        case found of None \<Rightarrow> throwM ErrNoUserMatchesEmail
        | Some u \<Rightarrow>
          bindM (wrapM ''email-fallback identity scan''
                  (userIdentities_FindByUserAndSource (usr_ID u) identitySourceOIDC)) (\<lambda>existing.
          case existing of Some _ \<Rightarrow> throwM ErrUserAlreadyOIDCLinked
          | None \<Rightarrow>
            if usr_Status u \<noteq> UserPending
            then throwM (Errorf ''%w: status=%s'' [usr_Status u] ErrUserNotPending)
            else andReturn (inTx (linkTx c u)) (u\<lparr>usr_Status := UserActive\<rparr>))))"

definition ResolveCaller :: "claims option \<Rightarrow> (caller \<times> string list) M" where
  "ResolveCaller claims =
     (case claims of None \<Rightarrow> throwM ErrNotLinked
      | Some c \<Rightarrow>
        if clm_Sub c = '''' then throwM ErrNotLinked
        else bindM nowUTC (\<lambda>now.
          bindM (identityCache_get (clm_Sub c) now) (\<lambda>hit.
          case hit of Some en \<Rightarrow> retM (ice_caller en, ice_privs en)
          | None \<Rightarrow>
            bindM (users_GetUserByOIDCSub (clm_Sub c)) (\<lambda>found.
            bindM (case found of Some u \<Rightarrow> retM u | None \<Rightarrow> linkBySub c) (\<lambda>u.
            bindM (EffectivePrivileges (usr_ID u)) (\<lambda>privs.
            let cl = \<lparr> cal_UserID = usr_ID u \<rparr> in
            andReturn (identityCache_set (clm_Sub c) cl privs now) (cl, privs)))))))"

subsection \<open>The schema is kept\<close>

lemma identityCache_readonly [readonly_intros]:
  "readonly (identityCache_get sub now)" "readonly (identityCache_set sub cl ps now)"
  "readonly identityCache_invalidateAll" "readonly (identityCache_setTTL t)"
  by (auto simp: readonly_def frame_def identityCache_get_def identityCache_set_def
      identityCache_invalidateAll_def identityCache_setTTL_def split: option.splits if_splits)

lemma linkTx_readonly [readonly_intros]: "readonly (linkTx c u)"
  unfolding linkTx_def writeIdentityAuditTx_def by (intro readonly_intros)

lemma linkBySub_atomic [atomic_intros]: "atomicM (linkBySub c)"
  unfolding linkBySub_def by (intro atomic_intros readonly_intros)

lemma EffectivePrivileges_readonly [readonly_intros]: "readonly (EffectivePrivileges x)"
  unfolding EffectivePrivileges_def by (intro readonly_intros)

lemma identityCache_keeps [keeps_intros]:
  "keeps I (identityCache_get sub now)" "keeps I (identityCache_set sub cl ps now)"
  "keeps I identityCache_invalidateAll" "keeps I (identityCache_setTTL t)"
  by (auto simp: keeps_def identityCache_get_def identityCache_set_def
      identityCache_invalidateAll_def identityCache_setTTL_def split: option.splits if_splits)

context store_contract
begin

lemma linkBySub_keeps: "keeps I (linkBySub c)"
  unfolding linkBySub_def linkTx_def writeIdentityAuditTx_def
  by (intro keeps_intros readonly_intros txkeeps_intros)

lemma ResolveCaller_keeps: "keeps I (ResolveCaller c)"
  unfolding ResolveCaller_def EffectivePrivileges_def
  by (intro keeps_intros readonly_intros txkeeps_intros linkBySub_keeps)

end

end
