(* ===== verification/Svc_Project.thy ===== *)
theory Svc_Project
  imports Schema_Invariant PI_Invariant Grant_Invariant Sample_Data
begin

text \<open>
  pkg/service for projects and project memberships: project.go and
  project_membership.go.  Governance roles (PI, co-PI, allocation manager) are
  rows of project_memberships; the invariant one_pi says that no project has
  two PI rows, which no database constraint enforces.
\<close>

subsection \<open>project.go\<close>

definition CreateProject :: "project option \<Rightarrow> project M" where
  "CreateProject project = (case project of None \<Rightarrow> invalid ''project is nil'' []
   | Some p0 \<Rightarrow>
     if prj_Title p0 = '''' then invalid ''project title is required'' []
     else if prj_ProjectPIID p0 = '''' then invalid ''project_pi_id is required'' []
     else bindM (wrapM ''verify project PI'' (users_FindByID (prj_ProjectPIID p0))) (\<lambda>pi.
       case pi of None \<Rightarrow> invalid ''PI user %q does not exist'' [prj_ProjectPIID p0]
       | Some _ \<Rightarrow>
         bindM (if prj_OriginatedID p0 \<noteq> ''''
                then wrapM ''lookup project by originated id'' (projs_FindByOriginatedID (prj_OriginatedID p0))
                else retM None) (\<lambda>existing.
         case existing of
           Some _ \<Rightarrow> already_exists ''project with originated_id %q'' [prj_OriginatedID p0]
         | None \<Rightarrow>
           bindM (idOrNew (prj_ID p0)) (\<lambda>x.
           bindM nowUTC (\<lambda>now.
           let p1 = p0\<lparr>prj_ID := x, prj_Status := orElse (prj_Status p0) ProjectActive,
                       prj_CreatedTime := orElseTime (prj_CreatedTime p0) now\<rparr> in
           andPublish (wrapM ''create project'' (inTx (projs_Create p1)))
             ''project::create'' (PProject p1) p1)))))"

definition GetProject :: "id \<Rightarrow> project M" where
  "GetProject x = orNotFound (wrapM ''get project'' (projs_FindByID x))"

definition GetProjectByOriginatedID :: "string \<Rightarrow> project M" where
  "GetProjectByOriginatedID oid =
     orNotFound (wrapM ''get project by originated id'' (projs_FindByOriginatedID oid))"

definition ListProjectsByPI :: "id \<Rightarrow> project list M" where
  "ListProjectsByPI uid = wrapM ''list projects by PI'' (projs_FindByPI uid)"

definition ListProjects :: "project_list_filter \<Rightarrow> (project list \<times> nat) M" where
  "ListProjects f = wrapM ''list projects'' (projs_List f)"

definition GetProjectWithPI :: "id \<Rightarrow> project_with_pi M" where
  "GetProjectWithPI x = orNotFound (wrapM ''get project'' (projs_FindByIDWithPI x))"

definition ListProjectsWithPI :: "project_list_filter \<Rightarrow> (project_with_pi list \<times> nat) M" where
  "ListProjectsWithPI f = wrapM ''list projects'' (projs_ListWithPI f)"

definition ListProjectsForParticipant :: "id \<Rightarrow> project_with_pi list M" where
  "ListProjectsForParticipant uid =
     (if uid = '''' then invalid ''user id is required'' []
      else wrapM ''list projects for participant'' (projs_ListWithPIForParticipant uid))"

definition IsProjectParticipant :: "id \<Rightarrow> id \<Rightarrow> bool M" where
  "IsProjectParticipant pid uid =
     (if pid = '''' \<or> uid = '''' then invalid ''project id and user id are required'' []
      else wrapM ''check project participant'' (projMemberships_IsParticipant pid uid))"

definition UpdateProject :: "project option \<Rightarrow> unit M" where
  "UpdateProject project = (case project of None \<Rightarrow> invalid ''project id is required'' []
   | Some p0 \<Rightarrow>
     if prj_ID p0 = '''' then invalid ''project id is required'' []
     else bindM (wrapM ''lookup project'' (projs_FindByID (prj_ID p0))) (\<lambda>existing.
       case existing of None \<Rightarrow> throwM ErrNotFound
       | Some old \<Rightarrow>
         let p1 = p0\<lparr>prj_OriginatedID := orElse (prj_OriginatedID p0) (prj_OriginatedID old),
                     prj_Title := orElse (prj_Title p0) (prj_Title old),
                     prj_Origination := orElse (prj_Origination p0) (prj_Origination old),
                     prj_ProjectPIID := orElse (prj_ProjectPIID p0) (prj_ProjectPIID old),
                     prj_Status := orElse (prj_Status p0) (prj_Status old),
                     prj_CreatedTime := orElseTime (prj_CreatedTime p0) (prj_CreatedTime old)\<rparr> in
         andPublish (wrapM ''update project'' (inTx (projs_Update p1)))
           ''project::update'' (PProject p1) ()))"

definition UpdateProjectStatus :: "id \<Rightarrow> string \<Rightarrow> project M" where
  "UpdateProjectStatus x status =
     (if x = '''' then invalid ''project id is required'' []
      else if status = '''' then invalid ''status is required'' []
      else bindM (wrapM ''lookup project'' (projs_FindByID x)) (\<lambda>existing.
        case existing of None \<Rightarrow> throwM ErrNotFound
        | Some old \<Rightarrow> let p1 = old\<lparr>prj_Status := status\<rparr> in
            andPublish (wrapM ''update project status'' (inTx (projs_UpdateStatus x status)))
              ''project::update'' (PProject p1) p1))"

definition DeleteProject :: "id \<Rightarrow> unit M" where
  "DeleteProject x =
     (if x = '''' then invalid ''project id is required'' []
      else bindM (wrapM ''lookup project'' (projs_FindByID x)) (\<lambda>project.
        case project of None \<Rightarrow> throwM ErrNotFound
        | Some p0 \<Rightarrow> andPublish (wrapM ''delete project'' (inTx (projs_Delete x)))
                      ''project::delete'' (PProject p0) ()))"

subsection \<open>project_membership.go\<close>

definition normalizeProjectRole :: "string \<Rightarrow> string option" where
  "normalizeProjectRole raw =
     (if raw = ''PI'' then Some ProjectRolePI
      else if raw = ''CO_PI'' then Some ProjectRoleCoPI
      else if raw = ''ALLOCATION_MANAGER'' then Some ProjectRoleAllocationManager
      else None)"

definition ErrPIChangef :: "string \<Rightarrow> string list \<Rightarrow> 'a M" where
  "ErrPIChangef msg as = throwM (Errorf (''%w: '' @ msg) as ErrPIChange)"

text \<open>The three ways EnsureProjectMembership proceeds: the demotion to derived membership, the check
  that a PI request names the current PI, and the update or insert of the role.\<close>

definition demoteMembership :: "id \<Rightarrow> id \<Rightarrow> unit M" where
  "demoteMembership pid uid =
     bindM (wrapM ''lookup project membership'' (projMemberships_FindByPair pid uid)) (\<lambda>existing.
     case existing of None \<Rightarrow> retM ()
     | Some m \<Rightarrow>
       if pmb_Role m = ProjectRolePI then ErrPIChangef ''cannot demote PI of project %q'' [pid]
       else inTx (projMemberships_Delete pid uid))"

definition checkSinglePI :: "id \<Rightarrow> id \<Rightarrow> string \<Rightarrow> unit M" where
  "checkSinglePI pid uid pr =
     (if pr = ProjectRolePI
      then bindM (wrapM ''lookup PI'' (projMemberships_FindPIByProject pid)) (\<lambda>currentPI.
        case currentPI of None \<Rightarrow> retM ()
        | Some m \<Rightarrow>
          if pmb_UserID m \<noteq> uid
          then ErrPIChangef ''project %q already has PI %q'' [pid, pmb_UserID m]
          else retM ())
      else retM ())"

definition upsertMembership :: "id \<Rightarrow> id \<Rightarrow> string \<Rightarrow> project_membership option \<Rightarrow> unit M" where
  "upsertMembership pid uid pr existing =
     (case existing of
        Some m \<Rightarrow>
          if pmb_Role m = ProjectRolePI \<and> pr \<noteq> ProjectRolePI
          then ErrPIChangef ''cannot downgrade PI of project %q'' [pid]
          else if pmb_Role m = pr then retM ()
          else inTx (projMemberships_UpdateRole pid uid pr)
      | None \<Rightarrow>
        bindM nowUTC (\<lambda>now.
        inTx (projMemberships_Create
          \<lparr> pmb_ProjectID = pid, pmb_UserID = uid, pmb_Role = pr, pmb_AddedTime = now \<rparr>)))"

definition EnsureProjectMembership :: "id \<Rightarrow> id \<Rightarrow> string \<Rightarrow> unit M" where
  "EnsureProjectMembership pid uid role =
     (if pid = '''' then invalid ''project_id is required'' []
      else if uid = '''' then invalid ''user_id is required'' []
      else if role = ''MEMBER'' \<or> role = '''' then demoteMembership pid uid
      else case normalizeProjectRole role of
        None \<Rightarrow> invalid ''unknown project role %q'' [role]
      | Some pr \<Rightarrow>
        bindM (wrapM ''lookup project membership'' (projMemberships_FindByPair pid uid)) (\<lambda>existing.
        bindM (checkSinglePI pid uid pr) (\<lambda>_.
        upsertMembership pid uid pr existing)))"

definition ProjectRoleForUser :: "id \<Rightarrow> id \<Rightarrow> string M" where
  "ProjectRoleForUser pid uid =
     bindM (wrapM ''lookup project role'' (projMemberships_FindByPair pid uid)) (\<lambda>pm.
     case pm of None \<Rightarrow> retM '''' | Some m \<Rightarrow> retM (pmb_Role m))"

definition ListProjectMemberships :: "id \<Rightarrow> project_membership list M" where
  "ListProjectMemberships pid =
     (if pid = '''' then invalid ''project_id is required'' []
      else wrapM ''list project memberships'' (projMemberships_FindByProject pid))"

subsection \<open>Failed operations leave no trace\<close>

lemma ErrPIChangef_readonly [readonly_intros]: "readonly (ErrPIChangef msg as)"
  unfolding ErrPIChangef_def by (intro readonly_intros)

lemma ErrPIChangef_atomic [atomic_intros]: "atomicM (ErrPIChangef msg as)"
  by (intro atomicM_readonly readonly_intros)

lemma ErrPIChangef_keeps [keeps_intros]: "keeps I (ErrPIChangef msg as)"
  by (intro keeps_readonly readonly_intros)

lemma checkSinglePI_readonly [readonly_intros]: "readonly (checkSinglePI pid uid pr)"
  unfolding checkSinglePI_def by (intro readonly_intros)

lemma project_atomic [atomic_intros]:
  "atomicM (CreateProject project)" "atomicM (UpdateProject project)"
  "atomicM (UpdateProjectStatus x st)" "atomicM (DeleteProject x)"
  "atomicM (EnsureProjectMembership pid uid role)"
  unfolding CreateProject_def UpdateProject_def UpdateProjectStatus_def DeleteProject_def
    EnsureProjectMembership_def demoteMembership_def upsertMembership_def
  by (intro atomic_intros readonly_intros)+

context store_contract
begin

lemma project_keeps:
  "keeps I (CreateProject project)" "keeps I (UpdateProject project)"
  "keeps I (UpdateProjectStatus x st)" "keeps I (DeleteProject x)" "keeps I (demoteMembership pid uid)"
  unfolding CreateProject_def UpdateProject_def UpdateProjectStatus_def DeleteProject_def
    demoteMembership_def
  by (intro keeps_intros readonly_intros txkeeps_intros)+

end

context membership_contract
begin

lemma EnsureProjectMembership_keeps: "keeps I (EnsureProjectMembership pid uid role)"
  unfolding EnsureProjectMembership_def checkSinglePI_def upsertMembership_def
  by (intro keeps_intros readonly_intros txkeeps_intros project_keeps)

end

subsection \<open>EnsureProjectMembership keeps one PI per project\<close>

text \<open>What the check guarantees: a PI request for a project that has a PI names that PI.\<close>

lemma checkSinglePI_ok:
  assumes "checkSinglePI pid uid pr e s = (Inr x, s1)"
  shows "pr = ProjectRolePI \<Longrightarrow> m \<in> set (project_memberships (db s)) \<Longrightarrow>
      pmb_ProjectID m = pid \<Longrightarrow> pmb_Role m = ProjectRolePI \<Longrightarrow> one_pi (db s) \<Longrightarrow> pmb_UserID m = uid"
    and "db s1 = db s"
  using assms
  by (auto simp: checkSinglePI_def store_defs run_simps find_None_iff one_pi_def pi_rows_def
      uniq_def distinct_map inj_on_def ErrPIChangef_def
      split: if_splits option.splits dest!: find_SomeD)

lemma Ensure_write_one_pi:
  assumes "schema_ok (db s)" "one_pi (db s)"
    and chk: "checkSinglePI pid uid pr e s0 = (Inr x, s1)" "db s0 = db s"
    and ex: "existing = find (\<lambda>r. pmb_ProjectID r = pid \<and> pmb_UserID r = uid) (project_memberships (db s))"
  shows "existing = None \<Longrightarrow> one_pi ((db s)\<lparr>project_memberships :=
      insert_row \<lparr> pmb_ProjectID = pid, pmb_UserID = uid, pmb_Role = pr, pmb_AddedTime = now \<rparr>
        (project_memberships (db s))\<rparr>)"
    and "existing = Some m \<Longrightarrow> pmb_Role m \<noteq> pr \<Longrightarrow> one_pi ((db s)\<lparr>project_memberships :=
      update_where (\<lambda>r. pmb_ProjectID r = pid \<and> pmb_UserID r = uid) (\<lambda>r. r\<lparr>pmb_Role := pr\<rparr>)
        (project_memberships (db s))\<rparr>)"
proof -
  note pk = schema_pm_pkey [OF assms(1)]
  have user: "pr = ProjectRolePI \<Longrightarrow> m' \<in> set (project_memberships (db s)) \<Longrightarrow> pmb_ProjectID m' = pid \<Longrightarrow>
      pmb_Role m' = ProjectRolePI \<Longrightarrow> pmb_UserID m' = uid" for m'
    using checkSinglePI_ok(1) [OF chk(1), of m'] chk(2) assms(2) by simp
  show "one_pi ((db s)\<lparr>project_memberships :=
      insert_row \<lparr> pmb_ProjectID = pid, pmb_UserID = uid, pmb_Role = pr, pmb_AddedTime = now \<rparr>
        (project_memberships (db s))\<rparr>)" if "existing = None"
  proof (rule one_pi_insert [OF assms(2)])
    fix m' assume "pmb_Role \<lparr> pmb_ProjectID = pid, pmb_UserID = uid, pmb_Role = pr, pmb_AddedTime = now \<rparr> =
        ProjectRolePI" "m' \<in> set (project_memberships (db s))" "pmb_Role m' = ProjectRolePI"
    then show "pmb_ProjectID m' \<noteq>
        pmb_ProjectID \<lparr> pmb_ProjectID = pid, pmb_UserID = uid, pmb_Role = pr, pmb_AddedTime = now \<rparr>"
      using that ex user [of m'] by (auto simp: find_None_iff)
  qed
  show "one_pi ((db s)\<lparr>project_memberships :=
      update_where (\<lambda>r. pmb_ProjectID r = pid \<and> pmb_UserID r = uid) (\<lambda>r. r\<lparr>pmb_Role := pr\<rparr>)
        (project_memberships (db s))\<rparr>)" if "existing = Some m" "pmb_Role m \<noteq> pr"
  proof (rule one_pi_set_role [OF pk assms(2)])
    have m: "m \<in> set (project_memberships (db s))" "pmb_ProjectID m = pid" "pmb_UserID m = uid"
      using find_SomeD [OF ex [symmetric, unfolded that(1)]] by auto
    fix m' assume m': "pr = ProjectRolePI" "m' \<in> set (project_memberships (db s))"
      "pmb_Role m' = ProjectRolePI"
    show "pmb_ProjectID m' \<noteq> pid"
    proof
      assume p: "pmb_ProjectID m' = pid"
      then have "m = m'" using uniqD [OF pk m(1) m'(2)] m user [OF m'(1,2) _ m'(3)] by simp
      then show False using that(2) m' by simp
    qed
  qed
qed

lemma EnsureProjectMembership_keeps_one_pi:
  assumes inv: "schema_ok (db s)" "one_pi (db s)"
    and run: "EnsureProjectMembership pid uid role e s = (r, s')"
  shows "one_pi (db s')"
proof (cases r)
  case (Inl x)
  have "atomicM (EnsureProjectMembership pid uid role)" by (rule atomic_intros)
  then show ?thesis using run Inl inv by (auto simp: atomicM_def frame_def)
next
  case (Inr x)
  consider (dem) "demoteMembership pid uid e s = (r, s')"
    | (set) pr s1 s2 existing where "normalizeProjectRole role = Some pr"
        "wrapM ''lookup project membership'' (projMemberships_FindByPair pid uid) e s = (Inr existing, s1)"
        "checkSinglePI pid uid pr e s1 = (Inr (), s2)"
        "upsertMembership pid uid pr existing e s2 = (Inr x, s')"
    using run Inr
    by (auto simp: EnsureProjectMembership_def bindM_Inr invalid_iff split: if_splits option.splits)

  then show ?thesis
  proof cases
    case dem
    then show ?thesis using pi.project_keeps(5) inv by (auto simp: keeps_def)
  next
    case set
    have dbs: "db s1 = db s" "db s2 = db s1"
      and ex: "existing = find (\<lambda>r. pmb_ProjectID r = pid \<and> pmb_UserID r = uid) (project_memberships (db s))"
      using set(2) checkSinglePI_ok(2) [OF set(3)] by (auto simp: store_defs run_simps)
    note wr = Ensure_write_one_pi [OF inv set(3) dbs(1) ex]
    show ?thesis
    proof (cases existing)
      case None
      then show ?thesis
        using set(4) dbs wr(1) [OF None] by (auto simp: upsertMembership_def run_simps store_defs)
    next
      case (Some m)
      then have "pmb_Role m = pr \<and> s' = s2 \<or>
          pmb_Role m \<noteq> pr \<and> inTx (projMemberships_UpdateRole pid uid pr) e s2 = (Inr x, s')"
        using set(4)
        by (auto simp: upsertMembership_def ErrPIChangef_def throwM_def retM_def split: if_splits)
      then show ?thesis
        using dbs inv wr(2) [OF Some] by (auto simp: run_simps store_defs)
    qed

  qed
qed

subsection \<open>What a successful call of EnsureProjectMembership did\<close>

lemma normalizeProjectRole_Some: "normalizeProjectRole role = Some pr \<Longrightarrow> pr = role"
  by (auto simp: normalizeProjectRole_def split: if_splits)

lemma demoteMembership_ok:
  assumes "demoteMembership pid uid e s = (Inr x, s')"
  shows "db s' = (db s)\<lparr>project_memberships :=
      delete_where (\<lambda>r. pmb_ProjectID r = pid \<and> pmb_UserID r = uid) (project_memberships (db s))\<rparr> \<and>
    bus s' = bus s \<and> role_of (db s) pid uid \<noteq> Some ProjectRolePI"
proof -
  have "delete_where P t = t" if "find P t = None" for P and t :: "project_membership list"
    using that by (induction t) (auto simp: delete_where_def split: if_splits)
  then show ?thesis
    using assms
    by (auto simp: demoteMembership_def store_defs run_simps role_of_def ErrPIChangef_def
        split: option.splits if_splits)
qed

lemma upsertMembership_ok:
  assumes "upsertMembership pid uid pr existing e s = (Inr x, s')"
    and "existing = find (\<lambda>r. pmb_ProjectID r = pid \<and> pmb_UserID r = uid) (project_memberships (db s))"
  shows "bus s' = bus s \<and> (role_of (db s) pid uid = Some ProjectRolePI \<longrightarrow> pr = ProjectRolePI) \<and>
    (db s' = (db s)\<lparr>project_memberships :=
       update_where (\<lambda>r. pmb_ProjectID r = pid \<and> pmb_UserID r = uid) (\<lambda>r. r\<lparr>pmb_Role := pr\<rparr>)
         (project_memberships (db s))\<rparr> \<and> existing \<noteq> None \<or>
     existing = None \<and> (\<exists>now. db s' = (db s)\<lparr>project_memberships :=
       insert_row \<lparr> pmb_ProjectID = pid, pmb_UserID = uid, pmb_Role = pr, pmb_AddedTime = now \<rparr>
         (project_memberships (db s))\<rparr>) \<or>
     db s' = db s \<and> role_of (db s) pid uid = Some pr)"
  using assms
  by (auto simp: upsertMembership_def store_defs run_simps role_of_def ErrPIChangef_def
      split: option.splits if_splits)

lemma checkSinglePI_bus: "checkSinglePI pid uid pr e s = (Inr x, s') \<Longrightarrow> bus s' = bus s"
  by (auto simp: checkSinglePI_def store_defs run_simps ErrPIChangef_def split: if_splits option.splits)

lemma Ensure_cases:
  assumes "EnsureProjectMembership pid uid role e s = (Inr x, s')"
  obtains (dem) "role = ''MEMBER'' \<or> role = ''''" "demoteMembership pid uid e s = (Inr x, s')"
  | (set) s1 where "role \<noteq> ''MEMBER''" "role \<noteq> ''''" "normalizeProjectRole role = Some role"
      "checkSinglePI pid uid role e (tick s) = (Inr (), s1)"
      "db s1 = db s" "bus s1 = bus s"
      "upsertMembership pid uid role (find (\<lambda>r. pmb_ProjectID r = pid \<and> pmb_UserID r = uid)
         (project_memberships (db s))) e s1 = (Inr x, s')"
proof -
  consider "role = ''MEMBER'' \<or> role = ''''" "demoteMembership pid uid e s = (Inr x, s')"
    | (set) pr s1 s2 existing where "role \<noteq> ''MEMBER''" "role \<noteq> ''''" "normalizeProjectRole role = Some pr"
        "wrapM ''lookup project membership'' (projMemberships_FindByPair pid uid) e s = (Inr existing, s1)"
        "checkSinglePI pid uid pr e s1 = (Inr (), s2)"
        "upsertMembership pid uid pr existing e s2 = (Inr x, s')"
    using assms
    by (auto simp: EnsureProjectMembership_def bindM_Inr invalid_iff split: if_splits option.splits)
  then show ?thesis
  proof cases
    case set
    note pr = normalizeProjectRole_Some [OF set(3)]
    have s1: "s1 = tick s" and ex: "existing = find (\<lambda>r. pmb_ProjectID r = pid \<and> pmb_UserID r = uid)
         (project_memberships (db s))"
      using set(4) by (auto simp: store_defs run_simps)
    show ?thesis
      using that(2) set checkSinglePI_ok(2) [OF set(5)] checkSinglePI_bus [OF set(5)]
      unfolding pr s1 ex by simp
  qed (use that in blast)
qed

lemma role_of_delete:
  "role_of (d\<lparr>project_memberships :=
     delete_where (\<lambda>r. pmb_ProjectID r = pid \<and> pmb_UserID r = uid) (project_memberships d)\<rparr>) p u =
   (if p = pid \<and> u = uid then None else role_of d p u)"
proof (cases "p = pid \<and> u = uid")
  case True
  then show ?thesis by (simp add: role_of_def find_delete_where find_None_iff)
next
  case False
  then have "find (\<lambda>r. (pmb_ProjectID r = p \<and> pmb_UserID r = u) \<and> \<not> (pmb_ProjectID r = pid \<and> pmb_UserID r = uid)) t =
      find (\<lambda>r. pmb_ProjectID r = p \<and> pmb_UserID r = u) t" for t :: "project_membership list"
    by (intro find_cong) auto
  then show ?thesis using False by (auto simp: role_of_def find_delete_where)
qed

lemma role_of_set_role:
  "role_of (d\<lparr>project_memberships :=
     update_where (\<lambda>r. pmb_ProjectID r = pid \<and> pmb_UserID r = uid) (\<lambda>r. r\<lparr>pmb_Role := role\<rparr>)
       (project_memberships d)\<rparr>) p u =
   (if p = pid \<and> u = uid then map_option (\<lambda>_. role) (role_of d p u) else role_of d p u)"
  by (auto simp: role_of_def find_update_where option.map_comp comp_def dest!: find_SomeD
      intro!: option.map_cong)

lemma role_of_insert:
  "role_of d (pmb_ProjectID m) (pmb_UserID m) = None \<Longrightarrow>
   role_of (d\<lparr>project_memberships := insert_row m (project_memberships d)\<rparr>) p u =
   (if p = pmb_ProjectID m \<and> u = pmb_UserID m then Some (pmb_Role m) else role_of d p u)"
  by (auto simp: role_of_def find_insert_row split: option.splits)

lemma Ensure_effect:
  assumes "EnsureProjectMembership pid uid role e s = (Inr x, s')"
  shows "role_of (db s') p u =
      (if p = pid \<and> u = uid then if role = ''MEMBER'' \<or> role = '''' then None else Some role
       else role_of (db s) p u) \<and>
    bus s' = bus s \<and> (\<exists>t. db s' = (db s)\<lparr>project_memberships := t\<rparr>)"
  using assms
proof (cases rule: Ensure_cases)
  case dem
  then show ?thesis using demoteMembership_ok [OF dem(2)] by (auto simp: role_of_delete)
next
  case (set s1)
  have *: "role_of (db s) pid uid = map_option pmb_Role (find (\<lambda>r. pmb_ProjectID r = pid \<and> pmb_UserID r = uid)
      (project_memberships (db s)))" by (simp add: role_of_def)
  have same: "\<exists>t. d = d\<lparr>project_memberships := t\<rparr>" for d :: database
    by (rule exI [of _ "project_memberships d"]) simp
  consider (upd) "db s' = (db s)\<lparr>project_memberships :=
         update_where (\<lambda>r. pmb_ProjectID r = pid \<and> pmb_UserID r = uid) (\<lambda>r. r\<lparr>pmb_Role := role\<rparr>)
           (project_memberships (db s))\<rparr>" "role_of (db s) pid uid \<noteq> None"
    | (ins) now where "role_of (db s) pid uid = None" "db s' = (db s)\<lparr>project_memberships :=
         insert_row \<lparr> pmb_ProjectID = pid, pmb_UserID = uid, pmb_Role = role, pmb_AddedTime = now \<rparr>
           (project_memberships (db s))\<rparr>"
    | (noop) "db s' = db s" "role_of (db s) pid uid = Some role"
    using upsertMembership_ok [OF set(7)] set(5) * by auto
  moreover have "bus s' = bus s" using upsertMembership_ok [OF set(7)] set(5,6) by simp
  ultimately show ?thesis
    using set(1,2) same [of "db s"] by cases (auto simp: role_of_set_role role_of_insert)
qed

subsection \<open>Properties\<close>

text \<open>C9: After a successful call of EnsureProjectMembership the user has exactly the requested
  role in the project (no explicit row for MEMBER or the empty role), every other role assignment is
  as before, no other table changes and no event is published.\<close>

theorem EnsureProjectMembership_sets_role:
  assumes "EnsureProjectMembership pid uid role e s = (Inr x, s')"
  shows "(\<forall>p u. role_of (db s') p u =
      (if p = pid \<and> u = uid then if role = ''MEMBER'' \<or> role = '''' then None else Some role
       else role_of (db s) p u)) \<and>
    bus s' = bus s \<and> (\<exists>t. db s' = (db s)\<lparr>project_memberships := t\<rparr>)"
  using Ensure_effect [OF assms] by blast

theorem EnsureProjectMembership_sets_role_witness:
  "role_of (db (snd (EnsureProjectMembership ''p1'' ''bob'' ''CO_PI'' quiet_env (fresh_state sample_db))))
     ''p1'' ''bob'' = Some ''CO_PI''"
proof -
  have "fst (EnsureProjectMembership ''p1'' ''bob'' ''CO_PI'' quiet_env (fresh_state sample_db)) = Inr ()"
    by code_simp
  from EnsureProjectMembership_sets_role [OF run_fst [OF this]] show ?thesis by simp
qed

text \<open>C8: EnsureProjectMembership never takes the PI role away: whoever is PI of a project before
  the call is PI of it afterwards, whether the call succeeds, is refused or fails half way; and a call
  that asks for a second PI, or for another role for the PI, does not succeed.\<close>

theorem EnsureProjectMembership_PI_fixed:
  assumes "schema_ok (db s)" "one_pi (db s)" "role_of (db s) p v = Some ProjectRolePI"
    and "EnsureProjectMembership pid uid role e s = (r, s')"
  shows "role_of (db s') p v = Some ProjectRolePI \<and>
    (p = pid \<and> uid \<noteq> v \<and> role = ''PI'' \<longrightarrow> isl r) \<and>
    (p = pid \<and> uid = v \<and> role \<noteq> ''PI'' \<longrightarrow> isl r)"
proof (cases r)
  case (Inl x)
  have "atomicM (EnsureProjectMembership pid uid role)" by (rule atomic_intros)
  then show ?thesis using assms Inl by (auto simp: atomicM_def frame_def)
next
  case (Inr x)
  note run = assms(4) [unfolded Inr]
  have "(p = pid \<and> uid = v \<longrightarrow> role = ''PI'') \<and> (p = pid \<and> role = ''PI'' \<longrightarrow> uid = v)"
    using run
  proof (cases rule: Ensure_cases)
    case dem
    then show ?thesis using demoteMembership_ok [OF dem(2)] assms(3) by auto
  next
    case (set s1)
    obtain m where "m \<in> set (project_memberships (db s))" "pmb_ProjectID m = p" "pmb_UserID m = v"
      "pmb_Role m = ProjectRolePI"
      using assms(3) unfolding role_of_iff [OF schema_pm_pkey [OF assms(1)]] by blast
    then have "p = pid \<Longrightarrow> role = ''PI'' \<Longrightarrow> v = uid"
      using checkSinglePI_ok(1) [OF set(4), of m] assms(2) by simp
    moreover have "role_of (db s) pid uid = Some ProjectRolePI \<longrightarrow> role = ProjectRolePI"
      using upsertMembership_ok [OF set(7)] set(5) by simp
    ultimately show ?thesis using assms(3) by auto
  qed
  moreover have "role_of (db s') p v = Some ProjectRolePI"
  proof (cases "p = pid \<and> v = uid")
    case True
    then have "role = ''PI''" using calculation by blast
    then show ?thesis using conjunct1 [OF Ensure_effect [OF run, of p v]] True by simp
  next
    case False
    then have "role_of (db s') p v = role_of (db s) p v"
      using conjunct1 [OF Ensure_effect [OF run, of p v]] by (simp only: if_not_P if_False)
    then show ?thesis using assms(3) by simp
  qed
  ultimately show ?thesis unfolding Inr by blast
qed

theorem EnsureProjectMembership_PI_fixed_witness:
  "isl (fst (EnsureProjectMembership ''p1'' ''bob'' ''PI'' quiet_env (fresh_state sample_db)))"
proof -
  have "schema_ok (db (fresh_state sample_db))" "one_pi (db (fresh_state sample_db))"
    "role_of (db (fresh_state sample_db)) ''p1'' ''alice'' = Some ProjectRolePI"
    by code_simp+
  from EnsureProjectMembership_PI_fixed [OF this surjective_pairing] show ?thesis by simp
qed

end
