(* ===== verification/Svc_Allocation.thy ===== *)
theory Svc_Allocation
  imports Schema_Invariant PI_Invariant Grant_Invariant Sample_Data
begin

text \<open>
  pkg/service for compute allocations, their resources, resource mappings,
  rates, memberships and per-membership resource overrides:
  compute_allocation.go, compute_allocation_resource.go,
  compute_allocation_resource_mapping.go, compute_allocation_resource_rate.go,
  compute_allocation_membership.go and
  compute_allocation_membership_resource_override.go.
\<close>

subsection \<open>compute_allocation.go\<close>

definition ListComputeAllocations :: "allocation_list_filter \<Rightarrow> (compute_allocation list \<times> nat) M" where
  "ListComputeAllocations f = wrapM ''list compute allocations'' (allocs_List f)"

definition ListComputeAllocationsForParticipant :: "id \<Rightarrow> compute_allocation list M" where
  "ListComputeAllocationsForParticipant uid =
     (if uid = '''' then invalid ''user id is required'' []
      else wrapM ''list compute allocations for participant'' (allocs_FindByParticipant uid))"

definition CreateComputeAllocation :: "compute_allocation option \<Rightarrow> compute_allocation M" where
  "CreateComputeAllocation alloc = (case alloc of None \<Rightarrow> invalid ''compute allocation is nil'' []
   | Some a0 \<Rightarrow>
     if alc_Name a0 = '''' then invalid ''compute allocation name is required'' []
     else if alc_ProjectID a0 = '''' then invalid ''project_id is required'' []
     else if alc_ComputeClusterID a0 = '''' then invalid ''compute_cluster_id is required'' []
     else bindM (idOrNew (alc_ID a0)) (\<lambda>x.
       let a1 = a0\<lparr>alc_ID := x, alc_Status := orElse (alc_Status a0) AllocationACTIVE\<rparr> in
       bindM (wrapM ''lookup project'' (projs_FindByID (alc_ProjectID a1))) (\<lambda>proj.
       case proj of None \<Rightarrow> invalid ''project %q not found'' [alc_ProjectID a1]
       | Some _ \<Rightarrow>
         bindM (wrapM ''lookup compute cluster'' (clusters_FindByID (alc_ComputeClusterID a1))) (\<lambda>cluster.
         case cluster of None \<Rightarrow> invalid ''compute cluster %q not found'' [alc_ComputeClusterID a1]
         | Some _ \<Rightarrow>
           andPublish (wrapM ''create compute allocation'' (inTx (allocs_Create a1)))
             ''compute_allocation::create'' (PComputeAllocation a1) a1))))"

definition GetComputeAllocation :: "id \<Rightarrow> compute_allocation M" where
  "GetComputeAllocation x = orNotFound (wrapM ''get compute allocation'' (allocs_FindByID x))"

definition ListComputeAllocationsByProject :: "id \<Rightarrow> compute_allocation list M" where
  "ListComputeAllocationsByProject pid =
     wrapM ''list compute allocations by project'' (allocs_FindByProject pid)"

definition ListComputeAllocationsByCluster :: "id \<Rightarrow> compute_allocation list M" where
  "ListComputeAllocationsByCluster cid =
     wrapM ''list compute allocations by cluster'' (allocs_FindByCluster cid)"

definition UpdateComputeAllocation :: "compute_allocation option \<Rightarrow> unit M" where
  "UpdateComputeAllocation alloc = (case alloc of None \<Rightarrow> invalid ''compute allocation id is required'' []
   | Some a0 \<Rightarrow>
     if alc_ID a0 = '''' then invalid ''compute allocation id is required'' []
     else andPublish (wrapM ''update compute allocation'' (inTx (allocs_Update a0)))
            ''compute_allocation::update'' (PComputeAllocation a0) ())"

definition DeleteComputeAllocation :: "id \<Rightarrow> unit M" where
  "DeleteComputeAllocation x =
     (if x = '''' then invalid ''compute allocation id is required'' []
      else bindM (wrapM ''lookup compute allocation'' (allocs_FindByID x)) (\<lambda>alloc.
        case alloc of None \<Rightarrow> throwM ErrNotFound
        | Some a0 \<Rightarrow> andPublish (wrapM ''delete compute allocation'' (inTx (allocs_Delete x)))
                      ''compute_allocation::delete'' (PComputeAllocation a0) ()))"

subsection \<open>compute_allocation_resource.go\<close>

definition CreateComputeAllocationResource ::
    "compute_allocation_resource option \<Rightarrow> compute_allocation_resource M" where
  "CreateComputeAllocationResource resource =
   (case resource of None \<Rightarrow> invalid ''compute allocation resource is nil'' []
   | Some r0 \<Rightarrow>
     if res_Name r0 = '''' then invalid ''resource name is required'' []
     else if res_ResourceType r0 = '''' then invalid ''resource_type is required'' []
     else if res_ComputeClusterID r0 = '''' then invalid ''compute_cluster_id is required'' []
     else bindM (wrapM ''lookup compute cluster'' (clusters_FindByID (res_ComputeClusterID r0))) (\<lambda>cluster.
       case cluster of None \<Rightarrow> invalid ''compute cluster %q not found'' [res_ComputeClusterID r0]
       | Some _ \<Rightarrow>
         bindM (idOrNew (res_ID r0)) (\<lambda>x.
         let r1 = r0\<lparr>res_ID := x\<rparr> in
         andPublish (wrapM ''create compute allocation resource'' (inTx (resources_Create r1)))
           ''compute_allocation_resource::create'' (PComputeAllocationResource r1) r1)))"

definition GetComputeAllocationResource :: "id \<Rightarrow> compute_allocation_resource M" where
  "GetComputeAllocationResource x =
     orNotFound (wrapM ''get compute allocation resource'' (resources_FindByID x))"

definition GetComputeAllocationResourceByNameAndCluster ::
    "string \<Rightarrow> id \<Rightarrow> compute_allocation_resource M" where
  "GetComputeAllocationResourceByNameAndCluster name cid =
     (if name = '''' then invalid ''resource name is required'' []
      else if cid = '''' then invalid ''compute_cluster_id is required'' []
      else orNotFound (wrapM ''get compute allocation resource by name and cluster''
             (resources_FindByNameAndCluster name cid)))"

definition ListComputeAllocationResources :: "compute_allocation_resource list M" where
  "ListComputeAllocationResources = wrapM ''list compute allocation resources'' resources_List"

definition ListComputeAllocationResourceSummaries :: "resource_summary list M" where
  "ListComputeAllocationResourceSummaries =
     wrapM ''list compute allocation resource summaries'' resources_ListSummaries"

definition ListComputeAllocationResourcesByTypeAndCluster ::
    "string \<Rightarrow> id \<Rightarrow> compute_allocation_resource list M" where
  "ListComputeAllocationResourcesByTypeAndCluster t cid =
     (if t = '''' then invalid ''resource_type is required'' []
      else if cid = '''' then invalid ''compute_cluster_id is required'' []
      else wrapM ''list compute allocation resources by type and cluster''
             (resources_FindByTypeAndCluster t cid))"

definition UpdateComputeAllocationResource :: "compute_allocation_resource option \<Rightarrow> unit M" where
  "UpdateComputeAllocationResource resource =
   (case resource of None \<Rightarrow> invalid ''compute allocation resource id is required'' []
   | Some r0 \<Rightarrow>
     if res_ID r0 = '''' then invalid ''compute allocation resource id is required'' []
     else andPublish (wrapM ''update compute allocation resource'' (inTx (resources_Update r0)))
            ''compute_allocation_resource::update'' (PComputeAllocationResource r0) ())"

definition DeleteComputeAllocationResource :: "id \<Rightarrow> unit M" where
  "DeleteComputeAllocationResource x =
     (if x = '''' then invalid ''compute allocation resource id is required'' []
      else bindM (wrapM ''lookup compute allocation resource'' (resources_FindByID x)) (\<lambda>resource.
        case resource of None \<Rightarrow> throwM ErrNotFound
        | Some r0 \<Rightarrow> andPublish (wrapM ''delete compute allocation resource'' (inTx (resources_Delete x)))
                      ''compute_allocation_resource::delete'' (PComputeAllocationResource r0) ()))"

subsection \<open>compute_allocation_resource_mapping.go\<close>

definition AttachResourceToAllocation ::
    "id \<Rightarrow> id \<Rightarrow> int \<Rightarrow> int \<Rightarrow> compute_allocation_resource_mapping M" where
  "AttachResourceToAllocation aid rid amount rtime =
     (if aid = '''' then invalid ''compute_allocation_id is required'' []
      else if rid = '''' then invalid ''compute_allocation_resource_id is required'' []
      else if amount < 0 then invalid ''resource_amount must be non-negative'' []
      else if rtime < 0 then invalid ''resource_time must be non-negative'' []
      else bindM (wrapM ''lookup compute allocation'' (allocs_FindByID aid)) (\<lambda>alloc.
        case alloc of None \<Rightarrow> invalid ''compute allocation %q not found'' [aid]
        | Some _ \<Rightarrow>
          bindM (wrapM ''lookup compute allocation resource'' (resources_FindByID rid)) (\<lambda>res.
          case res of None \<Rightarrow> invalid ''compute allocation resource %q not found'' [rid]
          | Some _ \<Rightarrow>
            bindM (wrapM ''lookup mapping'' (resourceMappings_FindByPair aid rid)) (\<lambda>existing.
            case existing of
              Some _ \<Rightarrow> already_exists ''resource %q already attached to allocation %q'' [rid, aid]
            | None \<Rightarrow>
              bindM newID (\<lambda>x.
              let m = \<lparr> rmp_ID = x, rmp_ComputeAllocationID = aid,
                        rmp_ComputeAllocationResourceID = rid,
                        rmp_ResourceAmount = amount, rmp_ResourceTime = rtime \<rparr> in
              andPublish (wrapM ''attach resource to allocation'' (inTx (resourceMappings_Create m)))
                ''compute_allocation_resource_mapping::create''
                (PComputeAllocationResourceMapping m) m)))))"

definition UpdateAllocationResourceMapping ::
    "id \<Rightarrow> id \<Rightarrow> int \<Rightarrow> int \<Rightarrow> compute_allocation_resource_mapping M" where
  "UpdateAllocationResourceMapping aid rid amount rtime =
     (if aid = '''' \<or> rid = '''' then invalid ''allocation and resource ids are required'' []
      else if amount < 0 then invalid ''resource_amount must be non-negative'' []
      else if rtime < 0 then invalid ''resource_time must be non-negative'' []
      else bindM (wrapM ''lookup mapping'' (resourceMappings_FindByPair aid rid)) (\<lambda>existing.
        case existing of None \<Rightarrow> throwM ErrNotFound
        | Some old \<Rightarrow>
          let m = old\<lparr>rmp_ResourceAmount := amount, rmp_ResourceTime := rtime\<rparr> in
          andPublish (wrapM ''update allocation resource mapping'' (inTx (resourceMappings_Update m)))
            ''compute_allocation_resource_mapping::update'' (PComputeAllocationResourceMapping m) m))"

definition DetachResourceFromAllocation :: "id \<Rightarrow> id \<Rightarrow> unit M" where
  "DetachResourceFromAllocation aid rid =
     (if aid = '''' \<or> rid = '''' then invalid ''allocation and resource ids are required'' []
      else bindM (wrapM ''lookup mapping'' (resourceMappings_FindByPair aid rid)) (\<lambda>existing.
        case existing of None \<Rightarrow> throwM ErrNotFound
        | Some m \<Rightarrow>
          andPublish (wrapM ''detach resource from allocation''
              (inTx (resourceMappings_DeleteByPair aid rid)))
            ''compute_allocation_resource_mapping::delete'' (PComputeAllocationResourceMapping m) ()))"

definition ListResourcesForAllocation :: "id \<Rightarrow> compute_allocation_resource list M" where
  "ListResourcesForAllocation aid =
     (if aid = '''' then invalid ''compute_allocation_id is required'' []
      else wrapM ''list resources for allocation'' (resourceMappings_FindResourcesByAllocation aid))"

definition ListAllocationsForResource :: "id \<Rightarrow> compute_allocation list M" where
  "ListAllocationsForResource rid =
     (if rid = '''' then invalid ''compute_allocation_resource_id is required'' []
      else wrapM ''list allocations for resource'' (resourceMappings_FindAllocationsByResource rid))"

subsection \<open>compute_allocation_resource_rate.go\<close>

definition CreateComputeAllocationResourceRate ::
    "compute_allocation_resource_rate option \<Rightarrow> compute_allocation_resource_rate M" where
  "CreateComputeAllocationResourceRate rate =
   (case rate of None \<Rightarrow> invalid ''compute allocation resource rate is nil'' []
   | Some r0 \<Rightarrow>
     if rat_ComputeAllocationResourceID r0 = ''''
     then invalid ''compute_allocation_resource_id is required'' []
     else if rat_Rate r0 < 0 then invalid ''rate must be non-negative'' []
     else if rat_StartTime r0 = 0 \<or> rat_EndTime r0 = 0
     then invalid ''start_time and end_time are required'' []
     else if \<not> rat_StartTime r0 < rat_EndTime r0
     then invalid ''start_time must be before end_time'' []
     else bindM (wrapM ''lookup compute allocation resource''
                  (resources_FindByID (rat_ComputeAllocationResourceID r0))) (\<lambda>res.
       case res of
         None \<Rightarrow> invalid ''compute allocation resource %q not found'' [rat_ComputeAllocationResourceID r0]
       | Some _ \<Rightarrow>
         bindM (idOrNew (rat_ID r0)) (\<lambda>x.
         let r1 = r0\<lparr>rat_ID := x\<rparr> in
         andReturn (wrapM ''create compute allocation resource rate'' (inTx (resourceRates_Create r1))) r1)))"

definition GetComputeAllocationResourceRate :: "id \<Rightarrow> compute_allocation_resource_rate M" where
  "GetComputeAllocationResourceRate x =
     orNotFound (wrapM ''get compute allocation resource rate'' (resourceRates_FindByID x))"

definition ListRatesForResource :: "id \<Rightarrow> compute_allocation_resource_rate list M" where
  "ListRatesForResource rid =
     (if rid = '''' then invalid ''compute_allocation_resource_id is required'' []
      else wrapM ''list rates for resource'' (resourceRates_FindByResource rid))"

definition GetEffectiveRateForResource :: "id \<Rightarrow> time \<Rightarrow> compute_allocation_resource_rate M" where
  "GetEffectiveRateForResource rid instant =
     (if rid = '''' then invalid ''compute_allocation_resource_id is required'' []
      else bindM nowUTC (\<lambda>now.
        orNotFound (wrapM ''get effective rate for resource''
          (resourceRates_FindEffective rid (orElseTime instant now)))))"

definition UpdateComputeAllocationResourceRate :: "compute_allocation_resource_rate option \<Rightarrow> unit M" where
  "UpdateComputeAllocationResourceRate rate =
   (case rate of None \<Rightarrow> invalid ''compute allocation resource rate id is required'' []
   | Some r0 \<Rightarrow>
     if rat_ID r0 = '''' then invalid ''compute allocation resource rate id is required'' []
     else if rat_Rate r0 < 0 then invalid ''rate must be non-negative'' []
     else if rat_StartTime r0 \<noteq> 0 \<and> rat_EndTime r0 \<noteq> 0 \<and> \<not> rat_StartTime r0 < rat_EndTime r0
     then invalid ''start_time must be before end_time'' []
     else andReturn (wrapM ''update compute allocation resource rate'' (inTx (resourceRates_Update r0))) ())"

definition DeleteComputeAllocationResourceRate :: "id \<Rightarrow> unit M" where
  "DeleteComputeAllocationResourceRate x =
     (if x = '''' then invalid ''compute allocation resource rate id is required'' []
      else andReturn (wrapM ''delete compute allocation resource rate'' (inTx (resourceRates_Delete x))) ())"

subsection \<open>compute_allocation_membership.go\<close>

definition CreateComputeAllocationMembership ::
    "compute_allocation_membership option \<Rightarrow> compute_allocation_membership M" where
  "CreateComputeAllocationMembership membership =
   (case membership of None \<Rightarrow> invalid ''compute allocation membership is nil'' []
   | Some m0 \<Rightarrow>
     if mem_ComputeAllocationID m0 = '''' then invalid ''compute_allocation_id is required'' []
     else if mem_UserID m0 = '''' then invalid ''user_id is required'' []
     else bindM (wrapM ''lookup compute allocation'' (allocs_FindByID (mem_ComputeAllocationID m0))) (\<lambda>alloc.
       case alloc of None \<Rightarrow> invalid ''compute allocation %q not found'' [mem_ComputeAllocationID m0]
       | Some _ \<Rightarrow>
         bindM (wrapM ''lookup user'' (users_FindByID (mem_UserID m0))) (\<lambda>u.
         case u of None \<Rightarrow> invalid ''user %q not found'' [mem_UserID m0]
         | Some _ \<Rightarrow>
           bindM (wrapM ''lookup compute allocation membership''
                   (memberships_FindByPair (mem_ComputeAllocationID m0) (mem_UserID m0))) (\<lambda>existing.
           case existing of
             Some _ \<Rightarrow> already_exists ''user %q already has a membership on allocation %q''
                         [mem_UserID m0, mem_ComputeAllocationID m0]
           | None \<Rightarrow>
             bindM (idOrNew (mem_ID m0)) (\<lambda>x.
             let m1 = m0\<lparr>mem_ID := x,
                         mem_MembershipStatus := orElse (mem_MembershipStatus m0) AllocationACTIVE\<rparr> in
             andPublish (wrapM ''create compute allocation membership'' (inTx (memberships_Create m1)))
               ''compute_allocation_membership::create'' (PComputeAllocationMembership m1) m1)))))"

definition GetComputeAllocationMembership :: "id \<Rightarrow> compute_allocation_membership M" where
  "GetComputeAllocationMembership x =
     orNotFound (wrapM ''get compute allocation membership'' (memberships_FindByID x))"

definition IsAllocationMember :: "id \<Rightarrow> id \<Rightarrow> bool M" where
  "IsAllocationMember aid uid =
     bindM (wrapM ''lookup compute allocation membership'' (memberships_FindByPair aid uid)) (\<lambda>m.
     retM (case m of None \<Rightarrow> False | Some r \<Rightarrow> mem_MembershipStatus r = AllocationACTIVE))"

definition ListMembersForAllocation :: "id \<Rightarrow> membership_with_user list M" where
  "ListMembersForAllocation aid =
     (if aid = '''' then invalid ''compute_allocation_id is required'' []
      else wrapM ''list members for allocation'' (memberships_FindByAllocationWithUser aid))"

definition ListMembersForProject :: "id \<Rightarrow> membership_with_user list M" where
  "ListMembersForProject pid =
     (if pid = '''' then invalid ''project_id is required'' []
      else wrapM ''list members for project'' (memberships_FindByProjectWithUser pid))"

definition ListAllocationsForUser :: "id \<Rightarrow> compute_allocation_membership list M" where
  "ListAllocationsForUser uid =
     (if uid = '''' then invalid ''user_id is required'' []
      else wrapM ''list allocations for user'' (memberships_FindByUser uid))"

definition UpdateComputeAllocationMembership ::
    "compute_allocation_membership option \<Rightarrow> compute_allocation_membership M" where
  "UpdateComputeAllocationMembership membership =
   (case membership of None \<Rightarrow> invalid ''compute allocation membership id is required'' []
   | Some m0 \<Rightarrow>
     if mem_ID m0 = '''' then invalid ''compute allocation membership id is required'' []
     else bindM (wrapM ''lookup compute allocation membership'' (memberships_FindByID (mem_ID m0))) (\<lambda>existing.
       case existing of None \<Rightarrow> throwM ErrNotFound
       | Some old \<Rightarrow>
         let m1 = m0\<lparr>mem_ComputeAllocationID :=
                       orElse (mem_ComputeAllocationID m0) (mem_ComputeAllocationID old),
                     mem_UserID := orElse (mem_UserID m0) (mem_UserID old),
                     mem_StartTime := orElseTime (mem_StartTime m0) (mem_StartTime old),
                     mem_EndTime := orElseTime (mem_EndTime m0) (mem_EndTime old),
                     mem_MembershipStatus := orElse (mem_MembershipStatus m0) (mem_MembershipStatus old)\<rparr> in
         andPublish (wrapM ''update compute allocation membership'' (inTx (memberships_Update m1)))
           ''compute_allocation_membership::update'' (PComputeAllocationMembership m1) m1))"

definition UpdateMembershipStatus :: "id \<Rightarrow> string \<Rightarrow> compute_allocation_membership M" where
  "UpdateMembershipStatus x status =
     (if x = '''' then invalid ''compute allocation membership id is required'' []
      else if status = '''' then invalid ''membership_status is required'' []
      else bindM (wrapM ''lookup compute allocation membership'' (memberships_FindByID x)) (\<lambda>existing.
        case existing of None \<Rightarrow> throwM ErrNotFound
        | Some old \<Rightarrow>
          let m1 = old\<lparr>mem_MembershipStatus := status\<rparr> in
          andPublish (wrapM ''update compute allocation membership status'' (inTx (memberships_Update m1)))
            ''compute_allocation_membership::update'' (PComputeAllocationMembership m1) m1))"

definition DeleteComputeAllocationMembership :: "id \<Rightarrow> unit M" where
  "DeleteComputeAllocationMembership x =
     (if x = '''' then invalid ''compute allocation membership id is required'' []
      else bindM (wrapM ''lookup compute allocation membership'' (memberships_FindByID x)) (\<lambda>existing.
        case existing of None \<Rightarrow> throwM ErrNotFound
        | Some m0 \<Rightarrow> andPublish (wrapM ''delete compute allocation membership'' (inTx (memberships_Delete x)))
                      ''compute_allocation_membership::delete'' (PComputeAllocationMembership m0) ()))"

subsection \<open>compute_allocation_membership_resource_override.go\<close>

definition CreateComputeAllocationMembershipResourceOverride ::
    "compute_allocation_membership_resource_override option
       \<Rightarrow> compute_allocation_membership_resource_override M" where
  "CreateComputeAllocationMembershipResourceOverride ov =
   (case ov of None \<Rightarrow> invalid ''membership resource override is nil'' []
   | Some v0 \<Rightarrow>
     if ovr_ComputeAllocationMembershipID v0 = ''''
     then invalid ''compute_allocation_membership_id is required'' []
     else if ovr_ComputeAllocationResourceID v0 = ''''
     then invalid ''compute_allocation_resource_id is required'' []
     else if ovr_OverrideResourceAmount v0 < 0
     then invalid ''override_resource_amount must be non-negative'' []
     else if ovr_OverrideResourceTime v0 < 0
     then invalid ''override_resource_time must be non-negative'' []
     else bindM (wrapM ''lookup compute allocation membership''
                  (memberships_FindByID (ovr_ComputeAllocationMembershipID v0))) (\<lambda>m.
       case m of
         None \<Rightarrow> invalid ''compute allocation membership %q not found'' [ovr_ComputeAllocationMembershipID v0]
       | Some _ \<Rightarrow>
         bindM (wrapM ''lookup compute allocation resource''
                 (resources_FindByID (ovr_ComputeAllocationResourceID v0))) (\<lambda>r.
         case r of
           None \<Rightarrow> invalid ''compute allocation resource %q not found'' [ovr_ComputeAllocationResourceID v0]
         | Some _ \<Rightarrow>
           bindM (wrapM ''lookup membership resource override''
                   (membershipOverrides_FindByPair (ovr_ComputeAllocationMembershipID v0)
                      (ovr_ComputeAllocationResourceID v0))) (\<lambda>existing.
           case existing of
             Some _ \<Rightarrow> already_exists ''override already exists for membership %q resource %q''
                         [ovr_ComputeAllocationMembershipID v0, ovr_ComputeAllocationResourceID v0]
           | None \<Rightarrow>
             bindM (idOrNew (ovr_ID v0)) (\<lambda>x.
             let v1 = v0\<lparr>ovr_ID := x\<rparr> in
             andPublish (wrapM ''create membership resource override'' (inTx (membershipOverrides_Create v1)))
               ''compute_allocation_membership_resource_override::create''
               (PComputeAllocationMembershipResourceOverride v1) v1)))))"

definition GetComputeAllocationMembershipResourceOverride ::
    "id \<Rightarrow> compute_allocation_membership_resource_override M" where
  "GetComputeAllocationMembershipResourceOverride x =
     orNotFound (wrapM ''get membership resource override'' (membershipOverrides_FindByID x))"

definition GetComputeAllocationMembershipResourceOverrideByPair ::
    "id \<Rightarrow> id \<Rightarrow> compute_allocation_membership_resource_override M" where
  "GetComputeAllocationMembershipResourceOverrideByPair mid rid =
     (if mid = '''' then invalid ''compute_allocation_membership_id is required'' []
      else if rid = '''' then invalid ''compute_allocation_resource_id is required'' []
      else orNotFound (wrapM ''get membership resource override by pair''
             (membershipOverrides_FindByPair mid rid)))"

definition ListOverridesForMembership ::
    "id \<Rightarrow> compute_allocation_membership_resource_override list M" where
  "ListOverridesForMembership mid =
     (if mid = '''' then invalid ''compute_allocation_membership_id is required'' []
      else wrapM ''list overrides for membership'' (membershipOverrides_FindByMembership mid))"

definition ListOverridesForResource ::
    "id \<Rightarrow> compute_allocation_membership_resource_override list M" where
  "ListOverridesForResource rid =
     (if rid = '''' then invalid ''compute_allocation_resource_id is required'' []
      else wrapM ''list overrides for resource'' (membershipOverrides_FindByResource rid))"

definition UpdateComputeAllocationMembershipResourceOverride ::
    "compute_allocation_membership_resource_override option
       \<Rightarrow> compute_allocation_membership_resource_override M" where
  "UpdateComputeAllocationMembershipResourceOverride ov =
   (case ov of None \<Rightarrow> invalid ''membership resource override id is required'' []
   | Some v0 \<Rightarrow>
     if ovr_ID v0 = '''' then invalid ''membership resource override id is required'' []
     else if ovr_OverrideResourceAmount v0 < 0
     then invalid ''override_resource_amount must be non-negative'' []
     else if ovr_OverrideResourceTime v0 < 0
     then invalid ''override_resource_time must be non-negative'' []
     else bindM (wrapM ''lookup membership resource override''
                  (membershipOverrides_FindByID (ovr_ID v0))) (\<lambda>existing.
       case existing of None \<Rightarrow> throwM ErrNotFound
       | Some old \<Rightarrow>
         let v1 = v0\<lparr>ovr_ComputeAllocationMembershipID :=
                       orElse (ovr_ComputeAllocationMembershipID v0) (ovr_ComputeAllocationMembershipID old),
                     ovr_ComputeAllocationResourceID :=
                       orElse (ovr_ComputeAllocationResourceID v0) (ovr_ComputeAllocationResourceID old)\<rparr> in
         andPublish (wrapM ''update membership resource override'' (inTx (membershipOverrides_Update v1)))
           ''compute_allocation_membership_resource_override::update''
           (PComputeAllocationMembershipResourceOverride v1) v1))"

definition DeleteComputeAllocationMembershipResourceOverride :: "id \<Rightarrow> unit M" where
  "DeleteComputeAllocationMembershipResourceOverride x =
     (if x = '''' then invalid ''membership resource override id is required'' []
      else bindM (wrapM ''lookup membership resource override'' (membershipOverrides_FindByID x)) (\<lambda>existing.
        case existing of None \<Rightarrow> throwM ErrNotFound
        | Some v0 \<Rightarrow>
          andPublish (wrapM ''delete membership resource override'' (inTx (membershipOverrides_Delete x)))
            ''compute_allocation_membership_resource_override::delete''
            (PComputeAllocationMembershipResourceOverride v0) ()))"

subsection \<open>Failed operations leave no trace\<close>

lemmas allocation_op_defs =
  CreateComputeAllocation_def UpdateComputeAllocation_def DeleteComputeAllocation_def
  CreateComputeAllocationResource_def UpdateComputeAllocationResource_def
  DeleteComputeAllocationResource_def
  AttachResourceToAllocation_def UpdateAllocationResourceMapping_def DetachResourceFromAllocation_def
  CreateComputeAllocationResourceRate_def UpdateComputeAllocationResourceRate_def
  DeleteComputeAllocationResourceRate_def
  CreateComputeAllocationMembership_def UpdateComputeAllocationMembership_def
  UpdateMembershipStatus_def DeleteComputeAllocationMembership_def
  CreateComputeAllocationMembershipResourceOverride_def
  UpdateComputeAllocationMembershipResourceOverride_def
  DeleteComputeAllocationMembershipResourceOverride_def

lemma allocation_atomic [atomic_intros]:
  "atomicM (CreateComputeAllocation alloc)" "atomicM (UpdateComputeAllocation alloc)"
  "atomicM (DeleteComputeAllocation x)"
  "atomicM (CreateComputeAllocationResource resource)"
  "atomicM (UpdateComputeAllocationResource resource)" "atomicM (DeleteComputeAllocationResource x)"
  "atomicM (AttachResourceToAllocation x y i j)" "atomicM (UpdateAllocationResourceMapping x y i j)"
  "atomicM (DetachResourceFromAllocation x y)"
  "atomicM (CreateComputeAllocationResourceRate rate)"
  "atomicM (UpdateComputeAllocationResourceRate rate)" "atomicM (DeleteComputeAllocationResourceRate x)"
  "atomicM (CreateComputeAllocationMembership mem)" "atomicM (UpdateComputeAllocationMembership mem)"
  "atomicM (UpdateMembershipStatus x y)" "atomicM (DeleteComputeAllocationMembership x)"
  "atomicM (CreateComputeAllocationMembershipResourceOverride ov)"
  "atomicM (UpdateComputeAllocationMembershipResourceOverride ov)"
  "atomicM (DeleteComputeAllocationMembershipResourceOverride x)"
  unfolding allocation_op_defs by (intro atomic_intros readonly_intros)+

context store_contract
begin

lemma allocation_keeps:
  "keeps I (CreateComputeAllocation alloc)" "keeps I (UpdateComputeAllocation alloc)"
  "keeps I (DeleteComputeAllocation x)"
  "keeps I (CreateComputeAllocationResource resource)"
  "keeps I (UpdateComputeAllocationResource resource)"
  "keeps I (DeleteComputeAllocationResource x)"
  "keeps I (AttachResourceToAllocation x y i j)"
  "keeps I (UpdateAllocationResourceMapping x y i j)"
  "keeps I (DetachResourceFromAllocation x y)"
  "keeps I (CreateComputeAllocationResourceRate rate)"
  "keeps I (UpdateComputeAllocationResourceRate rate)"
  "keeps I (DeleteComputeAllocationResourceRate x)"
  "keeps I (CreateComputeAllocationMembership mem)"
  "keeps I (UpdateComputeAllocationMembership mem)"
  "keeps I (UpdateMembershipStatus x y)" "keeps I (DeleteComputeAllocationMembership x)"
  "keeps I (CreateComputeAllocationMembershipResourceOverride ov)"
  "keeps I (UpdateComputeAllocationMembershipResourceOverride ov)"
  "keeps I (DeleteComputeAllocationMembershipResourceOverride x)"
  unfolding allocation_op_defs by (intro keeps_intros readonly_intros txkeeps_intros)+

end

end
