(* ===== verification/Strconv.thy ===== *)
theory Strconv
  imports Prelude
begin

text \<open>
  The functions of Go's packages strconv and strings that several components
  use: decimal numbers, white space, cutting at a separator.  Go strings are
  byte strings.
\<close>

subsection \<open>Decimal numbers\<close>

text \<open>strconv.Itoa on a natural number, strconv.FormatInt(n, 10) and the verb d of fmt.\<close>

fun Itoa :: "nat \<Rightarrow> string" where
  "Itoa n = (if n < 10 then [char_of (48 + n)] else Itoa (n div 10) @ [char_of (48 + n mod 10)])"

declare Itoa.simps [simp del]

definition FormatInt :: "int \<Rightarrow> string" where
  "FormatInt n = (if n < 0 then ''-'' @ Itoa (nat (- n)) else Itoa (nat n))"

text \<open>strconv.ParseInt(raw, 10, 64).\<close>

definition is_digit :: "char \<Rightarrow> bool" where
  "is_digit c = (let n = of_char c :: nat in 48 \<le> n \<and> n \<le> 57)"

definition digits_value :: "string \<Rightarrow> int" where
  "digits_value s = foldl (\<lambda>acc c. 10 * acc + (of_char c - 48)) 0 s"

definition ParseInt :: "string \<Rightarrow> int option" where
  "ParseInt raw =
     (let (neg, ds) = (case raw of
            [] \<Rightarrow> (False, [])
          | c # s \<Rightarrow> if c = CHR ''-'' then (True, s) else if c = CHR ''+'' then (False, s) else (False, raw));
          n = (if neg then - digits_value ds else digits_value ds)
      in if ds \<noteq> [] \<and> list_all is_digit ds \<and> - (2 ^ 63) \<le> n \<and> n < 2 ^ 63 then Some n else None)"

text \<open>The value that ParseInt returns beside an error: the nearest int64 when the number is out of range, zero
  when it is none.\<close>

definition ParseInt_value :: "string \<Rightarrow> int" where
  "ParseInt_value raw = (case ParseInt raw of Some n \<Rightarrow> n
     | None \<Rightarrow>
        (case raw of [] \<Rightarrow> 0
         | c # s \<Rightarrow>
            if c = CHR ''-'' then (if s \<noteq> [] \<and> list_all is_digit s then - (2 ^ 63) else 0)
            else let ds = (if c = CHR ''+'' then s else raw) in
              if ds \<noteq> [] \<and> list_all is_digit ds then 2 ^ 63 - 1 else 0))"

text \<open>Arithmetic on int64 and the conversion to uint64.\<close>

definition wrap64 :: "int \<Rightarrow> int" where
  "wrap64 x = (x + 2 ^ 63) mod 2 ^ 64 - 2 ^ 63"

definition uint64 :: "int \<Rightarrow> int" where
  "uint64 x = x mod 2 ^ 64"

lemma length_Itoa: "n < 10 ^ k \<Longrightarrow> 0 < k \<Longrightarrow> length (Itoa n) \<le> k"
proof (induction n arbitrary: k rule: Itoa.induct)
  case (1 n)
  show ?case
  proof (cases "n < 10")
    case False
    then obtain k' where k: "k = Suc k'" "0 < k'"
      using "1.prems" by (cases k; cases "k - 1") auto
    then have "n div 10 < 10 ^ k'" using "1.prems" by (simp add: less_mult_imp_div_less mult.commute)
    then show ?thesis using "1.IH" [OF False] False k by (simp add: Itoa.simps [of n])
  qed (use "1.prems" in \<open>simp add: Itoa.simps [of n]\<close>)
qed

lemma set_Itoa_digit: "c \<in> set (Itoa n) \<Longrightarrow> is_digit c"
proof (induction n rule: Itoa.induct)
  case (1 n)
  then show ?case by (cases "n < 10") (auto simp: Itoa.simps [of n] is_digit_def)
qed

lemma digits_Itoa: "foldl (\<lambda>a c. 10 * a + (of_char c - 48)) 0 (Itoa n) = n"
proof (induction n rule: Itoa.induct)
  case (1 n)
  then show ?case by (cases "n < 10") (simp_all add: Itoa.simps [of n])
qed

lemma of_char_digit: "d < 10 \<Longrightarrow> of_char (char_of (48 + d)) = (48 + int d)" for d :: nat
  by (subst of_nat_of_char [symmetric]) simp

lemma digits_value_Itoa: "digits_value (Itoa n) = int n"
proof (induction n rule: Itoa.induct)
  case (1 n)
  have "10 * int (n div 10) + int (n mod 10) = int n" by presburger
  with 1 show ?case by (cases "n < 10") (simp_all add: Itoa.simps [of n] digits_value_def of_char_digit)
qed

lemma Itoa_inj: "Itoa m = Itoa n \<Longrightarrow> m = n"
  by (metis digits_Itoa)

lemma Itoa_nonempty: "Itoa n \<noteq> []"
  by (simp add: Itoa.simps)

lemma ParseInt_FormatInt:
  assumes "- (2 ^ 63) \<le> n" "n < 2 ^ 63"
  shows "ParseInt (FormatInt n) = Some n"
proof -
  have ds: "list_all is_digit (Itoa k)" for k using set_Itoa_digit by (auto simp: list_all_iff)
  show ?thesis
  proof (cases "n < 0")
    case True
    then have "ParseInt (FormatInt n) = (if Itoa (nat (- n)) \<noteq> [] \<and> list_all is_digit (Itoa (nat (- n))) \<and>
        - (2 ^ 63) \<le> n \<and> n < 2 ^ 63 then Some n else None)"
      by (simp add: ParseInt_def FormatInt_def digits_value_Itoa)
    then show ?thesis by (simp only: ds Itoa_nonempty assms if_True simp_thms)
  next
    case False
    obtain c s where c: "Itoa (nat n) = c # s" using Itoa_nonempty by (cases "Itoa (nat n)") auto
    then have "is_digit c" using ds [of "nat n"] by simp
    then have "c \<noteq> CHR ''-''" "c \<noteq> CHR ''+''" by (auto simp: is_digit_def)
    moreover have "digits_value (c # s) = n" using digits_value_Itoa [of "nat n"] c False by simp
    ultimately have "ParseInt (c # s) = (if list_all is_digit (c # s) \<and> - (2 ^ 63) \<le> n \<and> n < 2 ^ 63 then Some n else None)"
      by (simp add: ParseInt_def)
    then show ?thesis using False ds [of "nat n"] by (simp only: c FormatInt_def assms if_True if_False simp_thms)
  qed
qed

subsection \<open>Strings\<close>

text \<open>strings.TrimSpace on the ASCII white space.\<close>

definition is_space :: "char \<Rightarrow> bool" where
  "is_space c = (let n = of_char c :: nat in n = 32 \<or> (9 \<le> n \<and> n \<le> 13))"

definition TrimSpace :: "string \<Rightarrow> string" where
  "TrimSpace s = rev (dropWhile is_space (rev (dropWhile is_space s)))"

text \<open>strings.Index and strings.LastIndex of a byte, strings.Cut at a byte.\<close>

definition cut_at :: "char \<Rightarrow> string \<Rightarrow> (string \<times> string) option" where
  "cut_at c s = (case dropWhile (\<lambda>x. x \<noteq> c) s of [] \<Rightarrow> None | _ # t \<Rightarrow> Some (takeWhile (\<lambda>x. x \<noteq> c) s, t))"

lemma cut_at_Some: "cut_at c s = Some (a, b) \<longleftrightarrow> s = a @ c # b \<and> c \<notin> set a"
proof
  assume h: "cut_at c s = Some (a, b)"
  then obtain d where d: "dropWhile (\<lambda>x. x \<noteq> c) s = d # b" and a: "a = takeWhile (\<lambda>x. x \<noteq> c) s"
    by (auto simp: cut_at_def split: list.splits)
  have "d = c" using hd_dropWhile [of "\<lambda>x. x \<noteq> c" s] d by simp
  moreover have "s = a @ d # b" using takeWhile_dropWhile_id [of "\<lambda>x. x \<noteq> c" s] d a by simp
  moreover have "c \<notin> set a" using a set_takeWhileD by metis
  ultimately show "s = a @ c # b \<and> c \<notin> set a" by simp
next
  assume h: "s = a @ c # b \<and> c \<notin> set a"
  then have "takeWhile (\<lambda>x. x \<noteq> c) s = a" "dropWhile (\<lambda>x. x \<noteq> c) s = c # b"
    by (induction a arbitrary: s) auto
  then show "cut_at c s = Some (a, b)" by (simp add: cut_at_def)
qed

lemma cut_at_None: "cut_at c s = None \<longleftrightarrow> c \<notin> set s"
proof (cases "c \<in> set s")
  case True
  then obtain a b where "s = a @ c # b" "c \<notin> set a" by (metis split_list_first)
  then show ?thesis using cut_at_Some [of c s a b] True by simp
next
  case False
  then have "dropWhile (\<lambda>x. x \<noteq> c) s = []" by (auto simp: dropWhile_eq_Nil_conv)
  then have "cut_at c s = None" unfolding cut_at_def by (simp only: list.case)
  then show ?thesis using False by simp
qed

end
