(* ===== verification/Http_Access.thy ===== *)
theory Http_Access
  imports Svc_Identity Svc_Project Svc_Allocation Strconv
begin

text \<open>
  Access control of the HTTP API: pkg/identity (context, middleware, router,
  token verifier), the error mapping of pkg/common/support.go, the scoped read
  policies of internal/server/route_policy.go and the route table of
  internal/server/server.go.

  A handler maps a request to a response and the new state.  The token library
  (go-oidc) is a parameter of Verify: what it makes of a raw token, and what
  claims a token carries.  The mux is a list of patterns with their wrapped
  handlers.
\<close>

text \<open>Bodies of responses: the error object of the middleware, the error object of the handlers, an
  encoded value, none.  Bodies of requests: no JSON object, or an object with its members in order.\<close>

datatype body =
    JSONError string string
  | ErrorBody err
  | RoleBody role
  | GrantBody user_privilege
  | AssignmentBody user_role
  | NoBody

datatype jval = JString string | JNull | JOther

datatype json_body = SyntaxError | JObject "(string \<times> jval) list"

record response =
  rsp_Status :: nat
  rsp_Body :: body

record request =
  req_Path :: string
  req_Authorization :: string
  req_PathValue :: "string \<Rightarrow> string"
  req_Caller :: "caller option"
  req_Privileges :: "string set option"
  req_Body :: json_body

type_synonym handler = "request \<Rightarrow> env \<Rightarrow> state \<Rightarrow> response \<times> state"

subsection \<open>identity.go\<close>

definition WithCaller :: "request \<Rightarrow> caller \<Rightarrow> request" where
  "WithCaller req cl = req\<lparr>req_Caller := Some cl\<rparr>"

definition CallerFromContext :: "request \<Rightarrow> caller option" where
  "CallerFromContext req = req_Caller req"

definition withPrivileges :: "request \<Rightarrow> string list \<Rightarrow> request" where
  "withPrivileges req keys = req\<lparr>req_Privileges := Some (set keys)\<rparr>"

definition ctxHasPrivilege :: "request \<Rightarrow> string \<Rightarrow> bool" where
  "ctxHasPrivilege req p = (case req_Privileges req of None \<Rightarrow> False | Some ks \<Rightarrow> p \<in> ks)"

subsection \<open>verifier.go\<close>

definition Verify :: "(string \<Rightarrow> err + 'tok) \<Rightarrow> ('tok \<Rightarrow> err + claims) \<Rightarrow> string \<Rightarrow> err + claims" where
  "Verify inner tokenClaims rawToken =
     (case inner rawToken of Inl x \<Rightarrow> Inl x
      | Inr tok \<Rightarrow> (case tokenClaims tok of Inl x \<Rightarrow> Inl x | Inr c \<Rightarrow> Inr c))"

subsection \<open>middleware.go\<close>

definition writeJSONError :: "nat \<Rightarrow> string \<Rightarrow> string \<Rightarrow> response" where
  "writeJSONError status code message = \<lparr> rsp_Status = status, rsp_Body = JSONError code message \<rparr>"

definition bearer :: "string \<Rightarrow> string option" where
  "bearer header =
     (let pre = ''Bearer '' in
      if take (length pre) header \<noteq> pre then None
      else Some (TrimSpace (drop (length pre) header)))"

text \<open>The text after the first blank, if there is one.\<close>

definition methodPath :: "string \<Rightarrow> string" where
  "methodPath pattern =
     (case dropWhile (\<lambda>c. c \<noteq> CHR '' '') pattern of [] \<Rightarrow> pattern | _ # rest \<Rightarrow> TrimSpace rest)"

definition Middleware ::
    "(string \<Rightarrow> err + claims) \<Rightarrow> (claims option \<Rightarrow> (caller \<times> string list) M) \<Rightarrow> string list \<Rightarrow> handler \<Rightarrow> handler" where
  "Middleware verifier resolver publicPaths handle req e s =
     (if req_Path req \<in> set publicPaths then handle req e s
      else case bearer (req_Authorization req) of
        None \<Rightarrow> (writeJSONError 401 ''missing_bearer'' ''Missing bearer token'', s)
      | Some rawToken \<Rightarrow>
        (case verifier rawToken of
           Inl _ \<Rightarrow> (writeJSONError 401 ''invalid_token'' ''Invalid or expired bearer token'', s)
         | Inr claims \<Rightarrow>
           (case resolver (Some claims) e s of
              (Inl x, s') \<Rightarrow>
                if errors_Is x ErrNotLinked
                then (writeJSONError 401 ''identity_not_linked'' ''OIDC identity is not linked to a portal user'', s')
                else (writeJSONError 503 ''auth_lookup_failed'' ''Identity resolution failed'', s')
            | (Inr (cl, privileges), s') \<Rightarrow>
                handle (withPrivileges (WithCaller req cl) privileges) e s')))"

record router =
  rt_mux :: "(string \<times> handler) list"
  rt_publicPaths :: "string list"

definition NewRouter :: "(string \<times> handler) list \<Rightarrow> router" where
  "NewRouter mux = \<lparr> rt_mux = mux, rt_publicPaths = [] \<rparr>"

definition requirePrivilege :: "string \<Rightarrow> handler \<Rightarrow> handler" where
  "requirePrivilege p handle req e s =
     (if \<not> ctxHasPrivilege req p
      then (writeJSONError 403 ''insufficient_privilege'' ''Caller lacks required privilege'', s)
      else handle req e s)"

definition RequirePrivilege :: "router \<Rightarrow> string \<Rightarrow> string \<Rightarrow> handler \<Rightarrow> router" where
  "RequirePrivilege r pattern p handle = r\<lparr>rt_mux := rt_mux r @ [(pattern, requirePrivilege p handle)]\<rparr>"

definition Public :: "router \<Rightarrow> string \<Rightarrow> handler \<Rightarrow> router" where
  "Public r pattern handle =
     r\<lparr>rt_mux := rt_mux r @ [(pattern, handle)], rt_publicPaths := rt_publicPaths r @ [methodPath pattern]\<rparr>"

definition RequireAuth :: "router \<Rightarrow> string \<Rightarrow> handler \<Rightarrow> router" where
  "RequireAuth r pattern handle = r\<lparr>rt_mux := rt_mux r @ [(pattern, handle)]\<rparr>"

text \<open>A policy answers with the response it wrote, or with None to run the handler.\<close>

type_synonym policy = "request \<Rightarrow> env \<Rightarrow> state \<Rightarrow> response option \<times> state"

definition requireScoped :: "policy \<Rightarrow> handler \<Rightarrow> handler" where
  "requireScoped authorize handle req e s =
     (case authorize req e s of (Some r, s') \<Rightarrow> (r, s') | (None, s') \<Rightarrow> handle req e s')"

definition RequireScoped :: "router \<Rightarrow> string \<Rightarrow> policy \<Rightarrow> handler \<Rightarrow> router" where
  "RequireScoped r pattern authorize handle =
     r\<lparr>rt_mux := rt_mux r @ [(pattern, requireScoped authorize handle)]\<rparr>"

definition PublicPaths :: "router \<Rightarrow> string list" where
  "PublicPaths r = rt_publicPaths r"

subsection \<open>support.go\<close>

definition WriteError :: "nat \<Rightarrow> err \<Rightarrow> response" where
  "WriteError status x = \<lparr> rsp_Status = status, rsp_Body = ErrorBody x \<rparr>"

definition WriteServiceError :: "err \<Rightarrow> response" where
  "WriteServiceError x =
     (if errors_Is x ErrNotFound then WriteError 404 x
      else if errors_Is x ErrAlreadyExists then WriteError 409 x
      else if errors_Is x ErrInvalidInput then WriteError 400 x
      else WriteError 500 (NewError ''internal server error'' []))"

subsection \<open>route_policy.go\<close>

definition requireCaller :: "request \<Rightarrow> response + caller" where
  "requireCaller req =
     (case CallerFromContext req of
        None \<Rightarrow> Inl (WriteError 401 (NewError ''missing authenticated caller'' []))
      | Some c \<Rightarrow> Inr c)"

text \<open>if err != nil { common.WriteServiceError(w, err); return false }\<close>

definition orDeny :: "'a M \<Rightarrow> ('a \<Rightarrow> env \<Rightarrow> state \<Rightarrow> response option \<times> state) \<Rightarrow> env \<Rightarrow> state \<Rightarrow>
    response option \<times> state" where
  "orDeny m f e s = (case m e s of (Inl x, s') \<Rightarrow> (Some (WriteServiceError x), s') | (Inr v, s') \<Rightarrow> f v e s')"

definition canReadAllocation :: policy where
  "canReadAllocation req e s =
     (case requireCaller req of Inl r \<Rightarrow> (Some r, s)
      | Inr caller \<Rightarrow>
        if ctxHasPrivilege req AllocationsRead then (None, s)
        else orDeny (GetComputeAllocation (req_PathValue req ''id'')) (\<lambda>alloc.
          orDeny (ProjectRoleForUser (alc_ProjectID alloc) (cal_UserID caller)) (\<lambda>role.
          if IsGovernanceRole role then (\<lambda>e s. (None, s))
          else orDeny (IsAllocationMember (alc_ID alloc) (cal_UserID caller)) (\<lambda>member e s.
            if \<not> member then (Some (WriteServiceError ErrNotFound), s) else (None, s)))) e s)"

definition canReadProject :: policy where
  "canReadProject req e s =
     (case requireCaller req of Inl r \<Rightarrow> (Some r, s)
      | Inr caller \<Rightarrow>
        if ctxHasPrivilege req ProjectsRead then (None, s)
        else orDeny (IsProjectParticipant (req_PathValue req ''id'') (cal_UserID caller)) (\<lambda>ok e s.
          if \<not> ok then (Some (WriteServiceError ErrNotFound), s) else (None, s)) e s)"

subsection \<open>The route table\<close>

datatype route_guard = PublicRoute | AuthRoute | PrivilegeRoute string | ScopedRoute string

text \<open>Server.routes: pattern, guard, handler.\<close>

definition routes :: "(string \<times> route_guard \<times> string) list" where
  "routes =
     [(''GET /healthz'', PublicRoute, ''healthz''),
      (''POST /organizations'', PrivilegeRoute OrganizationsWrite, ''createOrganization''),
      (''GET /organizations'', PrivilegeRoute OrganizationsRead, ''listOrganizations''),
      (''GET /organizations/{id}'', PrivilegeRoute OrganizationsRead, ''getOrganization''),
      (''POST /users'', PrivilegeRoute UsersWrite, ''createUser''),
      (''GET /users'', PrivilegeRoute UsersRead, ''listUsers''),
      (''GET /users/{id}'', PrivilegeRoute UsersRead, ''getUser''),
      (''PUT /users/{id}'', PrivilegeRoute UsersWrite, ''updateUser''),
      (''PUT /users/{id}/status'', PrivilegeRoute UsersWrite, ''updateUserStatus''),
      (''POST /users/merge'', PrivilegeRoute UsersWrite, ''mergeUsers''),
      (''GET /projects'', AuthRoute, ''listProjects''),
      (''POST /projects'', PrivilegeRoute ProjectsWrite, ''createProject''),
      (''GET /projects/{id}'', ScopedRoute ''canReadProject'', ''getProject''),
      (''PUT /projects/{id}/status'', PrivilegeRoute ProjectsWrite, ''updateProjectStatus''),
      (''GET /projects/{id}/members'', PrivilegeRoute ProjectsRead, ''listProjectMembers''),
      (''POST /compute-clusters'', PrivilegeRoute ClustersWrite, ''createComputeCluster''),
      (''GET /compute-clusters'', PrivilegeRoute ClustersRead, ''listComputeClusters''),
      (''GET /compute-clusters/{id}'', PrivilegeRoute ClustersRead, ''getComputeCluster''),
      (''POST /compute-cluster-users'', PrivilegeRoute ClustersWrite, ''createComputeClusterUser''),
      (''GET /compute-cluster-users/{id}'', PrivilegeRoute ClustersRead, ''getComputeClusterUser''),
      (''PUT /compute-cluster-users/{id}'', PrivilegeRoute ClustersWrite, ''updateComputeClusterUser''),
      (''DELETE /compute-cluster-users/{id}'', PrivilegeRoute ClustersWrite, ''deleteComputeClusterUser''),
      (''GET /compute-clusters/{id}/users'', PrivilegeRoute ClustersRead, ''listComputeClusterUsersByCluster''),
      (''GET /compute-clusters/{id}/users/{userId}'', PrivilegeRoute ClustersRead, ''getComputeClusterUserByPair''),
      (''GET /users/{id}/compute-cluster-users'', PrivilegeRoute ClustersRead, ''listComputeClusterUsersByUser''),
      (''GET /compute-allocations'', AuthRoute, ''listComputeAllocations''),
      (''POST /compute-allocations'', PrivilegeRoute AllocationsWrite, ''createComputeAllocation''),
      (''GET /compute-allocations/{id}'', ScopedRoute ''canReadAllocation'', ''getComputeAllocation''),
      (''POST /compute-allocation-resources'', PrivilegeRoute AllocationsWrite, ''createComputeAllocationResource''),
      (''GET /compute-allocation-resources'', PrivilegeRoute AllocationsRead, ''listComputeAllocationResources''),
      (''GET /compute-allocation-resources/summary'', PrivilegeRoute AllocationsRead, ''listComputeAllocationResourceSummaries''),
      (''GET /compute-allocation-resources/{id}'', PrivilegeRoute AllocationsRead, ''getComputeAllocationResource''),
      (''GET /compute-allocations/{id}/resources'', ScopedRoute ''canReadAllocation'', ''listResourcesForAllocation''),
      (''POST /compute-allocations/{id}/resources'', PrivilegeRoute AllocationsWrite, ''attachResourceToAllocation''),
      (''PUT /compute-allocations/{id}/resources/{resourceId}'', PrivilegeRoute AllocationsWrite, ''updateAllocationResourceMapping''),
      (''DELETE /compute-allocations/{id}/resources/{resourceId}'', PrivilegeRoute AllocationsWrite, ''detachResourceFromAllocation''),
      (''GET /compute-allocation-resources/{id}/allocations'', PrivilegeRoute AllocationsRead, ''listAllocationsForResource''),
      (''POST /compute-allocation-resource-rates'', PrivilegeRoute AllocationsWrite, ''createComputeAllocationResourceRate''),
      (''GET /compute-allocation-resource-rates/{id}'', PrivilegeRoute AllocationsRead, ''getComputeAllocationResourceRate''),
      (''GET /compute-allocation-resources/{id}/rates'', PrivilegeRoute AllocationsRead, ''listRatesForResource''),
      (''GET /compute-allocation-resources/{id}/rates/effective'', PrivilegeRoute AllocationsRead, ''getEffectiveRateForResource''),
      (''POST /compute-allocation-diffs'', PrivilegeRoute AllocationsWrite, ''createComputeAllocationDiff''),
      (''GET /compute-allocation-diffs/{id}'', PrivilegeRoute AllocationsRead, ''getComputeAllocationDiff''),
      (''DELETE /compute-allocation-diffs/{id}'', PrivilegeRoute AllocationsWrite, ''deleteComputeAllocationDiff''),
      (''GET /compute-allocations/{id}/diffs'', PrivilegeRoute AllocationsRead, ''listDiffsForAllocation''),
      (''GET /compute-allocations/{id}/diffs/latest'', PrivilegeRoute AllocationsRead, ''getLatestDiffForAllocation''),
      (''GET /compute-allocation-change-requests'', PrivilegeRoute AllocationsRead, ''listChangeRequests''),
      (''POST /compute-allocation-change-requests'', PrivilegeRoute AllocationsWrite, ''createComputeAllocationChangeRequest''),
      (''GET /compute-allocation-change-requests/{id}'', PrivilegeRoute AllocationsRead, ''getComputeAllocationChangeRequest''),
      (''PUT /compute-allocation-change-requests/{id}'', PrivilegeRoute AllocationsWrite, ''updateComputeAllocationChangeRequest''),
      (''DELETE /compute-allocation-change-requests/{id}'', PrivilegeRoute AllocationsWrite, ''deleteComputeAllocationChangeRequest''),
      (''GET /compute-allocations/{id}/change-requests'', PrivilegeRoute AllocationsRead, ''listChangeRequestsForAllocation''),
      (''GET /users/{id}/change-requests'', PrivilegeRoute AllocationsRead, ''listChangeRequestsByRequester''),
      (''POST /compute-allocation-change-request-events'', PrivilegeRoute AllocationsWrite, ''createComputeAllocationChangeRequestEvent''),
      (''GET /compute-allocation-change-request-events/{id}'', PrivilegeRoute AllocationsRead, ''getComputeAllocationChangeRequestEvent''),
      (''DELETE /compute-allocation-change-request-events/{id}'', PrivilegeRoute AllocationsWrite, ''deleteComputeAllocationChangeRequestEvent''),
      (''GET /compute-allocation-change-requests/{id}/events'', PrivilegeRoute AllocationsRead, ''listEventsForChangeRequest''),
      (''GET /compute-allocation-change-requests/{id}/events/latest'', PrivilegeRoute AllocationsRead, ''getLatestEventForChangeRequest''),
      (''POST /compute-allocation-memberships'', PrivilegeRoute AllocationsWrite, ''createComputeAllocationMembership''),
      (''GET /compute-allocation-memberships/{id}'', PrivilegeRoute AllocationsRead, ''getComputeAllocationMembership''),
      (''PUT /compute-allocation-memberships/{id}'', PrivilegeRoute AllocationsWrite, ''updateComputeAllocationMembership''),
      (''PUT /compute-allocation-memberships/{id}/status'', PrivilegeRoute AllocationsWrite, ''updateMembershipStatus''),
      (''DELETE /compute-allocation-memberships/{id}'', PrivilegeRoute AllocationsWrite, ''deleteComputeAllocationMembership''),
      (''GET /compute-allocations/{id}/memberships'', ScopedRoute ''canReadAllocation'', ''listMembersForAllocation''),
      (''GET /users/{id}/compute-allocation-memberships'', PrivilegeRoute AllocationsRead, ''listAllocationsForUser''),
      (''GET /compute-allocation-memberships/{id}/resource-overrides'', PrivilegeRoute AllocationsRead, ''listOverridesForMembership''),
      (''POST /compute-allocation-membership-resource-overrides'', PrivilegeRoute AllocationsWrite, ''createComputeAllocationMembershipResourceOverride''),
      (''GET /compute-allocation-membership-resource-overrides/{id}'', PrivilegeRoute AllocationsRead, ''getComputeAllocationMembershipResourceOverride''),
      (''PUT /compute-allocation-membership-resource-overrides/{id}'', PrivilegeRoute AllocationsWrite, ''updateComputeAllocationMembershipResourceOverride''),
      (''DELETE /compute-allocation-membership-resource-overrides/{id}'', PrivilegeRoute AllocationsWrite, ''deleteComputeAllocationMembershipResourceOverride''),
      (''GET /compute-allocation-resources/{id}/membership-overrides'', PrivilegeRoute AllocationsRead, ''listOverridesForResource''),
      (''POST /compute-allocation-usages'', PrivilegeRoute AllocationsWrite, ''createComputeAllocationUsage''),
      (''GET /compute-allocation-usages/{id}'', PrivilegeRoute AllocationsRead, ''getComputeAllocationUsage''),
      (''DELETE /compute-allocation-usages/{id}'', PrivilegeRoute AllocationsWrite, ''deleteComputeAllocationUsage''),
      (''GET /compute-allocations/{id}/usages'', ScopedRoute ''canReadAllocation'', ''listUsagesForAllocation''),
      (''GET /compute-allocations/{id}/usages/total'', ScopedRoute ''canReadAllocation'', ''getTotalSUUsageForAllocation''),
      (''GET /compute-allocations/{id}/users/{userId}/usages/total'', PrivilegeRoute AllocationsRead, ''getTotalSUUsageForUserInAllocation''),
      (''GET /users/{id}/compute-allocation-usages'', PrivilegeRoute AllocationsRead, ''listUsagesByUser''),
      (''POST /user-identities'', PrivilegeRoute UsersWrite, ''createUserIdentity''),
      (''GET /user-identities/{id}'', PrivilegeRoute UsersRead, ''getUserIdentity''),
      (''PUT /user-identities/{id}'', PrivilegeRoute UsersWrite, ''updateUserIdentity''),
      (''DELETE /user-identities/{id}'', PrivilegeRoute UsersWrite, ''deleteUserIdentity''),
      (''GET /user-identities/sources/{source}/external/{externalId}'', PrivilegeRoute UsersRead, ''getUserIdentityBySourceAndExternalID''),
      (''GET /user-identities/oidc-subjects/{oidcSub}'', PrivilegeRoute UsersRead, ''getUserIdentityByOIDCSub''),
      (''GET /users/{id}/user-identities'', PrivilegeRoute UsersRead, ''listUserIdentitiesForUser''),
      (''GET /user/privileges'', AuthRoute, ''getCallerPrivileges''),
      (''GET /me'', AuthRoute, ''getCallerProfile''),
      (''GET /privileges/catalog'', PrivilegeRoute PrivilegesGrant, ''getPrivilegeCatalog''),
      (''GET /users/{id}/privileges'', PrivilegeRoute PrivilegesGrant, ''listUserPrivileges''),
      (''GET /privileges/{key}/holders'', PrivilegeRoute PrivilegesGrant, ''listPrivilegeHolders''),
      (''POST /users/{id}/privileges'', PrivilegeRoute PrivilegesGrant, ''grantPrivilege''),
      (''DELETE /users/{id}/privileges/{key}'', PrivilegeRoute PrivilegesGrant, ''revokePrivilege''),
      (''GET /roles'', PrivilegeRoute RolesManage, ''listRoles''),
      (''POST /roles'', PrivilegeRoute RolesManage, ''createRole''),
      (''GET /roles/{id}'', PrivilegeRoute RolesManage, ''getRole''),
      (''PUT /roles/{id}'', PrivilegeRoute RolesManage, ''updateRole''),
      (''DELETE /roles/{id}'', PrivilegeRoute RolesManage, ''deleteRole''),
      (''POST /roles/{id}/privileges'', PrivilegeRoute RolesManage, ''addRolePrivilege''),
      (''DELETE /roles/{id}/privileges/{key}'', PrivilegeRoute RolesManage, ''removeRolePrivilege''),
      (''GET /roles/{id}/holders'', PrivilegeRoute RolesManage, ''listRoleHolders''),
      (''GET /users/{id}/roles'', PrivilegeRoute RolesManage, ''listUserRoles''),
      (''POST /users/{id}/roles'', PrivilegeRoute RolesManage, ''grantRoleToUser''),
      (''DELETE /users/{id}/roles/{roleId}'', PrivilegeRoute RolesManage, ''revokeRoleFromUser''),
      (''GET /audit/traces'', PrivilegeRoute TracesRead, ''handleListTraces''),
      (''GET /audit/traces/{trace_id}'', PrivilegeRoute TracesRead, ''handleGetTrace''),
      (''GET /audit/events'', PrivilegeRoute TracesRead, ''handleListEvents''),
      (''GET /audit/sources'', PrivilegeRoute TracesRead, ''handleListSources'')]"

text \<open>Each entry is one call on the router; the handlers and the policies are looked up by name.\<close>

definition add_route :: "(string \<Rightarrow> handler) \<Rightarrow> (string \<Rightarrow> policy) \<Rightarrow> (string \<times> route_guard \<times> string) \<Rightarrow> router \<Rightarrow> router" where
  "add_route hs ps rt r =
     (case rt of (pattern, g, h) \<Rightarrow>
       (case g of
          PublicRoute \<Rightarrow> Public r pattern (hs h)
        | AuthRoute \<Rightarrow> RequireAuth r pattern (hs h)
        | PrivilegeRoute p \<Rightarrow> RequirePrivilege r pattern p (hs h)
        | ScopedRoute pol \<Rightarrow> RequireScoped r pattern (ps pol) (hs h)))"

definition server_routes :: "(string \<Rightarrow> handler) \<Rightarrow> (string \<Rightarrow> policy) \<Rightarrow> router \<Rightarrow> router" where
  "server_routes hs ps r = fold (add_route hs ps) routes r"

end
