(* ===== verification/Svc_Directory.thy ===== *)
theory Svc_Directory
  imports Schema_Invariant PI_Invariant Grant_Invariant Sample_Data
begin

text \<open>
  pkg/service for organizations, users, user identities, compute clusters and
  cluster accounts: organization.go, user.go, user_identity.go,
  compute_cluster.go, compute_cluster_user.go.  A pointer argument is an
  option (None is nil); an operation that assigns to its argument works on an
  updated copy, which is what it stores, publishes and returns.
\<close>

subsection \<open>organization.go\<close>

definition CreateOrganization :: "organization option \<Rightarrow> organization M" where
  "CreateOrganization org = (case org of None \<Rightarrow> invalid ''organization is nil'' []
   | Some o0 \<Rightarrow>
     if org_Name o0 = '''' then invalid ''organization name is required'' []
     else bindM (idOrNew (org_ID o0)) (\<lambda>x.
       let o1 = o0\<lparr>org_ID := x\<rparr> in
       bindM (if org_OriginatedID o1 \<noteq> ''''
              then wrapM ''lookup organization by originated id'' (orgs_FindByOriginatedID (org_OriginatedID o1))
              else retM None) (\<lambda>existing.
       case existing of
         Some _ \<Rightarrow> already_exists ''organization with originated_id %q'' [org_OriginatedID o1]
       | None \<Rightarrow>
         andPublish (wrapM ''create organization'' (inTx (orgs_Create o1)))
           ''organization::create'' (POrganization o1) o1)))"

definition GetOrganization :: "id \<Rightarrow> organization M" where
  "GetOrganization x = orNotFound (wrapM ''get organization'' (orgs_FindByID x))"

definition ListOrganizations :: "int \<Rightarrow> int \<Rightarrow> (organization list \<times> nat) M" where
  "ListOrganizations limit offset = wrapM ''list organizations'' (orgs_List limit offset)"

definition GetOrganizationByOriginatedID :: "string \<Rightarrow> organization M" where
  "GetOrganizationByOriginatedID oid =
     orNotFound (wrapM ''get organization by originated id'' (orgs_FindByOriginatedID oid))"

definition UpdateOrganization :: "organization option \<Rightarrow> unit M" where
  "UpdateOrganization org = (case org of None \<Rightarrow> invalid ''organization id is required'' []
   | Some o0 \<Rightarrow>
     if org_ID o0 = '''' then invalid ''organization id is required'' []
     else andPublish (wrapM ''update organization'' (inTx (orgs_Update o0)))
            ''organization::update'' (POrganization o0) ())"

definition DeleteOrganization :: "id \<Rightarrow> unit M" where
  "DeleteOrganization x =
     (if x = '''' then invalid ''organization id is required'' []
      else bindM (wrapM ''lookup organization'' (orgs_FindByID x)) (\<lambda>org.
        case org of None \<Rightarrow> throwM ErrNotFound
        | Some o0 \<Rightarrow> andPublish (wrapM ''delete organization'' (inTx (orgs_Delete x)))
                      ''organization::delete'' (POrganization o0) ()))"

subsection \<open>user.go\<close>

definition CreateUser :: "user option \<Rightarrow> user M" where
  "CreateUser user = (case user of None \<Rightarrow> invalid ''user is nil'' []
   | Some u0 \<Rightarrow>
     if usr_Email u0 = '''' then invalid ''user email is required'' []
     else if usr_OrganizationID u0 = '''' then invalid ''user organization_id is required'' []
     else bindM (wrapM ''verify organization'' (orgs_FindByID (usr_OrganizationID u0))) (\<lambda>org.
       case org of None \<Rightarrow> invalid ''organization %q does not exist'' [usr_OrganizationID u0]
       | Some _ \<Rightarrow>
         bindM (wrapM ''lookup user by email'' (users_FindByEmail (usr_Email u0))) (\<lambda>existing.
         case existing of Some _ \<Rightarrow> already_exists ''user with email %q'' [usr_Email u0]
         | None \<Rightarrow>
           bindM (idOrNew (usr_ID u0)) (\<lambda>x.
           let u1 = u0\<lparr>usr_ID := x, usr_Status := orElse (usr_Status u0) UserPending,
                       usr_Type := orElse (usr_Type u0) UserTypeClusterLocal\<rparr> in
           andPublish (wrapM ''create user'' (inTx (users_Create u1)))
             ''user::create'' (PUser u1) u1))))"

definition ListUsers :: "int \<Rightarrow> int \<Rightarrow> (user list \<times> nat) M" where
  "ListUsers limit offset = wrapM ''list users'' (users_List limit offset)"

definition GetUser :: "id \<Rightarrow> user M" where
  "GetUser x = orNotFound (wrapM ''get user'' (users_FindByID x))"

definition GetUserByUserIdentity :: "string \<Rightarrow> string \<Rightarrow> user M" where
  "GetUserByUserIdentity source ext =
     (if source = '''' then invalid ''source is required'' []
      else if ext = '''' then invalid ''external_id is required'' []
      else bindM (wrapM ''lookup user identity'' (userIdentities_FindBySourceAndExternalID source ext)) (\<lambda>ident.
        case ident of None \<Rightarrow> throwM ErrNotFound | Some i \<Rightarrow> GetUser (uid_UserID i)))"

definition GetUserByEmail :: "string \<Rightarrow> user M" where
  "GetUserByEmail email = orNotFound (wrapM ''get user by email'' (users_FindByEmail email))"

definition ListUsersByOrganization :: "id \<Rightarrow> user list M" where
  "ListUsersByOrganization oid = wrapM ''list users by organization'' (users_FindByOrganization oid)"

text \<open>The record UpdateUser stores: blank fields fall back to the stored row.\<close>

definition mergeUserFields :: "user \<Rightarrow> user \<Rightarrow> user" where
  "mergeUserFields u old = u\<lparr>
     usr_OrganizationID := orElse (usr_OrganizationID u) (usr_OrganizationID old),
     usr_FirstName := orElse (usr_FirstName u) (usr_FirstName old),
     usr_LastName := orElse (usr_LastName u) (usr_LastName old),
     usr_MiddleName := orElse (usr_MiddleName u) (usr_MiddleName old),
     usr_Email := orElse (usr_Email u) (usr_Email old),
     usr_Status := orElse (usr_Status u) (usr_Status old),
     usr_Type := orElse (usr_Type u) (usr_Type old)\<rparr>"

definition UpdateUser :: "user option \<Rightarrow> unit M" where
  "UpdateUser user = (case user of None \<Rightarrow> invalid ''user id is required'' []
   | Some u0 \<Rightarrow>
     if usr_ID u0 = '''' then invalid ''user id is required'' []
     else bindM (wrapM ''lookup user'' (users_FindByID (usr_ID u0))) (\<lambda>existing.
       case existing of None \<Rightarrow> throwM ErrNotFound
       | Some old \<Rightarrow>
         bindM (if usr_Email u0 \<noteq> '''' \<and> usr_Email u0 \<noteq> usr_Email old
                then wrapM ''lookup user by email'' (users_FindByEmail (usr_Email u0))
                else retM None) (\<lambda>other.
         if (case other of None \<Rightarrow> False | Some w \<Rightarrow> usr_ID w \<noteq> usr_ID u0)
         then already_exists ''user with email %q'' [usr_Email u0]
         else let u1 = mergeUserFields u0 old in
           andPublish (wrapM ''update user'' (inTx (users_Update u1)))
             ''user::update'' (PUser u1) ())))"

definition UpdateUserStatus :: "id \<Rightarrow> string \<Rightarrow> user M" where
  "UpdateUserStatus x status =
     (if x = '''' then invalid ''user id is required'' []
      else if status = '''' then invalid ''status is required'' []
      else bindM (wrapM ''lookup user'' (users_FindByID x)) (\<lambda>existing.
        case existing of None \<Rightarrow> throwM ErrNotFound
        | Some old \<Rightarrow> let u1 = old\<lparr>usr_Status := status\<rparr> in
            andPublish (wrapM ''update user status'' (inTx (users_UpdateStatus x status)))
              ''user::update'' (PUser u1) u1))"

definition DeleteUser :: "id \<Rightarrow> unit M" where
  "DeleteUser x =
     (if x = '''' then invalid ''user id is required'' []
      else bindM (wrapM ''lookup user'' (users_FindByID x)) (\<lambda>existing.
        case existing of None \<Rightarrow> throwM ErrNotFound
        | Some old \<Rightarrow> andPublish (wrapM ''delete user'' (inTx (users_Delete x)))
                       ''user::delete'' (PUser old) ()))"

subsection \<open>user_identity.go\<close>

definition CreateUserIdentity :: "user_identity option \<Rightarrow> user_identity M" where
  "CreateUserIdentity ident = (case ident of None \<Rightarrow> invalid ''user identity is nil'' []
   | Some i0 \<Rightarrow>
     if uid_UserID i0 = '''' then invalid ''user identity user_id is required'' []
     else if uid_Source i0 = '''' then invalid ''user identity source is required'' []
     else if uid_ExternalID i0 = '''' then invalid ''user identity external_id is required'' []
     else bindM (wrapM ''verify user'' (users_FindByID (uid_UserID i0))) (\<lambda>user.
       case user of None \<Rightarrow> invalid ''user %q does not exist'' [uid_UserID i0]
       | Some _ \<Rightarrow>
         bindM (wrapM ''lookup user identity''
                 (userIdentities_FindBySourceAndExternalID (uid_Source i0) (uid_ExternalID i0))) (\<lambda>existing.
         case existing of
           Some _ \<Rightarrow> already_exists ''user identity for source %q, external_id %q''
                       [uid_Source i0, uid_ExternalID i0]
         | None \<Rightarrow>
           bindM (idOrNew (uid_ID i0)) (\<lambda>x.
           let i1 = i0\<lparr>uid_ID := x\<rparr> in
           andPublish (wrapM ''create user identity'' (inTx (userIdentities_Create i1)))
             ''user_identity::create'' (PUserIdentity i1) i1))))"

definition GetUserIdentity :: "id \<Rightarrow> user_identity M" where
  "GetUserIdentity x = orNotFound (wrapM ''get user identity'' (userIdentities_FindByID x))"

definition GetUserIdentityBySourceAndExternalID :: "string \<Rightarrow> string \<Rightarrow> user_identity M" where
  "GetUserIdentityBySourceAndExternalID source ext =
     (if source = '''' then invalid ''source is required'' []
      else if ext = '''' then invalid ''external_id is required'' []
      else orNotFound (wrapM ''get user identity by source/external_id''
             (userIdentities_FindBySourceAndExternalID source ext)))"

definition GetUserIdentityByOIDCSub :: "string \<Rightarrow> user_identity M" where
  "GetUserIdentityByOIDCSub sub =
     (if sub = '''' then invalid ''oidc_sub is required'' []
      else orNotFound (wrapM ''get user identity by oidc_sub'' (userIdentities_FindByOIDCSub sub)))"

definition ListUserIdentitiesForUser :: "id \<Rightarrow> user_identity list M" where
  "ListUserIdentitiesForUser uid =
     (if uid = '''' then invalid ''user_id is required'' []
      else wrapM ''list user identities by user'' (userIdentities_FindByUser uid))"

definition UpdateUserIdentity :: "user_identity option \<Rightarrow> unit M" where
  "UpdateUserIdentity ident = (case ident of None \<Rightarrow> invalid ''user identity id is required'' []
   | Some i0 \<Rightarrow>
     if uid_ID i0 = '''' then invalid ''user identity id is required'' []
     else bindM (wrapM ''lookup user identity'' (userIdentities_FindByID (uid_ID i0))) (\<lambda>existing.
       case existing of None \<Rightarrow> throwM ErrNotFound
       | Some old \<Rightarrow>
         let i1 = i0\<lparr>uid_UserID := orElse (uid_UserID i0) (uid_UserID old),
                     uid_Source := orElse (uid_Source i0) (uid_Source old),
                     uid_ExternalID := orElse (uid_ExternalID i0) (uid_ExternalID old),
                     uid_Email := orElse (uid_Email i0) (uid_Email old),
                     uid_OIDCSub := orElse (uid_OIDCSub i0) (uid_OIDCSub old),
                     uid_Metadata := orElse (uid_Metadata i0) (uid_Metadata old)\<rparr> in
         andPublish (wrapM ''update user identity'' (inTx (userIdentities_Update i1)))
           ''user_identity::update'' (PUserIdentity i1) ()))"

definition DeleteUserIdentity :: "id \<Rightarrow> unit M" where
  "DeleteUserIdentity x =
     (if x = '''' then invalid ''user identity id is required'' []
      else bindM (wrapM ''lookup user identity'' (userIdentities_FindByID x)) (\<lambda>ident.
        case ident of None \<Rightarrow> throwM ErrNotFound
        | Some i \<Rightarrow> andPublish (wrapM ''delete user identity'' (inTx (userIdentities_Delete x)))
                     ''user_identity::delete'' (PUserIdentity i) ()))"

subsection \<open>compute_cluster.go\<close>

definition CreateComputeCluster :: "compute_cluster option \<Rightarrow> compute_cluster M" where
  "CreateComputeCluster cluster = (case cluster of None \<Rightarrow> invalid ''compute cluster is nil'' []
   | Some c0 \<Rightarrow>
     if ccl_Name c0 = '''' then invalid ''compute cluster name is required'' []
     else bindM (idOrNew (ccl_ID c0)) (\<lambda>x.
       let c1 = c0\<lparr>ccl_ID := x\<rparr> in
       bindM (wrapM ''lookup compute cluster by name'' (clusters_FindByName (ccl_Name c1))) (\<lambda>existing.
       case existing of Some _ \<Rightarrow> already_exists ''compute cluster with name %q'' [ccl_Name c1]
       | None \<Rightarrow> andPublish (wrapM ''create compute cluster'' (inTx (clusters_Create c1)))
                  ''compute_cluster::create'' (PComputeCluster c1) c1)))"

definition GetComputeCluster :: "id \<Rightarrow> compute_cluster M" where
  "GetComputeCluster x = orNotFound (wrapM ''get compute cluster'' (clusters_FindByID x))"

definition GetComputeClusterByName :: "string \<Rightarrow> compute_cluster M" where
  "GetComputeClusterByName name =
     orNotFound (wrapM ''get compute cluster by name'' (clusters_FindByName name))"

definition ListComputeClusters :: "compute_cluster list M" where
  "ListComputeClusters = wrapM ''list compute clusters'' clusters_List"

definition UpdateComputeCluster :: "compute_cluster option \<Rightarrow> unit M" where
  "UpdateComputeCluster cluster = (case cluster of None \<Rightarrow> invalid ''compute cluster id is required'' []
   | Some c0 \<Rightarrow>
     if ccl_ID c0 = '''' then invalid ''compute cluster id is required'' []
     else if ccl_Name c0 = '''' then invalid ''compute cluster name is required'' []
     else andPublish (wrapM ''update compute cluster'' (inTx (clusters_Update c0)))
            ''compute_cluster::update'' (PComputeCluster c0) ())"

definition DeleteComputeCluster :: "id \<Rightarrow> unit M" where
  "DeleteComputeCluster x =
     (if x = '''' then invalid ''compute cluster id is required'' []
      else bindM (wrapM ''lookup compute cluster'' (clusters_FindByID x)) (\<lambda>cluster.
        case cluster of None \<Rightarrow> throwM ErrNotFound
        | Some c0 \<Rightarrow> andPublish (wrapM ''delete compute cluster'' (inTx (clusters_Delete x)))
                      ''compute_cluster::delete'' (PComputeCluster c0) ()))"

subsection \<open>compute_cluster_user.go\<close>

text \<open>The driver's message names the violated constraint; the two helpers look for that name in the
  text of the error, which contains the text of everything it wraps.\<close>

definition isLocalUsernameDuplicate :: "err \<Rightarrow> bool" where
  "isLocalUsernameDuplicate x = (violated_constraint x = Some ''uq_compute_cluster_users_local_username'')"

definition isPairDuplicate :: "err \<Rightarrow> bool" where
  "isPairDuplicate x = (violated_constraint x = Some ''uq_compute_cluster_users_pair'')"

definition clusterUserCreateError :: "compute_cluster_user \<Rightarrow> err \<Rightarrow> err" where
  "clusterUserCreateError cu x =
     (if isLocalUsernameDuplicate x then Errorf ''%w: %s'' [ccu_LocalUsername cu] ErrAlreadyExists
      else if isPairDuplicate x
      then Errorf ''%w: user %q is already mapped on cluster %q''
             [ccu_UserID cu, ccu_ComputeClusterID cu] ErrAlreadyExists
      else Errorf ''create compute cluster user: %w'' [] x)"

definition CreateComputeClusterUser :: "compute_cluster_user option \<Rightarrow> compute_cluster_user M" where
  "CreateComputeClusterUser cu = (case cu of None \<Rightarrow> invalid ''compute cluster user is nil'' []
   | Some c0 \<Rightarrow>
     if ccu_ComputeClusterID c0 = '''' then invalid ''compute_cluster_id is required'' []
     else if ccu_UserID c0 = '''' then invalid ''user_id is required'' []
     else if ccu_LocalUsername c0 = '''' then invalid ''local_username is required'' []
     else bindM (idOrNew (ccu_ID c0)) (\<lambda>x.
       let c1 = c0\<lparr>ccu_ID := x\<rparr> in
       bindM (wrapM ''lookup compute cluster'' (clusters_FindByID (ccu_ComputeClusterID c1))) (\<lambda>cluster.
       case cluster of None \<Rightarrow> invalid ''compute cluster %q not found'' [ccu_ComputeClusterID c1]
       | Some _ \<Rightarrow>
         bindM (wrapM ''lookup user'' (users_FindByID (ccu_UserID c1))) (\<lambda>user.
         case user of None \<Rightarrow> invalid ''user %q not found'' [ccu_UserID c1]
         | Some _ \<Rightarrow>
           bindM (wrapM ''lookup compute cluster user by pair''
                   (clusterUsers_FindByPair (ccu_ComputeClusterID c1) (ccu_UserID c1))) (\<lambda>existing.
           case existing of
             Some _ \<Rightarrow> already_exists ''user %q is already mapped on cluster %q''
                         [ccu_UserID c1, ccu_ComputeClusterID c1]
           | None \<Rightarrow>
             andPublish (mapErrM (clusterUserCreateError c1) (inTx (clusterUsers_Create c1)))
               ''compute_cluster_user::create'' (PComputeClusterUser c1) c1)))))"

definition GetComputeClusterUser :: "id \<Rightarrow> compute_cluster_user M" where
  "GetComputeClusterUser x = orNotFound (wrapM ''get compute cluster user'' (clusterUsers_FindByID x))"

definition GetComputeClusterUserByPair :: "id \<Rightarrow> id \<Rightarrow> compute_cluster_user M" where
  "GetComputeClusterUserByPair cid uid =
     (if cid = '''' then invalid ''compute_cluster_id is required'' []
      else if uid = '''' then invalid ''user_id is required'' []
      else orNotFound (wrapM ''get compute cluster user by pair'' (clusterUsers_FindByPair cid uid)))"

definition GetComputeClusterUserByClusterAndLocalUsername :: "id \<Rightarrow> string \<Rightarrow> compute_cluster_user M" where
  "GetComputeClusterUserByClusterAndLocalUsername cid name =
     (if cid = '''' then invalid ''compute_cluster_id is required'' []
      else if name = '''' then invalid ''local_username is required'' []
      else orNotFound (wrapM ''get compute cluster user by local username and cluster''
             (clusterUsers_FindByClusterAndLocalUsername cid name)))"

definition ListComputeClusterUsersByCluster :: "id \<Rightarrow> compute_cluster_user list M" where
  "ListComputeClusterUsersByCluster cid =
     (if cid = '''' then invalid ''compute_cluster_id is required'' []
      else wrapM ''list compute cluster users by cluster'' (clusterUsers_FindByCluster cid))"

definition ListComputeClusterUsersByUser :: "id \<Rightarrow> compute_cluster_user list M" where
  "ListComputeClusterUsersByUser uid =
     (if uid = '''' then invalid ''user_id is required'' []
      else wrapM ''list compute cluster users by user'' (clusterUsers_FindByUser uid))"

definition UpdateComputeClusterUser :: "compute_cluster_user option \<Rightarrow> unit M" where
  "UpdateComputeClusterUser cu = (case cu of None \<Rightarrow> invalid ''compute cluster user id is required'' []
   | Some c0 \<Rightarrow>
     if ccu_ID c0 = '''' then invalid ''compute cluster user id is required'' []
     else bindM (wrapM ''lookup compute cluster user'' (clusterUsers_FindByID (ccu_ID c0))) (\<lambda>existing.
       case existing of None \<Rightarrow> throwM ErrNotFound
       | Some old \<Rightarrow>
         let c1 = c0\<lparr>ccu_ComputeClusterID := orElse (ccu_ComputeClusterID c0) (ccu_ComputeClusterID old),
                     ccu_UserID := orElse (ccu_UserID c0) (ccu_UserID old),
                     ccu_LocalUsername := orElse (ccu_LocalUsername c0) (ccu_LocalUsername old)\<rparr> in
         andPublish (wrapM ''update compute cluster user'' (inTx (clusterUsers_Update c1)))
           ''compute_cluster_user::update'' (PComputeClusterUser c1) ()))"

definition MarkComputeClusterUserProvisioned :: "id \<Rightarrow> unit M" where
  "MarkComputeClusterUserProvisioned x =
     (if x = '''' then invalid ''compute cluster user id is required'' []
      else bindM (wrapM ''lookup compute cluster user'' (clusterUsers_FindByID x)) (\<lambda>cu.
        case cu of None \<Rightarrow> throwM ErrNotFound
        | Some _ \<Rightarrow> andReturn (wrapM ''mark compute cluster user provisioned''
                       (inTx (clusterUsers_MarkProvisioned x))) ()))"

definition DeleteComputeClusterUser :: "id \<Rightarrow> unit M" where
  "DeleteComputeClusterUser x =
     (if x = '''' then invalid ''compute cluster user id is required'' []
      else bindM (wrapM ''lookup compute cluster user'' (clusterUsers_FindByID x)) (\<lambda>cu.
        case cu of None \<Rightarrow> throwM ErrNotFound
        | Some c0 \<Rightarrow> andPublish (wrapM ''delete compute cluster user'' (inTx (clusterUsers_Delete x)))
                      ''compute_cluster_user::delete'' (PComputeClusterUser c0) ()))"

subsection \<open>Failed operations leave no trace\<close>

lemma directory_atomic [atomic_intros]:
  "atomicM (CreateOrganization org)" "atomicM (UpdateOrganization org)" "atomicM (DeleteOrganization x)"
  "atomicM (CreateUser user)" "atomicM (UpdateUser user)" "atomicM (UpdateUserStatus x st)"
  "atomicM (DeleteUser x)"
  "atomicM (CreateUserIdentity ident)" "atomicM (UpdateUserIdentity ident)"
  "atomicM (DeleteUserIdentity x)"
  "atomicM (CreateComputeCluster cluster)" "atomicM (UpdateComputeCluster cluster)"
  "atomicM (DeleteComputeCluster x)"
  "atomicM (CreateComputeClusterUser cu)" "atomicM (UpdateComputeClusterUser cu)"
  "atomicM (MarkComputeClusterUserProvisioned x)" "atomicM (DeleteComputeClusterUser x)"
  unfolding CreateOrganization_def UpdateOrganization_def DeleteOrganization_def
    CreateUser_def UpdateUser_def UpdateUserStatus_def DeleteUser_def
    CreateUserIdentity_def UpdateUserIdentity_def DeleteUserIdentity_def
    CreateComputeCluster_def UpdateComputeCluster_def DeleteComputeCluster_def
    CreateComputeClusterUser_def UpdateComputeClusterUser_def
    MarkComputeClusterUserProvisioned_def DeleteComputeClusterUser_def
  by (intro atomic_intros readonly_intros)+

context store_contract
begin

lemma directory_keeps:
  "keeps I (CreateOrganization org)" "keeps I (UpdateOrganization org)"
  "keeps I (DeleteOrganization x)"
  "keeps I (CreateUser user)" "keeps I (UpdateUser user)"
  "keeps I (UpdateUserStatus x st)" "keeps I (DeleteUser x)"
  "keeps I (CreateUserIdentity ident)" "keeps I (UpdateUserIdentity ident)"
  "keeps I (DeleteUserIdentity x)"
  "keeps I (CreateComputeCluster cluster)" "keeps I (UpdateComputeCluster cluster)"
  "keeps I (DeleteComputeCluster x)"
  "keeps I (CreateComputeClusterUser cu)" "keeps I (UpdateComputeClusterUser cu)"
  "keeps I (MarkComputeClusterUserProvisioned x)" "keeps I (DeleteComputeClusterUser x)"
  unfolding CreateOrganization_def UpdateOrganization_def DeleteOrganization_def
    CreateUser_def UpdateUser_def UpdateUserStatus_def DeleteUser_def
    CreateUserIdentity_def UpdateUserIdentity_def DeleteUserIdentity_def
    CreateComputeCluster_def UpdateComputeCluster_def DeleteComputeCluster_def
    CreateComputeClusterUser_def UpdateComputeClusterUser_def
    MarkComputeClusterUserProvisioned_def DeleteComputeClusterUser_def
  by (intro keeps_intros readonly_intros txkeeps_intros)+

end

end
