(* ===== verification/Svc_Change.thy ===== *)
theory Svc_Change
  imports Schema_Invariant PI_Invariant Grant_Invariant Sample_Data
begin

text \<open>
  pkg/service for what is recorded against an allocation over time: diffs,
  change requests with their event log, usage rows and audit events
  (compute_allocation_diff.go, compute_allocation_change_request.go,
  compute_allocation_change_request_event.go, compute_allocation_usage.go,
  audit_event.go).  Approving a change request is the one core operation that
  commits twice: the status change with its event, then the diff.
\<close>

subsection \<open>compute_allocation_diff.go\<close>

definition CreateComputeAllocationDiff :: "compute_allocation_diff option \<Rightarrow> compute_allocation_diff M" where
  "CreateComputeAllocationDiff diff = (case diff of None \<Rightarrow> invalid ''compute allocation diff is nil'' []
   | Some f0 \<Rightarrow>
     if dif_ComputeAllocationID f0 = '''' then invalid ''compute_allocation_id is required'' []
     else if dif_DiffType f0 = '''' then invalid ''diff_type is required'' []
     else if dif_Status f0 = '''' then invalid ''status is required'' []
     else bindM (wrapM ''lookup compute allocation'' (allocs_FindByID (dif_ComputeAllocationID f0))) (\<lambda>alloc.
       case alloc of None \<Rightarrow> invalid ''compute allocation %q not found'' [dif_ComputeAllocationID f0]
       | Some _ \<Rightarrow>
         bindM (idOrNew (dif_ID f0)) (\<lambda>x.
         bindM nowUTC (\<lambda>now.
         let f1 = f0\<lparr>dif_ID := x, dif_Timestamp := orElseTime (dif_Timestamp f0) now\<rparr> in
         andPublish (wrapM ''create compute allocation diff'' (inTx (allocDiffs_Create f1)))
           ''compute_allocation_diff::create'' (PComputeAllocationDiff f1) f1))))"

definition GetComputeAllocationDiff :: "id \<Rightarrow> compute_allocation_diff M" where
  "GetComputeAllocationDiff x = orNotFound (wrapM ''get compute allocation diff'' (allocDiffs_FindByID x))"

definition ListDiffsForAllocation :: "id \<Rightarrow> compute_allocation_diff list M" where
  "ListDiffsForAllocation aid =
     (if aid = '''' then invalid ''compute_allocation_id is required'' []
      else wrapM ''list diffs for allocation'' (allocDiffs_FindByAllocation aid))"

definition GetLatestDiffForAllocation :: "id \<Rightarrow> compute_allocation_diff M" where
  "GetLatestDiffForAllocation aid =
     (if aid = '''' then invalid ''compute_allocation_id is required'' []
      else orNotFound (wrapM ''get latest diff for allocation'' (allocDiffs_FindLatestByAllocation aid)))"

definition DeleteComputeAllocationDiff :: "id \<Rightarrow> unit M" where
  "DeleteComputeAllocationDiff x =
     (if x = '''' then invalid ''compute allocation diff id is required'' []
      else bindM (wrapM ''lookup compute allocation diff'' (allocDiffs_FindByID x)) (\<lambda>diff.
        case diff of None \<Rightarrow> throwM ErrNotFound
        | Some f0 \<Rightarrow> andPublish (wrapM ''delete compute allocation diff'' (inTx (allocDiffs_Delete x)))
                      ''compute_allocation_diff::delete'' (PComputeAllocationDiff f0) ()))"

subsection \<open>compute_allocation_change_request.go\<close>

definition ListChangeRequests :: "change_request_list_filter \<Rightarrow> compute_allocation_change_request list M" where
  "ListChangeRequests f = wrapM ''list change requests'' (changeRequests_List f)"

definition CreateComputeAllocationChangeRequest ::
    "compute_allocation_change_request option \<Rightarrow> compute_allocation_change_request M" where
  "CreateComputeAllocationChangeRequest req =
   (case req of None \<Rightarrow> invalid ''compute allocation change request is nil'' []
   | Some c0 \<Rightarrow>
     if chr_ComputeAllocationID c0 = '''' then invalid ''compute_allocation_id is required'' []
     else if chr_RequesterID c0 = '''' then invalid ''requester_id is required'' []
     else bindM (wrapM ''lookup compute allocation'' (allocs_FindByID (chr_ComputeAllocationID c0))) (\<lambda>alloc.
       case alloc of None \<Rightarrow> invalid ''compute allocation %q not found'' [chr_ComputeAllocationID c0]
       | Some _ \<Rightarrow>
         bindM (idOrNew (chr_ID c0)) (\<lambda>x.
         bindM nowUTC (\<lambda>now.
         let c1 = c0\<lparr>chr_ID := x, chr_ChangeStatus := orElse (chr_ChangeStatus c0) ''PENDING'',
                     chr_Timestamp := orElseTime (chr_Timestamp c0) now\<rparr> in
         andReturn (wrapM ''create compute allocation change request'' (inTx (
           bindM (changeRequests_Create c1) (\<lambda>_.
           bindM newID (\<lambda>y.
           changeEvents_Create \<lparr> cre_ID = y, cre_ComputeAllocationChangeRequestID = chr_ID c1,
             cre_EventType = ''CREATED'', cre_Description = ''Change request created'',
             cre_Timestamp = chr_Timestamp c1 \<rparr>))))) c1))))"

definition GetComputeAllocationChangeRequest :: "id \<Rightarrow> compute_allocation_change_request M" where
  "GetComputeAllocationChangeRequest x =
     orNotFound (wrapM ''get compute allocation change request'' (changeRequests_FindByID x))"

definition ListChangeRequestsForAllocation :: "id \<Rightarrow> compute_allocation_change_request list M" where
  "ListChangeRequestsForAllocation aid =
     (if aid = '''' then invalid ''compute_allocation_id is required'' []
      else wrapM ''list change requests for allocation'' (changeRequests_FindByAllocation aid))"

definition ListChangeRequestsByRequester :: "id \<Rightarrow> compute_allocation_change_request list M" where
  "ListChangeRequestsByRequester uid =
     (if uid = '''' then invalid ''requester_id is required'' []
      else wrapM ''list change requests by requester'' (changeRequests_FindByRequester uid))"

text \<open>The parts of UpdateComputeAllocationChangeRequest: the record it stores, the event it appends,
  and the diff it creates for a request that becomes APPROVED.\<close>

definition mergeChangeRequest ::
    "compute_allocation_change_request \<Rightarrow> compute_allocation_change_request
       \<Rightarrow> compute_allocation_change_request" where
  "mergeChangeRequest c0 old = c0\<lparr>
     chr_ComputeAllocationID := orElse (chr_ComputeAllocationID c0) (chr_ComputeAllocationID old),
     chr_RequesterID := orElse (chr_RequesterID c0) (chr_RequesterID old),
     chr_ChangeStatus := orElse (chr_ChangeStatus c0) (chr_ChangeStatus old),
     chr_Timestamp := orElseTime (chr_Timestamp c0) (chr_Timestamp old)\<rparr>"

definition changeRequestEvent ::
    "id \<Rightarrow> time \<Rightarrow> compute_allocation_change_request \<Rightarrow> compute_allocation_change_request
       \<Rightarrow> compute_allocation_change_request_event" where
  "changeRequestEvent y now c1 old =
     (if chr_ChangeStatus c1 \<noteq> chr_ChangeStatus old
      then \<lparr> cre_ID = y, cre_ComputeAllocationChangeRequestID = chr_ID c1,
             cre_EventType = chr_ChangeStatus c1,
             cre_Description = ''Change request transitioned from '' @ chr_ChangeStatus old @
               '' to '' @ chr_ChangeStatus c1,
             cre_Timestamp = now \<rparr>
      else \<lparr> cre_ID = y, cre_ComputeAllocationChangeRequestID = chr_ID c1,
             cre_EventType = ''UPDATED'', cre_Description = ''Change request updated'',
             cre_Timestamp = now \<rparr>)"

definition approvalDiff :: "compute_allocation_change_request \<Rightarrow> compute_allocation_diff" where
  "approvalDiff c1 = \<lparr> dif_ID = '''', dif_ComputeAllocationID = chr_ComputeAllocationID c1,
     dif_DiffType = ''CHANGE_REQUEST_APPROVED'', dif_NewSUAmount = chr_RequestedSUAmount c1,
     dif_Status = orElse (chr_RequestedStatus c1) AllocationACTIVE, dif_Timestamp = 0,
     dif_Description = ''Applied approved change request '' @ chr_ID c1 \<rparr>"

definition UpdateComputeAllocationChangeRequest ::
    "compute_allocation_change_request option \<Rightarrow> compute_allocation_change_request M" where
  "UpdateComputeAllocationChangeRequest req =
   (case req of None \<Rightarrow> invalid ''compute allocation change request id is required'' []
   | Some c0 \<Rightarrow>
     if chr_ID c0 = '''' then invalid ''compute allocation change request id is required'' []
     else bindM (wrapM ''lookup compute allocation change request'' (changeRequests_FindByID (chr_ID c0))) (\<lambda>existing.
       case existing of None \<Rightarrow> throwM ErrNotFound
       | Some old \<Rightarrow>
         let c1 = mergeChangeRequest c0 old;
             approved = (chr_ChangeStatus c1 = ''APPROVED'' \<and> chr_ChangeStatus old \<noteq> ''APPROVED'') in
         bindM (wrapM ''update compute allocation change request'' (inTx (
           bindM (changeRequests_Update c1) (\<lambda>_.
           bindM newID (\<lambda>y.
           bindM nowUTC (\<lambda>now.
           changeEvents_Create (changeRequestEvent y now c1 old))))))) (\<lambda>_.
         if approved
         then andReturn (wrapM ''record approved change request diff''
                (CreateComputeAllocationDiff (Some (approvalDiff c1)))) c1
         else retM c1)))"

definition DeleteComputeAllocationChangeRequest :: "id \<Rightarrow> unit M" where
  "DeleteComputeAllocationChangeRequest x =
     (if x = '''' then invalid ''compute allocation change request id is required'' []
      else bindM (wrapM ''lookup compute allocation change request'' (changeRequests_FindByID x)) (\<lambda>existing.
        case existing of None \<Rightarrow> throwM ErrNotFound
        | Some _ \<Rightarrow>
          andReturn (wrapM ''delete compute allocation change request'' (inTx (
            bindM newID (\<lambda>y.
            bindM nowUTC (\<lambda>now.
            bindM (changeEvents_Create \<lparr> cre_ID = y, cre_ComputeAllocationChangeRequestID = x,
              cre_EventType = ''DELETED'', cre_Description = ''Change request deleted'',
              cre_Timestamp = now \<rparr>) (\<lambda>_.
            changeRequests_Delete x)))))) ()))"

subsection \<open>compute_allocation_change_request_event.go\<close>

definition CreateComputeAllocationChangeRequestEvent ::
    "compute_allocation_change_request_event option \<Rightarrow> compute_allocation_change_request_event M" where
  "CreateComputeAllocationChangeRequestEvent evt =
   (case evt of None \<Rightarrow> invalid ''compute allocation change request event is nil'' []
   | Some v0 \<Rightarrow>
     if cre_ComputeAllocationChangeRequestID v0 = ''''
     then invalid ''compute_allocation_change_request_id is required'' []
     else if cre_EventType v0 = '''' then invalid ''event_type is required'' []
     else bindM (wrapM ''lookup compute allocation change request''
                  (changeRequests_FindByID (cre_ComputeAllocationChangeRequestID v0))) (\<lambda>cr.
       case cr of
         None \<Rightarrow> invalid ''compute allocation change request %q not found''
                   [cre_ComputeAllocationChangeRequestID v0]
       | Some _ \<Rightarrow>
         bindM (idOrNew (cre_ID v0)) (\<lambda>x.
         bindM nowUTC (\<lambda>now.
         let v1 = v0\<lparr>cre_ID := x, cre_Timestamp := orElseTime (cre_Timestamp v0) now\<rparr> in
         andReturn (wrapM ''create compute allocation change request event''
           (inTx (changeEvents_Create v1))) v1))))"

definition GetComputeAllocationChangeRequestEvent :: "id \<Rightarrow> compute_allocation_change_request_event M" where
  "GetComputeAllocationChangeRequestEvent x =
     orNotFound (wrapM ''get compute allocation change request event'' (changeEvents_FindByID x))"

definition ListEventsForChangeRequest :: "id \<Rightarrow> compute_allocation_change_request_event list M" where
  "ListEventsForChangeRequest cid =
     (if cid = '''' then invalid ''compute_allocation_change_request_id is required'' []
      else wrapM ''list events for change request'' (changeEvents_FindByChangeRequest cid))"

definition GetLatestEventForChangeRequest :: "id \<Rightarrow> compute_allocation_change_request_event M" where
  "GetLatestEventForChangeRequest cid =
     (if cid = '''' then invalid ''compute_allocation_change_request_id is required'' []
      else orNotFound (wrapM ''get latest event for change request''
             (changeEvents_FindLatestByChangeRequest cid)))"

definition DeleteComputeAllocationChangeRequestEvent :: "id \<Rightarrow> unit M" where
  "DeleteComputeAllocationChangeRequestEvent x =
     (if x = '''' then invalid ''compute allocation change request event id is required'' []
      else andReturn (wrapM ''delete compute allocation change request event''
             (inTx (changeEvents_Delete x))) ())"

subsection \<open>compute_allocation_usage.go\<close>

definition CreateComputeAllocationUsage :: "compute_allocation_usage option \<Rightarrow> compute_allocation_usage M" where
  "CreateComputeAllocationUsage usage =
   (case usage of None \<Rightarrow> invalid ''compute allocation usage is nil'' []
   | Some u0 \<Rightarrow>
     if usg_ComputeAllocationID u0 = '''' then invalid ''compute_allocation_id is required'' []
     else if usg_UsedRawAmount u0 < 0 \<or> usg_UsedSUAmount u0 < 0
     then invalid ''used_raw_amount and used_su_amount must be non-negative'' []
     else bindM (wrapM ''lookup compute allocation'' (allocs_FindByID (usg_ComputeAllocationID u0))) (\<lambda>alloc.
       case alloc of None \<Rightarrow> invalid ''compute allocation %q not found'' [usg_ComputeAllocationID u0]
       | Some _ \<Rightarrow>
         bindM (if usg_ComputeAllocationResourceID u0 \<noteq> ''''
                then bindM (wrapM ''lookup compute allocation resource''
                        (resources_FindByID (usg_ComputeAllocationResourceID u0))) (\<lambda>r.
                      case r of
                        None \<Rightarrow> invalid ''compute allocation resource %q not found''
                                  [usg_ComputeAllocationResourceID u0]
                      | Some _ \<Rightarrow> retM ())
                else retM ()) (\<lambda>_.
         bindM (idOrNew (usg_ID u0)) (\<lambda>x.
         bindM nowUTC (\<lambda>now.
         let u1 = u0\<lparr>usg_ID := x, usg_CalculatedTime := orElseTime (usg_CalculatedTime u0) now\<rparr> in
         andReturn (wrapM ''create compute allocation usage'' (inTx (usages_Create u1))) u1)))))"

definition GetComputeAllocationUsage :: "id \<Rightarrow> compute_allocation_usage M" where
  "GetComputeAllocationUsage x = orNotFound (wrapM ''get compute allocation usage'' (usages_FindByID x))"

definition GetComputeAllocationUsageByComputeAllocationIDAndJobID ::
    "id \<Rightarrow> string \<Rightarrow> compute_allocation_usage M" where
  "GetComputeAllocationUsageByComputeAllocationIDAndJobID aid jid =
     (if aid = '''' then invalid ''compute_allocation_id is required'' []
      else if jid = '''' then invalid ''job_id is required'' []
      else orNotFound (wrapM ''get compute allocation usage by allocation id and job id''
             (usages_FindByComputeAllocationIDAndJobID aid jid)))"

definition ListUsagesForAllocation :: "id \<Rightarrow> compute_allocation_usage list M" where
  "ListUsagesForAllocation aid =
     (if aid = '''' then invalid ''compute_allocation_id is required'' []
      else wrapM ''list usages for allocation'' (usages_FindByAllocation aid))"

definition ListUsagesByUser :: "id \<Rightarrow> compute_allocation_usage list M" where
  "ListUsagesByUser uid =
     (if uid = '''' then invalid ''user_id is required'' []
      else wrapM ''list usages by user'' (usages_FindByUser uid))"

definition GetTotalSUUsageForAllocation :: "id \<Rightarrow> int M" where
  "GetTotalSUUsageForAllocation aid =
     (if aid = '''' then invalid ''compute_allocation_id is required'' []
      else wrapM ''sum su usage for allocation'' (usages_SumSUForAllocation aid))"

definition GetTotalSUUsageForUserInAllocation :: "id \<Rightarrow> id \<Rightarrow> int M" where
  "GetTotalSUUsageForUserInAllocation aid uid =
     (if aid = '''' then invalid ''compute_allocation_id is required'' []
      else if uid = '''' then invalid ''user_id is required'' []
      else wrapM ''sum su usage for user in allocation'' (usages_SumSUForUserInAllocation aid uid))"

definition DeleteComputeAllocationUsage :: "id \<Rightarrow> unit M" where
  "DeleteComputeAllocationUsage x =
     (if x = '''' then invalid ''compute allocation usage id is required'' []
      else bindM (wrapM ''lookup compute allocation usage'' (usages_FindByID x)) (\<lambda>existing.
        case existing of None \<Rightarrow> throwM ErrNotFound
        | Some _ \<Rightarrow> andReturn (wrapM ''delete compute allocation usage'' (inTx (usages_Delete x))) ()))"

subsection \<open>audit_event.go\<close>

abbreviation "SourceCore \<equiv> ''core''"

text \<open>tracing.PopulateAuditIDs: the ids of the context fill a row that carries neither, the parent id
  fills an empty parent.\<close>

definition PopulateAuditIDs :: "env \<Rightarrow> audit_event \<Rightarrow> audit_event" where
  "PopulateAuditIDs e a =
     (let a1 = (if aud_TraceID a = '''' \<and> aud_SpanID a = ''''
                then a\<lparr>aud_TraceID := ctx_TraceID e, aud_SpanID := ctx_SpanID e\<rparr> else a)
      in if aud_ParentSpanID a1 = '''' \<and> ctx_ParentSpanID e \<noteq> ''''
         then a1\<lparr>aud_ParentSpanID := ctx_ParentSpanID e\<rparr> else a1)"

definition CreateAuditEvent :: "audit_event option \<Rightarrow> audit_event M" where
  "CreateAuditEvent evt = (case evt of None \<Rightarrow> invalid ''audit event is nil'' []
   | Some a0 \<Rightarrow>
     if aud_EventType a0 = '''' then invalid ''event_type is required'' []
     else if aud_EntityID a0 = '''' then invalid ''entity_id is required'' []
     else bindM (idOrNew (aud_ID a0)) (\<lambda>x.
       bindM nowUTC (\<lambda>now.
       bindM (askM (\<lambda>e. e)) (\<lambda>env.
       let a1 = PopulateAuditIDs env (a0\<lparr>aud_ID := x, aud_EventTime := orElseTime (aud_EventTime a0) now\<rparr>);
           a2 = (if aud_Source a1 = '''' then a1\<lparr>aud_Source := orElse (ctx_Source env) SourceCore\<rparr> else a1) in
       andReturn (wrapM ''create audit event'' (inTx (auditEvents_Create a2))) a2))))"

definition GetAuditEvent :: "id \<Rightarrow> audit_event M" where
  "GetAuditEvent x = orNotFound (wrapM ''get audit event'' (auditEvents_FindByID x))"

definition ListAuditEventsByEntity :: "id \<Rightarrow> audit_event list M" where
  "ListAuditEventsByEntity eid =
     (if eid = '''' then invalid ''entity_id is required'' []
      else wrapM ''list audit events by entity'' (auditEvents_FindByEntity eid))"

definition ListAuditEventsByEventType :: "string \<Rightarrow> audit_event list M" where
  "ListAuditEventsByEventType t =
     (if t = '''' then invalid ''event_type is required'' []
      else wrapM ''list audit events by event type'' (auditEvents_FindByEventType t))"

definition ListAllAuditEvents :: "audit_event list M" where
  "ListAllAuditEvents = wrapM ''list all audit events'' auditEvents_ListAll"

definition DeleteAuditEvent :: "id \<Rightarrow> unit M" where
  "DeleteAuditEvent x =
     (if x = '''' then invalid ''audit event id is required'' []
      else bindM (wrapM ''lookup audit event'' (auditEvents_FindByID x)) (\<lambda>existing.
        case existing of None \<Rightarrow> throwM ErrNotFound
        | Some _ \<Rightarrow> andReturn (wrapM ''delete audit event'' (inTx (auditEvents_Delete x))) ()))"

subsection \<open>Failed operations leave no trace\<close>

lemmas change_op_defs =
  CreateComputeAllocationDiff_def DeleteComputeAllocationDiff_def
  CreateComputeAllocationChangeRequest_def DeleteComputeAllocationChangeRequest_def
  CreateComputeAllocationChangeRequestEvent_def DeleteComputeAllocationChangeRequestEvent_def
  CreateComputeAllocationUsage_def DeleteComputeAllocationUsage_def
  CreateAuditEvent_def DeleteAuditEvent_def

lemma change_atomic [atomic_intros]:
  "atomicM (CreateComputeAllocationDiff diff)" "atomicM (DeleteComputeAllocationDiff x)"
  "atomicM (CreateComputeAllocationChangeRequest req)" "atomicM (DeleteComputeAllocationChangeRequest x)"
  "atomicM (CreateComputeAllocationChangeRequestEvent evt)"
  "atomicM (DeleteComputeAllocationChangeRequestEvent x)"
  "atomicM (CreateComputeAllocationUsage usage)" "atomicM (DeleteComputeAllocationUsage x)"
  "atomicM (CreateAuditEvent aud)" "atomicM (DeleteAuditEvent x)"
  unfolding change_op_defs by (intro atomic_intros readonly_intros)+

context store_contract
begin

lemma change_keeps:
  "keeps I (CreateComputeAllocationDiff diff)" "keeps I (DeleteComputeAllocationDiff x)"
  "keeps I (CreateComputeAllocationChangeRequest req)"
  "keeps I (DeleteComputeAllocationChangeRequest x)"
  "keeps I (CreateComputeAllocationChangeRequestEvent evt)"
  "keeps I (DeleteComputeAllocationChangeRequestEvent x)"
  "keeps I (CreateComputeAllocationUsage usage)" "keeps I (DeleteComputeAllocationUsage x)"
  "keeps I (CreateAuditEvent aud)" "keeps I (DeleteAuditEvent x)"
  unfolding change_op_defs by (intro keeps_intros readonly_intros txkeeps_intros)+

end

context store_contract
begin

lemma UpdateChangeRequest_keeps:
  "keeps I (UpdateComputeAllocationChangeRequest req)"
  unfolding UpdateComputeAllocationChangeRequest_def
  by (intro keeps_intros readonly_intros txkeeps_intros change_keeps)

end

end
