(* ===== verification/Svc_Merge.thy ===== *)
theory Svc_Merge
  imports Schema_Invariant PI_Invariant Grant_Invariant Sample_Data
begin

text \<open>
  pkg/service/user_merge.go: consolidation of a retiring user into a surviving
  one.  The five reassignments and the status change are one transaction; the
  two update events follow the commit.
\<close>

definition canBeMerged :: "string \<Rightarrow> bool" where
  "canBeMerged st = (st = UserActive \<or> st = UserPending)"

definition mergeTx :: "id \<Rightarrow> id \<Rightarrow> unit M" where
  "mergeTx retiringID survivingID =
     bindM (wrapM ''reassign user identities'' (userIdentities_ReassignUser retiringID survivingID)) (\<lambda>_.
     bindM (wrapM ''reassign compute cluster users'' (clusterUsers_ReassignUser retiringID survivingID)) (\<lambda>_.
     bindM (wrapM ''reassign project PI'' (projs_ReassignPI retiringID survivingID)) (\<lambda>_.
     bindM (wrapM ''reassign memberships'' (memberships_ReassignUser retiringID survivingID)) (\<lambda>_.
     bindM (wrapM ''reassign project memberships'' (projMemberships_ReassignUser retiringID survivingID)) (\<lambda>_.
     users_UpdateStatus retiringID UserMerged)))))"

definition MergeUsers :: "id \<Rightarrow> id \<Rightarrow> user M" where
  "MergeUsers survivingID retiringID =
     (if survivingID = '''' \<or> retiringID = ''''
      then invalid ''surviving and retiring user IDs are required'' []
      else if survivingID = retiringID then invalid ''cannot merge a user with itself'' []
      else bindM (wrapM ''lookup surviving user'' (users_FindByID survivingID)) (\<lambda>sv.
        case sv of None \<Rightarrow> invalid ''surviving user %q does not exist'' [survivingID]
        | Some survivor \<Rightarrow>
          if \<not> canBeMerged (usr_Status survivor)
          then invalid ''surviving user %q must be ACTIVE or PENDING (got %s)'' [survivingID, usr_Status survivor]
          else bindM (wrapM ''lookup retiring user'' (users_FindByID retiringID)) (\<lambda>rt.
            case rt of None \<Rightarrow> invalid ''retiring user %q does not exist'' [retiringID]
            | Some retiring \<Rightarrow>
              if usr_Status retiring = UserMerged
              then already_exists ''retiring user %q is already merged'' [retiringID]
              else if \<not> canBeMerged (usr_Status retiring)
              then invalid ''retiring user %q must be ACTIVE or PENDING (got %s)'' [retiringID, usr_Status retiring]
              else andPublish
                (andPublish (wrapM ''merge users'' (inTx (mergeTx retiringID survivingID)))
                  ''user::update'' (PUser (retiring\<lparr>usr_Status := UserMerged\<rparr>)) ())
                ''user::update'' (PUser survivor) survivor)))"

subsection \<open>Failed merges leave no trace, and the schema is kept\<close>

lemma mergeTx_readonly [readonly_intros]: "readonly (mergeTx x y)"
  unfolding mergeTx_def by (intro readonly_intros)

lemma MergeUsers_atomic_run [atomic_intros]: "atomicM (MergeUsers x y)"
  unfolding MergeUsers_def by (intro atomic_intros readonly_intros)

context store_contract
begin

lemma MergeUsers_keeps: "keeps I (MergeUsers x y)"
  unfolding MergeUsers_def mergeTx_def by (intro keeps_intros readonly_intros txkeeps_intros)

end

end
