(* ===== verification/Core_System.thy ===== *)
theory Core_System
  imports Http_Access Svc_Directory Svc_Change Svc_Merge
begin

text \<open>
  The core service as a transition system.  A step is one call of an operation
  of pkg/service that can change the state, with any arguments and under any
  environment (any pattern of failing database calls, any clock, any
  identifiers) that has the given registry of privilege keys.  A state is
  reachable if it comes from the empty database by such steps.

  Steps are taken one after the other: a run of an operation is not interleaved
  with another one.
\<close>

text \<open>The operations that write in at most one transaction.\<close>

inductive atomic_op :: "unit M \<Rightarrow> bool" where
  op_CreateOrganization: "atomic_op (voidM (CreateOrganization org))"
| op_UpdateOrganization: "atomic_op (voidM (UpdateOrganization org))"
| op_DeleteOrganization: "atomic_op (voidM (DeleteOrganization x))"
| op_CreateUser: "atomic_op (voidM (CreateUser user))"
| op_UpdateUser: "atomic_op (voidM (UpdateUser user))"
| op_UpdateUserStatus: "atomic_op (voidM (UpdateUserStatus x st))"
| op_DeleteUser: "atomic_op (voidM (DeleteUser x))"
| op_CreateUserIdentity: "atomic_op (voidM (CreateUserIdentity ident))"
| op_UpdateUserIdentity: "atomic_op (voidM (UpdateUserIdentity ident))"
| op_DeleteUserIdentity: "atomic_op (voidM (DeleteUserIdentity x))"
| op_CreateComputeCluster: "atomic_op (voidM (CreateComputeCluster cluster))"
| op_UpdateComputeCluster: "atomic_op (voidM (UpdateComputeCluster cluster))"
| op_DeleteComputeCluster: "atomic_op (voidM (DeleteComputeCluster x))"
| op_CreateComputeClusterUser: "atomic_op (voidM (CreateComputeClusterUser cu))"
| op_UpdateComputeClusterUser: "atomic_op (voidM (UpdateComputeClusterUser cu))"
| op_MarkComputeClusterUserProvisioned: "atomic_op (voidM (MarkComputeClusterUserProvisioned x))"
| op_DeleteComputeClusterUser: "atomic_op (voidM (DeleteComputeClusterUser x))"
| op_CreateProject: "atomic_op (voidM (CreateProject project))"
| op_UpdateProject: "atomic_op (voidM (UpdateProject project))"
| op_UpdateProjectStatus: "atomic_op (voidM (UpdateProjectStatus x st))"
| op_DeleteProject: "atomic_op (voidM (DeleteProject x))"
| op_EnsureProjectMembership: "atomic_op (voidM (EnsureProjectMembership pid uid role))"
| op_CreateComputeAllocation: "atomic_op (voidM (CreateComputeAllocation alloc))"
| op_UpdateComputeAllocation: "atomic_op (voidM (UpdateComputeAllocation alloc))"
| op_DeleteComputeAllocation: "atomic_op (voidM (DeleteComputeAllocation x))"
| op_CreateComputeAllocationResource: "atomic_op (voidM (CreateComputeAllocationResource resource))"
| op_UpdateComputeAllocationResource: "atomic_op (voidM (UpdateComputeAllocationResource resource))"
| op_DeleteComputeAllocationResource: "atomic_op (voidM (DeleteComputeAllocationResource x))"
| op_AttachResourceToAllocation: "atomic_op (voidM (AttachResourceToAllocation x y i j))"
| op_UpdateAllocationResourceMapping: "atomic_op (voidM (UpdateAllocationResourceMapping x y i j))"
| op_DetachResourceFromAllocation: "atomic_op (voidM (DetachResourceFromAllocation x y))"
| op_CreateComputeAllocationResourceRate: "atomic_op (voidM (CreateComputeAllocationResourceRate rate))"
| op_UpdateComputeAllocationResourceRate: "atomic_op (voidM (UpdateComputeAllocationResourceRate rate))"
| op_DeleteComputeAllocationResourceRate: "atomic_op (voidM (DeleteComputeAllocationResourceRate x))"
| op_CreateComputeAllocationMembership: "atomic_op (voidM (CreateComputeAllocationMembership mem))"
| op_UpdateComputeAllocationMembership: "atomic_op (voidM (UpdateComputeAllocationMembership mem))"
| op_UpdateMembershipStatus: "atomic_op (voidM (UpdateMembershipStatus x y))"
| op_DeleteComputeAllocationMembership: "atomic_op (voidM (DeleteComputeAllocationMembership x))"
| op_CreateComputeAllocationMembershipResourceOverride: "atomic_op (voidM (CreateComputeAllocationMembershipResourceOverride ov))"
| op_UpdateComputeAllocationMembershipResourceOverride: "atomic_op (voidM (UpdateComputeAllocationMembershipResourceOverride ov))"
| op_DeleteComputeAllocationMembershipResourceOverride: "atomic_op (voidM (DeleteComputeAllocationMembershipResourceOverride x))"
| op_CreateComputeAllocationDiff: "atomic_op (voidM (CreateComputeAllocationDiff diff))"
| op_DeleteComputeAllocationDiff: "atomic_op (voidM (DeleteComputeAllocationDiff x))"
| op_CreateComputeAllocationChangeRequest: "atomic_op (voidM (CreateComputeAllocationChangeRequest req))"
| op_DeleteComputeAllocationChangeRequest: "atomic_op (voidM (DeleteComputeAllocationChangeRequest x))"
| op_CreateComputeAllocationChangeRequestEvent: "atomic_op (voidM (CreateComputeAllocationChangeRequestEvent evt))"
| op_DeleteComputeAllocationChangeRequestEvent: "atomic_op (voidM (DeleteComputeAllocationChangeRequestEvent x))"
| op_CreateComputeAllocationUsage: "atomic_op (voidM (CreateComputeAllocationUsage usage))"
| op_DeleteComputeAllocationUsage: "atomic_op (voidM (DeleteComputeAllocationUsage x))"
| op_CreateAuditEvent: "atomic_op (voidM (CreateAuditEvent aud))"
| op_DeleteAuditEvent: "atomic_op (voidM (DeleteAuditEvent x))"
| op_GrantPrivilege: "atomic_op (voidM (GrantPrivilege x p y r))"
| op_RevokePrivilege: "atomic_op (voidM (RevokePrivilege x p y r))"
| op_CreateRole: "atomic_op (voidM (CreateRole n d x))"
| op_UpdateRole: "atomic_op (voidM (UpdateRole y n d x))"
| op_DeleteRole: "atomic_op (voidM (DeleteRole y x))"
| op_AddPrivilegeToRole: "atomic_op (voidM (AddPrivilegeToRole y p x))"
| op_RemovePrivilegeFromRole: "atomic_op (voidM (RemovePrivilegeFromRole y p x))"
| op_GrantRoleToUser: "atomic_op (voidM (GrantRoleToUser x y z r))"
| op_RevokeRoleFromUser: "atomic_op (voidM (RevokeRoleFromUser x y z r))"
| op_MergeUsers: "atomic_op (voidM (MergeUsers x y))"

inductive core_op :: "unit M \<Rightarrow> bool" where
  core_atomic: "atomic_op m \<Longrightarrow> core_op m"
| op_UpdateComputeAllocationChangeRequest: "core_op (voidM (UpdateComputeAllocationChangeRequest req))"
| op_BootstrapSuperAdmin: "core_op (BootstrapSuperAdmin email source)"
| op_ResolveCaller: "core_op (voidM (ResolveCaller c))"
| op_InvalidateAllIdentities: "core_op InvalidateAllIdentities"
| op_SetIdentityCacheTTL: "core_op (SetIdentityCacheTTL t)"

inductive core_step :: "registry \<Rightarrow> state \<Rightarrow> state \<Rightarrow> bool" where
  core_step: "core_op m \<Longrightarrow> registered e = reg \<Longrightarrow> m e s = (r, s') \<Longrightarrow> core_step reg s s'"

inductive_cases core_stepE: "core_step reg s s'"

inductive reachable :: "registry \<Rightarrow> state \<Rightarrow> bool" where
  reach_init: "db s = empty_db \<Longrightarrow> reachable reg s"
| reach_step: "reachable reg s \<Longrightarrow> core_step reg s s' \<Longrightarrow> reachable reg s'"

subsection \<open>Operations keep the invariants\<close>

lemma voidM_atomic: "atomicM m \<Longrightarrow> atomicM (voidM m)"
  unfolding voidM_def atomicM_def bindM_Inl retM_iff by blast

lemma voidM_keeps: "keeps I m \<Longrightarrow> keeps I (voidM m)"
  unfolding voidM_def by (intro keeps_intros)

lemma atomic_op_atomic: "atomic_op m \<Longrightarrow> atomicM m"
  by (induction rule: atomic_op.induct) (rule voidM_atomic, rule atomic_intros)+

context store_contract
begin

lemmas op_keeps = directory_keeps project_keeps allocation_keeps change_keeps
  UpdateChangeRequest_keeps authz_keeps MergeUsers_keeps ResolveCaller_keeps

text \<open>The operations whose statements the contract does not cover are the four that set a project
  role or attach a key.\<close>

lemma core_op_keeps_or:
  assumes "core_op m"
  shows "keeps I m \<or> (\<exists>pid uid role. m = voidM (EnsureProjectMembership pid uid role)) \<or>
    (\<exists>x p y r. m = voidM (GrantPrivilege x p y r)) \<or> (\<exists>y p x. m = voidM (AddPrivilegeToRole y p x)) \<or>
    (\<exists>email source. m = BootstrapSuperAdmin email source)"
  using assms
proof (cases rule: core_op.cases)
  case core_atomic
  then show ?thesis
    by (cases rule: atomic_op.cases) ((simp, rule disjI1, rule voidM_keeps, rule op_keeps) | blast)+
qed (auto intro: voidM_keeps op_keeps keeps_intros
      simp: InvalidateAllIdentities_def SetIdentityCacheTTL_def)

end

lemma core_op_keeps_schema: "core_op m \<Longrightarrow> keeps schema_ok m"
  using schema.core_op_keeps_or [of m]
  by (auto intro: voidM_keeps schema.EnsureProjectMembership_keeps schema.grant_keeps)

lemma core_op_keeps_one_pi:
  assumes "core_op m" "schema_ok (db s)" "one_pi (db s)" "m e s = (r, s')"
  shows "one_pi (db s')"
proof -
  consider (keeps) "keeps one_pi m"
    | (ensure) pid uid role where "m = voidM (EnsureProjectMembership pid uid role)"
    using pi.core_op_keeps_or [OF assms(1)] voidM_keeps [OF pi.grant_keeps(1)]
      voidM_keeps [OF pi.grant_keeps(2)] pi.grant_keeps(3) by metis
  then show ?thesis
  proof cases
    case keeps
    then show ?thesis using assms by (auto simp: keeps_def)
  next
    case ensure
    then obtain r0 where "EnsureProjectMembership pid uid role e s = (r0, s')"
      using voidM_run assms(4) by blast
    then show ?thesis by (rule EnsureProjectMembership_keeps_one_pi [OF assms(2,3)])
  qed
qed

lemma keeps_at_voidM: "keeps_at e I m \<Longrightarrow> keeps_at e I (voidM m)"
  unfolding keeps_at_def by (blast dest: voidM_run)

lemma core_op_keeps_known:
  assumes "core_op m"
  shows "keeps_at e (known_grants (registered e)) m"
  using grants.core_op_keeps_or [OF assms]
  by (auto intro: keeps_at_keeps [OF voidM_keeps [OF grants.EnsureProjectMembership_keeps]]
      keeps_at_keeps keeps_at_voidM GrantPrivilege_keeps_known AddPrivilegeToRole_keeps_known
      BootstrapSuperAdmin_keeps_known)

lemma core_step_schema: "core_step reg s s' \<Longrightarrow> schema_ok (db s) \<Longrightarrow> schema_ok (db s')"
  by (auto elim!: core_stepE dest!: core_op_keeps_schema simp: keeps_def)

lemma core_step_one_pi:
  "core_step reg s s' \<Longrightarrow> schema_ok (db s) \<Longrightarrow> one_pi (db s) \<Longrightarrow> one_pi (db s')"
  by (erule core_stepE) (rule core_op_keeps_one_pi)

lemma core_step_known: "core_step reg s s' \<Longrightarrow> known_grants reg (db s) \<Longrightarrow> known_grants reg (db s')"
  using core_op_keeps_known unfolding keeps_at_def by (blast elim: core_stepE)

lemma empty_db_invariants: "one_pi empty_db" "known_grants reg empty_db"
  by (simp_all add: one_pi_def pi_rows_def known_grants_def empty_db_def uniq_def)

lemma reachable_invariants:
  "reachable reg s \<Longrightarrow> schema_ok (db s) \<and> one_pi (db s) \<and> known_grants reg (db s)"
  by (induction rule: reachable.induct)
    (auto intro: core_step_schema core_step_one_pi core_step_known
      simp: schema_ok_empty empty_db_invariants)

end
