(* ===== verification/Http_Admin.thy ===== *)
theory Http_Admin
  imports Http_Access
begin

text \<open>
  The handlers of internal/server/privilege.go and role.go that change grants
  and roles, and DecodeJSON of pkg/common/support.go for the flat objects of
  strings they read.  A handler that changed something empties the cache of
  the identity resolver before it answers.
\<close>

subsection \<open>DecodeJSON\<close>

text \<open>encoding/json with DisallowUnknownFields into a struct of strings: member names match without
  regard to case, later members overwrite earlier ones, null leaves the field alone, another kind of value
  or an unknown member is an error, though the remaining members are still read; text that is not JSON
  leaves the struct at its zero value.\<close>

definition field_of :: "string list \<Rightarrow> string \<Rightarrow> string option" where
  "field_of fs k = find (\<lambda>f. lower f = lower k) fs"

fun decode_members :: "string list \<Rightarrow> (string \<times> jval) list \<Rightarrow> (string \<Rightarrow> string) \<Rightarrow> bool \<times> (string \<Rightarrow> string)" where
  "decode_members fs [] acc = (True, acc)"
| "decode_members fs ((k, v) # kvs) acc =
     (case field_of fs k of
        None \<Rightarrow> (False, snd (decode_members fs kvs acc))
      | Some f \<Rightarrow>
        (case v of
           JString x \<Rightarrow> decode_members fs kvs (acc(f := x))
         | JNull \<Rightarrow> decode_members fs kvs acc
         | JOther \<Rightarrow> (False, snd (decode_members fs kvs acc))))"

definition DecodeJSON :: "string list \<Rightarrow> request \<Rightarrow> bool \<times> (string \<Rightarrow> string)" where
  "DecodeJSON fs req =
     (case req_Body req of
        SyntaxError \<Rightarrow> (False, \<lambda>_. '''')
      | JObject kvs \<Rightarrow> decode_members fs kvs (\<lambda>_. ''''))"

definition bad_json :: response where
  "bad_json = WriteError 400 (NewError ''json'' [])"

definition bad_request :: "string \<Rightarrow> response" where
  "bad_request msg = WriteError 400 (NewError msg [])"

text \<open>The end of a handler: the service's error as a response, or the cache emptied and the answer written.\<close>

definition answer :: "'a M \<Rightarrow> ('a \<Rightarrow> response) \<Rightarrow> env \<Rightarrow> state \<Rightarrow> response \<times> state" where
  "answer m f e s =
     (case m e s of (Inl x, s') \<Rightarrow> (WriteServiceError x, s') | (Inr v, s') \<Rightarrow> (f v, s'))"

definition WriteJSON :: "nat \<Rightarrow> body \<Rightarrow> response" where
  "WriteJSON status b = \<lparr> rsp_Status = status, rsp_Body = b \<rparr>"

definition invalidating :: "'a M \<Rightarrow> 'a M" where
  "invalidating m = bindM m (\<lambda>v. bindM InvalidateAllIdentities (\<lambda>_. retM v))"

subsection \<open>privilege.go\<close>

definition grantPrivilege :: handler where
  "grantPrivilege r e s =
     (let userID = req_PathValue r ''id'' in
      if userID = '''' then (bad_request ''user id is required'', s)
      else case requireCaller r of Inl rsp \<Rightarrow> (rsp, s)
      | Inr caller \<Rightarrow>
        (case DecodeJSON [''privilege'', ''reason''] r of
           (False, _) \<Rightarrow> (bad_json, s)
         | (True, req) \<Rightarrow>
           answer (invalidating (GrantPrivilege userID (req ''privilege'') (cal_UserID caller) (req ''reason'')))
             (\<lambda>g. WriteJSON 201 (GrantBody g)) e s))"

definition revokePrivilege :: handler where
  "revokePrivilege r e s =
     (let userID = req_PathValue r ''id''; key = req_PathValue r ''key'' in
      if userID = '''' \<or> key = '''' then (bad_request ''user id and privilege key are required'', s)
      else case requireCaller r of Inl rsp \<Rightarrow> (rsp, s)
      | Inr caller \<Rightarrow>
        answer (invalidating (RevokePrivilege userID key (cal_UserID caller)
            (snd (DecodeJSON [''reason''] r) ''reason'')))
          (\<lambda>_. WriteJSON 204 NoBody) e s)"

subsection \<open>role.go\<close>

definition createRole :: handler where
  "createRole r e s =
     (case requireCaller r of Inl rsp \<Rightarrow> (rsp, s)
      | Inr caller \<Rightarrow>
        (case DecodeJSON [''name'', ''description''] r of
           (False, _) \<Rightarrow> (bad_json, s)
         | (True, req) \<Rightarrow>
           answer (CreateRole (req ''name'') (req ''description'') (cal_UserID caller))
             (\<lambda>role. WriteJSON 201 (RoleBody role)) e s))"

definition updateRole :: handler where
  "updateRole r e s =
     (let roleID = req_PathValue r ''id'' in
      if roleID = '''' then (bad_request ''role id is required'', s)
      else case requireCaller r of Inl rsp \<Rightarrow> (rsp, s)
      | Inr caller \<Rightarrow>
        (case DecodeJSON [''name'', ''description''] r of
           (False, _) \<Rightarrow> (bad_json, s)
         | (True, req) \<Rightarrow>
           answer (invalidating (UpdateRole roleID (req ''name'') (req ''description'') (cal_UserID caller)))
             (\<lambda>role. WriteJSON 200 (RoleBody role)) e s))"

definition deleteRole :: handler where
  "deleteRole r e s =
     (let roleID = req_PathValue r ''id'' in
      if roleID = '''' then (bad_request ''role id is required'', s)
      else case requireCaller r of Inl rsp \<Rightarrow> (rsp, s)
      | Inr caller \<Rightarrow>
        answer (invalidating (DeleteRole roleID (cal_UserID caller))) (\<lambda>_. WriteJSON 204 NoBody) e s)"

definition addRolePrivilege :: handler where
  "addRolePrivilege r e s =
     (let roleID = req_PathValue r ''id'' in
      if roleID = '''' then (bad_request ''role id is required'', s)
      else case requireCaller r of Inl rsp \<Rightarrow> (rsp, s)
      | Inr caller \<Rightarrow>
        (case DecodeJSON [''privilege''] r of
           (False, _) \<Rightarrow> (bad_json, s)
         | (True, req) \<Rightarrow>
           answer (invalidating (AddPrivilegeToRole roleID (req ''privilege'') (cal_UserID caller)))
             (\<lambda>_. WriteJSON 204 NoBody) e s))"

definition removeRolePrivilege :: handler where
  "removeRolePrivilege r e s =
     (let roleID = req_PathValue r ''id''; key = req_PathValue r ''key'' in
      if roleID = '''' \<or> key = '''' then (bad_request ''role id and privilege key are required'', s)
      else case requireCaller r of Inl rsp \<Rightarrow> (rsp, s)
      | Inr caller \<Rightarrow>
        answer (invalidating (RemovePrivilegeFromRole roleID key (cal_UserID caller)))
          (\<lambda>_. WriteJSON 204 NoBody) e s)"

definition grantRoleToUser :: handler where
  "grantRoleToUser r e s =
     (let userID = req_PathValue r ''id'' in
      if userID = '''' then (bad_request ''user id is required'', s)
      else case requireCaller r of Inl rsp \<Rightarrow> (rsp, s)
      | Inr caller \<Rightarrow>
        (case DecodeJSON [''role_id'', ''reason''] r of
           (False, _) \<Rightarrow> (bad_json, s)
         | (True, req) \<Rightarrow>
           answer (invalidating (GrantRoleToUser userID (req ''role_id'') (cal_UserID caller) (req ''reason'')))
             (\<lambda>a. WriteJSON 201 (AssignmentBody a)) e s))"

definition revokeRoleFromUser :: handler where
  "revokeRoleFromUser r e s =
     (let userID = req_PathValue r ''id''; roleID = req_PathValue r ''roleId'' in
      if userID = '''' \<or> roleID = '''' then (bad_request ''user id and role id are required'', s)
      else case requireCaller r of Inl rsp \<Rightarrow> (rsp, s)
      | Inr caller \<Rightarrow>
        answer (invalidating (RevokeRoleFromUser userID roleID (cal_UserID caller)
            (snd (DecodeJSON [''reason''] r) ''reason'')))
          (\<lambda>_. WriteJSON 204 NoBody) e s)"

end
