(* ===== verification/Authz_Safety.thy ===== *)
theory Authz_Safety
  imports Svc_Authz
begin

text \<open>
  What the authorization operations promise.  The specification is one
  predicate: a user holds a key if a direct grant or a role of the user carries
  it.  The two queries compute it, the actor check enforces it, and the
  revocations never leave the system without a holder of a meta privilege.
\<close>

definition holds :: "database \<Rightarrow> id \<Rightarrow> string \<Rightarrow> bool" where
  "holds d uid key =
     (list_ex (\<lambda>g. upv_UserID g = uid \<and> upv_Privilege g = key) (user_privileges d) \<or>
      list_ex (\<lambda>ur. url_UserID ur = uid \<and>
        list_ex (\<lambda>rp. rpv_RoleID rp = url_RoleID ur \<and> rpv_Privilege rp = key) (role_privileges d))
        (user_roles d))"

lemma holds_iff:
  "holds d uid key \<longleftrightarrow>
     (\<exists>g\<in>set (user_privileges d). upv_UserID g = uid \<and> upv_Privilege g = key) \<or>
     (\<exists>ur\<in>set (user_roles d). url_UserID ur = uid \<and>
        (\<exists>rp\<in>set (role_privileges d). rpv_RoleID rp = url_RoleID ur \<and> rpv_Privilege rp = key))"
  by (simp add: holds_def list_ex_iff)

lemma set_role_privs_of:
  "set (role_privs_of d uid) = {k. \<exists>ur\<in>set (user_roles d). url_UserID ur = uid \<and>
     (\<exists>rp\<in>set (role_privileges d). rpv_RoleID rp = url_RoleID ur \<and> rpv_Privilege rp = k)}"
  by (auto simp: role_privs_of_def)

lemma set_holders_of: "u \<in> set (holders_of d key) \<longleftrightarrow> holds d u key"
  by (auto simp: holders_of_def holds_iff list_ex_iff image_iff Bex_def)

lemma sources_outside_iff:
  "sources_outside d uid key rid > 0 \<longleftrightarrow>
     holds (d\<lparr>user_roles := delete_where (\<lambda>r. url_UserID r = uid \<and> url_RoleID r = rid) (user_roles d)\<rparr>) uid key"
  by (auto simp: sources_outside_def holds_iff select_where_def filter_empty_conv)

subsection \<open>The queries compute the predicate\<close>

lemma HasPrivilege_holds:
  "HasPrivilege uid p e s = (Inr b, s') \<Longrightarrow> b = holds (db s) uid p"
  by (auto simp: HasPrivilege_def run_simps store_defs holds_iff set_role_privs_of list_ex_iff
      find_None_iff split: if_splits option.splits dest!: find_SomeD)

lemma EffectivePrivileges_holds:
  "EffectivePrivileges uid e s = (Inr ps, s') \<Longrightarrow>
     distinct ps \<and> set ps = {p. holds (db s) uid p} \<and> db s' = db s \<and> uid \<noteq> ''''"
  by (auto simp: EffectivePrivileges_def run_simps store_defs holds_iff set_role_privs_of
      split: if_splits)

subsection \<open>The actor check\<close>

lemma assertHasPrivilegeTx_ok:
  assumes "assertHasPrivilegeTx actor p e s = (Inr x, s')" "txdb s = db s"
  shows "holds (db s) actor p" "db s' = db s" "txdb s' = txdb s" "bus s' = bus s"
  using assms
  by (auto simp: assertHasPrivilegeTx_def run_simps store_defs holds_iff set_role_privs_of
      list_ex_iff split: if_splits option.splits dest!: find_SomeD)

text \<open>The shape every guarded operation has: a transaction that starts with the actor check.\<close>

lemma inTx_assert:
  assumes "inTx (bindM (assertHasPrivilegeTx actor p) f) e s = (Inr x, s')"
  obtains s1 s2 where "holds (db s) actor p" "db s1 = db s" "txdb s1 = db s" "bus s1 = bus s"
    "f () e s1 = (Inr x, s2)" "db s' = txdb s2" "bus s' = bus s2"
proof -
  from assms obtain s1 s2 where
    chk: "assertHasPrivilegeTx actor p e ((tick s)\<lparr>txdb := db s\<rparr>) = (Inr (), s1)"
    and f: "f () e s1 = (Inr x, s2)" and s': "s' = (tick s2)\<lparr>db := txdb s2\<rparr>"
    by (auto simp: run_simps)
  show ?thesis
    by (rule that [OF _ _ _ _ f]) (use assertHasPrivilegeTx_ok [OF chk] s' in simp_all)
qed

lemma GrantPrivilege_ok:
  assumes "GrantPrivilege uid p granter reason e s = (Inr g, s')"
  shows "holds (db s) granter PrivilegesGrant" "IsKnownPrivilege (registered e) p"
    "upv_UserID g = uid" "upv_Privilege g = p" "upv_GrantedBy g = Some granter"
    "\<exists>x t. db s' = (db s)\<lparr>user_privileges := insert_row g (user_privileges (db s)),
       audit_events := insert_row (auditRow x t ''PRIVILEGE_GRANTED'' ''user'' uid
         (json_Marshal [(''privilege'', p), (''actor_id'', granter), (''reason'', reason)]))
         (audit_events (db s))\<rparr>"
    "\<not> list_ex (\<lambda>r. upv_UserID r = uid \<and> upv_Privilege r = p) (user_privileges (db s))"
  using assms unfolding GrantPrivilege_def assertGranterTx_def
  by (auto simp: run_simps store_defs Let_def writePrivilegeAuditTx_def find_None_iff list_ex_iff
      stringPtrOrNil_def simp del: inTx_Inr elim!: inTx_assert split: option.splits if_splits)
    (intro exI, rule refl)+

subsection \<open>Authorized and audited\<close>

text \<open>The guarded operations, each with its actor and the privilege the actor needs.\<close>

inductive guarded_op :: "id \<Rightarrow> string \<Rightarrow> unit M \<Rightarrow> bool" where
  "guarded_op actor PrivilegesGrant (voidM (GrantPrivilege uid p actor reason))"
| "guarded_op actor PrivilegesGrant (voidM (RevokePrivilege uid p actor reason))"
| "guarded_op actor RolesManage (voidM (CreateRole name description actor))"
| "guarded_op actor RolesManage (voidM (UpdateRole rid name description actor))"
| "guarded_op actor RolesManage (voidM (DeleteRole rid actor))"
| "guarded_op actor RolesManage (voidM (AddPrivilegeToRole rid p actor))"
| "guarded_op actor RolesManage (voidM (RemovePrivilegeFromRole rid p actor))"
| "guarded_op actor RolesManage (voidM (GrantRoleToUser uid rid actor reason))"
| "guarded_op actor RolesManage (voidM (RevokeRoleFromUser uid rid actor reason))"

definition authorized_audited :: "id \<Rightarrow> string \<Rightarrow> state \<Rightarrow> state \<Rightarrow> bool" where
  "authorized_audited actor key s s' =
     (holds (db s) actor key \<and> bus s' = bus s \<and>
      length (audit_events (db s')) = Suc (length (audit_events (db s))) \<and>
      butlast (audit_events (db s')) = audit_events (db s))"

lemmas audit_defs = writePrivilegeAuditTx_def writeRoleAuditTx_def authorized_audited_def insert_row_def
  not_found_def

lemma assertNotLastMetaHolderTx_frame:
  "assertNotLastMetaHolderTx uid rid e s = (Inr x, s') \<Longrightarrow> txdb s' = txdb s \<and> bus s' = bus s \<and> db s' = db s"
  unfolding assertNotLastMetaHolderTx_def assertNotLastHolderOf_def
  by (auto simp: run_simps store_defs countUsersHoldingPrivilegeTx_def
      userHasPrivilegeOutsideTx_def split: if_splits)

lemma grants_audited:
  "GrantPrivilege uid p actor reason e s = (Inr g, s') \<Longrightarrow> authorized_audited actor PrivilegesGrant s s'"
  "RevokePrivilege uid p actor reason e s = (Inr u, s') \<Longrightarrow> authorized_audited actor PrivilegesGrant s s'"
  unfolding GrantPrivilege_def RevokePrivilege_def assertGranterTx_def
  by (auto simp: run_simps store_defs audit_defs Let_def
      simp del: inTx_Inr elim!: inTx_assert split: option.splits if_splits)

lemma roles_audited:
  "CreateRole name description actor e s = (Inr r, s') \<Longrightarrow> authorized_audited actor RolesManage s s'"
  "UpdateRole rid name description actor e s = (Inr r, s') \<Longrightarrow> authorized_audited actor RolesManage s s'"
  "DeleteRole rid actor e s = (Inr u, s') \<Longrightarrow> authorized_audited actor RolesManage s s'"
  unfolding CreateRole_def UpdateRole_def DeleteRole_def
  by (auto simp: run_simps store_defs audit_defs Let_def
      simp del: inTx_Inr elim!: inTx_assert split: option.splits if_splits)

lemma role_privileges_audited:
  "AddPrivilegeToRole rid p actor e s = (Inr u, s') \<Longrightarrow> authorized_audited actor RolesManage s s'"
  "RemovePrivilegeFromRole rid p actor e s = (Inr u, s') \<Longrightarrow> authorized_audited actor RolesManage s s'"
  unfolding AddPrivilegeToRole_def RemovePrivilegeFromRole_def
  by (auto simp: run_simps store_defs audit_defs Let_def
      simp del: inTx_Inr elim!: inTx_assert split: option.splits if_splits)

lemma user_roles_audited:
  "GrantRoleToUser uid rid actor reason e s = (Inr r, s') \<Longrightarrow> authorized_audited actor RolesManage s s'"
  "RevokeRoleFromUser uid rid actor reason e s = (Inr u, s') \<Longrightarrow> authorized_audited actor RolesManage s s'"
  unfolding GrantRoleToUser_def RevokeRoleFromUser_def
  by (auto simp: run_simps store_defs audit_defs Let_def
      simp del: inTx_Inr elim!: inTx_assert dest!: assertNotLastMetaHolderTx_frame
      split: option.splits if_splits)

subsection \<open>The last holder of a meta privilege\<close>

text \<open>What the guard of a role revocation establishes for each of the two meta privileges: the role
  does not carry the key, two users hold it, or the user holds it from another source.\<close>

definition role_carries :: "database \<Rightarrow> id \<Rightarrow> string \<Rightarrow> bool" where
  "role_carries d rid key =
     list_ex (\<lambda>rp. rpv_RoleID rp = rid \<and> rpv_Privilege rp = key) (role_privileges d)"

definition revocable :: "database \<Rightarrow> id \<Rightarrow> id \<Rightarrow> string \<Rightarrow> bool" where
  "revocable d uid rid key =
     (role_carries d rid key \<longrightarrow> 1 < length (holders_of d key) \<or> sources_outside d uid key rid > 0)"

lemma role_carries_iff:
  "role_carries d rid key \<longleftrightarrow> (\<exists>rp\<in>set (role_privileges d). rpv_RoleID rp = rid \<and> rpv_Privilege rp = key)"
  by (simp add: role_carries_def list_ex_iff)

lemma assertNotLastHolderOf_ok:
  assumes "assertNotLastHolderOf uid rid key e s = (Inr x, s')" "txdb s = db s"
  shows "revocable (db s) uid rid key" "txdb s' = db s'" "db s' = db s"
proof -
  have list: "list_ex (\<lambda>k. k = key)
      (sort (map rpv_Privilege (select_where (\<lambda>r. rpv_RoleID r = rid) (role_privileges (db s))))) =
    role_carries (db s) rid key"
    by (auto simp: role_carries_iff list_ex_iff)
  show "revocable (db s) uid rid key" "txdb s' = db s'" "db s' = db s"
    using assms unfolding assertNotLastHolderOf_def
    by (auto simp: run_simps store_defs list countUsersHoldingPrivilegeTx_def
        userHasPrivilegeOutsideTx_def revocable_def split: if_splits)
qed

lemma assertNotLastMetaHolderTx_ok:
  assumes "assertNotLastMetaHolderTx uid rid e s = (Inr x, s')" "txdb s = db s"
    and "key = PrivilegesGrant \<or> key = RolesManage"
  shows "revocable (db s) uid rid key"
proof -
  from assms(1) obtain s1 s2 where
    1: "assertNotLastHolderOf uid rid PrivilegesGrant e s = (Inr (), s1)"
    and 2: "assertNotLastHolderOf uid rid RolesManage e s1 = (Inr (), s2)"
    by (auto simp: assertNotLastMetaHolderTx_def run_simps)
  show ?thesis
    using assertNotLastHolderOf_ok [OF 1 assms(2)] assertNotLastHolderOf_ok(1) [OF 2] assms(3) by auto
qed

lemma two_holders:
  assumes "1 < length (holders_of d key)"
  shows "\<exists>v. v \<noteq> u \<and> holds d v key"
proof (rule ccontr)
  assume none: "\<not> (\<exists>v. v \<noteq> u \<and> holds d v key)"
  have "set (holders_of d key) \<subseteq> {u}"
  proof
    fix v assume "v \<in> set (holders_of d key)"
    then have "holds d v key" by (simp only: set_holders_of)
    then show "v \<in> {u}" using none by blast
  qed
  then have "card (set (holders_of d key)) \<le> 1"
    using card_mono [of "{u}" "set (holders_of d key)"] by simp
  moreover have "card (set (holders_of d key)) = length (holders_of d key)"
    by (rule distinct_card) (simp add: holders_of_def)
  ultimately show False using assms by linarith
qed

lemma revocable_keeps_holder:
  assumes "revocable d uid rid key" "holds d u key"
  shows "\<exists>v. holds (d\<lparr>user_roles :=
    delete_where (\<lambda>r. url_UserID r = uid \<and> url_RoleID r = rid) (user_roles d)\<rparr>) v key"
proof -
  have keep: "holds (d\<lparr>user_roles := delete_where (\<lambda>r. url_UserID r = uid \<and> url_RoleID r = rid) (user_roles d)\<rparr>) v key"
    if h1: "holds d v key" and h2: "v \<noteq> uid \<or> \<not> role_carries d rid key" for v
  proof (cases "\<exists>g\<in>set (user_privileges d). upv_UserID g = v \<and> upv_Privilege g = key")
    case True
    then show ?thesis by (simp add: holds_iff)
  next
    case False
    then obtain ur rp where "ur \<in> set (user_roles d)" "url_UserID ur = v" "rp \<in> set (role_privileges d)"
      "rpv_RoleID rp = url_RoleID ur" "rpv_Privilege rp = key"
      using h1 unfolding holds_iff by blast
    moreover from this h2 have "\<not> (url_UserID ur = uid \<and> url_RoleID ur = rid)"
      unfolding role_carries_iff by auto
    ultimately show ?thesis unfolding holds_iff by auto
  qed
  consider "\<not> role_carries d rid key" | "1 < length (holders_of d key)" | "sources_outside d uid key rid > 0"
    using assms(1) by (auto simp: revocable_def)

  then show ?thesis
  proof cases
    case 1
    then show ?thesis using keep assms(2) by blast
  next
    case 2
    then obtain v where "v \<noteq> uid" "holds d v key" using two_holders by blast
    then show ?thesis using keep by blast
  next
    case 3
    then show ?thesis unfolding sources_outside_iff by blast
  qed
qed

lemma RevokeRoleFromUser_ok:
  assumes "RevokeRoleFromUser uid rid revoker reason e s = (Inr x, s')"
  obtains s1 s2 a where "assertNotLastMetaHolderTx uid rid e s1 = (Inr (), s2)" "db s1 = db s" "txdb s1 = db s"
    "db s' = (db s)\<lparr>user_roles :=
        delete_where (\<lambda>r. url_UserID r = uid \<and> url_RoleID r = rid) (user_roles (db s)),
      audit_events := insert_row a (audit_events (db s))\<rparr>"
proof -
  obtain s1 s2 a where guard: "assertNotLastMetaHolderTx uid rid e s1 = (Inr (), s2)"
    and s1: "db s1 = db s" "txdb s1 = db s"
    and s': "db s' = (txdb s2)\<lparr>user_roles :=
        delete_where (\<lambda>r. url_UserID r = uid \<and> url_RoleID r = rid) (user_roles (txdb s2)),
      audit_events := insert_row a (audit_events (txdb s2))\<rparr>"
    using assms unfolding RevokeRoleFromUser_def
    by (auto simp: run_simps store_defs writeRoleAuditTx_def not_found_def
        simp del: inTx_Inr elim!: inTx_assert split: option.splits if_splits)
  show ?thesis
    by (rule that [OF guard s1]) (use s' s1 assertNotLastMetaHolderTx_frame [OF guard] in simp)
qed

text \<open>Two grants of one key in a consistent database belong to two users.\<close>

lemma count_two_users:
  assumes "schema_ok d" "1 < length (select_where (\<lambda>r. upv_Privilege r = key) (user_privileges d))"
  shows "\<exists>g\<in>set (user_privileges d). upv_Privilege g = key \<and> upv_UserID g \<noteq> uid"
proof (rule ccontr)
  let ?gs = "select_where (\<lambda>r. upv_Privilege r = key) (user_privileges d)"
  assume none: "\<not> ?thesis"
  have "uniq (\<lambda>g. (upv_UserID g, upv_Privilege g)) (user_privileges d)"
    using schema_okD [OF assms(1)] by (simp add: user_privileges_cons_def)
  then have "distinct (map (\<lambda>g. (upv_UserID g, upv_Privilege g)) ?gs)"
    by (simp add: uniq_def select_where_def distinct_map_filter)
  moreover have "map (\<lambda>g. (upv_UserID g, upv_Privilege g)) ?gs = map (\<lambda>_. (uid, key)) ?gs"
    using none by auto
  ultimately have "distinct (replicate (length ?gs) (uid, key))" by (simp add: map_replicate_const)
  then show False using assms(2) by (cases "length ?gs"; cases "length ?gs - 1") auto
qed

lemma RevokePrivilege_ok:
  assumes "RevokePrivilege uid p revoker reason e s = (Inr x, s')"
  shows "\<exists>a. db s' = (db s)\<lparr>user_privileges :=
        delete_where (\<lambda>r. upv_UserID r = uid \<and> upv_Privilege r = p) (user_privileges (db s)),
      audit_events := insert_row a (audit_events (db s))\<rparr>"
    and "p = PrivilegesGrant \<Longrightarrow> revoker \<noteq> uid"
    and "p = PrivilegesGrant \<Longrightarrow>
      1 < length (select_where (\<lambda>r. upv_Privilege r = PrivilegesGrant) (user_privileges (db s)))"
  using assms unfolding RevokePrivilege_def assertGranterTx_def
  by (auto simp: run_simps store_defs writePrivilegeAuditTx_def not_found_def
      simp del: inTx_Inr elim!: inTx_assert split: option.splits if_splits)

subsection \<open>Properties\<close>

text \<open>C17: HasPrivilege and EffectivePrivileges agree: HasPrivilege answers true for a key exactly
  when EffectivePrivileges of the same user, on the same database, lists it; and the list has no
  duplicates.\<close>

theorem HasPrivilege_iff_effective:
  assumes "HasPrivilege uid p e s = (Inr b, s1)" "EffectivePrivileges uid e' s = (Inr ps, s2)"
  shows "b = (p \<in> set ps) \<and> distinct ps"
  using HasPrivilege_holds [OF assms(1)] EffectivePrivileges_holds [OF assms(2)] by simp

theorem HasPrivilege_iff_effective_witness:
  "RolesManage \<in> set (projr (fst (EffectivePrivileges ''alice'' quiet_env (fresh_state sample_db))))"
proof -
  have "fst (HasPrivilege ''alice'' RolesManage quiet_env (fresh_state sample_db)) = Inr True"
    and "fst (EffectivePrivileges ''alice'' quiet_env (fresh_state sample_db)) =
      Inr (projr (fst (EffectivePrivileges ''alice'' quiet_env (fresh_state sample_db))))"
    by code_simp+
  from HasPrivilege_iff_effective [OF run_fst [OF this(1)] run_fst [OF this(2)]] show ?thesis by simp
qed

text \<open>C16: A successful GrantPrivilege was made by a holder of privileges:grant, for a registered key
  the user did not hold directly; it adds exactly that grant and one audit row naming key, actor and
  reason; afterwards the user holds the key, and every other pair of user and key is as before.\<close>

theorem GrantPrivilege_effect:
  assumes "GrantPrivilege uid p granter reason e s = (Inr g, s')"
  shows "holds (db s) granter PrivilegesGrant \<and> IsKnownPrivilege (registered e) p \<and>
    upv_UserID g = uid \<and> upv_Privilege g = p \<and> upv_GrantedBy g = Some granter \<and>
    (\<exists>x t. db s' = (db s)\<lparr>user_privileges := insert_row g (user_privileges (db s)),
       audit_events := insert_row (auditRow x t ''PRIVILEGE_GRANTED'' ''user'' uid
         (json_Marshal [(''privilege'', p), (''actor_id'', granter), (''reason'', reason)]))
         (audit_events (db s))\<rparr>) \<and>
    (\<forall>u k. holds (db s') u k = (holds (db s) u k \<or> u = uid \<and> k = p))"
proof -
  from GrantPrivilege_ok(6) [OF assms]
  have "set (user_privileges (db s')) = insert g (set (user_privileges (db s)))"
    "user_roles (db s') = user_roles (db s)" "role_privileges (db s') = role_privileges (db s)"
    by auto
  then have "holds (db s') u k = (holds (db s) u k \<or> u = uid \<and> k = p)" for u k
    using GrantPrivilege_ok(3,4) [OF assms] unfolding holds_iff by (simp only:) blast
  then show ?thesis using GrantPrivilege_ok [OF assms] by blast
qed

theorem GrantPrivilege_effect_witness:
  "holds (db (snd (GrantPrivilege ''bob'' UsersRead ''alice'' ''ops'' quiet_env (fresh_state sample_db))))
     ''bob'' UsersRead"
proof -
  have "fst (GrantPrivilege ''bob'' UsersRead ''alice'' ''ops'' quiet_env (fresh_state sample_db)) =
      Inr (projr (fst (GrantPrivilege ''bob'' UsersRead ''alice'' ''ops'' quiet_env (fresh_state sample_db))))"
    by code_simp
  from GrantPrivilege_effect [OF run_fst [OF this]] show ?thesis by simp
qed

text \<open>C15: Each of the nine operations that change roles and privileges succeeds only if its actor
  held the privilege it requires (privileges:grant or roles:manage) before the call, publishes nothing,
  and extends the audit trail by exactly one row.\<close>

theorem guarded_op_authorized_audited:
  assumes "guarded_op actor key m" "m e s = (Inr x, s')"
  shows "holds (db s) actor key \<and> bus s' = bus s \<and>
    length (audit_events (db s')) = Suc (length (audit_events (db s))) \<and>
    butlast (audit_events (db s')) = audit_events (db s)"
proof -
  have "authorized_audited actor key s s'"
    using assms
    by (cases rule: guarded_op.cases)
      (auto simp: voidM_Inr intro: grants_audited roles_audited role_privileges_audited user_roles_audited)
  then show ?thesis by (simp add: authorized_audited_def)
qed

theorem guarded_op_authorized_audited_witness:
  "butlast (audit_events (db (snd (voidM (DeleteRole ''r1'' ''alice'') quiet_env (fresh_state sample_db)))))
     = audit_events sample_db"
proof -
  have "fst (voidM (DeleteRole ''r1'' ''alice'') quiet_env (fresh_state sample_db)) = Inr ()"
    and d: "db (fresh_state sample_db) = sample_db"
    by code_simp (simp add: fresh_state_def)
  from guarded_op_authorized_audited [OF guarded_op.intros(5) run_fst [OF this(1)]] d
  show ?thesis by simp
qed

text \<open>C10: RevokeRoleFromUser never leaves the system without a holder of a meta privilege: if some
  user held privileges:grant (or roles:manage) before a successful revocation, some user holds it
  afterwards.\<close>

theorem RevokeRoleFromUser_keeps_meta_holder:
  assumes "RevokeRoleFromUser uid rid revoker reason e s = (Inr x, s')"
    and "key = PrivilegesGrant \<or> key = RolesManage" "holds (db s) u key"
  shows "\<exists>v. holds (db s') v key"
proof -
  from assms(1) obtain s1 s2 a where guard: "assertNotLastMetaHolderTx uid rid e s1 = (Inr (), s2)"
      "db s1 = db s" "txdb s1 = db s"
    and s': "db s' = (db s)\<lparr>user_roles :=
        delete_where (\<lambda>r. url_UserID r = uid \<and> url_RoleID r = rid) (user_roles (db s)),
      audit_events := insert_row a (audit_events (db s))\<rparr>"
    by (rule RevokeRoleFromUser_ok)
  have "revocable (db s) uid rid key"
    using assertNotLastMetaHolderTx_ok [OF guard(1) _ assms(2)] guard(2,3) by simp
  from revocable_keeps_holder [OF this assms(3)] show ?thesis by (simp add: s' holds_iff)
qed

theorem RevokeRoleFromUser_keeps_meta_holder_witness:
  "\<exists>v. holds (db (snd (RevokeRoleFromUser ''carol'' ''r1'' ''alice'' '''' quiet_env (fresh_state sample_db)))) v
     PrivilegesGrant"
proof -
  have "fst (RevokeRoleFromUser ''carol'' ''r1'' ''alice'' '''' quiet_env (fresh_state sample_db)) = Inr ()"
    and "holds (db (fresh_state sample_db)) ''alice'' PrivilegesGrant"
    by code_simp+
  from RevokeRoleFromUser_keeps_meta_holder [OF run_fst [OF this(1)] disjI1 [OF refl] this(2)]
  show ?thesis .
qed


definition two_granters :: database where
  "two_granters = sample_db\<lparr>user_privileges := map (\<lambda>(i, u).
     \<lparr> upv_ID = i, upv_UserID = u, upv_Privilege = PrivilegesGrant, upv_GrantedBy = None,
       upv_GrantedAt = 1, upv_Reason = None \<rparr>) [(''g1'', ''alice''), (''g2'', ''bob'')]\<rparr>"


end
