(* ===== verification/Http_Safety.thy ===== *)
theory Http_Safety
  imports Http_Admin Authz_Safety
begin

text \<open>
  What access control promises.  The middleware relies on the resolver through
  one contract: whoever it resolves a token to, the privileges it returns are
  vouched for.  The lemmas on the middleware and the privilege gate are proved
  under that contract and reach the model through the interpretation by
  ResolveCaller.
\<close>

subsection \<open>Runs of the resolver\<close>

definition cached :: "env \<Rightarrow> state \<Rightarrow> string \<Rightarrow> caller \<Rightarrow> string list \<Rightarrow> bool" where
  "cached e s sub cl ps =
     (case cache s sub of None \<Rightarrow> False
      | Some en \<Rightarrow> clock e (ticks s) < ice_expires en \<and> ice_caller en = cl \<and> ice_privs en = ps)"

definition bound_to :: "database \<Rightarrow> string \<Rightarrow> id \<Rightarrow> bool" where
  "bound_to d sub uid =
     (list_ex (\<lambda>i. uid_UserID i = uid \<and> uid_OIDCSub i = sub) (user_identities d) \<and>
      list_ex (\<lambda>u. usr_ID u = uid) (users d))"

definition resolved :: "state \<Rightarrow> string \<Rightarrow> caller \<Rightarrow> string list \<Rightarrow> bool" where
  "resolved s' sub cl ps =
     (bound_to (db s') sub (cal_UserID cl) \<and> distinct ps \<and>
      (\<forall>p. p \<in> set ps \<longleftrightarrow> holds (db s') (cal_UserID cl) p))"

lemma linkTx_ok:
  assumes "linkTx c u e s = (Inr x, s')"
  shows "\<exists>i a. uid_UserID i = usr_ID u \<and> uid_OIDCSub i = clm_Sub c \<and> uid_Source i = ''oidc'' \<and>
    txdb s' = (txdb s)\<lparr>user_identities := insert_row i (user_identities (txdb s)),
      users := update_where (\<lambda>r. usr_ID r = usr_ID u) (\<lambda>r. r\<lparr>usr_Status := UserActive\<rparr>) (users (txdb s)),
      audit_events := insert_row a (audit_events (txdb s))\<rparr>"
  using assms
  by (auto simp: linkTx_def writeIdentityAuditTx_def run_simps store_defs) (intro exI conjI; (rule refl)?; simp)

lemma linkBySub_ok:
  assumes "linkBySub c e s = (Inr v, s')"
  obtains u i a where "u \<in> set (users (db s))" "citext (usr_Email u) = citext (clm_Email c)" "clm_Email c \<noteq> ''''"
    "usr_Status u = UserPending" "v = u\<lparr>usr_Status := UserActive\<rparr>"
    "\<not> list_ex (\<lambda>i. uid_UserID i = usr_ID u \<and> uid_Source i = ''oidc'') (user_identities (db s))"
    "uid_UserID i = usr_ID u" "uid_OIDCSub i = clm_Sub c" "uid_Source i = ''oidc''"
    "db s' = (db s)\<lparr>user_identities := insert_row i (user_identities (db s)),
      users := update_where (\<lambda>r. usr_ID r = usr_ID u) (\<lambda>r. r\<lparr>usr_Status := UserActive\<rparr>) (users (db s)),
      audit_events := insert_row a (audit_events (db s))\<rparr>"
proof -
  from assms obtain u s1 s2 where
    u: "find (\<lambda>u. citext (usr_Email u) = citext (clm_Email c)) (users (db s)) = Some u"
    and st: "usr_Status u = UserPending" "v = u\<lparr>usr_Status := UserActive\<rparr>" "clm_Email c \<noteq> ''''"
    and none: "find (\<lambda>r. uid_UserID r = usr_ID u \<and> uid_Source r = ''oidc'') (user_identities (db s)) = None"
    and tx: "linkTx c u e s1 = (Inr (), s2)" "txdb s1 = db s" "db s' = txdb s2"
    unfolding linkBySub_def
    by (auto simp: run_simps store_defs split: if_splits option.splits)
  show ?thesis
    using that [of u] find_SomeD [OF u] st none linkTx_ok [OF tx(1)] tx(2,3)
    by (auto simp: find_None_iff list_ex_iff)
qed

lemma bound_to_iff:
  "bound_to d sub uid \<longleftrightarrow>
     (\<exists>i\<in>set (user_identities d). uid_UserID i = uid \<and> uid_OIDCSub i = sub) \<and>
     uid \<in> usr_ID ` set (users d)"
  by (auto simp: bound_to_def list_ex_iff)

lemma linkBySub_bound:
  assumes "linkBySub c e s = (Inr v, s')"
  shows "bound_to (db s') (clm_Sub c) (usr_ID v)"
  using assms
  by (rule linkBySub_ok) (auto simp: bound_to_iff image_update_where simp del: set_update_where)

lemma GetUserByOIDCSub_bound:
  "users_GetUserByOIDCSub sub e s = (Inr (Some u), s') \<Longrightarrow> bound_to (db s') sub (usr_ID u) \<and> db s' = db s"
  by (auto simp: store_defs run_simps bound_to_iff list_ex_iff nullable_def
      split: if_splits dest!: find_SomeD [OF sym])

lemma identityCache_get_cases:
  "identityCache_get sub now e s = (Inr hit, s') \<longleftrightarrow>
     (\<exists>en. hit = Some en \<and> cache s sub = Some en \<and> now < ice_expires en \<and> s' = s) \<or>
     hit = None \<and> (cache s sub = None \<and> s' = s \<or>
       (\<exists>en. cache s sub = Some en \<and> \<not> now < ice_expires en \<and> s' = s\<lparr>cache := (cache s)(sub := None)\<rparr>))"
  by (auto simp: identityCache_get_def split: option.splits if_splits)

lemma ResolveCaller_ok:
  assumes "ResolveCaller (Some c) e s = (Inr (cl, ps), s')"
  shows "cached e s (clm_Sub c) cl ps \<and> db s' = db s \<or> resolved s' (clm_Sub c) cl ps"
proof -
  from assms obtain hit s1 where
    hit: "identityCache_get (clm_Sub c) (clock e (ticks s)) e s = (Inr hit, s1)"
    and rest: "(case hit of Some en \<Rightarrow> retM (ice_caller en, ice_privs en)
          | None \<Rightarrow>
            bindM (users_GetUserByOIDCSub (clm_Sub c)) (\<lambda>found.
            bindM (case found of Some u \<Rightarrow> retM u | None \<Rightarrow> linkBySub c) (\<lambda>u.
            bindM (EffectivePrivileges (usr_ID u)) (\<lambda>privs.
            let cl = \<lparr> cal_UserID = usr_ID u \<rparr> in
            andReturn (identityCache_set (clm_Sub c) cl privs (clock e (ticks s))) (cl, privs))))) e s1 =
        (Inr (cl, ps), s')"
    unfolding ResolveCaller_def by (auto simp: bindM_Inr nowUTC_iff throwM_def split: if_splits)
  show ?thesis
  proof (cases hit)
    case (Some en)
    then show ?thesis using hit rest by (auto simp: identityCache_get_cases cached_def retM_iff)
  next
    case None
    then obtain found s2 u s3 s4 where
      f: "users_GetUserByOIDCSub (clm_Sub c) e s1 = (Inr found, s2)"
      and l: "(case found of Some u \<Rightarrow> retM u | None \<Rightarrow> linkBySub c) e s2 = (Inr u, s3)"
      and p: "EffectivePrivileges (usr_ID u) e s3 = (Inr ps, s4)" "cl = \<lparr> cal_UserID = usr_ID u \<rparr>"
      and s': "db s' = db s4"
      using rest by (auto simp: bindM_Inr andReturn_Inr Let_def identityCache_set_def)
    have "bound_to (db s3) (clm_Sub c) (usr_ID u)"
    proof (cases found)
      case None
      then show ?thesis using l linkBySub_bound by simp
    next
      case (Some w)
      then show ?thesis
        using l GetUserByOIDCSub_bound [OF f [unfolded Some]] by (auto simp: retM_iff)
    qed
    then show ?thesis using EffectivePrivileges_holds [OF p(1)] p(2) s' by (auto simp: resolved_def)
  qed
qed

subsection \<open>The middleware under the resolver's contract\<close>

locale user_resolver =
  fixes resolve :: "claims option \<Rightarrow> (caller \<times> string list) M"
    and vouched :: "env \<Rightarrow> state \<Rightarrow> state \<Rightarrow> claims \<Rightarrow> caller \<Rightarrow> string list \<Rightarrow> bool"
  assumes resolve_sound:
    "resolve (Some c) e s = (Inr (cl, ps), s') \<Longrightarrow> vouched e s s' c cl ps"
begin

text \<open>A request to a path that is not public either is answered by the middleware with 401 or 503, or
  reaches the inner handler with a caller and privileges that the resolver vouched for.\<close>

lemma middleware_gate:
  assumes "Middleware verifier resolve public handle req e s = (rsp, s')" "req_Path req \<notin> set public"
  shows "rsp_Status rsp = 401 \<or> rsp_Status rsp = 503 \<or>
    (\<exists>tok c cl ps s1. bearer (req_Authorization req) = Some tok \<and> verifier tok = Inr c \<and>
       vouched e s s1 c cl ps \<and> resolve (Some c) e s = (Inr (cl, ps), s1) \<and>
       handle (withPrivileges (WithCaller req cl) ps) e s1 = (rsp, s'))"
proof -
  have "rsp_Status rsp = 401 \<or> rsp_Status rsp = 503 \<or>
    (\<exists>tok c cl ps s1. bearer (req_Authorization req) = Some tok \<and> verifier tok = Inr c \<and>
       resolve (Some c) e s = (Inr (cl, ps), s1) \<and>
       handle (withPrivileges (WithCaller req cl) ps) e s1 = (rsp, s'))"
    using assms
    by (auto simp: Middleware_def writeJSONError_def split: option.splits sum.splits prod.splits if_splits)
  then show ?thesis using resolve_sound by blast
qed

text \<open>Behind RequirePrivilege the handler runs only for a caller whose vouched privileges contain the key.\<close>

lemma privilege_gate:
  assumes "Middleware verifier resolve public (requirePrivilege p handle) req e s = (rsp, s')"
    and "req_Path req \<notin> set public"
  shows "rsp_Status rsp = 401 \<or> rsp_Status rsp = 403 \<or> rsp_Status rsp = 503 \<or>
    (\<exists>tok c cl ps s1. bearer (req_Authorization req) = Some tok \<and> verifier tok = Inr c \<and>
       vouched e s s1 c cl ps \<and> p \<in> set ps \<and>
       handle (withPrivileges (WithCaller req cl) ps) e s1 = (rsp, s'))"
  using middleware_gate [OF assms]
  by (auto simp: requirePrivilege_def ctxHasPrivilege_def withPrivileges_def writeJSONError_def split: if_splits)

end

definition vouched_for :: "env \<Rightarrow> state \<Rightarrow> state \<Rightarrow> claims \<Rightarrow> caller \<Rightarrow> string list \<Rightarrow> bool" where
  "vouched_for e s s' c cl ps =
     (cached e s (clm_Sub c) cl ps \<and> db s' = db s \<or> resolved s' (clm_Sub c) cl ps)"

interpretation core_resolver: user_resolver ResolveCaller vouched_for
  by unfold_locales (simp add: vouched_for_def ResolveCaller_ok)

subsection \<open>Handlers that change grants empty the cache\<close>

definition admin_handlers :: "handler list" where
  "admin_handlers = [grantPrivilege, revokePrivilege, updateRole, deleteRole, addRolePrivilege,
     removeRolePrivilege, grantRoleToUser, revokeRoleFromUser]"

lemma WriteServiceError_status [simp]: "\<not> rsp_Status (WriteServiceError x) < 400"
  by (simp add: WriteServiceError_def WriteError_def)

lemma bad_status [simp]: "\<not> rsp_Status (bad_request m) < 400" "\<not> rsp_Status bad_json < 400"
  by (simp_all add: bad_request_def bad_json_def WriteError_def)

lemma requireCaller_status: "requireCaller r = Inl rsp \<Longrightarrow> \<not> rsp_Status rsp < 400"
  by (auto simp: requireCaller_def WriteError_def split: option.splits)

lemma invalidating_cache: "invalidating m e s = (Inr v, s') \<Longrightarrow> cache s' = (\<lambda>_. None)"
  by (auto simp: invalidating_def InvalidateAllIdentities_def identityCache_invalidateAll_def run_simps)

lemma answer_cache:
  "answer (invalidating m) f e s = (rsp, s') \<Longrightarrow> rsp_Status rsp < 400 \<Longrightarrow> cache s' = (\<lambda>_. None)"
  by (auto simp: answer_def dest: invalidating_cache split: prod.splits sum.splits)

lemma admin_handler_cache:
  assumes "h \<in> set admin_handlers" "h r e s = (rsp, s')" "rsp_Status rsp < 400"
  shows "cache s' = (\<lambda>_. None)"
  using assms unfolding admin_handlers_def
  by (auto simp: grantPrivilege_def revokePrivilege_def updateRole_def deleteRole_def addRolePrivilege_def
      removeRolePrivilege_def grantRoleToUser_def revokeRoleFromUser_def Let_def
      split: sum.splits prod.splits bool.splits if_splits dest!: requireCaller_status dest: answer_cache)

subsection \<open>Scoped reads\<close>

definition may_read_allocation :: "request \<Rightarrow> caller \<Rightarrow> database \<Rightarrow> bool" where
  "may_read_allocation req cl d =
     (ctxHasPrivilege req AllocationsRead \<or>
      (case find (\<lambda>a. alc_ID a = req_PathValue req ''id'') (compute_allocations d) of
         None \<Rightarrow> False
       | Some a \<Rightarrow>
         list_ex (\<lambda>m. pmb_ProjectID m = alc_ProjectID a \<and> pmb_UserID m = cal_UserID cl \<and>
           pmb_Role m \<in> {''PI'', ''CO_PI'', ''ALLOCATION_MANAGER''}) (project_memberships d) \<or>
         list_ex (\<lambda>m. mem_ComputeAllocationID m = alc_ID a \<and> mem_UserID m = cal_UserID cl \<and>
           mem_MembershipStatus m = ''ACTIVE'') (compute_allocation_memberships d)))"

lemma find_list_ex:
  "uniq g t \<Longrightarrow> list_ex (\<lambda>m. g m = k \<and> Q m) t = (case find (\<lambda>m. g m = k) t of None \<Rightarrow> False | Some m \<Rightarrow> Q m)"
proof (induction t)
  case (Cons m t)
  then have "g m \<notin> g ` set t" by (simp add: uniq_def)
  then have "g m = k \<Longrightarrow> \<not> list_ex (\<lambda>m. g m = k \<and> Q m) t" by (auto simp: list_ex_iff image_iff)
  then show ?case using Cons by (auto simp: uniq_def)
qed simp

lemma memberships_pkey:
  "schema_ok d \<Longrightarrow> uniq (\<lambda>m. (mem_ComputeAllocationID m, mem_UserID m)) (compute_allocation_memberships d)"
  using schema_okD [of d] by (simp add: memberships_cons_def)

lemma canReadAllocation_decides:
  assumes "\<And>n. \<not> fault e n" "schema_ok (db s)" "requireCaller req = Inr cl"
  shows "fst (canReadAllocation req e s) =
    (if may_read_allocation req cl (db s) then None else Some (WriteError 404 ErrNotFound))"
proof -
  have pm: "list_ex (\<lambda>m. pmb_ProjectID m = p \<and> pmb_UserID m = u \<and> Q m) (project_memberships (db s)) =
      (case find (\<lambda>m. pmb_ProjectID m = p \<and> pmb_UserID m = u) (project_memberships (db s)) of
         None \<Rightarrow> False | Some m \<Rightarrow> Q m)" for p u Q
    using find_list_ex [OF schema_pm_pkey [OF assms(2)], of "(p, u)" Q] by simp
  have mem: "list_ex (\<lambda>m. mem_ComputeAllocationID m = a \<and> mem_UserID m = u \<and> Q m) (compute_allocation_memberships (db s)) =
      (case find (\<lambda>m. mem_ComputeAllocationID m = a \<and> mem_UserID m = u) (compute_allocation_memberships (db s)) of
         None \<Rightarrow> False | Some m \<Rightarrow> Q m)" for a u Q
    using find_list_ex [OF memberships_pkey [OF assms(2)], of "(a, u)" Q] by simp
  have gov: "IsGovernanceRole r \<longleftrightarrow> r \<in> {''PI'', ''CO_PI'', ''ALLOCATION_MANAGER''}" for r
    by (auto simp: IsGovernanceRole_iff)
  show ?thesis
    using assms(1,3)
    by (simp add: canReadAllocation_def may_read_allocation_def orDeny_def GetComputeAllocation_def
        ProjectRoleForUser_def IsAllocationMember_def orNotFound_def store_defs dbq_def bindM_def wrapM_def
        retM_def throwM_def pm mem gov WriteServiceError_def split: option.split)
qed

lemma canReadProject_decides:
  assumes "\<And>n. \<not> fault e n" "requireCaller req = Inr cl"
    and "req_PathValue req ''id'' \<noteq> ''''" "cal_UserID cl \<noteq> ''''"
  shows "fst (canReadProject req e s) =
    (if ctxHasPrivilege req ProjectsRead \<or> isParticipant (db s) (req_PathValue req ''id'') (cal_UserID cl)
     then None else Some (WriteError 404 ErrNotFound))"
  using assms
  by (simp add: canReadProject_def orDeny_def IsProjectParticipant_def store_defs dbq_def wrapM_def
      WriteServiceError_def)

subsection \<open>The cache while it is being filled\<close>

definition cache_frame :: "'a M \<Rightarrow> bool" where
  "cache_frame m = (\<forall>e s r s'. m e s = (r, s') \<longrightarrow> cache s' = cache s \<and> cache_ttl s' = cache_ttl s)"

lemma cache_frameD: "cache_frame m \<Longrightarrow> m e s = (r, s') \<Longrightarrow> cache s' = cache s \<and> cache_ttl s' = cache_ttl s"
  by (auto simp: cache_frame_def)

lemma cache_frame_bindM: "cache_frame m \<Longrightarrow> (\<And>x. cache_frame (f x)) \<Longrightarrow> cache_frame (bindM m f)"
  unfolding cache_frame_def by (auto simp: bindM_def split: prod.splits sum.splits)

lemma cache_frame_prims:
  "cache_frame (retM x)" "cache_frame (throwM y)" "cache_frame nowUTC" "cache_frame newID" "cache_frame (askM f)"
  "cache_frame (dbq q)" "cache_frame (txq q')" "cache_frame (txx cs u)"
  by (auto simp: cache_frame_def retM_def throwM_def nowUTC_def newID_def askM_def dbq_def txq_def txx_def
      Let_def split: if_splits option.splits)

lemma cache_frame_wrapM: "cache_frame m \<Longrightarrow> cache_frame (wrapM lbl m)"
  unfolding cache_frame_def by (auto simp: wrapM_def split: prod.splits sum.splits)

lemma cache_frame_inTx: "cache_frame m \<Longrightarrow> cache_frame (inTx m)"
  unfolding cache_frame_def inTx_def TxFn_def
  by (auto simp: wrapM_def Let_def split: prod.splits sum.splits if_splits)

lemma cache_frame_andReturn: "cache_frame m \<Longrightarrow> cache_frame (andReturn m x)"
  unfolding andReturn_def by (intro cache_frame_bindM cache_frame_prims)

lemma cache_frame_case_option:
  "cache_frame m \<Longrightarrow> (\<And>x. cache_frame (f x)) \<Longrightarrow> cache_frame (case v of None \<Rightarrow> m | Some x \<Rightarrow> f x)"
  by (simp split: option.splits)

lemma cache_frame_if: "cache_frame m \<Longrightarrow> cache_frame m' \<Longrightarrow> cache_frame (if b then m else m')"
  by simp

lemmas cache_frame_intros = cache_frame_bindM cache_frame_prims cache_frame_wrapM cache_frame_inTx
  cache_frame_andReturn cache_frame_case_option cache_frame_if

lemma resolution_cache_frame:
  "cache_frame (users_GetUserByOIDCSub sub)" "cache_frame (linkBySub c)" "cache_frame (EffectivePrivileges u)"
  unfolding linkBySub_def linkTx_def writeIdentityAuditTx_def EffectivePrivileges_def invalid_def store_defs
  by (intro cache_frame_intros)+

lemma ResolveCaller_fills:
  assumes "ResolveCaller (Some c) e s = (Inr (cl, ps), s')" "cache s (clm_Sub c) = None"
  shows "cache s' (clm_Sub c) =
      Some \<lparr> ice_caller = cl, ice_privs = ps, ice_expires = clock e (ticks s) + cache_ttl s \<rparr> \<and>
    clm_Sub c \<noteq> ''''"
proof -
  let ?link = "\<lambda>found. case found of Some u \<Rightarrow> retM u | None \<Rightarrow> linkBySub c"
  from assms obtain found s2 u s3 s4 where
    r: "users_GetUserByOIDCSub (clm_Sub c) e s = (Inr found, s2)" "?link found e s2 = (Inr u, s3)"
      "EffectivePrivileges (usr_ID u) e s3 = (Inr ps, s4)"
    and s': "identityCache_set (clm_Sub c) cl ps (clock e (ticks s)) e s4 = (Inr (), s')" "clm_Sub c \<noteq> ''''"
    by (auto simp: ResolveCaller_def bindM_Inr nowUTC_iff throwM_def identityCache_get_def andReturn_Inr Let_def
        split: if_splits)
  have "cache_frame (?link found)"
    by (intro cache_frame_case_option cache_frame_prims resolution_cache_frame)
  then have "cache_ttl s4 = cache_ttl s"
    using r resolution_cache_frame [THEN cache_frameD] cache_frameD by metis
  then show ?thesis using s' by (auto simp: identityCache_set_def)
qed

subsection \<open>Sample requests\<close>

definition sample_token :: "string \<Rightarrow> err + claims" where
  "sample_token t = (if t = ''bad'' then Inl ErrNotFound
     else Inr \<lparr> clm_Sub = t, clm_Email = t @ ''@x.org'', clm_EmailVerified = True \<rparr>)"

definition sample_request :: "string \<Rightarrow> request" where
  "sample_request t = \<lparr> req_Path = ''/roles/r1'', req_Authorization = ''Bearer '' @ t,
     req_PathValue = (\<lambda>k. if k = ''id'' then ''bob'' else ''''),
     req_Caller = None, req_Privileges = None,
     req_Body = JObject [(''Privilege'', JString RolesManage), (''reason'', JNull)] \<rparr>"

text \<open>The sample database with an OIDC identity for alice.\<close>

definition linked_db :: database where
  "linked_db = sample_db\<lparr>user_identities :=
     [\<lparr> uid_ID = ''i1'', uid_UserID = ''alice'', uid_Source = ''oidc'', uid_ExternalID = ''alice'', uid_Email = '''',
        uid_OIDCSub = ''alice'', uid_Metadata = '''', uid_CreatedAt = 0 \<rparr>]\<rparr>"

definition ok_handler :: handler where
  "ok_handler req e s = (WriteJSON 200 NoBody, s)"

subsection \<open>Properties\<close>





text \<open>C21: When the database answers, canReadAllocation lets a request through exactly if the caller has
  the read privilege, or has a governance role in the allocation's project, or is an active member of the
  allocation; every other request, whether the allocation exists or not, gets the same 404 answer.\<close>

theorem canReadAllocation_exact:
  assumes "\<And>n. \<not> fault e n" "schema_ok (db s)" "requireCaller req = Inr cl"
  shows "fst (canReadAllocation req e s) =
    (if may_read_allocation req cl (db s) then None else Some (WriteError 404 ErrNotFound))"
  using assms by (rule canReadAllocation_decides)

theorem canReadAllocation_exact_witness:
  "fst (canReadAllocation ((WithCaller (sample_request ''carol'') \<lparr> cal_UserID = ''carol'' \<rparr>)\<lparr>req_PathValue := \<lambda>_. ''a1''\<rparr>)
     quiet_env (fresh_state alloc_db)) = Some (WriteError 404 ErrNotFound) \<and>
   fst (canReadAllocation ((WithCaller (sample_request ''bob'') \<lparr> cal_UserID = ''bob'' \<rparr>)\<lparr>req_PathValue := \<lambda>_. ''a1''\<rparr>)
     quiet_env (fresh_state alloc_db)) = None"
proof -
  let ?r = "\<lambda>u. (WithCaller (sample_request u) \<lparr> cal_UserID = u \<rparr>)\<lparr>req_PathValue := \<lambda>_. ''a1''\<rparr>"
  have c: "requireCaller (?r u) = Inr \<lparr> cal_UserID = u \<rparr>" for u
    by (simp add: requireCaller_def CallerFromContext_def WithCaller_def)
  have f: "\<not> fault quiet_env n" for n by (simp add: quiet_env_def)
  have s: "schema_ok (db (fresh_state alloc_db))" by (simp add: fresh_state_def schema_ok_alloc_db)
  have "\<not> may_read_allocation (?r ''carol'') \<lparr> cal_UserID = ''carol'' \<rparr> (db (fresh_state alloc_db))"
    "may_read_allocation (?r ''bob'') \<lparr> cal_UserID = ''bob'' \<rparr> (db (fresh_state alloc_db))" by code_simp+
  then show ?thesis using canReadAllocation_exact [OF f s c] by simp
qed

text \<open>When the database answers, canReadProject lets a request through exactly if the caller has the
  read privilege, or has a role in the project, or is an active member of one of its allocations; every other
  request gets the same 404 answer, whether the project exists or not.\<close>

theorem canReadProject_exact:
  assumes "\<And>n. \<not> fault e n" "requireCaller req = Inr cl"
    and "req_PathValue req ''id'' \<noteq> ''''" "cal_UserID cl \<noteq> ''''"
  shows "fst (canReadProject req e s) =
    (if ctxHasPrivilege req ProjectsRead \<or>
        (\<exists>m. m \<in> set (project_memberships (db s)) \<and> pmb_ProjectID m = req_PathValue req ''id'' \<and>
           pmb_UserID m = cal_UserID cl) \<or>
        (\<exists>m a. m \<in> set (compute_allocation_memberships (db s)) \<and> a \<in> set (compute_allocations (db s)) \<and>
           mem_UserID m = cal_UserID cl \<and> mem_MembershipStatus m = ''ACTIVE'' \<and>
           mem_ComputeAllocationID m = alc_ID a \<and> alc_ProjectID a = req_PathValue req ''id'')
     then None else Some (WriteError 404 ErrNotFound))"
proof -
  have "isParticipant (db s) (req_PathValue req ''id'') (cal_UserID cl) \<longleftrightarrow>
        (\<exists>m. m \<in> set (project_memberships (db s)) \<and> pmb_ProjectID m = req_PathValue req ''id'' \<and>
           pmb_UserID m = cal_UserID cl) \<or>
        (\<exists>m a. m \<in> set (compute_allocation_memberships (db s)) \<and> a \<in> set (compute_allocations (db s)) \<and>
           mem_UserID m = cal_UserID cl \<and> mem_MembershipStatus m = ''ACTIVE'' \<and>
           mem_ComputeAllocationID m = alc_ID a \<and> alc_ProjectID a = req_PathValue req ''id'')"
    unfolding isParticipant_def list_ex_iff by (simp add: eq_commute) blast
  then show ?thesis using canReadProject_decides [OF assms] by simp
qed

theorem canReadProject_exact_witness:
  "fst (canReadProject ((WithCaller (sample_request ''alice'') \<lparr> cal_UserID = ''alice'' \<rparr>)\<lparr>req_PathValue := \<lambda>_. ''p1''\<rparr>)
     quiet_env (fresh_state sample_db)) = None"
proof -
  let ?r = "(WithCaller (sample_request ''alice'') \<lparr> cal_UserID = ''alice'' \<rparr>)\<lparr>req_PathValue := \<lambda>_. ''p1''\<rparr>"
  have c: "requireCaller ?r = Inr \<lparr> cal_UserID = ''alice'' \<rparr>" 
    by (simp add: requireCaller_def CallerFromContext_def WithCaller_def)
  have f: "\<not> fault quiet_env n" for n by (simp add: quiet_env_def)
  have m: "\<exists>m. m \<in> set (project_memberships (db (fresh_state sample_db))) \<and> pmb_ProjectID m = ''p1'' \<and>
      pmb_UserID m = ''alice''"
    by (simp add: fresh_state_def sample_db_def sample_membership_def)
  show ?thesis
    using canReadProject_exact [OF f c, of "fresh_state sample_db"] m
    by simp
qed

definition guarded :: "(string \<Rightarrow> policy) \<Rightarrow> route_guard \<Rightarrow> handler \<Rightarrow> handler" where
  "guarded ps g handle =
     (case g of PrivilegeRoute key \<Rightarrow> requirePrivilege key handle | ScopedRoute pol \<Rightarrow> requireScoped (ps pol) handle
      | _ \<Rightarrow> handle)"

lemma fold_add_route:
  "rt_mux (fold (add_route hs ps) rs r) = rt_mux r @ map (\<lambda>(pattern, g, h). (pattern, guarded ps g (hs h))) rs \<and>
   rt_publicPaths (fold (add_route hs ps) rs r) =
     rt_publicPaths r @ map (\<lambda>(pattern, g, h). methodPath pattern) (filter (\<lambda>(pattern, g, h). g = PublicRoute) rs)"
  by (induction rs arbitrary: r)
    (auto simp: add_route_def Public_def RequireAuth_def RequirePrivilege_def RequireScoped_def guarded_def
      split: route_guard.splits)

text \<open>C22: The routes of the server: patterns are unique, only GET /healthz is public, every other route
  stands in the mux behind its guard, every route that is not a GET is behind RequirePrivilege with a key of
  the core registry, and the handlers that change grants and roles are behind privileges:grant and
  roles:manage.\<close>

theorem server_routes_guarded:
  "PublicPaths (server_routes hs ps (NewRouter [])) = [''/healthz''] \<and>
   rt_mux (server_routes hs ps (NewRouter [])) = map (\<lambda>(pattern, g, h). (pattern, guarded ps g (hs h))) routes \<and>
   distinct (map fst routes) \<and>
   list_all (\<lambda>(pattern, g, h).
     case g of PublicRoute \<Rightarrow> pattern = ''GET /healthz''
     | PrivilegeRoute key \<Rightarrow> key \<in> set core_privileges
     | _ \<Rightarrow> take 4 pattern = ''GET '') routes \<and>
   map (\<lambda>(pattern, g, h). (h, g)) (filter (\<lambda>(pattern, g, h). h \<in> {''grantPrivilege'', ''revokePrivilege'',
      ''createRole'', ''deleteRole'', ''addRolePrivilege'', ''grantRoleToUser'', ''revokeRoleFromUser''}) routes) =
   [(''grantPrivilege'', PrivilegeRoute PrivilegesGrant), (''revokePrivilege'', PrivilegeRoute PrivilegesGrant),
    (''createRole'', PrivilegeRoute RolesManage), (''deleteRole'', PrivilegeRoute RolesManage),
    (''addRolePrivilege'', PrivilegeRoute RolesManage), (''grantRoleToUser'', PrivilegeRoute RolesManage),
    (''revokeRoleFromUser'', PrivilegeRoute RolesManage)]"
proof (intro conjI)
  have "map (\<lambda>(pattern, g, h). methodPath pattern) (filter (\<lambda>(pattern, g, h). g = PublicRoute) routes) =
    [''/healthz'']" by code_simp
  then show "PublicPaths (server_routes hs ps (NewRouter [])) = [''/healthz'']"
    by (simp add: PublicPaths_def server_routes_def fold_add_route NewRouter_def)
  show "rt_mux (server_routes hs ps (NewRouter [])) =
      map (\<lambda>(pattern, g, h). (pattern, guarded ps g (hs h))) routes"
    by (simp add: server_routes_def fold_add_route NewRouter_def)
qed code_simp+

text \<open>C23: A subject that has no identity yet is linked only to a PENDING user with the claimed, non-empty
  e-mail address who has no OIDC identity; the link adds the identity, activates that user, appends an audit
  row and changes nothing else.\<close>

theorem linkBySub_links_pending:
  assumes "linkBySub c e s = (Inr v, s')"
  shows "\<exists>u i a. u \<in> set (users (db s)) \<and> citext (usr_Email u) = citext (clm_Email c) \<and> clm_Email c \<noteq> '''' \<and>
    usr_Status u = UserPending \<and> v = u\<lparr>usr_Status := UserActive\<rparr> \<and>
    \<not> list_ex (\<lambda>i. uid_UserID i = usr_ID u \<and> uid_Source i = ''oidc'') (user_identities (db s)) \<and>
    uid_UserID i = usr_ID u \<and> uid_OIDCSub i = clm_Sub c \<and> uid_Source i = ''oidc'' \<and>
    db s' = (db s)\<lparr>user_identities := insert_row i (user_identities (db s)),
      users := update_where (\<lambda>r. usr_ID r = usr_ID u) (\<lambda>r. r\<lparr>usr_Status := UserActive\<rparr>) (users (db s)),
      audit_events := insert_row a (audit_events (db s))\<rparr>"
  using assms by (rule linkBySub_ok) blast

theorem linkBySub_links_pending_witness:
  "\<exists>u. u \<in> set (users sample_db) \<and> citext (usr_Email u) = citext ''BOB@x.org'' \<and> usr_Status u = UserPending"
proof -
  let ?c = "\<lparr> clm_Sub = ''s1'', clm_Email = ''BOB@x.org'', clm_EmailVerified = False \<rparr>"
  have "fst (linkBySub ?c quiet_env (fresh_state sample_db)) = Inr (sample_user ''bob'' UserActive)" by code_simp
  from linkBySub_links_pending [OF run_fst [OF this]] show ?thesis by (auto simp: fresh_state_def)
qed

text \<open>The cache of resolved callers: an answer that was resolved at one moment is returned again for
  the same subject while less than the time to live has passed, whatever happened in the database, and from
  then on only an answer resolved from the database is returned.\<close>

theorem identity_cache_round_trip:
  assumes "cache s (clm_Sub c) = None" "ResolveCaller (Some c) e s = (Inr (cl, ps), s1)"
    and "cache s2 (clm_Sub c) = cache s1 (clm_Sub c)"
  shows "if clock e' (ticks s2) < clock e (ticks s) + cache_ttl s
    then ResolveCaller (Some c) e' s2 = (Inr (cl, ps), s2)
    else \<forall>cl' ps' s3. ResolveCaller (Some c) e' s2 = (Inr (cl', ps'), s3) \<longrightarrow> resolved s3 (clm_Sub c) cl' ps'"
proof -
  note f = ResolveCaller_fills [OF assms(2,1)]
  have "ResolveCaller (Some c) e' s2 = (Inr (cl, ps), s2)" if "clock e' (ticks s2) < clock e (ticks s) + cache_ttl s"
    using f assms(3) that by (simp add: ResolveCaller_def bindM_def nowUTC_def identityCache_get_def retM_def)
  moreover have "\<not> cached e' s2 (clm_Sub c) cl' ps'" if "\<not> clock e' (ticks s2) < clock e (ticks s) + cache_ttl s" for cl' ps'
    using f assms(3) that by (simp add: cached_def)
  ultimately show ?thesis by (auto dest!: ResolveCaller_ok)
qed

theorem identity_cache_round_trip_witness:
  "let s = fresh_state linked_db; s1 = snd (ResolveCaller (Some \<lparr> clm_Sub = ''alice'', clm_Email = '''',
       clm_EmailVerified = False \<rparr>) quiet_env s) in
   ResolveCaller (Some \<lparr> clm_Sub = ''alice'', clm_Email = '''', clm_EmailVerified = False \<rparr>) quiet_env
     (s1\<lparr>db := empty_db\<rparr>) = (Inr (\<lparr> cal_UserID = ''alice'' \<rparr>, [PrivilegesGrant, RolesManage]), s1\<lparr>db := empty_db\<rparr>)"
proof -
  let ?c = "\<lparr> clm_Sub = ''alice'', clm_Email = '''', clm_EmailVerified = False \<rparr>"
  let ?r = "ResolveCaller (Some ?c) quiet_env (fresh_state linked_db)"
  have r: "fst ?r = Inr (\<lparr> cal_UserID = ''alice'' \<rparr>, [PrivilegesGrant, RolesManage])" by code_simp
  have c: "cache (fresh_state linked_db) (clm_Sub ?c) = None" by code_simp
  have t: "clock quiet_env (ticks ((snd ?r)\<lparr>db := empty_db\<rparr>)) <
      clock quiet_env (ticks (fresh_state linked_db)) + cache_ttl (fresh_state linked_db)" by code_simp
  show ?thesis
    using identity_cache_round_trip [OF c run_fst [OF r], of "(snd ?r)\<lparr>db := empty_db\<rparr>" quiet_env] t
    by (simp add: Let_def)
qed

end
