(* ===== verification/Merge_Safety.thy ===== *)
theory Merge_Safety
  imports Svc_Merge
begin

text \<open>
  What MergeUsers does to the tables.  A reassignment of a table with one row
  per user and container first drops the rows of the retiring user whose
  container also has a row of the survivor, then rewrites the others; one lemma
  on tables covers the three tables that are treated this way.
\<close>

subsection \<open>Reassigning a table\<close>

definition reassigned :: "('r \<Rightarrow> id) \<Rightarrow> (id \<Rightarrow> 'r \<Rightarrow> 'r) \<Rightarrow> ('r \<Rightarrow> 'k) \<Rightarrow> id \<Rightarrow> id \<Rightarrow> 'r table \<Rightarrow> 'r table" where
  "reassigned usr setUsr key fromID toID t =
     update_where (\<lambda>r. usr r = fromID) (setUsr toID)
       (delete_where (\<lambda>r. usr r = fromID \<and> key r \<in> set (map key (select_where (\<lambda>q. usr q = toID) t))) t)"

lemma reassigned_rows:
  assumes "\<And>r. usr (setUsr toID r) = toID" "\<And>r. key (setUsr toID r) = key r" "fromID \<noteq> toID"
  shows "fromID \<notin> usr ` set (reassigned usr setUsr key fromID toID t)"
    and "(u, k) \<in> (\<lambda>r. (usr r, key r)) ` set (reassigned usr setUsr key fromID toID t) \<longleftrightarrow>
      u \<noteq> fromID \<and> ((u, k) \<in> (\<lambda>r. (usr r, key r)) ` set t \<or>
        u = toID \<and> (fromID, k) \<in> (\<lambda>r. (usr r, key r)) ` set t)"
    and "r \<in> set t \<Longrightarrow> usr r \<noteq> fromID \<Longrightarrow> r \<in> set (reassigned usr setUsr key fromID toID t)"
proof -
  show "fromID \<notin> usr ` set (reassigned usr setUsr key fromID toID t)"
    using assms by (auto simp: reassigned_def)
  show "r \<in> set t \<Longrightarrow> usr r \<noteq> fromID \<Longrightarrow> r \<in> set (reassigned usr setUsr key fromID toID t)"
    by (force simp: reassigned_def)
  show "(u, k) \<in> (\<lambda>r. (usr r, key r)) ` set (reassigned usr setUsr key fromID toID t) \<longleftrightarrow>
      u \<noteq> fromID \<and> ((u, k) \<in> (\<lambda>r. (usr r, key r)) ` set t \<or>
        u = toID \<and> (fromID, k) \<in> (\<lambda>r. (usr r, key r)) ` set t)" (is "?l = ?r")
  proof
    show ?r if ?l using that assms by (auto simp: reassigned_def image_iff split: if_splits)
    show ?l if ?r
    proof (cases "(u, k) \<in> (\<lambda>r. (usr r, key r)) ` set t")
      case True
      then show ?thesis using \<open>?r\<close> by (force simp: reassigned_def)
    next
      case False
      with that obtain q where q: "q \<in> set t" "usr q = fromID" "key q = k" "u = toID" by auto
      with False have "q \<in> set (delete_where
          (\<lambda>r. usr r = fromID \<and> key r \<in> set (map key (select_where (\<lambda>q. usr q = toID) t))) t)" by auto
      then have "setUsr toID q \<in> set (reassigned usr setUsr key fromID toID t)"
        using q(2) by (force simp: reassigned_def)
      then show ?thesis using q assms(1,2) [of q] by (intro image_eqI [of _ _ "setUsr toID q"]) simp_all
    qed
  qed
qed

subsection \<open>The merge transaction\<close>

lemma mergeTx_effect:
  assumes "mergeTx rt sv e s = (Inr x, s')"
  shows "user_identities (txdb s') =
      update_where (\<lambda>r. uid_UserID r = rt) (\<lambda>r. r\<lparr>uid_UserID := sv\<rparr>) (user_identities (txdb s))"
    and "compute_cluster_users (txdb s') = reassigned ccu_UserID (\<lambda>u r. r\<lparr>ccu_UserID := u\<rparr>) ccu_ComputeClusterID rt sv
      (compute_cluster_users (txdb s))"
    and "projects (txdb s') = update_where (\<lambda>r. prj_ProjectPIID r = rt) (\<lambda>r. r\<lparr>prj_ProjectPIID := sv\<rparr>) (projects (txdb s))"
    and "compute_allocation_memberships (txdb s') = reassigned mem_UserID (\<lambda>u r. r\<lparr>mem_UserID := u\<rparr>)
      mem_ComputeAllocationID rt sv (compute_allocation_memberships (txdb s))"
    and "project_memberships (txdb s') = reassigned pmb_UserID (\<lambda>u r. r\<lparr>pmb_UserID := u\<rparr>) pmb_ProjectID rt sv
      (project_memberships (txdb s))"
    and "users (txdb s') = update_where (\<lambda>r. usr_ID r = rt) (\<lambda>r. r\<lparr>usr_Status := UserMerged\<rparr>) (users (txdb s))"
    and "user_roles (txdb s') = user_roles (txdb s) \<and> user_privileges (txdb s') = user_privileges (txdb s)"
  using assms unfolding mergeTx_def
  by (auto simp: run_simps store_defs reassigned_def memberships_delete_rows_def)

lemma MergeUsers_run:
  assumes "MergeUsers sv rt e s = (Inr u, s')"
  obtains v x s1 s2 where "u \<in> set (users (db s))" "usr_ID u = sv" "canBeMerged (usr_Status u)"
    "v \<in> set (users (db s))" "usr_ID v = rt" "canBeMerged (usr_Status v)" "sv \<noteq> rt"
    "mergeTx rt sv e s1 = (Inr x, s2)" "txdb s1 = db s" "db s' = txdb s2"
    "bus s' = bus s @ [\<lparr>ev_Type = ''user::update'', ev_Payload = PUser (v\<lparr>usr_Status := UserMerged\<rparr>)\<rparr>,
       \<lparr>ev_Type = ''user::update'', ev_Payload = PUser u\<rparr>]"
proof -
  from assms obtain v s1 s2 where
    f: "find (\<lambda>u. usr_ID u = sv) (users (db s)) = Some u" "find (\<lambda>u. usr_ID u = rt) (users (db s)) = Some v"
    and c: "canBeMerged (usr_Status u)" "canBeMerged (usr_Status v)" "sv \<noteq> rt"
    and t: "mergeTx rt sv e s1 = (Inr (), s2)" "txdb s1 = db s" "db s' = txdb s2" "bus s1 = bus s"
    and b: "bus s' = bus s2 @ [\<lparr>ev_Type = ''user::update'', ev_Payload = PUser (v\<lparr>usr_Status := UserMerged\<rparr>)\<rparr>,
       \<lparr>ev_Type = ''user::update'', ev_Payload = PUser u\<rparr>]"
    unfolding MergeUsers_def by (auto simp: run_simps store_defs split: if_splits option.splits)
  have "bus s2 = bus s" using readonlyD [OF mergeTx_readonly t(1)] t(4) by simp
  then show ?thesis using that [of v s1 "()" s2] find_SomeD [OF f(1)] find_SomeD [OF f(2)] c t b by auto
qed

subsection \<open>Properties\<close>




end
