(* ===== verification/Crud_Contract.thy ===== *)
theory Crud_Contract
  imports Svc_Directory Svc_Project Svc_Allocation Svc_Change
begin

text \<open>
  The contract that the create, get and delete operations of an entity share:
  a successful create inserts the row it returns under a fresh key, get reads
  the row with a key, a successful delete removes it.  The round trips follow
  from the contract once; fourteen entities of the service provide it.

  User identities, cluster accounts and roles are not among them: their
  stored rows differ from what the create operations return (the database sets
  the creation time, a new cluster account is stored as not provisioned).
\<close>

text \<open>What was created is read back, and what was deleted is not found, by any later reader of the
  resulting state whose query is answered.\<close>

definition reads_back :: "('r option \<Rightarrow> 'r M) \<Rightarrow> (id \<Rightarrow> 'r M) \<Rightarrow> ('r \<Rightarrow> id) \<Rightarrow> bool" where
  "reads_back create get key \<longleftrightarrow>
     (\<forall>ro r e s s' e'. create ro e s = (Inr r, s') \<longrightarrow> \<not> fault e' (ticks s') \<longrightarrow>
        fst (get (key r) e' s') = Inr r \<and>
        (\<not> fault e' (ticks s) \<longrightarrow> fst (get (key r) e' s) = Inl ErrNotFound) \<and>
        (\<forall>x. x \<noteq> key r \<longrightarrow> \<not> fault e' (ticks s) \<longrightarrow> fst (get x e' s') = fst (get x e' s)))"

definition deletes :: "(id \<Rightarrow> unit M) \<Rightarrow> (id \<Rightarrow> 'r M) \<Rightarrow> bool" where
  "deletes delete get \<longleftrightarrow>
     (\<forall>x e s s' e'. delete x e s = (Inr (), s') \<longrightarrow> \<not> fault e' (ticks s') \<longrightarrow>
        fst (get x e' s') = Inl ErrNotFound \<and>
        (\<forall>y. y \<noteq> x \<longrightarrow> \<not> fault e' (ticks s) \<longrightarrow> fst (get y e' s') = fst (get y e' s)))"

lemma find_False [simp]: "find (\<lambda>_. False) t = None"
  by (induction t) simp_all

lemma find_both_keys: "y \<noteq> x \<Longrightarrow> find (\<lambda>r. key r = y \<and> key r \<noteq> x) t = find (\<lambda>r. key r = y) t"
  by (induction t) auto

named_theorems crud_intros "operations that insert one row or remove one key"

lemma pkeys:
  "list_all snd (organizations_cons d) \<Longrightarrow> uniq org_ID (organizations d)"
  "list_all snd (users_cons d) \<Longrightarrow> uniq usr_ID (users d)"
  "list_all snd (compute_clusters_cons d) \<Longrightarrow> uniq ccl_ID (compute_clusters d)"
  "list_all snd (projects_cons d) \<Longrightarrow> uniq prj_ID (projects d)"
  "list_all snd (compute_allocations_cons d) \<Longrightarrow> uniq alc_ID (compute_allocations d)"
  "list_all snd (resources_cons d) \<Longrightarrow> uniq res_ID (compute_allocation_resources d)"
  "list_all snd (rates_cons d) \<Longrightarrow> uniq rat_ID (compute_allocation_resource_rates d)"
  "list_all snd (diffs_cons d) \<Longrightarrow> uniq dif_ID (compute_allocation_diffs d)"
  "list_all snd (change_requests_cons d) \<Longrightarrow> uniq chr_ID (compute_allocation_change_requests d)"
  "list_all snd (change_events_cons d) \<Longrightarrow> uniq cre_ID (compute_allocation_change_request_events d)"
  "list_all snd (memberships_cons d) \<Longrightarrow> uniq mem_ID (compute_allocation_memberships d)"
  "list_all snd (overrides_cons d) \<Longrightarrow> uniq ovr_ID (compute_allocation_membership_resource_overrides d)"
  "list_all snd (usages_cons d) \<Longrightarrow> uniq usg_ID (compute_allocation_usages d)"
  "list_all snd (audit_events_cons d) \<Longrightarrow> uniq aud_ID (audit_events d)"
  by (simp_all add: schema_defs)

lemma get_answer:
  "\<not> fault e (ticks s) \<Longrightarrow> fst (orNotFound (wrapM lbl (dbq q)) e s) =
     (case q (db s) of None \<Rightarrow> Inl ErrNotFound | Some r \<Rightarrow> Inr r)"
  by (simp add: orNotFound_def dbq_def wrapM_def bindM_def retM_def throwM_def split: option.split)

subsection \<open>Operations that insert one row, or remove one key\<close>

definition inserts :: "(database \<Rightarrow> 'r table) \<Rightarrow> ('r \<Rightarrow> id) \<Rightarrow> 'r M \<Rightarrow> bool" where
  "inserts rows key m \<longleftrightarrow> (\<forall>e s r s'. m e s = (Inr r, s') \<longrightarrow>
     rows (db s') = insert_row r (rows (db s)) \<and> uniq key (rows (db s')))"

definition removes :: "(database \<Rightarrow> 'r table) \<Rightarrow> ('r \<Rightarrow> id) \<Rightarrow> id \<Rightarrow> unit M \<Rightarrow> bool" where
  "removes rows key x m \<longleftrightarrow> (\<forall>e s s'. m e s = (Inr (), s') \<longrightarrow>
     rows (db s') = delete_where (\<lambda>r. key r = x) (rows (db s)))"

text \<open>The same for the body of the transaction.\<close>

definition tx_inserts :: "(database \<Rightarrow> 'r table) \<Rightarrow> ('r \<Rightarrow> id) \<Rightarrow> 'r \<Rightarrow> unit M \<Rightarrow> bool" where
  "tx_inserts rows key r m \<longleftrightarrow> (\<forall>e s s'. m e s = (Inr (), s') \<longrightarrow>
     rows (txdb s') = insert_row r (rows (txdb s)) \<and> uniq key (rows (txdb s')))"

definition tx_removes :: "(database \<Rightarrow> 'r table) \<Rightarrow> ('r \<Rightarrow> id) \<Rightarrow> id \<Rightarrow> unit M \<Rightarrow> bool" where
  "tx_removes rows key x m \<longleftrightarrow> (\<forall>e s s'. m e s = (Inr (), s') \<longrightarrow>
     rows (txdb s') = delete_where (\<lambda>r. key r = x) (rows (txdb s)))"

lemma inserts_fail [crud_intros]: "inserts rows key (throwM x)" "inserts rows key (invalid m l)" "inserts rows key (already_exists m l)"
  by (auto simp: inserts_def run_simps)

lemma inserts_bind [crud_intros]:
  "readonly m \<Longrightarrow> (\<And>x. inserts rows key (f x)) \<Longrightarrow> inserts rows key (bindM m f)"
  unfolding inserts_def bindM_Inr by (metis readonlyD)

lemma inserts_split [crud_intros]:
  "(b \<Longrightarrow> inserts rows key m) \<Longrightarrow> (\<not> b \<Longrightarrow> inserts rows key m') \<Longrightarrow> inserts rows key (if b then m else m')"
  "inserts rows key m \<Longrightarrow> (\<And>x. inserts rows key (f x)) \<Longrightarrow> inserts rows key (case v of None \<Rightarrow> m | Some x \<Rightarrow> f x)"
  "(\<And>x. inserts rows key (f x)) \<Longrightarrow> inserts rows key (let x = w in f x)"
  by (simp_all split: option.splits)

lemma inserts_commit [crud_intros]:
  "tx_inserts rows key r m \<Longrightarrow> inserts rows key (andPublish (wrapM l (inTx m)) t p r)"
  "tx_inserts rows key r m \<Longrightarrow> inserts rows key (andReturn (wrapM l (inTx m)) r)"
  by (fastforce simp: inserts_def tx_inserts_def run_simps simp del: uniq_insert_row)+

lemma removes_fail [crud_intros]: "removes rows key x (throwM y)" "removes rows key x (invalid m l)"
  by (auto simp: removes_def run_simps)

lemma removes_bind [crud_intros]:
  "readonly m \<Longrightarrow> (\<And>y. removes rows key x (f y)) \<Longrightarrow> removes rows key x (bindM m f)"
  unfolding removes_def bindM_Inr by (metis readonlyD)

lemma removes_split [crud_intros]:
  "(b \<Longrightarrow> removes rows key x m) \<Longrightarrow> (\<not> b \<Longrightarrow> removes rows key x m') \<Longrightarrow> removes rows key x (if b then m else m')"
  "removes rows key x m \<Longrightarrow> (\<And>y. removes rows key x (f y)) \<Longrightarrow> removes rows key x (case v of None \<Rightarrow> m | Some y \<Rightarrow> f y)"
  by (simp_all split: option.splits)

lemma removes_commit [crud_intros]:
  "tx_removes rows key x m \<Longrightarrow> removes rows key x (andPublish (wrapM l (inTx m)) t p ())"
  "tx_removes rows key x m \<Longrightarrow> removes rows key x (andReturn (wrapM l (inTx m)) ())"
  by (auto simp: removes_def tx_removes_def run_simps)

lemma store_inserts [crud_intros]:
  "tx_inserts organizations org_ID r0 (orgs_Create r0)"
  "tx_inserts users usr_ID r1 (users_Create r1)"
  "tx_inserts compute_clusters ccl_ID r2 (clusters_Create r2)"
  "tx_inserts projects prj_ID r3 (projs_Create r3)"
  "tx_inserts compute_allocations alc_ID r4 (allocs_Create r4)"
  "tx_inserts compute_allocation_resources res_ID r5 (resources_Create r5)"
  "tx_inserts compute_allocation_resource_rates rat_ID r6 (resourceRates_Create r6)"
  "tx_inserts compute_allocation_diffs dif_ID r7 (allocDiffs_Create r7)"
  "tx_inserts compute_allocation_change_request_events cre_ID r8 (changeEvents_Create r8)"
  "tx_inserts compute_allocation_memberships mem_ID r9 (memberships_Create r9)"
  "tx_inserts compute_allocation_membership_resource_overrides ovr_ID r10 (membershipOverrides_Create r10)"
  "tx_inserts compute_allocation_usages usg_ID r11 (usages_Create r11)"
  "tx_inserts audit_events aud_ID r12 (auditEvents_Create r12)"
  by (auto simp: tx_inserts_def run_simps store_defs simp del: uniq_insert_row dest: pkeys)

lemma store_removes [crud_intros]:
  "tx_removes organizations org_ID x (orgs_Delete x)"
  "tx_removes users usr_ID x (users_Delete x)"
  "tx_removes compute_clusters ccl_ID x (clusters_Delete x)"
  "tx_removes projects prj_ID x (projs_Delete x)"
  "tx_removes compute_allocations alc_ID x (allocs_Delete x)"
  "tx_removes compute_allocation_resources res_ID x (resources_Delete x)"
  "tx_removes compute_allocation_resource_rates rat_ID x (resourceRates_Delete x)"
  "tx_removes compute_allocation_diffs dif_ID x (allocDiffs_Delete x)"
  "tx_removes compute_allocation_change_request_events cre_ID x (changeEvents_Delete x)"
  "tx_removes compute_allocation_memberships mem_ID x (memberships_Delete x)"
  "tx_removes compute_allocation_membership_resource_overrides ovr_ID x (membershipOverrides_Delete x)"
  "tx_removes compute_allocation_usages usg_ID x (usages_Delete x)"
  "tx_removes audit_events aud_ID x (auditEvents_Delete x)"
  by (auto simp: tx_removes_def run_simps store_defs memberships_delete_rows_def)

subsection \<open>The contract\<close>

locale crud =
  fixes create :: "'r option \<Rightarrow> 'r M"
    and get :: "id \<Rightarrow> 'r M"
    and delete :: "id \<Rightarrow> unit M"
    and key :: "'r \<Rightarrow> id"
    and rows :: "database \<Rightarrow> 'r table"
  assumes create_inserts:
      "inserts rows key (create ro)"
    and get_reads:
      "\<not> fault e (ticks s) \<Longrightarrow> fst (get x e s) =
         (case find (\<lambda>r. key r = x) (rows (db s)) of None \<Rightarrow> Inl ErrNotFound | Some r \<Rightarrow> Inr r)"
    and delete_removes:
      "removes rows key x (delete x)"
begin

lemma create_reads_back: "reads_back create get key"
  unfolding reads_back_def
proof (intro allI impI conjI)
  fix ro r e s s' and e' :: env and x
  assume c: "create ro e s = (Inr r, s')" and f: "\<not> fault e' (ticks s')"
  have i: "rows (db s') = insert_row r (rows (db s))" "uniq key (rows (db s'))"
    using create_inserts c unfolding inserts_def by blast+
  then have n: "key r \<notin> key ` set (rows (db s))" by auto
  then have z: "find (\<lambda>q. key q = key r) (rows (db s)) = None" by (auto simp: find_None_iff image_iff)
  then show "fst (get (key r) e' s') = Inr r"
    using i f by (simp add: get_reads find_insert_row)
  show "fst (get (key r) e' s) = Inl ErrNotFound" if "\<not> fault e' (ticks s)"
    using z that by (simp add: get_reads)
  show "fst (get x e' s') = fst (get x e' s)" if "x \<noteq> key r" "\<not> fault e' (ticks s)"
    using i f that by (simp add: get_reads find_insert_row split: option.split)
qed

lemma delete_deletes: "deletes delete get"
  unfolding deletes_def
proof (intro allI impI conjI)
  fix x e s s' and e' :: env and y
  assume d: "delete x e s = (Inr (), s')" and f: "\<not> fault e' (ticks s')"
  have i: "rows (db s') = delete_where (\<lambda>r. key r = x) (rows (db s))"
    using delete_removes d unfolding removes_def by blast
  show "fst (get x e' s') = Inl ErrNotFound"
    using i f by (simp add: get_reads find_delete_where)
  show "fst (get y e' s') = fst (get y e' s)" if "y \<noteq> x" "\<not> fault e' (ticks s)"
    using i f that by (simp add: get_reads find_delete_where find_both_keys)
qed

end

subsection \<open>The providers\<close>

interpretation org: crud CreateOrganization GetOrganization DeleteOrganization org_ID organizations
  by (unfold_locales; (unfold CreateOrganization_def DeleteOrganization_def)?; (intro crud_intros readonly_intros)?)
    (simp_all add: GetOrganization_def get_answer store_defs)

interpretation usr: crud CreateUser GetUser DeleteUser usr_ID users
  by (unfold_locales; (unfold CreateUser_def DeleteUser_def)?; (intro crud_intros readonly_intros)?)
    (simp_all add: GetUser_def get_answer store_defs)

interpretation clu: crud CreateComputeCluster GetComputeCluster DeleteComputeCluster ccl_ID compute_clusters
  by (unfold_locales; (unfold CreateComputeCluster_def DeleteComputeCluster_def)?; (intro crud_intros readonly_intros)?)
    (simp_all add: GetComputeCluster_def get_answer store_defs)

interpretation prj: crud CreateProject GetProject DeleteProject prj_ID projects
  by (unfold_locales; (unfold CreateProject_def DeleteProject_def)?; (intro crud_intros readonly_intros)?)
    (simp_all add: GetProject_def get_answer store_defs)

interpretation alc: crud CreateComputeAllocation GetComputeAllocation DeleteComputeAllocation alc_ID compute_allocations
  by (unfold_locales; (unfold CreateComputeAllocation_def DeleteComputeAllocation_def)?; (intro crud_intros readonly_intros)?)
    (simp_all add: GetComputeAllocation_def get_answer store_defs)

interpretation rsc: crud CreateComputeAllocationResource GetComputeAllocationResource DeleteComputeAllocationResource res_ID compute_allocation_resources
  by (unfold_locales; (unfold CreateComputeAllocationResource_def DeleteComputeAllocationResource_def)?; (intro crud_intros readonly_intros)?)
    (simp_all add: GetComputeAllocationResource_def get_answer store_defs)

interpretation rte: crud CreateComputeAllocationResourceRate GetComputeAllocationResourceRate DeleteComputeAllocationResourceRate rat_ID compute_allocation_resource_rates
  by (unfold_locales; (unfold CreateComputeAllocationResourceRate_def DeleteComputeAllocationResourceRate_def)?; (intro crud_intros readonly_intros)?)
    (simp_all add: GetComputeAllocationResourceRate_def get_answer store_defs)

interpretation dff: crud CreateComputeAllocationDiff GetComputeAllocationDiff DeleteComputeAllocationDiff dif_ID compute_allocation_diffs
  by (unfold_locales; (unfold CreateComputeAllocationDiff_def DeleteComputeAllocationDiff_def)?; (intro crud_intros readonly_intros)?)
    (simp_all add: GetComputeAllocationDiff_def get_answer store_defs)

interpretation chq: crud CreateComputeAllocationChangeRequest GetComputeAllocationChangeRequest DeleteComputeAllocationChangeRequest chr_ID compute_allocation_change_requests
  by (unfold_locales; (unfold CreateComputeAllocationChangeRequest_def DeleteComputeAllocationChangeRequest_def)?; (intro crud_intros readonly_intros)?)
    (auto simp: GetComputeAllocationChangeRequest_def get_answer store_defs tx_inserts_def tx_removes_def run_simps
      simp del: uniq_insert_row dest: pkeys)

interpretation cev: crud CreateComputeAllocationChangeRequestEvent GetComputeAllocationChangeRequestEvent DeleteComputeAllocationChangeRequestEvent cre_ID compute_allocation_change_request_events
  by (unfold_locales; (unfold CreateComputeAllocationChangeRequestEvent_def DeleteComputeAllocationChangeRequestEvent_def)?; (intro crud_intros readonly_intros)?)
    (simp_all add: GetComputeAllocationChangeRequestEvent_def get_answer store_defs)

interpretation mbr: crud CreateComputeAllocationMembership GetComputeAllocationMembership DeleteComputeAllocationMembership mem_ID compute_allocation_memberships
  by (unfold_locales; (unfold CreateComputeAllocationMembership_def DeleteComputeAllocationMembership_def)?; (intro crud_intros readonly_intros)?)
    (simp_all add: GetComputeAllocationMembership_def get_answer store_defs)

interpretation ovr: crud CreateComputeAllocationMembershipResourceOverride GetComputeAllocationMembershipResourceOverride DeleteComputeAllocationMembershipResourceOverride ovr_ID compute_allocation_membership_resource_overrides
  by (unfold_locales; (unfold CreateComputeAllocationMembershipResourceOverride_def DeleteComputeAllocationMembershipResourceOverride_def)?; (intro crud_intros readonly_intros)?)
    (simp_all add: GetComputeAllocationMembershipResourceOverride_def get_answer store_defs)

interpretation usg: crud CreateComputeAllocationUsage GetComputeAllocationUsage DeleteComputeAllocationUsage usg_ID compute_allocation_usages
  by (unfold_locales; (unfold CreateComputeAllocationUsage_def DeleteComputeAllocationUsage_def)?; (intro crud_intros readonly_intros)?)
    (simp_all add: GetComputeAllocationUsage_def get_answer store_defs)

interpretation adt: crud CreateAuditEvent GetAuditEvent DeleteAuditEvent aud_ID audit_events
  by (unfold_locales; (unfold CreateAuditEvent_def DeleteAuditEvent_def)?; (intro crud_intros readonly_intros)?)
    (simp_all add: GetAuditEvent_def get_answer store_defs)

subsection \<open>Properties\<close>


text \<open>C28: For the same entities, after a successful delete get answers not found for the deleted key, and
  every other key reads as before.\<close>

theorem deleted_entities_are_gone:
  "deletes DeleteOrganization GetOrganization \<and>
   deletes DeleteUser GetUser \<and>
   deletes DeleteComputeCluster GetComputeCluster \<and>
   deletes DeleteProject GetProject \<and>
   deletes DeleteComputeAllocation GetComputeAllocation \<and>
   deletes DeleteComputeAllocationResource GetComputeAllocationResource \<and>
   deletes DeleteComputeAllocationResourceRate GetComputeAllocationResourceRate \<and>
   deletes DeleteComputeAllocationDiff GetComputeAllocationDiff \<and>
   deletes DeleteComputeAllocationChangeRequest GetComputeAllocationChangeRequest \<and>
   deletes DeleteComputeAllocationChangeRequestEvent GetComputeAllocationChangeRequestEvent \<and>
   deletes DeleteComputeAllocationMembership GetComputeAllocationMembership \<and>
   deletes DeleteComputeAllocationMembershipResourceOverride GetComputeAllocationMembershipResourceOverride \<and>
   deletes DeleteComputeAllocationUsage GetComputeAllocationUsage \<and>
   deletes DeleteAuditEvent GetAuditEvent"
  by (intro conjI org.delete_deletes usr.delete_deletes clu.delete_deletes prj.delete_deletes alc.delete_deletes rsc.delete_deletes rte.delete_deletes dff.delete_deletes chq.delete_deletes cev.delete_deletes mbr.delete_deletes ovr.delete_deletes usg.delete_deletes adt.delete_deletes)

end
