(* ===== verification/Change_Safety.thy ===== *)
theory Change_Safety
  imports Svc_Change
begin

text \<open>
  Change requests.  Every change of a request is logged in the same
  transaction, an approval is materialised as a diff, and the log outlives the
  request.  The approval commits twice, so a run can stop between the two.
\<close>

lemma CreateDiff_ok:
  assumes "CreateComputeAllocationDiff (Some f) e s = (Inr g, s')" "dif_ID f = ''''"
  shows "\<exists>x t. g = f\<lparr>dif_ID := x, dif_Timestamp := t\<rparr> \<and>
    db s' = (db s)\<lparr>compute_allocation_diffs := insert_row g (compute_allocation_diffs (db s))\<rparr>"
  using assms unfolding CreateComputeAllocationDiff_def
  by (auto simp: bindM_Inr wrapM_Inr invalid_iff allocs_FindByID_def dbq_Inr idOrNew_Inr nowUTC_iff andPublish_Inr
      inTx_Inr allocDiffs_Create_def txx_Inr Let_def split: option.splits if_splits)

text \<open>The first transaction of an update: the row is replaced and one event appended.\<close>

lemma UpdateChangeRequest_tx:
  assumes "inTx (bindM (changeRequests_Update c1) (\<lambda>_. bindM newID (\<lambda>y. bindM nowUTC (\<lambda>now.
      changeEvents_Create (changeRequestEvent y now c1 old))))) e s = (Inr x, s')"
  shows "\<exists>y now. db s' = (db s)\<lparr>
      compute_allocation_change_requests := update_where (\<lambda>r. chr_ID r = chr_ID c1)
        (\<lambda>r. c1\<lparr>chr_ID := chr_ID r\<rparr>) (compute_allocation_change_requests (db s)),
      compute_allocation_change_request_events :=
        insert_row (changeRequestEvent y now c1 old) (compute_allocation_change_request_events (db s))\<rparr>"
proof -
  have "(\<lambda>r. r\<lparr>chr_ComputeAllocationID := chr_ComputeAllocationID c1,
                chr_RequestedSUAmount := chr_RequestedSUAmount c1,
                chr_RequestedStatus := chr_RequestedStatus c1, chr_Reason := chr_Reason c1,
                chr_ChangeStatus := chr_ChangeStatus c1, chr_RequesterID := chr_RequesterID c1,
                chr_ApproverID := chr_ApproverID c1, chr_Timestamp := chr_Timestamp c1\<rparr>) =
      (\<lambda>r. c1\<lparr>chr_ID := chr_ID r\<rparr>)"
    by (rule ext) simp
  then show ?thesis using assms by (auto simp: run_simps store_defs)
qed

definition approves :: "compute_allocation_change_request \<Rightarrow> compute_allocation_change_request \<Rightarrow> bool" where
  "approves c1 old = (chr_ChangeStatus c1 = ''APPROVED'' \<and> chr_ChangeStatus old \<noteq> ''APPROVED'')"

lemma UpdateChangeRequest_run:
  assumes "UpdateComputeAllocationChangeRequest (Some c0) e s = (Inr c1, s')"
  obtains old s1 where "find (\<lambda>r. chr_ID r = chr_ID c0) (compute_allocation_change_requests (db s)) = Some old"
    "c1 = mergeChangeRequest c0 old"
    "\<exists>y now. db s1 = (db s)\<lparr>
      compute_allocation_change_requests := update_where (\<lambda>r. chr_ID r = chr_ID c1)
        (\<lambda>r. c1\<lparr>chr_ID := chr_ID r\<rparr>) (compute_allocation_change_requests (db s)),
      compute_allocation_change_request_events :=
        insert_row (changeRequestEvent y now c1 old) (compute_allocation_change_request_events (db s))\<rparr>"
    "if approves c1 old then \<exists>g. CreateComputeAllocationDiff (Some (approvalDiff c1)) e s1 = (Inr g, s')
      else s' = s1"
proof -
  let ?tx = "\<lambda>m old. inTx (bindM (changeRequests_Update m) (\<lambda>_. bindM newID (\<lambda>y. bindM nowUTC (\<lambda>now.
      changeEvents_Create (changeRequestEvent y now m old)))))"
  let ?rest = "\<lambda>m old. if approves m old then andReturn (wrapM ''record approved change request diff''
        (CreateComputeAllocationDiff (Some (approvalDiff m)))) m else retM m"
  have n: "chr_ID c0 \<noteq> ''''" using assms by (auto simp: UpdateComputeAllocationChangeRequest_def invalid_iff)
  then obtain old where f: "find (\<lambda>r. chr_ID r = chr_ID c0) (compute_allocation_change_requests (db s)) = Some old"
    "\<not> fault e (ticks s)"
    using assms unfolding UpdateComputeAllocationChangeRequest_def
    by (auto simp: bindM_Inr wrapM_Inr changeRequests_FindByID_def dbq_Inr throwM_iff split: option.splits)
  define m where "m = mergeChangeRequest c0 old"
  have "bindM (wrapM ''update compute allocation change request'' (?tx m old)) (\<lambda>_. ?rest m old) e (tick s) =
      (Inr c1, s')"
    using assms n f unfolding UpdateComputeAllocationChangeRequest_def m_def
    by (simp add: bindM_Inr wrapM_Inr changeRequests_FindByID_def dbq_Inr Let_def approves_def split del: if_split)
  then obtain s1 where t: "?tx m old e (tick s) = (Inr (), s1)" and d: "?rest m old e s1 = (Inr c1, s')"
    by (auto simp: bindM_Inr wrapM_Inr)
  have c: "c1 = m" using d by (simp add: andReturn_Inr wrapM_Inr retM_iff split: if_splits)
  have "if approves c1 old then \<exists>g. CreateComputeAllocationDiff (Some (approvalDiff c1)) e s1 = (Inr g, s')
      else s' = s1"
    using d c by (simp add: andReturn_Inr wrapM_Inr retM_iff split: if_splits)
  then show ?thesis using that [OF f(1), of s1] UpdateChangeRequest_tx [OF t] c m_def by simp

qed

subsection \<open>Properties\<close>

text \<open>C25: A successful update of a change request replaces the stored row, appends exactly one event that
  records the transition, and creates a diff exactly if the request becomes APPROVED now; the diff carries
  the requested amount and status for the allocation of the request.\<close>

theorem change_request_update_logged:
  assumes "UpdateComputeAllocationChangeRequest (Some c0) e s = (Inr c1, s')"
  shows "\<exists>old v ds. old \<in> set (compute_allocation_change_requests (db s)) \<and> chr_ID old = chr_ID c0 \<and>
    c1 = mergeChangeRequest c0 old \<and>
    db s' = (db s)\<lparr>
      compute_allocation_change_requests := update_where (\<lambda>r. chr_ID r = chr_ID c0)
        (\<lambda>r. c1) (compute_allocation_change_requests (db s)),
      compute_allocation_change_request_events := compute_allocation_change_request_events (db s) @ [v],
      compute_allocation_diffs := compute_allocation_diffs (db s) @ ds\<rparr> \<and>
    cre_ComputeAllocationChangeRequestID v = chr_ID c0 \<and>
    cre_EventType v = (if chr_ChangeStatus c1 = chr_ChangeStatus old then ''UPDATED'' else chr_ChangeStatus c1) \<and>
    (if chr_ChangeStatus c1 = ''APPROVED'' \<and> chr_ChangeStatus old \<noteq> ''APPROVED''
     then \<exists>g. ds = [g] \<and> dif_ComputeAllocationID g = chr_ComputeAllocationID c1 \<and>
       dif_NewSUAmount g = chr_RequestedSUAmount c1 \<and> dif_DiffType g = ''CHANGE_REQUEST_APPROVED''
     else ds = [])"
proof (rule UpdateChangeRequest_run [OF assms])
  fix old s1
  assume f: "find (\<lambda>r. chr_ID r = chr_ID c0) (compute_allocation_change_requests (db s)) = Some old"
    and c: "c1 = mergeChangeRequest c0 old"
    and t: "\<exists>y now. db s1 = (db s)\<lparr>
      compute_allocation_change_requests := update_where (\<lambda>r. chr_ID r = chr_ID c1)
        (\<lambda>r. c1\<lparr>chr_ID := chr_ID r\<rparr>) (compute_allocation_change_requests (db s)),
      compute_allocation_change_request_events :=
        insert_row (changeRequestEvent y now c1 old) (compute_allocation_change_request_events (db s))\<rparr>"
    and d: "if approves c1 old then \<exists>g. CreateComputeAllocationDiff (Some (approvalDiff c1)) e s1 = (Inr g, s')
      else s' = s1"
  have i: "chr_ID c1 = chr_ID c0" by (simp add: c mergeChangeRequest_def)
  have u: "update_where (\<lambda>r. chr_ID r = chr_ID c1) (\<lambda>r. c1\<lparr>chr_ID := chr_ID r\<rparr>) t =
      update_where (\<lambda>r. chr_ID r = chr_ID c0) (\<lambda>r. c1) t" for t
    unfolding update_where_def i by (rule map_cong) (simp_all add: i [symmetric])
  from t obtain y now where s1: "db s1 = (db s)\<lparr>
      compute_allocation_change_requests := update_where (\<lambda>r. chr_ID r = chr_ID c0)
        (\<lambda>r. c1) (compute_allocation_change_requests (db s)),
      compute_allocation_change_request_events :=
        compute_allocation_change_request_events (db s) @ [changeRequestEvent y now c1 old]\<rparr>"
    unfolding u by (auto simp: insert_row_def)
  show ?thesis
  proof (cases "approves c1 old")
    case True
    with d obtain g where "CreateComputeAllocationDiff (Some (approvalDiff c1)) e s1 = (Inr g, s')" by auto
    from CreateDiff_ok [OF this] obtain x t where "g = (approvalDiff c1)\<lparr>dif_ID := x, dif_Timestamp := t\<rparr>"
      "db s' = (db s1)\<lparr>compute_allocation_diffs := insert_row g (compute_allocation_diffs (db s1))\<rparr>"
      by (auto simp: approvalDiff_def)
    then show ?thesis
      using True find_SomeD [OF f] c s1 i
      by (intro exI [of _ old] exI [of _ "changeRequestEvent y now c1 old"] exI [of _ "[g]"])
        (simp add: approves_def insert_row_def changeRequestEvent_def approvalDiff_def)
  next
    case False
    then show ?thesis
      using d find_SomeD [OF f] c s1 i
      by (intro exI [of _ old] exI [of _ "changeRequestEvent y now c1 old"] exI [of _ "[]"])
        (auto simp add: approves_def changeRequestEvent_def)
  qed
qed

theorem change_request_update_logged_witness:
  "\<exists>g. compute_allocation_diffs (db (snd (UpdateComputeAllocationChangeRequest
       (Some (sample_change_request\<lparr>chr_ChangeStatus := ''APPROVED''\<rparr>)) quiet_env (fresh_state alloc_db)))) = [g] \<and>
     dif_NewSUAmount g = 1500"
proof -
  let ?c = "sample_change_request\<lparr>chr_ChangeStatus := ''APPROVED''\<rparr>"
  let ?s = "fresh_state alloc_db"
  have "fst (UpdateComputeAllocationChangeRequest (Some ?c) quiet_env ?s) = Inr ?c" by code_simp
  moreover have "compute_allocation_diffs (db ?s) = []"
    "map chr_ChangeStatus (compute_allocation_change_requests (db ?s)) = [''PENDING'']" by code_simp+
  moreover have "chr_RequestedSUAmount ?c = 1500" "chr_ChangeStatus ?c = ''APPROVED''"
    by (simp_all add: sample_change_request_def)
  ultimately show ?thesis
    using change_request_update_logged [OF run_fst, of ?c quiet_env ?s ?c] by (auto simp: map_eq_Cons_conv)
qed

text \<open>Deleting a change request removes exactly its row and keeps every event that was ever logged
  for it, followed by a DELETED event.\<close>

theorem deleted_change_request_keeps_log:
  assumes "DeleteComputeAllocationChangeRequest x e s = (Inr (), s')"
  shows "\<exists>v. db s' = (db s)\<lparr>
      compute_allocation_change_request_events := compute_allocation_change_request_events (db s) @ [v],
      compute_allocation_change_requests :=
        delete_where (\<lambda>r. chr_ID r = x) (compute_allocation_change_requests (db s))\<rparr> \<and>
    cre_ComputeAllocationChangeRequestID v = x \<and> cre_EventType v = ''DELETED''"
  using assms unfolding DeleteComputeAllocationChangeRequest_def
  by (auto simp: run_simps store_defs insert_row_def split: if_splits option.splits)

theorem deleted_change_request_keeps_log_witness:
  "compute_allocation_change_requests (db (snd (DeleteComputeAllocationChangeRequest ''q1'' quiet_env (fresh_state alloc_db)))) =
     delete_where (\<lambda>r. chr_ID r = ''q1'') (compute_allocation_change_requests alloc_db)"
proof -
  have "fst (DeleteComputeAllocationChangeRequest ''q1'' quiet_env (fresh_state alloc_db)) = Inr ()" by code_simp
  from deleted_change_request_keeps_log [OF run_fst [OF this]] show ?thesis by (auto simp: fresh_state_def)
qed


end
