(* ===== verification/Bootstrap_Safety.thy ===== *)
theory Bootstrap_Safety
  imports Authz_Safety
begin

text \<open>
  The bootstrap gives some user every registered privilege.  The loop that
  attaches the registered keys to the role is described by one lemma: it adds
  rows to role_privileges until the role carries every key of its list, and
  touches no other table.
\<close>

definition role_has :: "database \<Rightarrow> id \<Rightarrow> string \<Rightarrow> bool" where
  "role_has d rid key = list_ex (\<lambda>rp. rpv_RoleID rp = rid \<and> rpv_Privilege rp = key) (role_privileges d)"

text \<open>The database d' differs from d in additional role privileges only.\<close>

definition more_privileges :: "database \<Rightarrow> database \<Rightarrow> bool" where
  "more_privileges d d' \<longleftrightarrow> (\<exists>rps. d' = d\<lparr>role_privileges := role_privileges d @ rps\<rparr>)"

lemma more_privileges_refl [simp]: "more_privileges d d"
  unfolding more_privileges_def by (rule exI [of _ "[]"]) simp

lemma more_privileges_trans: "more_privileges d d1 \<Longrightarrow> more_privileges d1 d2 \<Longrightarrow> more_privileges d d2"
  unfolding more_privileges_def by auto

lemma more_privileges_role_has: "more_privileges d d' \<Longrightarrow> role_has d rid k \<Longrightarrow> role_has d' rid k"
  by (auto simp: more_privileges_def role_has_def)

text \<open>One round of the loop over the registered keys.\<close>

definition attachKey :: "id \<Rightarrow> string \<Rightarrow> unit M" where
  "attachKey rid key =
     bindM (mapErrM (Errorf ''check super_admin privilege %s: %w'' [key]) (roles_HasPrivilege rid key)) (\<lambda>has.
     if \<not> has then mapErrM (Errorf ''attach %s to super_admin: %w'' [key]) (roles_AddPrivilege rid key) else retM ())"

lemma attachKey_ok:
  assumes "attachKey rid key e s = (Inr x, s')"
  shows "db s' = db s \<and> more_privileges (txdb s) (txdb s') \<and> role_has (txdb s') rid key"
proof (cases "role_has (txdb s) rid key")
  case True
  then have "select_where (\<lambda>r. rpv_RoleID r = rid \<and> rpv_Privilege r = key) (role_privileges (txdb s)) \<noteq> []"
    by (auto simp: role_has_def list_ex_iff select_where_def filter_empty_conv)
  then show ?thesis using assms True by (auto simp: attachKey_def run_simps store_defs)
next
  case False
  then have "select_where (\<lambda>r. rpv_RoleID r = rid \<and> rpv_Privilege r = key) (role_privileges (txdb s)) = []"
    by (auto simp: role_has_def list_ex_iff select_where_def filter_empty_conv)
  then show ?thesis
    using assms by (auto simp: attachKey_def run_simps store_defs insert_row_def role_has_def more_privileges_def)
qed

lemma attachKeys_ok:
  assumes "eachM keys (attachKey rid) e s = (Inr x, s')"
  shows "db s' = db s \<and> more_privileges (txdb s) (txdb s') \<and> (\<forall>k\<in>set keys. role_has (txdb s') rid k)"
  using assms
proof (induction keys arbitrary: s)
  case Nil
  then show ?case by (simp add: retM_iff)
next
  case (Cons k ks)
  then obtain s1 where a: "attachKey rid k e s = (Inr (), s1)" and r: "eachM ks (attachKey rid) e s1 = (Inr x, s')"
    by (auto simp: bindM_Inr)
  note 1 = attachKey_ok [OF a] and 2 = Cons.IH [OF r]
  have "more_privileges (txdb s) (txdb s')" by (rule more_privileges_trans) (use 1 2 in blast)+
  moreover have "role_has (txdb s') rid k" by (rule more_privileges_role_has) (use 1 2 in blast)+
  ultimately show ?case using 1 2 by simp
qed

lemma ensureSuperAdminRoleTx_ok:
  assumes "ensureSuperAdminRoleTx e s = (Inr r, s')"
  shows "db s' = db s \<and> user_roles (txdb s') = user_roles (txdb s) \<and>
    (\<forall>k\<in>set (KnownPrivileges (registered e)). role_has (txdb s') (rol_ID r) k)"
proof -
  have "\<exists>s1. eachM (KnownPrivileges (registered e)) (attachKey (rol_ID r)) e s1 = (Inr (), s') \<and>
      db s1 = db s \<and> user_roles (txdb s1) = user_roles (txdb s)"
    using assms unfolding ensureSuperAdminRoleTx_def attachKey_def [symmetric]
    by (cases "find (\<lambda>r. rol_Name r = SystemRoleSuperAdmin) (roles (db s))")
      (auto simp: run_simps roles_FindByName_def roles_Create_def Let_def)
  then obtain s1 where s1: "db s1 = db s" "user_roles (txdb s1) = user_roles (txdb s)"
    and l: "eachM (KnownPrivileges (registered e)) (attachKey (rol_ID r)) e s1 = (Inr (), s')" by blast
  have "user_roles (txdb s') = user_roles (txdb s1)"
    using attachKeys_ok [OF l] by (auto simp: more_privileges_def)
  then show ?thesis using attachKeys_ok [OF l] s1 by simp
qed

lemma sort_key_empty: "sort_key f xs = [] \<longleftrightarrow> xs = []"
  by (metis length_sort length_0_conv)

lemma bootstrapGrantTx_ok:
  assumes "bootstrapGrantTx u source e s = (Inr x, s')" "txdb s = db s"
  shows "\<exists>uid. \<forall>k\<in>set (KnownPrivileges (registered e)). holds (txdb s') uid k"
proof -
  from assms(1) obtain r s1 where e: "ensureSuperAdminRoleTx e s = (Inr r, s1)"
    and rest: "bindM (wrapM ''lookup existing assignment'' (userRoles_FindForUpdate (usr_ID u) (rol_ID r))) (\<lambda>existing.
       case existing of Some _ \<Rightarrow> retM ()
       | None \<Rightarrow>
         bindM (wrapM ''count super_admin holders'' (userRoles_ListByRole (rol_ID r))) (\<lambda>holders.
         if length holders > 0 then retM ()
         else bindM nowUTC (\<lambda>now.
           bindM (wrapM ''insert bootstrap assignment'' (userRoles_Create
             \<lparr> url_UserID = usr_ID u, url_RoleID = rol_ID r, url_GrantedBy = None,
               url_GrantedAt = now, url_Reason = stringPtrOrNil ''bootstrap'' \<rparr>)) (\<lambda>_.
           wrapM ''audit bootstrap assignment'' (writeRoleAuditTx ''ROLE_BOOTSTRAPPED'' (usr_ID u)
             [(''role_id'', rol_ID r), (''role_name'', rol_Name r), (''source'', source)]))))) e s1 = (Inr x, s')"
    unfolding bootstrapGrantTx_def by (auto simp: bindM_Inr [of "wrapM _ ensureSuperAdminRoleTx"] wrapM_Inr)
  note ok = ensureSuperAdminRoleTx_ok [OF e]
  have "role_privileges (txdb s') = role_privileges (txdb s1) \<and>
      (\<exists>ur\<in>set (user_roles (txdb s')). url_RoleID ur = rol_ID r)"
    using rest ok assms(2)
    by (auto simp: run_simps store_defs writeRoleAuditTx_def select_where_def filter_empty_conv sort_key_empty
        split: option.splits if_splits dest!: find_SomeD)
  then obtain ur where ur: "role_privileges (txdb s') = role_privileges (txdb s1)"
    "ur \<in> set (user_roles (txdb s'))" "url_RoleID ur = rol_ID r" by auto
  have "holds (txdb s') (url_UserID ur) k" if "k \<in> set (KnownPrivileges (registered e))" for k
    using ok that ur unfolding holds_iff role_has_def list_ex_iff by (metis (no_types, lifting))
  then show ?thesis by blast
qed

subsection \<open>Properties\<close>

text \<open>C26: After a successful bootstrap with a configured e-mail address there is a user who holds every
  registered privilege, the two meta privileges included: a fresh deployment can always be administered.\<close>

theorem BootstrapSuperAdmin_gives_admin:
  assumes "BootstrapSuperAdmin email source e s = (Inr x, s')" "email \<noteq> ''''"
  shows "\<exists>uid. list_all (holds (db s') uid) (KnownPrivileges (registered e))"
proof -
  from assms obtain u s1 s2 where t: "bootstrapGrantTx u source e s1 = (Inr (), s2)" "txdb s1 = db s1" "db s' = txdb s2"
    unfolding BootstrapSuperAdmin_def
    by (auto simp: bindM_Inr inTx_Inr)
  show ?thesis using bootstrapGrantTx_ok [OF t(1,2)] t(3) by (simp add: list_all_iff)
qed

theorem BootstrapSuperAdmin_gives_admin_witness:
  "\<exists>uid. list_all (holds (db (snd (BootstrapSuperAdmin ''root@x.org'' ''config'' quiet_env (fresh_state empty_db)))) uid)
     (KnownPrivileges (registered quiet_env))"
proof -
  have "fst (BootstrapSuperAdmin ''root@x.org'' ''config'' quiet_env (fresh_state empty_db)) = Inr ()" by code_simp
  from BootstrapSuperAdmin_gives_admin [OF run_fst [OF this]] show ?thesis by simp
qed


end
