(* ===== verification/Query_Safety.thy ===== *)
theory Query_Safety
  imports Svc_Directory Svc_Project Svc_Allocation
begin

text \<open>
  Queries against their specifications: paged lists, the effective rate of a
  resource, and the partial update of a user.
\<close>

subsection \<open>Pages\<close>

lemma clampLimit_id: "1 \<le> l \<Longrightarrow> l \<le> 200 \<Longrightarrow> clampLimit l = l"
  by (simp add: clampLimit_def Let_def)

lemma clampOffset_id: "0 \<le> k \<Longrightarrow> clampOffset k = k"
  by (simp add: clampOffset_def)

lemma pages_take:
  "concat (map (\<lambda>k. page_rows (int l) (int k * int l) xs) [0..<n]) = take (n * l) xs"
proof (induction n)
  case (Suc n)
  have "page_rows (int l) (int n * int l) xs = take l (drop (n * l) xs)"
    by (simp add: page_rows_def flip: of_nat_mult)
  then show ?case using Suc take_add [of "n * l" l xs] by (simp add: add.commute)
qed simp

text \<open>The rows of the pages 0 to n - 1 of a list operation, one call after the other.\<close>

definition pages :: "(int \<Rightarrow> int \<Rightarrow> ('r list \<times> nat) M) \<Rightarrow> int \<Rightarrow> nat \<Rightarrow> env \<Rightarrow> state \<Rightarrow> 'r list" where
  "pages op l n e s = concat (map (\<lambda>k. fst (projr (fst (op l (int k * l) e s)))) [0..<n])"

lemma ListUsers_rows:
  assumes "\<And>n. \<not> fault e n"
  shows "fst (ListUsers l k e s) = Inr (page_rows (clampLimit l) (clampOffset k)
    (sort_key (\<lambda>u. citext (usr_Email u)) (users (db s))), length (users (db s)))"
  using assms by (simp add: ListUsers_def users_List_def wrapM_def bindM_def dbq_def retM_def)

text \<open>The smallest number of pages that covers so many rows.\<close>

lemma pages_cover: "0 < l \<Longrightarrow> n \<le> (n + l - 1) div l * l" for n l :: nat
  using dividend_less_div_times [of l "n + l - 1"] by linarith

subsection \<open>Properties\<close>

text \<open>C31: The paged list of users.  Whatever limit and offset a caller passes, a page has at most 200
  rows and comes with the number of all users; with a limit between 1 and 200 the successive pages, put
  together, are exactly the table ordered by e-mail address: no user is missed or repeated.  The addresses
  are unique, so the order leaves the database no choice.\<close>

theorem paged_users_complete:
  assumes "\<And>n. \<not> fault e n" "0 < l" "l \<le> 200"
  shows "length (fst (projr (fst (ListUsers lm off e s)))) \<le> 200 \<and>
    snd (projr (fst (ListUsers lm off e s))) = length (users (db s)) \<and>
    pages ListUsers (int l) ((length (users (db s)) + l - 1) div l) e s =
      sort_key (\<lambda>u. citext (usr_Email u)) (users (db s))"
proof -
  let ?srt = "sort_key (\<lambda>u. citext (usr_Email u)) (users (db s))"
  note rows = ListUsers_rows [OF assms(1)]
  have "int (length (page_rows (clampLimit lm) (clampOffset off) ?srt)) \<le> 200"
    using length_page_rows [of "clampLimit lm" "clampOffset off" ?srt] clampLimit_bounds(2) [of lm] clampLimit_bounds(1) [of lm] by linarith
  moreover have "take ((length (users (db s)) + l - 1) div l * l) ?srt = ?srt"
    using pages_cover [OF assms(2)] by simp
  moreover have "pages ListUsers (int l) n e s = take (n * l) ?srt" for n
    using assms(2,3) unfolding pages_def rows by (simp add: clampLimit_id clampOffset_id pages_take)
  ultimately show ?thesis by (simp add: rows)
qed

theorem paged_users_complete_witness:
  "pages ListUsers 2 ((length (users (db (fresh_state sample_db))) + 2 - 1) div 2) quiet_env (fresh_state sample_db) =
     sort_key (\<lambda>u. citext (usr_Email u)) (users (db (fresh_state sample_db)))"
  using paged_users_complete [of quiet_env 2 0 0 "fresh_state sample_db"] by (simp add: quiet_env_def)

text \<open>C30: The effective rate of a resource at an instant, when the database answers: the answer is a
  stored rate of that resource whose interval, closed on the left and open on the right, contains the
  instant, and no other such rate starts later; not found is answered exactly if there is no such rate.
  An instant of zero stands for the present.\<close>

theorem effective_rate_correct:
  assumes "\<And>n. \<not> fault e n" "rid \<noteq> ''''" "t = (if instant = 0 then clock e (ticks s) else instant)"
  shows "case fst (GetEffectiveRateForResource rid instant e s) of
      Inr r \<Rightarrow> r \<in> set (compute_allocation_resource_rates (db s)) \<and> rat_ComputeAllocationResourceID r = rid \<and>
        rat_StartTime r \<le> t \<and> t < rat_EndTime r \<and>
        list_all (\<lambda>q. rat_ComputeAllocationResourceID q = rid \<and> rat_StartTime q \<le> t \<and> t < rat_EndTime q \<longrightarrow>
          rat_StartTime q \<le> rat_StartTime r) (compute_allocation_resource_rates (db s))
    | Inl x \<Rightarrow> x = ErrNotFound \<and>
        list_all (\<lambda>q. \<not> (rat_ComputeAllocationResourceID q = rid \<and> rat_StartTime q \<le> t \<and> t < rat_EndTime q))
          (compute_allocation_resource_rates (db s))"
proof -
  let ?sel = "select_where (\<lambda>r. rat_ComputeAllocationResourceID r = rid \<and> rat_StartTime r \<le> t \<and> t < rat_EndTime r)
    (compute_allocation_resource_rates (db s))"
  let ?srt = "sort_key (\<lambda>r. - rat_StartTime r) ?sel"
  have run: "fst (GetEffectiveRateForResource rid instant e s) =
      (case ?srt of [] \<Rightarrow> Inl ErrNotFound | r # _ \<Rightarrow> Inr r)"
    using assms
    by (simp add: GetEffectiveRateForResource_def resourceRates_FindEffective_def effective_rate_def orNotFound_def
        orElseTime_def wrapM_def bindM_def dbq_def retM_def throwM_def nowUTC_def split: list.split)
  have "set ?srt = set ?sel" by simp
  moreover have "sorted (map (\<lambda>r. - rat_StartTime r) ?srt)" by simp
  ultimately show ?thesis
  proof (cases ?srt)
    case Nil
    with \<open>set ?srt = set ?sel\<close> show ?thesis unfolding run by (auto simp: list_all_iff)
  next
    case (Cons r rs)
    have "r \<in> set ?sel" "\<forall>q\<in>set ?sel. rat_StartTime q \<le> rat_StartTime r"
      using \<open>set ?srt = set ?sel\<close> \<open>sorted _\<close> unfolding Cons by auto
    then show ?thesis unfolding run Cons by (auto simp: list_all_iff)
  qed
qed

theorem effective_rate_correct_witness:
  "rat_StartTime (projr (fst (GetEffectiveRateForResource ''res1'' 100 quiet_env (fresh_state alloc_db)))) \<le> 100"
proof -
  have "fst (GetEffectiveRateForResource ''res1'' 100 quiet_env (fresh_state alloc_db)) = Inr (sample_rate ''t2'' 2 100 1000)"
    by code_simp
  then show ?thesis
    using effective_rate_correct [of quiet_env "''res1''" 100 100 "fresh_state alloc_db"] by (simp add: quiet_env_def)
qed

end
