(* ===== verification/Posix.thy ===== *)
theory Posix
  imports Models Strconv
begin

text \<open>
  pkg/posix/username.go: login names for cluster accounts.  Go strings are
  byte strings, here in UTF-8.  strings.ToLower works on runes; besides the
  ASCII capitals exactly two runes are lowered into ASCII, U+0130 (bytes C4 B0)
  to i and U+212A, the Kelvin sign (bytes E2 84 AA), to k.  Neither lead byte
  can occur inside another rune, so looking at the bytes decides.

  A slice expression that is out of range panics; the value of BuildBase is
  then None.
\<close>

definition MaxCollisionSuffix :: nat where
  "MaxCollisionSuffix = 999"

definition is_lower_or_digit :: "char \<Rightarrow> bool" where
  "is_lower_or_digit c = (let n = of_char c :: nat in (97 \<le> n \<and> n \<le> 122) \<or> (48 \<le> n \<and> n \<le> 57))"

function Normalize :: "string \<Rightarrow> string" where
  "Normalize [] = []"
| "Normalize (c # s) =
     (if c = CHR 0xE2 \<and> take 2 s = [CHR 0x84, CHR 0xAA] then CHR ''k'' # Normalize (drop 2 s)
      else if c = CHR 0xC4 \<and> take 1 s = [CHR 0xB0] then CHR ''i'' # Normalize (drop 1 s)
      else if is_lower_or_digit (lower_char c) then lower_char c # Normalize s
      else Normalize s)"
  by pat_completeness auto
termination
  by (relation "measure length") auto

definition Prefix :: "string \<Rightarrow> string" where
  "Prefix env = (if env \<noteq> '''' then env else ''custos'')"

datatype base_result = Unbuildable | Base string bool

definition BuildBase :: "string \<Rightarrow> string \<Rightarrow> string \<Rightarrow> base_result option" where
  "BuildBase firstName lastName prefix =
     (let first = Normalize firstName; last = Normalize lastName in
      if first = '''' \<and> last = '''' then Some Unbuildable
      else
        let local = (if first \<noteq> '''' \<and> last \<noteq> '''' then hd first # last
                     else if last \<noteq> '''' then last else first);
            maxLocal = 32 - int (length prefix) - 1 - 3
        in if int (length local) > maxLocal
           then (if maxLocal < 0 then None
                 else Some (Base (prefix @ ''-'' @ take (nat maxLocal) local) True))
           else Some (Base (prefix @ ''-'' @ local) False))"

text \<open>The name that the allocator tries in its n-th round.\<close>

definition candidate :: "string \<Rightarrow> nat \<Rightarrow> string" where
  "candidate base n = (if n > 0 then base @ Itoa (n + 1) else base)"

subsection \<open>Lemmas\<close>

lemma set_Normalize: "c \<in> set (Normalize s) \<Longrightarrow> is_lower_or_digit c"
  by (induction s rule: Normalize.induct)
    (auto simp: is_lower_or_digit_def split: if_splits)

lemma digit_char: "d < 10 \<Longrightarrow> is_lower_or_digit (char_of (48 + d))" for d :: nat
  by (simp add: is_lower_or_digit_def)

lemma set_Itoa: "c \<in> set (Itoa n) \<Longrightarrow> is_lower_or_digit c"
proof (induction n rule: Itoa.induct)
  case (1 n)
  then show ?case by (cases "n < 10") (auto simp: Itoa.simps [of n] digit_char)
qed

lemma candidate_inj: "candidate b m = candidate b n \<Longrightarrow> m = n"
  by (auto simp: candidate_def Itoa_nonempty split: if_splits dest: Itoa_inj)

lemma BuildBase_local:
  assumes "BuildBase f l prefix = Some (Base b tr)"
  obtains n where "b = prefix @ ''-'' @ n" "int (length n) \<le> 28 - int (length prefix)"
    "\<And>c. c \<in> set n \<Longrightarrow> is_lower_or_digit c"
proof -
  define local where "local = (if Normalize f \<noteq> '''' \<and> Normalize l \<noteq> '''' then hd (Normalize f) # Normalize l
    else if Normalize l \<noteq> '''' then Normalize l else Normalize f)"
  have chars: "is_lower_or_digit c" if "c \<in> set local" for c
    using that set_Normalize [of c] set_Normalize [OF hd_in_set, of f] by (auto simp: local_def split: if_splits)
  from assms show ?thesis
    by (intro that [of "take (nat (28 - int (length prefix))) local"])
      (auto simp: BuildBase_def local_def [symmetric] Let_def split: if_splits dest: in_set_takeD intro: chars)
qed

subsection \<open>Properties\<close>

text \<open>C32: Every name the allocator can try, with the base or with a collision suffix up to 999, has at
  most 32 characters, consists of the prefix, a hyphen and lower-case letters and digits, and names of
  different rounds differ, as long as the prefix leaves room for a name.\<close>

theorem posix_candidates:
  assumes "BuildBase f l prefix = Some (Base b tr)" "n < MaxCollisionSuffix"
  shows "length (candidate b n) \<le> 32 \<and> take (Suc (length prefix)) (candidate b n) = prefix @ ''-'' \<and>
    list_all is_lower_or_digit (drop (Suc (length prefix)) (candidate b n)) \<and>
    (candidate b m = candidate b n \<longleftrightarrow> m = n)"
proof (rule BuildBase_local [OF assms(1)])
  fix k
  assume m: "b = prefix @ ''-'' @ k" "int (length k) \<le> 28 - int (length prefix)"
    "\<And>c. c \<in> set k \<Longrightarrow> is_lower_or_digit c"
  have "length (Itoa (n + 1)) \<le> 3"
    using assms(2) by (intro length_Itoa) (simp_all add: MaxCollisionSuffix_def)
  moreover have "candidate b m = candidate b n \<longleftrightarrow> m = n" using candidate_inj by blast
  ultimately show ?thesis using m set_Itoa by (auto simp: candidate_def list_all_iff)
qed

theorem posix_candidates_witness: "length (candidate ''custos-jdoe'' 7) \<le> 32"
proof -
  have "BuildBase ''Jane'' ''Doe'' (Prefix '''') = Some (Base ''custos-jdoe'' False)" by code_simp
  from posix_candidates [OF this, of 7] show ?thesis by (simp add: MaxCollisionSuffix_def)
qed

text \<open>A name can be built exactly if one of the two names has a letter or a digit; a prefix of more
  than 28 characters makes the construction panic instead of truncating.\<close>

lemma BuildBase_outcomes:
  "(BuildBase f l prefix = Some Unbuildable \<longleftrightarrow> Normalize f = '''' \<and> Normalize l = '''') \<and>
   (BuildBase f l prefix = None \<longleftrightarrow> 28 < length prefix \<and> (Normalize f \<noteq> '''' \<or> Normalize l \<noteq> ''''))"
  by (auto simp: BuildBase_def Let_def)

end
