(* ===== verification/Amie_Store.thy ===== *)
theory Amie_Store
  imports Svc_Directory Svc_Project Svc_Allocation Svc_Change Svc_Merge Posix
begin

text \<open>
  The data side of the AMIE connector (connectors/ACCESS/AMIE-Processor): the
  packets of the ACCESS project as JSON values, the connector's five tables with
  their constraints, its stores, its transactions and its audit log.

  The connector runs in the core's process and calls the core service.  Its
  world holds the state of the core, the committed connector tables, the
  working copy of an open connector transaction, the audit rows that
  transaction has inserted into the core's audit_events table, and the replies
  the AMIE server has accepted.  A call of the core service commits on its own,
  whatever becomes of the connector's transaction around it.

  Every statement and every reply is a round trip that the environment may let
  fail, counted by the clock of the core.  A column that holds the text of an
  error holds the error here; the raw_json column holds the JSON value that its
  text denotes, or a text that is no JSON.
\<close>

subsection \<open>JSON\<close>

datatype json =
    AStr string
  | ANum rat
  | ABool bool
  | ANull
  | AArr "json list"
  | AObj "(string \<times> json) list"

type_synonym jobject = "(string \<times> json) list"

datatype raw_json = RawText string | RawJSON json

text \<open>json.Unmarshal into a map[string]any.\<close>

definition json_Unmarshal :: "raw_json \<Rightarrow> err + jobject" where
  "json_Unmarshal r =
     (case r of
        RawJSON (AObj m) \<Rightarrow> Inr m
      | RawJSON ANull \<Rightarrow> Inr []
      | _ \<Rightarrow> Inl (NewError ''json'' []))"

subsection \<open>model\<close>

record packet =
  apk_ID :: id
  apk_AmieID :: int
  apk_Type :: string
  apk_Status :: string
  apk_RawJSON :: raw_json
  apk_ReceivedAt :: time
  apk_DecodedAt :: "time option"
  apk_ProcessedAt :: "time option"
  apk_Retries :: int
  apk_LastError :: "err option"

record processing_event =
  pev_ID :: id
  pev_PacketID :: id
  pev_Type :: string
  pev_Status :: string
  pev_Attempts :: int
  pev_CreatedAt :: time
  pev_StartedAt :: "time option"
  pev_FinishedAt :: "time option"
  pev_LastError :: "err option"
  pev_NextRetryAt :: "time option"

record event_with_packet =
  ewp_Event :: processing_event
  ewp_PacketAmieID :: int
  ewp_PacketType :: string
  ewp_PacketRawJSON :: raw_json

record processing_error =
  per_PacketID :: "id option"
  per_EventID :: "id option"
  per_OccurredAt :: time
  per_Summary :: err

record amie_audit_extras =
  aae_AuditEventID :: id
  aae_PacketID :: id
  aae_EventID :: "id option"

record user_dn =
  udn_ID :: id
  udn_UserID :: id
  udn_DN :: string
  udn_CreatedAt :: time

record reply =
  rep_Type :: string
  rep_Body :: jobject

record amie_db =
  amie_packets :: "packet table"
  amie_processing_events :: "processing_event table"
  amie_processing_errors :: "processing_error table"
  amie_audit_extras_rows :: "amie_audit_extras table"
  amie_user_dns :: "user_dn table"

record world =
  w_core :: state
  w_db :: amie_db
  w_tx :: amie_db
  w_now :: time
  w_audit :: "audit_event list"
  w_sent :: "(int \<times> reply) list"

type_synonym 'a A = "env \<Rightarrow> world \<Rightarrow> (err + 'a) \<times> world"

subsection \<open>The constraints of the tables\<close>

definition amie_packets_cons :: "amie_db \<Rightarrow> (string \<times> bool) list" where
  "amie_packets_cons d =
    [(''amie_packets_pkey'', uniq apk_ID (amie_packets d)),
     (''uq_amie_packets_amie_id'', uniq apk_AmieID (amie_packets d))]"

definition amie_events_cons :: "amie_db \<Rightarrow> (string \<times> bool) list" where
  "amie_events_cons d =
    [(''amie_processing_events_pkey'', uniq pev_ID (amie_processing_events d)),
     (''fk_amie_events_packet'', refs pev_PacketID (amie_processing_events d) apk_ID (amie_packets d)),
     (''uq_amie_events_packet_type'', uniq (\<lambda>v. (pev_PacketID v, pev_Type v)) (amie_processing_events d))]"

definition amie_errors_cons :: "amie_db \<Rightarrow> (string \<times> bool) list" where
  "amie_errors_cons d =
    [(''fk_amie_errors_packet'', refs_opt per_PacketID (amie_processing_errors d) apk_ID (amie_packets d)),
     (''fk_amie_errors_event'', refs_opt per_EventID (amie_processing_errors d) pev_ID (amie_processing_events d))]"

definition amie_extras_cons :: "amie_db \<Rightarrow> (string \<times> bool) list" where
  "amie_extras_cons d =
    [(''amie_audit_extras_pkey'', uniq aae_AuditEventID (amie_audit_extras_rows d)),
     (''fk_amie_audit_extras_packet'', refs aae_PacketID (amie_audit_extras_rows d) apk_ID (amie_packets d)),
     (''fk_amie_audit_extras_procev'',
        refs_opt aae_EventID (amie_audit_extras_rows d) pev_ID (amie_processing_events d))]"

definition amie_dns_cons :: "amie_db \<Rightarrow> (string \<times> bool) list" where
  "amie_dns_cons d =
    [(''amie_user_dns_pkey'', uniq udn_ID (amie_user_dns d)),
     (''uq_amie_user_dns_dn'', uniq udn_DN (amie_user_dns d))]"

definition empty_amie_db :: amie_db where
  "empty_amie_db = \<lparr> amie_packets = [], amie_processing_events = [], amie_processing_errors = [],
     amie_audit_extras_rows = [], amie_user_dns = [] \<rparr>"

subsection \<open>Runs\<close>

definition retA :: "'a \<Rightarrow> 'a A" where
  "retA x e w = (Inr x, w)"

definition throwA :: "err \<Rightarrow> 'a A" where
  "throwA x e w = (Inl x, w)"

definition bindA :: "'a A \<Rightarrow> ('a \<Rightarrow> 'b A) \<Rightarrow> 'b A" where
  "bindA m f e w = (case m e w of (Inl x, w') \<Rightarrow> (Inl x, w') | (Inr x, w') \<Rightarrow> f x e w')"

definition wrapA :: "string \<Rightarrow> 'a A \<Rightarrow> 'a A" where
  "wrapA lbl m e w =
     (case m e w of (Inl x, w') \<Rightarrow> (Inl (Errorf (lbl @ '': %w'') [] x), w') | (Inr x, w') \<Rightarrow> (Inr x, w'))"

text \<open>The error of a call as a value, for callers that look at it.\<close>

definition tryA :: "'a A \<Rightarrow> (err + 'a) A" where
  "tryA m e w = (case m e w of (r, w') \<Rightarrow> (Inr r, w'))"

fun eachA :: "'a list \<Rightarrow> ('a \<Rightarrow> unit A) \<Rightarrow> unit A" where
  "eachA [] f = retA ()"
| "eachA (x # xs) f = bindA (f x) (\<lambda>_. eachA xs f)"

text \<open>A call of the core service.\<close>

definition core :: "'a M \<Rightarrow> 'a A" where
  "core m e w = (case m e (w_core w) of (r, s) \<Rightarrow> (r, w\<lparr>w_core := s\<rparr>))"

definition tickA :: "world \<Rightarrow> world" where
  "tickA w = w\<lparr>w_core := tick (w_core w)\<rparr>"

definition aq :: "(amie_db \<Rightarrow> 'a) \<Rightarrow> 'a A" where
  "aq q e w =
     (if fault e (ticks (w_core w)) then (Inl (SQLError DriverError), tickA w)
      else (Inr (q (w_db w)), tickA w))"

text \<open>A statement of the open transaction is given the time the transaction began, which is what
  CURRENT_TIMESTAMP reads, and its effect is checked against the constraints of its table.\<close>

definition ax :: "(amie_db \<Rightarrow> (string \<times> bool) list) \<Rightarrow> (time \<Rightarrow> amie_db \<Rightarrow> amie_db) \<Rightarrow> unit A" where
  "ax cons upd e w =
     (if fault e (ticks (w_core w)) then (Inl (SQLError DriverError), tickA w)
      else case first_violation (cons (upd (w_now w) (w_tx w))) of
          Some c \<Rightarrow> (Inl (SQLError (ConstraintViolation c)), tickA w)
        | None \<Rightarrow> (Inr (), (tickA w)\<lparr>w_tx := upd (w_now w) (w_tx w)\<rparr>))"

text \<open>db/tx.go.  The audit rows of the transaction become visible with its commit; a key that was
  taken in between fails it.\<close>

definition commit_audit :: "audit_event list \<Rightarrow> database \<Rightarrow> database" where
  "commit_audit rows d = d\<lparr>audit_events := audit_events d @ rows\<rparr>"

definition amie_TxFn :: "'a A \<Rightarrow> 'a A" where
  "amie_TxFn fn e w =
     (if fault e (ticks (w_core w))
      then (Inl (Errorf ''begin transaction: %w'' [] (SQLError DriverError)), tickA w)
      else case fn e ((tickA w)\<lparr>w_tx := w_db w, w_now := clock e (ticks (w_core w)), w_audit := []\<rparr>) of
        (Inl x, w') \<Rightarrow>
          (if fault e (ticks (w_core w'))
           then (Inl (Errorf ''rollback failed: %v (original error: %w)'' [] x), (tickA w')\<lparr>w_audit := []\<rparr>)
           else (Inl x, (tickA w')\<lparr>w_audit := []\<rparr>))
      | (Inr x, w') \<Rightarrow>
          (if fault e (ticks (w_core w')) \<or>
              \<not> list_all snd (audit_events_cons (commit_audit (w_audit w') (db (w_core w'))))
           then (Inl (Errorf ''commit transaction: %w'' [] (SQLError DriverError)), (tickA w')\<lparr>w_audit := []\<rparr>)
           else (Inr x, (tickA w')\<lparr>w_db := w_tx w', w_audit := [],
                  w_core := (w_core (tickA w'))\<lparr>db := commit_audit (w_audit w') (db (w_core w'))\<rparr>\<rparr>)))"

subsection \<open>store/packet_store.go and store/event_store.go\<close>

definition packets_FindByAmieID :: "int \<Rightarrow> packet option A" where
  "packets_FindByAmieID x = aq (\<lambda>d. find (\<lambda>p. apk_AmieID p = x) (amie_packets d))"

definition packets_FindByID :: "id \<Rightarrow> packet option A" where
  "packets_FindByID x = aq (\<lambda>d. find (\<lambda>p. apk_ID p = x) (amie_packets d))"

definition packets_Save :: "packet \<Rightarrow> unit A" where
  "packets_Save p = ax amie_packets_cons (\<lambda>_ d. d\<lparr>amie_packets := insert_row p (amie_packets d)\<rparr>)"

definition packets_Update :: "packet \<Rightarrow> unit A" where
  "packets_Update p = ax (\<lambda>_. []) (\<lambda>_ d. d\<lparr>amie_packets := update_where (\<lambda>r. apk_ID r = apk_ID p)
     (\<lambda>r. r\<lparr>apk_Type := apk_Type p, apk_Status := apk_Status p, apk_RawJSON := apk_RawJSON p,
            apk_DecodedAt := apk_DecodedAt p, apk_ProcessedAt := apk_ProcessedAt p,
            apk_Retries := apk_Retries p, apk_LastError := apk_LastError p\<rparr>) (amie_packets d)\<rparr>)"

definition events_FindByID :: "id \<Rightarrow> processing_event option A" where
  "events_FindByID x = aq (\<lambda>d. find (\<lambda>v. pev_ID v = x) (amie_processing_events d))"

text \<open>The join of due events with their packets, oldest first, at most 50.\<close>

definition join_packet :: "packet table \<Rightarrow> processing_event \<Rightarrow> event_with_packet list" where
  "join_packet ps v =
     (case find (\<lambda>p. apk_ID p = pev_PacketID v) ps of
        None \<Rightarrow> []
      | Some p \<Rightarrow> [\<lparr> ewp_Event = v, ewp_PacketAmieID = apk_AmieID p, ewp_PacketType = apk_Type p,
                     ewp_PacketRawJSON = apk_RawJSON p \<rparr>])"

definition due_events :: "string list \<Rightarrow> time \<Rightarrow> amie_db \<Rightarrow> event_with_packet list" where
  "due_events statuses now d =
     take 50 (concat (map (join_packet (amie_packets d))
       (sort_key pev_CreatedAt (select_where (\<lambda>v. pev_Status v \<in> set statuses \<and>
         (case pev_NextRetryAt v of None \<Rightarrow> True | Some t \<Rightarrow> t \<le> now)) (amie_processing_events d)))))"

definition events_FindTop50EventsToProcess :: "string list \<Rightarrow> time \<Rightarrow> event_with_packet list A" where
  "events_FindTop50EventsToProcess statuses now = aq (due_events statuses now)"

definition events_Save :: "processing_event \<Rightarrow> unit A" where
  "events_Save v = ax amie_events_cons (\<lambda>_ d. d\<lparr>amie_processing_events := insert_row v (amie_processing_events d)\<rparr>)"

definition events_Update :: "processing_event \<Rightarrow> unit A" where
  "events_Update v = ax (\<lambda>_. []) (\<lambda>_ d. d\<lparr>amie_processing_events := update_where (\<lambda>r. pev_ID r = pev_ID v)
     (\<lambda>r. r\<lparr>pev_Status := pev_Status v, pev_Attempts := pev_Attempts v, pev_StartedAt := pev_StartedAt v,
            pev_FinishedAt := pev_FinishedAt v, pev_LastError := pev_LastError v,
            pev_NextRetryAt := pev_NextRetryAt v\<rparr>) (amie_processing_events d)\<rparr>)"

definition errors_Save :: "processing_error \<Rightarrow> unit A" where
  "errors_Save x = ax amie_errors_cons (\<lambda>_ d. d\<lparr>amie_processing_errors := insert_row x (amie_processing_errors d)\<rparr>)"

subsection \<open>store/user_dn_store.go\<close>

text \<open>ON CONFLICT DO NOTHING: a row whose id or DN is taken is not inserted.\<close>

definition dns_Add :: "id \<Rightarrow> string \<Rightarrow> unit A" where
  "dns_Add uid dn = bindA (core newID) (\<lambda>x.
     ax (\<lambda>_. []) (\<lambda>now d. if x \<in> udn_ID ` set (amie_user_dns d) \<or> dn \<in> udn_DN ` set (amie_user_dns d) then d
       else d\<lparr>amie_user_dns := insert_row
              \<lparr> udn_ID = x, udn_UserID = uid, udn_DN = dn, udn_CreatedAt = now \<rparr> (amie_user_dns d)\<rparr>))"

definition dns_ListByUser :: "id \<Rightarrow> user_dn list A" where
  "dns_ListByUser uid =
     aq (\<lambda>d. sort_key udn_CreatedAt (select_where (\<lambda>r. udn_UserID r = uid) (amie_user_dns d)))"

definition dns_DeleteByID :: "id \<Rightarrow> unit A" where
  "dns_DeleteByID x = ax (\<lambda>_. []) (\<lambda>_ d. d\<lparr>amie_user_dns := delete_where (\<lambda>r. udn_ID r = x) (amie_user_dns d)\<rparr>)"

definition dns_ReassignUser :: "id \<Rightarrow> id \<Rightarrow> unit A" where
  "dns_ReassignUser fromID toID =
     bindA (ax (\<lambda>_. []) (\<lambda>_ d. d\<lparr>amie_user_dns := delete_where (\<lambda>r. udn_UserID r = fromID \<and>
         udn_DN r \<in> set (map udn_DN (select_where (\<lambda>q. udn_UserID q = toID) (amie_user_dns d))))
       (amie_user_dns d)\<rparr>)) (\<lambda>_.
     ax amie_dns_cons (\<lambda>_ d. d\<lparr>amie_user_dns :=
       update_where (\<lambda>r. udn_UserID r = fromID) (\<lambda>r. r\<lparr>udn_UserID := toID\<rparr>) (amie_user_dns d)\<rparr>))"

subsection \<open>service/audit_service.go\<close>

text \<open>The insert into the core's audit_events through the connector's transaction.\<close>

definition audit_Create :: "audit_event \<Rightarrow> unit A" where
  "audit_Create r e w =
     (if fault e (ticks (w_core w)) then (Inl (SQLError DriverError), tickA w)
      else case first_violation (audit_events_cons (commit_audit (w_audit w @ [r]) (db (w_core w)))) of
          Some c \<Rightarrow> (Inl (SQLError (ConstraintViolation c)), tickA w)
        | None \<Rightarrow> (Inr (), (tickA w)\<lparr>w_audit := w_audit w @ [r]\<rparr>))"

text \<open>store/audit_store.go: the row refers to an audit event of the core.\<close>

definition extras_Save :: "amie_audit_extras \<Rightarrow> unit A" where
  "extras_Save x e w =
     ax (\<lambda>d. amie_extras_cons d @ [(''fk_amie_audit_extras_event'',
           refs aae_AuditEventID [x] aud_ID (audit_events (commit_audit (w_audit w) (db (w_core w)))))])
        (\<lambda>_ d. d\<lparr>amie_audit_extras_rows := insert_row x (amie_audit_extras_rows d)\<rparr>) e w"

definition Log :: "id \<Rightarrow> id \<Rightarrow> string \<Rightarrow> string \<Rightarrow> id \<Rightarrow> string \<Rightarrow> unit A" where
  "Log packetID eventID action entityType entityID summary =
     (if packetID = '''' then throwA (NewError ''audit_service: packet_id is required'' [])
      else bindA (core newID) (\<lambda>x. bindA (core nowUTC) (\<lambda>now. bindA (core (askM (\<lambda>e. e))) (\<lambda>env.
        bindA (wrapA ''audit_service: saving audit_events row'' (audit_Create (PopulateAuditIDs env
          \<lparr> aud_ID = x, aud_EventType = action, aud_EventTime = now, aud_EntityID = entityID,
            aud_EntityType = entityType, aud_Details = summary, aud_Source = ''amie'', aud_TraceID = '''',
            aud_SpanID = '''', aud_ParentSpanID = '''' \<rparr>))) (\<lambda>_.
        wrapA ''audit_service: saving amie_audit_extras'' (extras_Save
          \<lparr> aae_AuditEventID = x, aae_PacketID = packetID,
            aae_EventID = (if eventID = '''' then None else Some eventID) \<rparr>))))))"

text \<open>AmieClient.ReplyToPacket: the server accepts the reply or the call fails.\<close>

definition ReplyToPacket :: "int \<Rightarrow> reply \<Rightarrow> unit A" where
  "ReplyToPacket amieID r e w =
     (if fault e (ticks (w_core w)) then (Inl (NewError ''amie: reply failed'' []), tickA w)
      else (Inr (), (tickA w)\<lparr>w_sent := w_sent w @ [(amieID, r)]\<rparr>))"

subsection \<open>Runs, step by step\<close>

named_theorems arun_simps "what one primitive step of the connector does"

lemma retA_iff [arun_simps]: "retA x e w = (r, w') \<longleftrightarrow> r = Inr x \<and> w' = w"
  by (auto simp: retA_def)

lemma throwA_iff [arun_simps]: "throwA x e w = (r, w') \<longleftrightarrow> r = Inl x \<and> w' = w"
  by (auto simp: throwA_def)

lemma bindA_Inr [arun_simps]:
  "bindA m f e w = (Inr y, w') \<longleftrightarrow> (\<exists>x w1. m e w = (Inr x, w1) \<and> f x e w1 = (Inr y, w'))"
  by (auto simp: bindA_def split: prod.splits sum.splits)

lemma bindA_Inl:
  "bindA m f e w = (Inl z, w') \<longleftrightarrow>
     m e w = (Inl z, w') \<or> (\<exists>x w1. m e w = (Inr x, w1) \<and> f x e w1 = (Inl z, w'))"
  by (auto simp: bindA_def split: prod.splits sum.splits)

lemma bindA_any:
  "bindA m f e w = (r, w') \<longleftrightarrow>
     (\<exists>z. r = Inl z \<and> m e w = (Inl z, w')) \<or> (\<exists>x w1. m e w = (Inr x, w1) \<and> f x e w1 = (r, w'))"
  by (auto simp: bindA_def split: prod.splits sum.splits)

lemma wrapA_Inr [arun_simps]: "wrapA l m e w = (Inr x, w') \<longleftrightarrow> m e w = (Inr x, w')"
  by (auto simp: wrapA_def split: prod.splits sum.splits)

lemma wrapA_any:
  "wrapA l m e w = (r, w') \<longleftrightarrow>
     (\<exists>x. r = Inr x \<and> m e w = (Inr x, w')) \<or> (\<exists>x. r = Inl (Errorf (l @ '': %w'') [] x) \<and> m e w = (Inl x, w'))"
  by (auto simp: wrapA_def split: prod.splits sum.splits)

lemma tryA_iff [arun_simps]: "tryA m e w = (r, w') \<longleftrightarrow> (\<exists>x. r = Inr x \<and> m e w = (x, w'))"
  by (auto simp: tryA_def split: prod.splits)

lemma core_iff: "core m e w = (r, w') \<longleftrightarrow> (\<exists>s. m e (w_core w) = (r, s) \<and> w' = w\<lparr>w_core := s\<rparr>)"
  by (auto simp: core_def split: prod.splits)

lemma core_nowUTC [arun_simps]: "core nowUTC e w = (r, w') \<longleftrightarrow> r = Inr (clock e (ticks (w_core w))) \<and> w' = w"
  by (auto simp: core_def nowUTC_def)

lemma core_newID [arun_simps]:
  "core newID e w = (r, w') \<longleftrightarrow> r = Inr (uuid e (uuids (w_core w))) \<and>
     w' = w\<lparr>w_core := (w_core w)\<lparr>uuids := Suc (uuids (w_core w))\<rparr>\<rparr>"
  by (auto simp: core_def newID_def)

lemma core_askM [arun_simps]: "core (askM f) e w = (r, w') \<longleftrightarrow> r = Inr (f e) \<and> w' = w"
  by (auto simp: core_def askM_def)

lemma aq_Inr [arun_simps]:
  "aq q e w = (Inr x, w') \<longleftrightarrow> \<not> fault e (ticks (w_core w)) \<and> x = q (w_db w) \<and> w' = tickA w"
  by (auto simp: aq_def)

lemma ax_Inr [arun_simps]:
  "ax cons upd e w = (Inr x, w') \<longleftrightarrow> \<not> fault e (ticks (w_core w)) \<and>
     list_all snd (cons (upd (w_now w) (w_tx w))) \<and> w' = (tickA w)\<lparr>w_tx := upd (w_now w) (w_tx w)\<rparr>"
  by (auto simp: ax_def simp flip: first_violation_None split: option.splits)

lemma ax_Inl: "ax cons upd e w = (Inl z, w') \<Longrightarrow> w' = tickA w"
  by (auto simp: ax_def split: option.splits if_splits)

lemma tickA_simps [simp]:
  "w_db (tickA w) = w_db w" "w_tx (tickA w) = w_tx w" "w_now (tickA w) = w_now w"
  "w_audit (tickA w) = w_audit w" "w_sent (tickA w) = w_sent w" "w_core (tickA w) = tick (w_core w)"
  by (simp_all add: tickA_def)

subsection \<open>Relations that every run stays in\<close>

named_theorems along_intros "runs that stay in a relation between worlds"

definition along :: "(world \<Rightarrow> world \<Rightarrow> bool) \<Rightarrow> 'a A \<Rightarrow> bool" where
  "along R m = (\<forall>e w r w'. m e w = (r, w') \<longrightarrow> R w w')"

lemma alongD: "along R m \<Longrightarrow> m e w = (r, w') \<Longrightarrow> R w w'"
  by (auto simp: along_def)

text \<open>A reflexive and transitive relation that holds along the steps of a run holds along the run.\<close>

locale world_preorder =
  fixes R :: "world \<Rightarrow> world \<Rightarrow> bool"
  assumes preorder_refl: "R w w"
    and preorder_trans: "R w w1 \<Longrightarrow> R w1 w2 \<Longrightarrow> R w w2"
begin

lemma along_ret [along_intros]: "along R (retA x)" "along R (throwA z)"
  by (auto simp: along_def retA_def throwA_def preorder_refl)

lemma along_bindA [along_intros]: "along R m \<Longrightarrow> (\<And>x. along R (f x)) \<Longrightarrow> along R (bindA m f)"
  unfolding along_def bindA_any by (blast intro: preorder_trans)

lemma along_wrapA [along_intros]: "along R m \<Longrightarrow> along R (wrapA l m)"
  unfolding along_def wrapA_any by blast

lemma along_tryA [along_intros]: "along R m \<Longrightarrow> along R (tryA m)"
  unfolding along_def tryA_iff by blast

lemma along_eachA [along_intros]: "(\<And>x. along R (f x)) \<Longrightarrow> along R (eachA xs f)"
  by (induction xs) (auto intro: along_ret along_bindA)

end

lemma along_if [along_intros]: "(b \<Longrightarrow> along R m) \<Longrightarrow> (\<not> b \<Longrightarrow> along R m') \<Longrightarrow> along R (if b then m else m')"
  by simp

lemma along_let [along_intros]: "(\<And>x. x = t \<Longrightarrow> along R (f x)) \<Longrightarrow> along R (let x = t in f x)"
  by simp

lemma along_case_option [along_intros]:
  "(y = None \<Longrightarrow> along R m) \<Longrightarrow> (\<And>x. along R (f x)) \<Longrightarrow> along R (case y of None \<Rightarrow> m | Some x \<Rightarrow> f x)"
  by (cases y) auto

lemma along_case_sum [along_intros]:
  "(\<And>x. along R (f x)) \<Longrightarrow> (\<And>x. along R (g x)) \<Longrightarrow> along R (case y of Inl x \<Rightarrow> f x | Inr x \<Rightarrow> g x)"
  by (cases y) auto

lemma along_case_prod [along_intros]:
  "(\<And>x y. along R (f x y)) \<Longrightarrow> along R (case z of (x, y) \<Rightarrow> f x y)"
  by (cases z) auto

subsection \<open>Only a commit changes the tables\<close>

definition same_db :: "world \<Rightarrow> world \<Rightarrow> bool" where
  "same_db w w' = (w_db w' = w_db w)"

interpretation committed: world_preorder same_db
  by unfold_locales (auto simp: same_db_def)

lemma same_db_prim [along_intros]: "along same_db (core m)" "along same_db (aq q)" "along same_db (ax cons upd)"
  "along same_db (ReplyToPacket n rep)" "along same_db (audit_Create row)"
  by (auto simp: along_def core_iff aq_def ax_def ReplyToPacket_def audit_Create_def same_db_def
      split: if_splits option.splits)

lemma same_db_extras_Save [along_intros]: "along same_db (extras_Save x)"
  using same_db_prim(3) unfolding along_def extras_Save_def by blast

lemma same_db_store [along_intros]:
  "along same_db (packets_FindByAmieID n)" "along same_db (packets_FindByID x)" "along same_db (packets_Save p)"
  "along same_db (packets_Update p)" "along same_db (events_FindByID x)" "along same_db (events_Save v)"
  "along same_db (events_Update v)" "along same_db (errors_Save er)" "along same_db (dns_Add uid dn)"
  "along same_db (dns_ListByUser uid)" "along same_db (dns_DeleteByID x)" "along same_db (dns_ReassignUser uid vid)"
  "along same_db (Log x y a t z s)"
  unfolding packets_FindByAmieID_def packets_FindByID_def packets_Save_def packets_Update_def
    events_FindByID_def events_Save_def events_Update_def errors_Save_def dns_Add_def dns_ListByUser_def
    dns_DeleteByID_def dns_ReassignUser_def Log_def
  by (intro along_intros)+

subsection \<open>Steps that leave packets, events and errors alone\<close>

definition side_ok :: "amie_db \<Rightarrow> bool" where
  "side_ok d = list_all snd (amie_extras_cons d @ amie_dns_cons d)"

definition framed :: "world \<Rightarrow> world \<Rightarrow> bool" where
  "framed w w' = (w_db w' = w_db w \<and> amie_packets (w_tx w') = amie_packets (w_tx w) \<and>
     amie_processing_events (w_tx w') = amie_processing_events (w_tx w) \<and>
     amie_processing_errors (w_tx w') = amie_processing_errors (w_tx w) \<and>
     (side_ok (w_tx w) \<longrightarrow> side_ok (w_tx w')))"

interpretation frame: world_preorder framed
  by unfold_locales (auto simp: framed_def)

lemma framed_prim [along_intros]: "along framed (core m)" "along framed (aq q)"
  "along framed (ReplyToPacket n rep)" "along framed (audit_Create row)"
  by (auto simp: along_def core_iff aq_def ReplyToPacket_def audit_Create_def framed_def
      split: if_splits option.splits)

lemma framed_ax:
  assumes "\<And>t d. amie_packets (upd t d) = amie_packets d"
    "\<And>t d. amie_processing_events (upd t d) = amie_processing_events d"
    "\<And>t d. amie_processing_errors (upd t d) = amie_processing_errors d"
    "\<And>t d. side_ok d \<Longrightarrow> list_all snd (cons (upd t d)) \<Longrightarrow> side_ok (upd t d)"
  shows "along framed (ax cons upd)"
  unfolding along_def
proof (intro allI impI)
  fix e w r w' assume "ax cons upd e w = (r, w')"
  then show "framed w w'"
    by (cases r) (auto dest: ax_Inl simp: arun_simps framed_def assms)
qed

lemmas side_defs = side_ok_def amie_dns_cons_def amie_extras_cons_def

lemma framed_dns [along_intros]:
  "along framed (dns_Add uid dn)" "along framed (dns_ListByUser uid)" "along framed (dns_DeleteByID x)"
  "along framed (dns_ReassignUser uid vid)"
  unfolding dns_Add_def dns_ListByUser_def dns_DeleteByID_def dns_ReassignUser_def
  by (intro along_intros framed_ax; auto simp: side_defs)+

lemma framed_extras_Save [along_intros]: "along framed (extras_Save x)"
proof -
  have "along framed (ax (\<lambda>d. amie_extras_cons d @ c)
      (\<lambda>_ d. d\<lparr>amie_audit_extras_rows := insert_row x (amie_audit_extras_rows d)\<rparr>))" for c
    by (rule framed_ax) (auto simp: side_ok_def amie_dns_cons_def)
  then show ?thesis unfolding along_def extras_Save_def by blast
qed

lemma framed_Log [along_intros]: "along framed (Log pid vid a t x s)"
  unfolding Log_def by (intro along_intros)

end
