(* ===== verification/Amie_Worker.thy ===== *)
theory Amie_Worker
  imports Amie_Store "HOL-Library.Word"
begin

text \<open>
  The AMIE connector's two workers (connectors/ACCESS/AMIE-Processor/worker):
  the poller, which turns fetched packets into one packet row and one
  processing event each, and the processor, which runs due events, each in one
  transaction, and records a failure in a transaction of its own with a retry
  after a growing delay, three attempts at most.

  The processor takes the router as a parameter, as it does in Go
  (processorRouter).  A nil packet makes the Go code panic; this is an error
  here, which the invariant of the tables excludes.
\<close>

subsection \<open>Statuses\<close>

definition ProcessingStatusNew :: string where "ProcessingStatusNew = ''NEW''"
definition ProcessingStatusRunning :: string where "ProcessingStatusRunning = ''RUNNING''"
definition ProcessingStatusSucceeded :: string where "ProcessingStatusSucceeded = ''SUCCEEDED''"
definition ProcessingStatusRetryScheduled :: string where "ProcessingStatusRetryScheduled = ''RETRY_SCHEDULED''"
definition ProcessingStatusPermanentlyFailed :: string where
  "ProcessingStatusPermanentlyFailed = ''PERMANENTLY_FAILED''"

definition PacketStatusNew :: string where "PacketStatusNew = ''NEW''"
definition PacketStatusDecoded :: string where "PacketStatusDecoded = ''DECODED''"
definition PacketStatusFailed :: string where "PacketStatusFailed = ''FAILED''"

definition EventTypeDecodePacket :: string where "EventTypeDecodePacket = ''DECODE_PACKET''"

lemmas status_defs = ProcessingStatusNew_def ProcessingStatusRunning_def ProcessingStatusSucceeded_def
  ProcessingStatusRetryScheduled_def ProcessingStatusPermanentlyFailed_def
  PacketStatusNew_def PacketStatusDecoded_def PacketStatusFailed_def

subsection \<open>worker/poller.go\<close>

text \<open>The conversion int64(n) of a float64: towards zero; on amd64 a value out of range gives the
  least int64.\<close>

definition int64_of_float :: "rat \<Rightarrow> int" where
  "int64_of_float q =
     (let n = (if q < 0 then - \<lfloor>- q\<rfloor> else \<lfloor>q\<rfloor>) in
      if - (2 ^ 63) \<le> n \<and> n < 2 ^ 63 then n else - (2 ^ 63))"

definition packet_rec_id :: "jobject \<Rightarrow> int" where
  "packet_rec_id node =
     (case map_of node ''header'' of
        Some (AObj header) \<Rightarrow>
          (case map_of header ''packet_rec_id'' of Some (ANum q) \<Rightarrow> int64_of_float q | _ \<Rightarrow> - 1)
      | _ \<Rightarrow> - 1)"

definition packet_type :: "jobject \<Rightarrow> string" where
  "packet_type node = (case map_of node ''type'' of Some (AStr t) \<Rightarrow> t | _ \<Rightarrow> '''')"

definition new_packet :: "id \<Rightarrow> time \<Rightarrow> jobject \<Rightarrow> packet" where
  "new_packet x now node = \<lparr> apk_ID = x, apk_AmieID = packet_rec_id node, apk_Type = packet_type node,
     apk_Status = PacketStatusNew, apk_RawJSON = RawJSON (AObj node), apk_ReceivedAt = now,
     apk_DecodedAt = None, apk_ProcessedAt = None, apk_Retries = 0, apk_LastError = None \<rparr>"

definition new_event :: "id \<Rightarrow> time \<Rightarrow> id \<Rightarrow> processing_event" where
  "new_event x now pid = \<lparr> pev_ID = x, pev_PacketID = pid, pev_Type = EventTypeDecodePacket,
     pev_Status = ProcessingStatusNew, pev_Attempts = 0, pev_CreatedAt = now, pev_StartedAt = None,
     pev_FinishedAt = None, pev_LastError = None, pev_NextRetryAt = None \<rparr>"

definition persist_packet :: "jobject \<Rightarrow> unit A" where
  "persist_packet node = bindA (core nowUTC) (\<lambda>now. bindA (core newID) (\<lambda>pid.
     bindA (wrapA ''save packet'' (packets_Save (new_packet pid now node))) (\<lambda>_.
     bindA (core newID) (\<lambda>eid.
     wrapA ''save processing event'' (events_Save (new_event eid now pid))))))"

definition processIndividualPacket :: "jobject \<Rightarrow> unit A" where
  "processIndividualPacket node =
     (if packet_rec_id node < 0 \<or> packet_type node = '''' then retA ()
      else bindA (tryA (packets_FindByAmieID (packet_rec_id node))) (\<lambda>r.
        case r of
          Inl x \<Rightarrow> retA ()
        | Inr (Some p) \<Rightarrow> retA ()
        | Inr None \<Rightarrow> bindA (tryA (amie_TxFn (persist_packet node))) (\<lambda>_. retA ())))"

text \<open>The answer of the AMIE server is a parameter: an error or the packets in progress.\<close>

definition pollForPackets :: "err + jobject list \<Rightarrow> unit A" where
  "pollForPackets fetched =
     (case fetched of Inl x \<Rightarrow> retA () | Inr nodes \<Rightarrow> eachA nodes processIndividualPacket)"

subsection \<open>worker/processor.go\<close>

definition MaxAttempts :: int where "MaxAttempts = 3"
definition BaseBackoffSeconds :: "64 word" where "BaseBackoffSeconds = 30"
definition MaxBackoffSeconds :: "64 word" where "MaxBackoffSeconds = 600"

text \<open>The delay in seconds, in 64-bit arithmetic; a shift by 64 or more gives 0.\<close>

definition backoffSeconds :: "64 word \<Rightarrow> 64 word" where
  "backoffSeconds attempt =
     (let exp = attempt - 1;
          exp = (if sint exp < 0 then 0 else exp);
          delaySec = BaseBackoffSeconds * push_bit (unat exp) 1
      in if sint delaySec > sint MaxBackoffSeconds then MaxBackoffSeconds else delaySec)"

text \<open>The product of the delay with time.Second is a number of nanoseconds in 64 bits.\<close>

definition ComputeNextRetryAt :: "int \<Rightarrow> time A" where
  "ComputeNextRetryAt attempt = bindA (core nowUTC) (\<lambda>now.
     retA (now + sint (backoffSeconds (word_of_int attempt) * 1000000000) div 1000))"

definition nil_packet :: "packet option \<Rightarrow> packet A" where
  "nil_packet p = (case p of None \<Rightarrow> throwA (NewError ''panic: nil packet'' []) | Some x \<Rightarrow> retA x)"

type_synonym packet_route = "jobject \<Rightarrow> packet \<Rightarrow> id \<Rightarrow> unit A"

definition run_event :: "packet_route \<Rightarrow> event_with_packet \<Rightarrow> unit A" where
  "run_event route ewp = (let v = ewp_Event ewp in
     bindA (wrapA ''audit PACKET_RECEIVED''
       (Log (pev_PacketID v) (pev_ID v) ''PACKET_RECEIVED'' ''packet'' (pev_PacketID v) (pev_Type v))) (\<lambda>_.
     bindA (core nowUTC) (\<lambda>now.
     let v = v\<lparr>pev_Status := ProcessingStatusRunning, pev_StartedAt := Some now,
               pev_Attempts := pev_Attempts v + 1\<rparr> in
     bindA (wrapA ''update event to RUNNING'' (events_Update v)) (\<lambda>_.
     bindA (case json_Unmarshal (ewp_PacketRawJSON ewp) of
              Inl x \<Rightarrow> throwA (Errorf ''unmarshal packet raw JSON: %w'' [] x)
            | Inr j \<Rightarrow> retA j) (\<lambda>packetJSON.
     bindA (wrapA ''load packet'' (packets_FindByID (pev_PacketID v))) (\<lambda>found.
     bindA (nil_packet found) (\<lambda>packet.
     bindA (wrapA ''route packet'' (route packetJSON packet (pev_ID v))) (\<lambda>_.
     bindA (core nowUTC) (\<lambda>finishedAt.
     bindA (wrapA ''update event to SUCCEEDED'' (events_Update
       (v\<lparr>pev_Status := ProcessingStatusSucceeded, pev_FinishedAt := Some finishedAt,
          pev_NextRetryAt := None\<rparr>))) (\<lambda>_.
     bindA (core nowUTC) (\<lambda>decodedAt.
     wrapA ''update packet to DECODED'' (packets_Update
       (packet\<lparr>apk_Status := PacketStatusDecoded, apk_DecodedAt := Some decodedAt\<rparr>)))))))))))))"

definition executeInTransaction :: "packet_route \<Rightarrow> event_with_packet \<Rightarrow> unit A" where
  "executeInTransaction route ewp = amie_TxFn (run_event route ewp)"

definition failed_event :: "processing_event \<Rightarrow> err \<Rightarrow> time \<Rightarrow> time option \<Rightarrow> processing_event" where
  "failed_event v cause now retry = v\<lparr>pev_Attempts := pev_Attempts v + 1, pev_LastError := Some cause,
     pev_FinishedAt := Some now, pev_NextRetryAt := retry,
     pev_Status := (case retry of None \<Rightarrow> ProcessingStatusPermanentlyFailed
                                | Some _ \<Rightarrow> ProcessingStatusRetryScheduled)\<rparr>"

definition failed_packet :: "packet \<Rightarrow> err \<Rightarrow> int \<Rightarrow> packet" where
  "failed_packet p cause attempts =
     (let p = p\<lparr>apk_Retries := attempts, apk_LastError := Some cause\<rparr> in
      if attempts < MaxAttempts then p else p\<lparr>apk_Status := PacketStatusFailed\<rparr>)"

definition record_failure :: "id \<Rightarrow> err \<Rightarrow> unit A" where
  "record_failure eventID cause =
     bindA (wrapA ''find event for failure recording'' (events_FindByID eventID)) (\<lambda>found.
     case found of
       None \<Rightarrow> retA ()
     | Some event \<Rightarrow>
         bindA (wrapA ''find packet for failure recording'' (packets_FindByID (pev_PacketID event))) (\<lambda>pkt.
         bindA (core nowUTC) (\<lambda>now.
         let effectiveAttempts = pev_Attempts event + 1; isRetryable = effectiveAttempts < MaxAttempts in
         bindA (if isRetryable
                then bindA (ComputeNextRetryAt effectiveAttempts) (\<lambda>t. retA (Some t)) else retA None) (\<lambda>retry.
         bindA (nil_packet pkt) (\<lambda>packet.
         bindA (wrapA (if isRetryable then ''update packet retries'' else ''update packet status'')
           (packets_Update (failed_packet packet cause effectiveAttempts))) (\<lambda>_.
         bindA (wrapA ''update event'' (events_Update (failed_event event cause now retry))) (\<lambda>_.
         errors_Save \<lparr> per_PacketID = Some (pev_PacketID event), per_EventID = Some (pev_ID event),
                       per_OccurredAt = now, per_Summary = cause \<rparr>)))))))"

definition recordFailureInNewTransaction :: "id \<Rightarrow> err \<Rightarrow> unit A" where
  "recordFailureInNewTransaction eventID cause = amie_TxFn (record_failure eventID cause)"

definition process_event :: "packet_route \<Rightarrow> event_with_packet \<Rightarrow> unit A" where
  "process_event route ewp = bindA (tryA (executeInTransaction route ewp)) (\<lambda>r.
     case r of
       Inl x \<Rightarrow> bindA (tryA (recordFailureInNewTransaction (pev_ID (ewp_Event ewp)) x)) (\<lambda>_. retA ())
     | Inr _ \<Rightarrow> retA ())"

definition processPendingEvents :: "packet_route \<Rightarrow> unit A" where
  "processPendingEvents route = bindA (core nowUTC) (\<lambda>now.
     bindA (tryA (events_FindTop50EventsToProcess
       [ProcessingStatusNew, ProcessingStatusRetryScheduled] now)) (\<lambda>r.
     case r of Inl x \<Rightarrow> retA () | Inr events \<Rightarrow> eachA events (process_event route)))"

end
