(* ===== verification/Amie_Lifecycle.thy ===== *)
theory Amie_Lifecycle
  imports Amie_Worker
begin

text \<open>
  The life of a packet and its processing event in the connector's tables: the
  invariant that ties the two rows together, kept by the poller and by the
  processor under any failures, for every router that leaves the packet and
  event rows alone (the locale packet_router).  The statuses of an event refine
  a small abstract machine: waiting with n failed attempts, completed, or given
  up.
\<close>

subsection \<open>The invariant\<close>

definition lifecycle :: "packet \<Rightarrow> processing_event \<Rightarrow> bool" where
  "lifecycle p v \<longleftrightarrow>
     pev_PacketID v = apk_ID p \<and> pev_Type v = EventTypeDecodePacket \<and> apk_LastError p = pev_LastError v \<and>
     (pev_Status v = ProcessingStatusNew \<and> apk_Status p = PacketStatusNew \<and>
        pev_Attempts v = 0 \<and> apk_Retries p = 0 \<and> pev_NextRetryAt v = None \<or>
      pev_Status v = ProcessingStatusRetryScheduled \<and> apk_Status p = PacketStatusNew \<and>
        0 < pev_Attempts v \<and> pev_Attempts v < MaxAttempts \<and> apk_Retries p = pev_Attempts v \<and>
        pev_NextRetryAt v \<noteq> None \<or>
      pev_Status v = ProcessingStatusSucceeded \<and> apk_Status p = PacketStatusDecoded \<and>
        0 < pev_Attempts v \<and> pev_Attempts v \<le> MaxAttempts \<and> apk_Retries p = pev_Attempts v - 1 \<and>
        pev_NextRetryAt v = None \<or>
      pev_Status v = ProcessingStatusPermanentlyFailed \<and> apk_Status p = PacketStatusFailed \<and>
        pev_Attempts v = MaxAttempts \<and> apk_Retries p = MaxAttempts \<and> pev_NextRetryAt v = None)"

definition waiting :: "processing_event \<Rightarrow> bool" where
  "waiting v = (pev_Status v \<in> {ProcessingStatusNew, ProcessingStatusRetryScheduled})"

definition amie_ok :: "amie_db \<Rightarrow> bool" where
  "amie_ok d \<longleftrightarrow> uniq apk_ID (amie_packets d) \<and> uniq apk_AmieID (amie_packets d) \<and>
     uniq pev_ID (amie_processing_events d) \<and>
     list_all2 lifecycle (amie_packets d) (amie_processing_events d) \<and>
     list_all snd (amie_errors_cons d) \<and> side_ok d"

subsection \<open>Updating one packet and its event\<close>

text \<open>What the tables look like once the rows with the keys of p and v are p and v.\<close>

definition settle :: "packet \<Rightarrow> processing_event \<Rightarrow> amie_db \<Rightarrow> amie_db" where
  "settle p v d = d\<lparr>
     amie_packets := map (\<lambda>r. if apk_ID r = apk_ID p then p else r) (amie_packets d),
     amie_processing_events := map (\<lambda>r. if pev_ID r = pev_ID v then v else r) (amie_processing_events d)\<rparr>"

lemma lifecycle_partner:
  assumes "list_all2 lifecycle ps vs" "v \<in> set vs"
  obtains p where "p \<in> set ps" "lifecycle p v"
proof -
  obtain i where i: "i < length vs" "v = vs ! i" using assms(2) by (auto simp: in_set_conv_nth)
  then have "ps ! i \<in> set ps" "lifecycle (ps ! i) v"
    using assms(1) by (auto simp: list_all2_conv_all_nth)
  then show ?thesis by (rule that)
qed

lemma find_key:
  assumes "uniq f t" "x \<in> set t"
  shows "find (\<lambda>r. f r = f x) t = Some x"
proof (cases "find (\<lambda>r. f r = f x) t")
  case None
  then show ?thesis using assms(2) by (auto simp: find_None_iff)
next
  case (Some y)
  then have "y \<in> set t" "f y = f x" by (auto simp: find_Some_iff)
  then show ?thesis using Some assms uniqD by metis
qed

lemma packet_of_event:
  assumes "amie_ok d" "v \<in> set (amie_processing_events d)"
  obtains p where "p \<in> set (amie_packets d)" "lifecycle p v"
    "find (\<lambda>r. apk_ID r = pev_PacketID v) (amie_packets d) = Some p"
proof -
  have "list_all2 lifecycle (amie_packets d) (amie_processing_events d)" "uniq apk_ID (amie_packets d)"
    using assms(1) by (auto simp: amie_ok_def)
  with assms(2) obtain p where p: "p \<in> set (amie_packets d)" "lifecycle p v"
    by (metis lifecycle_partner)
  moreover have "pev_PacketID v = apk_ID p" using p by (simp add: lifecycle_def)
  ultimately show ?thesis using that find_key [of apk_ID] \<open>uniq apk_ID (amie_packets d)\<close> by auto
qed

lemma map_if_key: "map f (map (\<lambda>r. if f r = f p then p else r) t) = map f t"
  by (simp add: comp_def)

lemma uniq_map_if: "f p = k \<Longrightarrow> uniq f t \<Longrightarrow> uniq f (map (\<lambda>r. if f r = k then p else r) t)"
  unfolding uniq_def using map_if_key [of f p t] by (simp del: map_map)

lemma settle_keys:
  "map apk_ID (amie_packets (settle p v d)) = map apk_ID (amie_packets d)"
  "map pev_ID (amie_processing_events (settle p v d)) = map pev_ID (amie_processing_events d)"
  by (simp_all add: settle_def map_if_key del: map_map)

lemma settle_other [simp]:
  "amie_processing_errors (settle p v d) = amie_processing_errors d"
  "amie_audit_extras_rows (settle p v d) = amie_audit_extras_rows d"
  "amie_user_dns (settle p v d) = amie_user_dns d"
  by (simp_all add: settle_def)

text \<open>The other tables look at the keys of packets and events only.\<close>

lemma side_ok_cong:
  assumes "map apk_ID (amie_packets d') = map apk_ID (amie_packets d)"
    "map pev_ID (amie_processing_events d') = map pev_ID (amie_processing_events d)"
    "amie_audit_extras_rows d' = amie_audit_extras_rows d" "amie_user_dns d' = amie_user_dns d"
  shows "side_ok d' = side_ok d"
  by (simp only: side_defs refs_def refs_opt_def assms)

lemma errors_cons_cong:
  assumes "map apk_ID (amie_packets d') = map apk_ID (amie_packets d)"
    "map pev_ID (amie_processing_events d') = map pev_ID (amie_processing_events d)"
    "amie_processing_errors d' = amie_processing_errors d"
  shows "amie_errors_cons d' = amie_errors_cons d"
  unfolding amie_errors_cons_def refs_opt_def assms ..

lemma settle_cons:
  "amie_errors_cons (settle p v d) = amie_errors_cons d" "side_ok (settle p v d) = side_ok d"
  by (simp_all only: settle_keys settle_other side_ok_cong [of "settle p v d" d] errors_cons_cong [of "settle p v d" d])

lemma settle_lifecycle:
  assumes "amie_ok d" "q \<in> set (amie_packets d)" "u \<in> set (amie_processing_events d)" "lifecycle q u"
    and "apk_ID p = apk_ID q" "pev_ID v = pev_ID u" "lifecycle p v"
  shows "list_all2 lifecycle (amie_packets (settle p v d)) (amie_processing_events (settle p v d))"
proof -
  let ?ps = "amie_packets d" and ?vs = "amie_processing_events d"
  have all2: "list_all2 lifecycle ?ps ?vs" and up: "uniq apk_ID ?ps" and uv: "uniq pev_ID ?vs"
    using assms(1) by (auto simp: amie_ok_def)
  then have len: "length ?ps = length ?vs" by (auto dest: list_all2_lengthD)
  obtain j where j: "j < length ?vs" "u = ?vs ! j" using assms(3) by (auto simp: in_set_conv_nth)
  have same: "apk_ID (?ps ! i) = apk_ID q \<longleftrightarrow> i = j" "pev_ID (?vs ! i) = pev_ID u \<longleftrightarrow> i = j"
    if i: "i < length ?vs" for i
  proof -
    have "apk_ID (?ps ! j) = apk_ID q"
      using all2 j assms(4) by (auto simp: list_all2_conv_all_nth lifecycle_def)
    then show "apk_ID (?ps ! i) = apk_ID q \<longleftrightarrow> i = j"
      using up i j len nth_eq_iff_index_eq [of "map apk_ID ?ps" i j] by (auto simp: uniq_def)
    show "pev_ID (?vs ! i) = pev_ID u \<longleftrightarrow> i = j"
      using uv i j nth_eq_iff_index_eq [of "map pev_ID ?vs" i j] by (auto simp: uniq_def)
  qed
  show ?thesis
    using all2 assms(5-7) len same by (auto simp: settle_def list_all2_conv_all_nth)
qed

lemma settle_ok:
  assumes "amie_ok d" "q \<in> set (amie_packets d)" "u \<in> set (amie_processing_events d)" "lifecycle q u"
    and "apk_ID p = apk_ID q" "apk_AmieID p = apk_AmieID q" "pev_ID v = pev_ID u" "lifecycle p v"
  shows "amie_ok (settle p v d)"
proof -
  have "apk_AmieID (if apk_ID r = apk_ID p then p else r) = apk_AmieID r" if "r \<in> set (amie_packets d)" for r
    using assms that uniqD [of apk_ID] by (auto simp: amie_ok_def)
  then have "map apk_AmieID (amie_packets (settle p v d)) = map apk_AmieID (amie_packets d)"
    by (simp add: settle_def)
  then show ?thesis
    using assms settle_keys [of p v d] settle_lifecycle [OF assms(1-4)]
    by (simp add: amie_ok_def uniq_def settle_cons)
qed

subsection \<open>Transactions\<close>

lemma amie_TxFn_failed:
  assumes "amie_TxFn fn e w = (Inl x, w')" "along same_db fn"
  shows "w_db w' = w_db w"
  using assms(1) unfolding amie_TxFn_def
  by (auto split: if_splits prod.splits sum.splits dest!: alongD [OF assms(2)] simp: same_db_def)

lemma amie_TxFn_done:
  assumes "amie_TxFn fn e w = (Inr x, w')"
  obtains w1 where "fn e ((tickA w)\<lparr>w_tx := w_db w, w_now := clock e (ticks (w_core w)), w_audit := []\<rparr>) = (Inr x, w1)"
    "w_db w' = w_tx w1"
  using assms unfolding amie_TxFn_def
  by (auto split: if_splits prod.splits sum.splits)

subsection \<open>The poller\<close>

lemma lifecycle_new: "lifecycle (new_packet x now node) (new_event y now x)"
  by (simp add: lifecycle_def new_packet_def new_event_def)

lemma refs_opt_append: "refs_opt f cs g ps \<Longrightarrow> refs_opt f cs g (ps @ qs)"
  by (auto simp: refs_opt_def list_all_iff split: option.splits)

lemma refs_append: "refs f cs g ps \<Longrightarrow> refs f cs g (ps @ qs)"
  by (auto simp: refs_def list_all_iff)

lemma persist_packet_effect:
  assumes "persist_packet node e w = (Inr x, w')"
  obtains pid eid now where "amie_packets (w_tx w') = amie_packets (w_tx w) @ [new_packet pid now node]"
    "amie_processing_events (w_tx w') = amie_processing_events (w_tx w) @ [new_event eid now pid]"
    "uniq apk_ID (amie_packets (w_tx w'))" "uniq apk_AmieID (amie_packets (w_tx w'))"
    "uniq pev_ID (amie_processing_events (w_tx w'))"
    "amie_processing_errors (w_tx w') = amie_processing_errors (w_tx w)"
    "amie_audit_extras_rows (w_tx w') = amie_audit_extras_rows (w_tx w)"
    "amie_user_dns (w_tx w') = amie_user_dns (w_tx w)"
  using assms
  by (auto simp: persist_packet_def packets_Save_def events_Save_def arun_simps amie_packets_cons_def
      amie_events_cons_def insert_row_def)

lemma persist_packet_ok:
  assumes "persist_packet node e w = (Inr x, w')" "amie_ok (w_tx w)"
  shows "amie_ok (w_tx w')"
  using assms(1)
proof (rule persist_packet_effect)
  fix pid eid now
  assume "amie_packets (w_tx w') = amie_packets (w_tx w) @ [new_packet pid now node]"
    "amie_processing_events (w_tx w') = amie_processing_events (w_tx w) @ [new_event eid now pid]"
    "uniq apk_ID (amie_packets (w_tx w'))" "uniq apk_AmieID (amie_packets (w_tx w'))"
    "uniq pev_ID (amie_processing_events (w_tx w'))"
    "amie_processing_errors (w_tx w') = amie_processing_errors (w_tx w)"
    "amie_audit_extras_rows (w_tx w') = amie_audit_extras_rows (w_tx w)"
    "amie_user_dns (w_tx w') = amie_user_dns (w_tx w)"
  then show ?thesis
    using assms(2) lifecycle_new [of pid now node eid]
    by (auto simp: amie_ok_def amie_errors_cons_def side_defs list_all2_appendI refs_opt_append refs_append)
qed

subsection \<open>The abstract machine of an event\<close>

datatype phase = Waiting int | Completed | GivenUp

definition phase :: "processing_event \<Rightarrow> phase" where
  "phase v = (if waiting v then Waiting (pev_Attempts v)
     else if pev_Status v = ProcessingStatusSucceeded then Completed else GivenUp)"

inductive phase_step :: "phase \<Rightarrow> phase \<Rightarrow> bool" where
  complete: "phase_step (Waiting n) Completed"
| retry: "n + 1 < MaxAttempts \<Longrightarrow> phase_step (Waiting n) (Waiting (n + 1))"
| give_up: "n + 1 = MaxAttempts \<Longrightarrow> phase_step (Waiting n) GivenUp"

inductive_simps phase_step_simps [simp]: "phase_step (Waiting n) q" "phase_step Completed q" "phase_step GivenUp q"

lemma lifecycle_waiting: "lifecycle p v \<Longrightarrow> waiting v \<Longrightarrow> 0 \<le> pev_Attempts v \<and> pev_Attempts v < MaxAttempts"
  by (auto simp: lifecycle_def waiting_def status_defs MaxAttempts_def)

text \<open>The rows of d' are those of d, or those of d with one waiting event and its packet moved on.\<close>

definition moved :: "id \<Rightarrow> amie_db \<Rightarrow> amie_db \<Rightarrow> bool" where
  "moved x d d' \<longleftrightarrow> (\<exists>q u p v. q \<in> set (amie_packets d) \<and> u \<in> set (amie_processing_events d) \<and>
     pev_ID u = x \<and> waiting u \<and> lifecycle q u \<and> apk_ID p = apk_ID q \<and> apk_AmieID p = apk_AmieID q \<and>
     pev_ID v = x \<and> lifecycle p v \<and> phase_step (phase u) (phase v) \<and>
     amie_packets d' = amie_packets (settle p v d) \<and>
     amie_processing_events d' = amie_processing_events (settle p v d))"

lemma update_where_settle:
  assumes "uniq k t" "u \<in> set t" "f u = v" "k u = x" "k v = x"
  shows "update_where (\<lambda>r. k r = x) f t = map (\<lambda>r. if k r = k v then v else r) t"
proof -
  have "(if k r = x then f r else r) = (if k r = k v then v else r)" if "r \<in> set t" for r
    using uniqD [OF assms(1) that assms(2)] assms(3-5) by auto
  then show ?thesis by (simp add: update_where_def)
qed

lemma moved_ok:
  assumes "amie_ok d" "moved x d d'" "list_all snd (amie_errors_cons d')" "side_ok d'"
  shows "amie_ok d'"
proof -
  obtain q u p v where "q \<in> set (amie_packets d)" "u \<in> set (amie_processing_events d)" "lifecycle q u"
    "apk_ID p = apk_ID q" "apk_AmieID p = apk_AmieID q" "pev_ID v = pev_ID u" "lifecycle p v"
    and d': "amie_packets d' = amie_packets (settle p v d)"
      "amie_processing_events d' = amie_processing_events (settle p v d)"
    using assms(2) unfolding moved_def by metis
  with assms(1) have "amie_ok (settle p v d)" by (metis settle_ok)
  with d' assms(3,4) show ?thesis by (simp add: amie_ok_def)
qed

lemma moved_keys:
  assumes "moved x d d'"
  shows "map apk_ID (amie_packets d') = map apk_ID (amie_packets d)"
    "map pev_ID (amie_processing_events d') = map pev_ID (amie_processing_events d)"
  using assms settle_keys unfolding moved_def by auto

subsection \<open>The processor\<close>

lemma along_nil_packet [along_intros]: "along same_db (nil_packet p)" "along framed (nil_packet p)"
  unfolding nil_packet_def by (intro along_intros)+

lemma events_Update_effect:
  assumes "events_Update v e w = (Inr x, w')"
  shows "w' = (tickA w)\<lparr>w_tx := (w_tx w)\<lparr>amie_processing_events := update_where (\<lambda>r. pev_ID r = pev_ID v)
     (\<lambda>r. r\<lparr>pev_Status := pev_Status v, pev_Attempts := pev_Attempts v, pev_StartedAt := pev_StartedAt v,
            pev_FinishedAt := pev_FinishedAt v, pev_LastError := pev_LastError v,
            pev_NextRetryAt := pev_NextRetryAt v\<rparr>) (amie_processing_events (w_tx w))\<rparr>\<rparr>"
  using assms by (simp add: events_Update_def arun_simps)

text \<open>An update with the columns of a changed row puts that row.\<close>

lemma events_Update_row:
  assumes "events_Update v e w = (Inr x, w')" "uniq pev_ID (amie_processing_events (w_tx w))"
    and "u \<in> set (amie_processing_events (w_tx w))" "pev_ID v = pev_ID u" "pev_PacketID v = pev_PacketID u"
    and "pev_Type v = pev_Type u" "pev_CreatedAt v = pev_CreatedAt u"
  shows "amie_processing_events (w_tx w') =
      map (\<lambda>r. if pev_ID r = pev_ID v then v else r) (amie_processing_events (w_tx w))"
    and "amie_packets (w_tx w') = amie_packets (w_tx w)"
    and "amie_processing_errors (w_tx w') = amie_processing_errors (w_tx w)"
    and "side_ok (w_tx w) \<Longrightarrow> side_ok (w_tx w')"
    and "w_db w' = w_db w"
proof -
  show 1: "amie_processing_events (w_tx w') =
      map (\<lambda>r. if pev_ID r = pev_ID v then v else r) (amie_processing_events (w_tx w))"
    using assms events_Update_effect [OF assms(1)] by (simp add: update_where_settle [of pev_ID _ u])
  have "map pev_ID (amie_processing_events (w_tx w')) = map pev_ID (amie_processing_events (w_tx w))"
    by (simp only: 1 map_if_key)
  then show "side_ok (w_tx w) \<Longrightarrow> side_ok (w_tx w')"
    using events_Update_effect [OF assms(1)] side_ok_cong [of "w_tx w'" "w_tx w"] by simp
qed (use events_Update_effect [OF assms(1)] in simp_all)

lemma packets_Update_effect:
  assumes "packets_Update p e w = (Inr x, w')"
  shows "w' = (tickA w)\<lparr>w_tx := (w_tx w)\<lparr>amie_packets := update_where (\<lambda>r. apk_ID r = apk_ID p)
     (\<lambda>r. r\<lparr>apk_Type := apk_Type p, apk_Status := apk_Status p, apk_RawJSON := apk_RawJSON p,
            apk_DecodedAt := apk_DecodedAt p, apk_ProcessedAt := apk_ProcessedAt p,
            apk_Retries := apk_Retries p, apk_LastError := apk_LastError p\<rparr>) (amie_packets (w_tx w))\<rparr>\<rparr>"
  using assms by (simp add: packets_Update_def arun_simps)

lemma packets_Update_row:
  assumes "packets_Update p e w = (Inr x, w')" "uniq apk_ID (amie_packets (w_tx w))"
    and "q \<in> set (amie_packets (w_tx w))" "apk_ID p = apk_ID q" "apk_AmieID p = apk_AmieID q"
    and "apk_ReceivedAt p = apk_ReceivedAt q"
  shows "amie_packets (w_tx w') = map (\<lambda>r. if apk_ID r = apk_ID p then p else r) (amie_packets (w_tx w))"
    and "amie_processing_events (w_tx w') = amie_processing_events (w_tx w)"
    and "amie_processing_errors (w_tx w') = amie_processing_errors (w_tx w)"
    and "side_ok (w_tx w) \<Longrightarrow> side_ok (w_tx w')"
    and "w_db w' = w_db w"
proof -
  note eff = packets_Update_effect [OF assms(1)]
  then show 1: "amie_packets (w_tx w') = map (\<lambda>r. if apk_ID r = apk_ID p then p else r) (amie_packets (w_tx w))"
    using assms by (simp add: update_where_settle [of apk_ID _ q])
  have "map apk_ID (amie_packets (w_tx w')) = map apk_ID (amie_packets (w_tx w))"
    by (simp only: 1 map_if_key)
  then show "side_ok (w_tx w) \<Longrightarrow> side_ok (w_tx w')"
    using eff side_ok_cong [of "w_tx w'" "w_tx w"] by simp
qed (use packets_Update_effect [OF assms(1)] in simp_all)

text \<open>The recorded failure of a waiting event.\<close>

lemma record_failure_steps:
  assumes "record_failure (pev_ID u) cause e w = (Inr x, w')"
    and "find (\<lambda>r. pev_ID r = pev_ID u) (amie_processing_events (w_db w)) = Some u"
    and "find (\<lambda>r. apk_ID r = pev_PacketID u) (amie_packets (w_db w)) = Some q"
  obtains w1 w2 w3 now retry y1 y2
    where "framed w w1" "retry = None \<longleftrightarrow> \<not> pev_Attempts u + 1 < MaxAttempts"
      "packets_Update (failed_packet q cause (pev_Attempts u + 1)) e w1 = (Inr y1, w2)"
      "events_Update (failed_event u cause now retry) e w2 = (Inr y2, w3)"
      "errors_Save \<lparr> per_PacketID = Some (pev_PacketID u), per_EventID = Some (pev_ID u),
         per_OccurredAt = now, per_Summary = cause \<rparr> e w3 = (Inr x, w')"
proof -
  have "framed w (tickA (tickA w))" by (simp add: framed_def)
  moreover from assms obtain w2 w3 y1 y2 retry where "retry = None \<longleftrightarrow> \<not> pev_Attempts u + 1 < MaxAttempts"
      "packets_Update (failed_packet q cause (pev_Attempts u + 1)) e (tickA (tickA w)) = (Inr y1, w2)"
      "events_Update (failed_event u cause (clock e (ticks (w_core (tickA (tickA w))))) retry) e w2 = (Inr y2, w3)"
      "errors_Save \<lparr> per_PacketID = Some (pev_PacketID u), per_EventID = Some (pev_ID u),
         per_OccurredAt = clock e (ticks (w_core (tickA (tickA w)))), per_Summary = cause \<rparr> e w3 = (Inr x, w')"
    unfolding record_failure_def Let_def
    by (auto simp: arun_simps events_FindByID_def packets_FindByID_def nil_packet_def ComputeNextRetryAt_def
        split: if_splits)
  ultimately show ?thesis by (rule that)
qed

lemma lifecycle_failed:
  assumes "lifecycle q u" "waiting u" "retry = None \<longleftrightarrow> \<not> pev_Attempts u + 1 < MaxAttempts"
  shows "lifecycle (failed_packet q cause (pev_Attempts u + 1)) (failed_event u cause now retry)"
    and "phase_step (phase u) (phase (failed_event u cause now retry))"
proof -
  have attempts: "0 \<le> pev_Attempts u" "pev_Attempts u < MaxAttempts"
    using lifecycle_waiting [OF assms(1,2)] by auto
  then show "lifecycle (failed_packet q cause (pev_Attempts u + 1)) (failed_event u cause now retry)"
    using assms by (auto simp: lifecycle_def failed_event_def failed_packet_def waiting_def status_defs
        MaxAttempts_def split: option.splits)
  show "phase_step (phase u) (phase (failed_event u cause now retry))"
    using assms(2,3) attempts
    by (auto simp: phase_def failed_event_def waiting_def status_defs MaxAttempts_def split: option.splits)
qed

lemma record_failure_same_db: "along same_db (record_failure x cause)"
  unfolding record_failure_def ComputeNextRetryAt_def by (intro along_intros)

lemma failed_rows:
  "apk_ID (failed_packet q cause n) = apk_ID q" "apk_AmieID (failed_packet q cause n) = apk_AmieID q"
  "apk_ReceivedAt (failed_packet q cause n) = apk_ReceivedAt q"
  "pev_ID (failed_event u cause now retry) = pev_ID u" "pev_PacketID (failed_event u cause now retry) = pev_PacketID u"
  "pev_Type (failed_event u cause now retry) = pev_Type u"
  "pev_CreatedAt (failed_event u cause now retry) = pev_CreatedAt u"
  by (simp_all add: failed_packet_def failed_event_def Let_def)

lemma record_failure_moved:
  assumes run: "record_failure (pev_ID u) cause e w = (Inr x, w')" and tx: "w_tx w = w_db w"
    and ok: "amie_ok (w_db w)" and u: "u \<in> set (amie_processing_events (w_db w))" "waiting u"
  shows "moved (pev_ID u) (w_db w) (w_tx w')" and "list_all snd (amie_errors_cons (w_tx w'))" "side_ok (w_tx w')"
proof -
  obtain q where q: "q \<in> set (amie_packets (w_db w))" "lifecycle q u"
    "find (\<lambda>r. apk_ID r = pev_PacketID u) (amie_packets (w_db w)) = Some q"
    using packet_of_event [OF ok u(1)] .
  have uu: "find (\<lambda>r. pev_ID r = pev_ID u) (amie_processing_events (w_db w)) = Some u"
    using ok u(1) by (simp add: find_key amie_ok_def)
  obtain w1 w2 w3 now retry y1 y2
    where f1: "framed w w1" and retry: "retry = None \<longleftrightarrow> \<not> pev_Attempts u + 1 < MaxAttempts"
      and upd1: "packets_Update (failed_packet q cause (pev_Attempts u + 1)) e w1 = (Inr y1, w2)"
      and upd2: "events_Update (failed_event u cause now retry) e w2 = (Inr y2, w3)"
      and save: "errors_Save \<lparr> per_PacketID = Some (pev_PacketID u), per_EventID = Some (pev_ID u),
         per_OccurredAt = now, per_Summary = cause \<rparr> e w3 = (Inr x, w')"
    using record_failure_steps [OF run uu q(3)] .
  have ok1: "uniq apk_ID (amie_packets (w_tx w1))" "q \<in> set (amie_packets (w_tx w1))"
    using f1 tx ok q(1) by (auto simp: framed_def amie_ok_def)
  note w2 = packets_Update_row [OF upd1 ok1, simplified failed_rows, OF refl refl refl]
  have ok2: "uniq pev_ID (amie_processing_events (w_tx w2))" "u \<in> set (amie_processing_events (w_tx w2))"
    using f1 tx ok u(1) w2(2) by (auto simp: framed_def amie_ok_def)
  note w3 = events_Update_row [OF upd2 ok2, simplified failed_rows, OF refl refl refl refl]
  have w': "amie_packets (w_tx w') = amie_packets (w_tx w3)"
    "amie_processing_events (w_tx w') = amie_processing_events (w_tx w3)"
    "side_ok (w_tx w') = side_ok (w_tx w3)" "list_all snd (amie_errors_cons (w_tx w'))"
    using save by (auto simp: errors_Save_def arun_simps side_defs)
  then show "list_all snd (amie_errors_cons (w_tx w'))" by simp
  show "side_ok (w_tx w')"
    using w'(3) w3(4) w2(4) f1 tx ok by (simp add: framed_def amie_ok_def)
  show "moved (pev_ID u) (w_db w) (w_tx w')"
    unfolding moved_def using q u w' w3(1,2) w2(1,2) f1 tx lifecycle_failed [OF q(2) u(2) retry]
    by (intro exI [of _ q] exI [of _ u] exI [of _ "failed_packet q cause (pev_Attempts u + 1)"]
        exI [of _ "failed_event u cause now retry"]) (simp add: settle_def failed_rows framed_def)
qed

lemma record_failed_moved:
  assumes run: "recordFailureInNewTransaction (pev_ID u) cause e w = (Inr x, w')" and ok: "amie_ok (w_db w)"
    and u: "u \<in> set (amie_processing_events (w_db w))" "waiting u"
  shows "moved (pev_ID u) (w_db w) (w_db w')" "amie_ok (w_db w')"
proof -
  obtain w1 where run: "record_failure (pev_ID u) cause e
        ((tickA w)\<lparr>w_tx := w_db w, w_now := clock e (ticks (w_core w)), w_audit := []\<rparr>) = (Inr x, w1)"
      and w1: "w_db w' = w_tx w1"
    using amie_TxFn_done [OF run [unfolded recordFailureInNewTransaction_def]] .
  with record_failure_moved [OF run] ok u show moved: "moved (pev_ID u) (w_db w) (w_db w')" by simp
  then show "amie_ok (w_db w')"
    using record_failure_moved(2,3) [OF run] ok u moved_ok [OF _ moved] w1 by simp
qed

lemma process_event_Inr: "process_event route ewp e w \<noteq> (Inl z, w')"
  by (auto simp: process_event_def bindA_any arun_simps split: sum.splits)

text \<open>A router is any function that runs inside the open transaction and leaves packets, events and
  recorded errors to the processor.\<close>

locale packet_router =
  fixes route :: packet_route
  assumes route_framed: "along framed (route packetJSON packet eventID)"
begin

lemma run_event_same_db: "along same_db (run_event route ewp)"
proof -
  have "along same_db (route j p x)" for j p x
    using route_framed [of j p x] by (auto simp: along_def framed_def same_db_def)
  then show ?thesis unfolding run_event_def by (intro along_intros)
qed

lemma run_event_steps:
  assumes "run_event route ewp e w = (Inr x, w')" "ewp_Event ewp = u"
  obtains w1 w2 w3 w4 w5 w6 now fin dec j found pk y1 y2 y3 y4
    where "Log (pev_PacketID u) (pev_ID u) ''PACKET_RECEIVED'' ''packet'' (pev_PacketID u) (pev_Type u) e w
        = (Inr y1, w1)"
      "events_Update (u\<lparr>pev_Status := ProcessingStatusRunning, pev_StartedAt := Some now,
          pev_Attempts := pev_Attempts u + 1\<rparr>) e w1 = (Inr y2, w2)"
      "packets_FindByID (pev_PacketID u) e w2 = (Inr found, w3)"
      "nil_packet found e w3 = (Inr pk, w4)"
      "route j pk (pev_ID u) e w4 = (Inr y3, w5)"
      "events_Update (u\<lparr>pev_StartedAt := Some now, pev_Attempts := pev_Attempts u + 1,
          pev_Status := ProcessingStatusSucceeded, pev_FinishedAt := Some fin, pev_NextRetryAt := None\<rparr>) e w5
        = (Inr y4, w6)"
      "packets_Update (pk\<lparr>apk_Status := PacketStatusDecoded, apk_DecodedAt := Some dec\<rparr>) e w6 = (Inr x, w')"
  using assms unfolding run_event_def Let_def by (auto simp: arun_simps split: sum.splits)

lemma run_event_moved:
  assumes run: "run_event route ewp e w = (Inr x, w')" and tx: "w_tx w = w_db w" and ok: "amie_ok (w_db w)"
    and u: "ewp_Event ewp = u" "u \<in> set (amie_processing_events (w_db w))" "waiting u"
  shows "moved (pev_ID u) (w_db w) (w_tx w')"
    and "amie_processing_errors (w_tx w') = amie_processing_errors (w_db w)" "side_ok (w_tx w')"
proof -
  obtain w1 w2 w3 w4 w5 w6 now fin dec j found pk y1 y2 y3 y4
    where log: "Log (pev_PacketID u) (pev_ID u) ''PACKET_RECEIVED'' ''packet'' (pev_PacketID u) (pev_Type u) e w
        = (Inr y1, w1)"
      and upd1: "events_Update (u\<lparr>pev_Status := ProcessingStatusRunning, pev_StartedAt := Some now,
          pev_Attempts := pev_Attempts u + 1\<rparr>) e w1 = (Inr y2, w2)"
      and find: "packets_FindByID (pev_PacketID u) e w2 = (Inr found, w3)"
      and nil: "nil_packet found e w3 = (Inr pk, w4)"
      and route: "route j pk (pev_ID u) e w4 = (Inr y3, w5)"
      and upd2: "events_Update (u\<lparr>pev_StartedAt := Some now, pev_Attempts := pev_Attempts u + 1,
          pev_Status := ProcessingStatusSucceeded, pev_FinishedAt := Some fin, pev_NextRetryAt := None\<rparr>) e w5
        = (Inr y4, w6)"
      and upd3: "packets_Update (pk\<lparr>apk_Status := PacketStatusDecoded, apk_DecodedAt := Some dec\<rparr>) e w6 = (Inr x, w')"
    using run_event_steps [OF run u(1)] .
  let ?v1 = "u\<lparr>pev_Status := ProcessingStatusRunning, pev_StartedAt := Some now, pev_Attempts := pev_Attempts u + 1\<rparr>"
  let ?v = "u\<lparr>pev_StartedAt := Some now, pev_Attempts := pev_Attempts u + 1,
    pev_Status := ProcessingStatusSucceeded, pev_FinishedAt := Some fin, pev_NextRetryAt := None\<rparr>"
  let ?p = "pk\<lparr>apk_Status := PacketStatusDecoded, apk_DecodedAt := Some dec\<rparr>"
  obtain q where q: "q \<in> set (amie_packets (w_db w))" "lifecycle q u"
    "find (\<lambda>r. apk_ID r = pev_PacketID u) (amie_packets (w_db w)) = Some q"
    using packet_of_event [OF ok u(2)] .
  have f1: "framed w w1" using alongD [OF framed_Log log] .
  have ok1: "uniq pev_ID (amie_processing_events (w_tx w1))" "u \<in> set (amie_processing_events (w_tx w1))"
    using f1 tx ok u(2) by (auto simp: framed_def amie_ok_def)
  note w2 = events_Update_row [OF upd1 ok1, simplified]
  have pk: "pk = q" and w4: "w_tx w4 = w_tx w2"
    using find nil q(3) w2(5) f1
    by (auto simp: packets_FindByID_def nil_packet_def arun_simps framed_def)
  have f5: "framed w4 w5" using alongD [OF route_framed route] .
  have ev5: "amie_processing_events (w_tx w5) =
      map (\<lambda>r. if pev_ID r = pev_ID u then ?v1 else r) (amie_processing_events (w_db w))"
    using f5 w4 w2(1) f1 tx by (simp add: framed_def)
  have ok5: "uniq pev_ID (amie_processing_events (w_tx w5))" "?v1 \<in> set (amie_processing_events (w_tx w5))"
    using ok u(2) uniq_map_if [of pev_ID ?v1] by (auto simp: ev5 amie_ok_def image_iff)
  note w6 = events_Update_row [OF upd2 ok5, simplified]
  have ev6: "amie_processing_events (w_tx w6) =
      map (\<lambda>r. if pev_ID r = pev_ID u then ?v else r) (amie_processing_events (w_db w))"
    by (simp add: w6(1) ev5)
  have pk6: "amie_packets (w_tx w6) = amie_packets (w_db w)"
    using w6(2) f5 w4 w2(2) f1 tx by (simp add: framed_def)
  have ok6: "uniq apk_ID (amie_packets (w_tx w6))" "pk \<in> set (amie_packets (w_tx w6))"
    using ok q(1) pk by (auto simp: pk6 amie_ok_def)
  note w7 = packets_Update_row [OF upd3 ok6, simplified]
  show "amie_processing_errors (w_tx w') = amie_processing_errors (w_db w)"
    using w7(3) w6(3) f5 w4 w2(3) f1 tx by (simp add: framed_def)
  have "side_ok (w_tx w1)" using f1 tx ok by (simp add: framed_def amie_ok_def)
  then have "side_ok (w_tx w5)" using w2(4) w4 f5 by (simp add: framed_def)
  then show "side_ok (w_tx w')" using w6(4) w7(4) by simp
  have "lifecycle ?p ?v"
    using q(2) u(3) pk by (auto simp: lifecycle_def waiting_def status_defs MaxAttempts_def)
  moreover have "phase u = Waiting (pev_Attempts u)" "phase ?v = Completed"
    using u(3) by (auto simp: phase_def waiting_def status_defs)
  ultimately show "moved (pev_ID u) (w_db w) (w_tx w')"
    unfolding moved_def using q u pk w7(1,2) ev6 pk6
    by (intro exI [of _ q] exI [of _ u] exI [of _ ?p] exI [of _ ?v]) (simp add: settle_def)
qed

lemma execute_moved:
  assumes run: "executeInTransaction route ewp e w = (Inr x, w')" and ok: "amie_ok (w_db w)"
    and u: "ewp_Event ewp = u" "u \<in> set (amie_processing_events (w_db w))" "waiting u"
  shows "moved (pev_ID u) (w_db w) (w_db w')" "amie_ok (w_db w')"
proof -
  obtain w1 where run: "run_event route ewp e
        ((tickA w)\<lparr>w_tx := w_db w, w_now := clock e (ticks (w_core w)), w_audit := []\<rparr>) = (Inr x, w1)"
      and w1: "w_db w' = w_tx w1"
    using amie_TxFn_done [OF run [unfolded executeInTransaction_def]] .
  with run_event_moved [OF run] ok u show moved: "moved (pev_ID u) (w_db w) (w_db w')" by simp
  have "list_all snd (amie_errors_cons (w_tx w1))"
    using run_event_moved(2) [OF run] ok u moved_keys [OF moved] w1 errors_cons_cong [of "w_tx w1" "w_db w"]
    by (simp add: amie_ok_def)
  then show "amie_ok (w_db w')"
    using run_event_moved(3) [OF run] ok u moved_ok [OF _ moved] w1 by simp
qed

lemma process_event_moved:
  assumes run: "process_event route ewp e w = (r, w')" and ok: "amie_ok (w_db w)"
    and u: "ewp_Event ewp = u" "u \<in> set (amie_processing_events (w_db w))" "waiting u"
  shows "amie_ok (w_db w') \<and> (w_db w' = w_db w \<or> moved (pev_ID u) (w_db w) (w_db w'))"
proof -
  obtain r1 w1 where ex: "executeInTransaction route ewp e w = (r1, w1)"
    by (cases "executeInTransaction route ewp e w")
  show ?thesis
  proof (cases r1)
    case (Inl x)
    then have same: "w_db w1 = w_db w"
      using ex amie_TxFn_failed [OF _ run_event_same_db] by (auto simp: executeInTransaction_def)
    obtain r2 where r2: "recordFailureInNewTransaction (pev_ID u) x e w1 = (r2, w')"
      using run ex Inl u(1) by (auto simp: process_event_def bindA_any arun_simps)
    show ?thesis
    proof (cases r2)
      case (Inl y)
      then have "w_db w' = w_db w1"
        using r2 amie_TxFn_failed [OF _ record_failure_same_db] by (auto simp: recordFailureInNewTransaction_def)
      with same ok show ?thesis by simp
    next
      case (Inr y)
      with record_failed_moved [of u x e w1 y w'] r2 same ok u show ?thesis by simp
    qed
  next
    case (Inr y)
    then have "w' = w1" using run ex by (auto simp: process_event_def bindA_any arun_simps)
    with execute_moved [OF ex [unfolded Inr] ok u] show ?thesis by simp
  qed
qed

end

subsection \<open>A round of the processor\<close>

text \<open>What a round does to the events with the keys X: each takes one step of the abstract machine, or,
  where lazy allows it, none; the other rows stay.\<close>

definition stepped :: "bool \<Rightarrow> id set \<Rightarrow> amie_db \<Rightarrow> amie_db \<Rightarrow> bool" where
  "stepped lazy X d d' = list_all2 (\<lambda>u v. pev_ID v = pev_ID u \<and>
     (if pev_ID u \<in> X then phase_step (phase u) (phase v) \<or> lazy \<and> phase v = phase u else v = u))
     (amie_processing_events d) (amie_processing_events d')"

lemma stepped_empty: "stepped lazy {} d d"
  by (simp add: stepped_def list_all2_same)

lemma stepped_lazy: "stepped True X d d"
  by (simp add: stepped_def list_all2_same)

lemma moved_stepped:
  assumes "amie_ok d" "moved x d d'"
  shows "stepped lazy {x} d d'"
proof -
  obtain u v where u: "u \<in> set (amie_processing_events d)" "pev_ID u = x" "pev_ID v = x"
    "phase_step (phase u) (phase v)"
    and d': "amie_processing_events d' = map (\<lambda>r. if pev_ID r = pev_ID v then v else r) (amie_processing_events d)"
    using assms(2) unfolding moved_def settle_def by fastforce
  have eq: "r = u" if "r \<in> set (amie_processing_events d)" "pev_ID r = x" for r
    using assms(1) u that uniqD [of pev_ID] by (auto simp: amie_ok_def)
  show ?thesis
    unfolding stepped_def d' list_all2_map2 list_all2_same
  proof (intro ballI conjI)
    fix r assume "r \<in> set (amie_processing_events d)"
    then show "if pev_ID r \<in> {x} then phase_step (phase r) (phase (if pev_ID r = pev_ID v then v else r)) \<or>
        lazy \<and> phase (if pev_ID r = pev_ID v then v else r) = phase r
      else (if pev_ID r = pev_ID v then v else r) = r"
      using eq [of r] u by (cases "pev_ID r = x") simp_all
  qed simp
qed

lemma stepped_insert:
  assumes "stepped lazy {x} d d1" "stepped lazy X d1 d2" "x \<notin> X"
  shows "stepped lazy (insert x X) d d2"
  using assms(1,2) unfolding stepped_def
  by (rule list_all2_trans [rotated]) (use assms(3) in \<open>auto split: if_splits\<close>)

lemma stepped_row:
  assumes "stepped lazy X d d'" "u \<in> set (amie_processing_events d)"
  shows "\<exists>v\<in>set (amie_processing_events d'). pev_ID v = pev_ID u \<and>
    (if pev_ID u \<in> X then phase_step (phase u) (phase v) \<or> lazy \<and> phase v = phase u else v = u)"
proof -
  obtain i where i: "i < length (amie_processing_events d)" "u = amie_processing_events d ! i"
    using assms(2) by (auto simp: in_set_conv_nth)
  then show ?thesis
    using assms(1) unfolding stepped_def list_all2_conv_all_nth by (metis nth_mem)
qed

lemma stepped_keeps:
  assumes "stepped lazy X d d'" "u \<in> set (amie_processing_events d)" "pev_ID u \<notin> X"
  shows "u \<in> set (amie_processing_events d')"
  using stepped_row [OF assms(1,2)] assms(3) by auto

lemma map_Event_join:
  "map ewp_Event (concat (map (join_packet ps) vs)) =
     filter (\<lambda>v. find (\<lambda>p. apk_ID p = pev_PacketID v) ps \<noteq> None) vs"
  by (induction vs) (auto simp: join_packet_def split: option.splits)

text \<open>The events of a due list are rows of the table, each at most once.\<close>

lemma due_events_rows:
  obtains n P Q where "map ewp_Event (due_events statuses now d) =
    take n (filter P (sort_key pev_CreatedAt (filter Q (amie_processing_events d))))"
    "\<forall>v. Q v \<longrightarrow> pev_Status v \<in> set statuses"
proof -
  have "map ewp_Event (due_events statuses now d) = take 50 (filter (\<lambda>v. find (\<lambda>p. apk_ID p = pev_PacketID v)
      (amie_packets d) \<noteq> None) (sort_key pev_CreatedAt (filter (\<lambda>v. pev_Status v \<in> set statuses \<and>
         (case pev_NextRetryAt v of None \<Rightarrow> True | Some t \<Rightarrow> t \<le> now)) (amie_processing_events d))))"
    unfolding due_events_def take_map [symmetric] map_Event_join select_where_def ..
  from that [OF this] show ?thesis by simp
qed

lemma due_events_row:
  assumes "ewp \<in> set (due_events statuses now d)"
  shows "ewp_Event ewp \<in> set (amie_processing_events d)" "pev_Status (ewp_Event ewp) \<in> set statuses"
proof -
  obtain n P Q where rows: "map ewp_Event (due_events statuses now d) =
      take n (filter P (sort_key pev_CreatedAt (filter Q (amie_processing_events d))))"
    and Q: "\<forall>v. Q v \<longrightarrow> pev_Status v \<in> set statuses"
    using due_events_rows [of statuses now d] .
  have "ewp_Event ewp \<in> set (map ewp_Event (due_events statuses now d))" using assms by simp
  then have "ewp_Event ewp \<in> set (filter P (sort_key pev_CreatedAt (filter Q (amie_processing_events d))))"
    unfolding rows by (rule in_set_takeD)
  then show "ewp_Event ewp \<in> set (amie_processing_events d)" "pev_Status (ewp_Event ewp) \<in> set statuses"
    using Q by auto
qed

lemma due_events_distinct:
  assumes "amie_ok d"
  shows "distinct (map (\<lambda>ewp. pev_ID (ewp_Event ewp)) (due_events statuses now d))"
proof -
  obtain n P Q where rows: "map ewp_Event (due_events statuses now d) =
      take n (filter P (sort_key pev_CreatedAt (filter Q (amie_processing_events d))))"
    and "\<forall>v. Q v \<longrightarrow> pev_Status v \<in> set statuses"
    using due_events_rows [of statuses now d] .
  have "map (\<lambda>ewp. pev_ID (ewp_Event ewp)) (due_events statuses now d) =
      map pev_ID (map ewp_Event (due_events statuses now d))" by simp
  moreover have "inj_on pev_ID (set (amie_processing_events d))" "distinct (amie_processing_events d)"
    using assms by (auto simp: amie_ok_def uniq_def distinct_map)
  ultimately show ?thesis
    unfolding rows by (auto simp: distinct_map inj_on_def dest!: in_set_takeD)
qed

text \<open>The loop over the fetched events, for any invariant I of the world that every call keeps.\<close>

context packet_router
begin

lemma process_loop:
  assumes step: "\<And>ewp w r w'. I w \<Longrightarrow> amie_ok (w_db w) \<Longrightarrow> ewp_Event ewp \<in> set (amie_processing_events (w_db w)) \<Longrightarrow>
      waiting (ewp_Event ewp) \<Longrightarrow> process_event route ewp e w = (r, w') \<Longrightarrow>
      I w' \<and> amie_ok (w_db w') \<and> (moved (pev_ID (ewp_Event ewp)) (w_db w) (w_db w') \<or> lazy \<and> w_db w' = w_db w)"
    and "eachA ewps (process_event route) e w = (r, w')" "I w" "amie_ok (w_db w)"
    and "\<forall>ewp\<in>set ewps. ewp_Event ewp \<in> set (amie_processing_events (w_db w)) \<and> waiting (ewp_Event ewp)"
    and "distinct (map (\<lambda>ewp. pev_ID (ewp_Event ewp)) ewps)"
  shows "I w' \<and> amie_ok (w_db w') \<and>
    stepped lazy ((\<lambda>ewp. pev_ID (ewp_Event ewp)) ` set ewps) (w_db w) (w_db w')"
  using assms(2-)
proof (induction ewps arbitrary: w)
  case Nil
  then show ?case by (simp add: arun_simps stepped_empty)
next
  case (Cons ewp ewps)
  let ?x = "pev_ID (ewp_Event ewp)"
  obtain r1 w1 where w1: "process_event route ewp e w = (Inr r1, w1)"
    "eachA ewps (process_event route) e w1 = (r, w')"
    using Cons.prems(1) by (auto simp: bindA_any process_event_Inr)
  from step [OF Cons.prems(2,3) _ _ w1(1)] Cons.prems
  have s1: "I w1" "amie_ok (w_db w1)" "moved ?x (w_db w) (w_db w1) \<or> lazy \<and> w_db w1 = w_db w" by auto
  then have st1: "stepped lazy {?x} (w_db w) (w_db w1)"
    using moved_stepped [OF Cons.prems(3)] stepped_lazy by auto
  have "\<forall>ewp\<in>set ewps. ewp_Event ewp \<in> set (amie_processing_events (w_db w1)) \<and> waiting (ewp_Event ewp)"
    using Cons.prems(4,5) stepped_keeps [OF st1] by (auto simp: image_iff)
  from Cons.IH [OF w1(2) s1(1,2) this] Cons.prems(5) stepped_insert [OF st1]
  show ?case by (auto simp: image_iff)
qed

end

end
