(* ===== verification/Amie_Handlers.thy ===== *)
theory Amie_Handlers
  imports Amie_Worker Core_System
begin

text \<open>
  The packet handlers of the AMIE connector and the router over them
  (connectors/ACCESS/AMIE-Processor/handler).  A handler reads the packet's
  body, calls the core service, writes audit rows and DN rows through the open
  transaction and sends the reply.

  An error carries the label of its fmt.Errorf without the arguments of the
  label.  strings.ToLower and ToUpper are followed on ASCII letters and on the
  runes whose image is an ASCII letter; other runes are left as they are.  Go
  ranges over the set of wanted DNs in no fixed order; the model takes the
  order of the packet.
\<close>

record amie_config =
  cfg_ClusterID :: id
  cfg_PosixPrefix :: string

definition amieIdentitySource :: string where "amieIdentitySource = ''access''"

subsection \<open>handler.go: reading a packet\<close>

definition getString :: "jobject \<Rightarrow> string \<Rightarrow> string" where
  "getString m key = (case map_of m key of Some (AStr s) \<Rightarrow> s | _ \<Rightarrow> '''')"

definition requireText :: "string \<Rightarrow> string \<Rightarrow> unit A" where
  "requireText val fieldName =
     (if TrimSpace val = '''' then throwA (NewError ''%q must not be empty'' [fieldName]) else retA ())"

definition getBody :: "jobject \<Rightarrow> jobject A" where
  "getBody packetJSON =
     (case map_of packetJSON ''body'' of
        None \<Rightarrow> throwA (NewError ''packet missing body'' [])
      | Some (AObj body) \<Rightarrow> retA body
      | Some _ \<Rightarrow> throwA (NewError ''packet body is not an object'' []))"

definition string_items :: "jobject \<Rightarrow> string \<Rightarrow> string list" where
  "string_items body key =
     (case map_of body key of
        Some (AArr items) \<Rightarrow> concat (map (\<lambda>x. case x of AStr s \<Rightarrow> [s] | _ \<Rightarrow> []) items)
      | _ \<Rightarrow> [])"

definition getResourceList :: "jobject \<Rightarrow> string list" where
  "getResourceList body = string_items body ''ResourceList''"

definition getDNList :: "jobject \<Rightarrow> string list" where
  "getDNList body = string_items body ''DnList''"

text \<open>A nil slice is encoded as null.\<close>

definition json_strings :: "string list \<Rightarrow> json" where
  "json_strings xs = (if xs = [] then ANull else AArr (map AStr xs))"

text \<open>Upper case: U+0131 (bytes C4 B1) becomes I and U+017F (C5 BF) becomes S.\<close>

definition upper_char :: "char \<Rightarrow> char" where
  "upper_char c = (let n = of_char c :: nat in if 97 \<le> n \<and> n \<le> 122 then char_of (n - 32) else c)"

function ToUpper :: "string \<Rightarrow> string" where
  "ToUpper [] = []"
| "ToUpper (c # s) =
     (if c = CHR 0xC4 \<and> take 1 s = [CHR 0xB1] then CHR ''I'' # ToUpper (drop 1 s)
      else if c = CHR 0xC5 \<and> take 1 s = [CHR 0xBF] then CHR ''S'' # ToUpper (drop 1 s)
      else upper_char c # ToUpper s)"
  by pat_completeness auto
termination
  by (relation "measure length") auto

text \<open>Lower case: U+0130 (bytes C4 B0) becomes i and U+212A (E2 84 AA) becomes k.\<close>

function ToLower :: "string \<Rightarrow> string" where
  "ToLower [] = []"
| "ToLower (c # s) =
     (if c = CHR 0xE2 \<and> take 2 s = [CHR 0x84, CHR 0xAA] then CHR ''k'' # ToLower (drop 2 s)
      else if c = CHR 0xC4 \<and> take 1 s = [CHR 0xB0] then CHR ''i'' # ToLower (drop 1 s)
      else lower_char c # ToLower s)"
  by pat_completeness auto
termination
  by (relation "measure length") auto

definition normalizeRole :: "string \<Rightarrow> string" where
  "normalizeRole raw =
     (let r = ToUpper (filter (\<lambda>c. c \<notin> set '' -_'') raw) in
      if r = ''PI'' then ''PI''
      else if r = ''COPI'' then ''CO_PI''
      else if r = ''ALLOCATIONMANAGER'' then ''ALLOCATION_MANAGER''
      else ''USER'')"

definition normalizeAMIERole :: "string \<Rightarrow> string" where
  "normalizeAMIERole r =
     (if r \<in> {''PI'', ''CO_PI'', ''ALLOCATION_MANAGER'', ''MEMBER''} then r else ''MEMBER'')"

definition getInt64 :: "jobject \<Rightarrow> string \<Rightarrow> int A" where
  "getInt64 body key =
     (let raw = getString body key in
      if raw = '''' then throwA (NewError ''%q is empty'' [key])
      else case ParseInt raw of
          None \<Rightarrow> throwA (NewError ''%q is not an integer'' [key])
        | Some n \<Rightarrow> retA n)"

text \<open>time.Parse with the layout 2006-01-02, as microseconds since January 1, year 1, UTC.\<close>

definition leap_year :: "int \<Rightarrow> bool" where
  "leap_year y = (y mod 4 = 0 \<and> (y mod 100 \<noteq> 0 \<or> y mod 400 = 0))"

definition month_lengths :: "int \<Rightarrow> int list" where
  "month_lengths y = [31, if leap_year y then 29 else 28, 31, 30, 31, 30, 31, 31, 30, 31, 30, 31]"

definition days_before_year :: "int \<Rightarrow> int" where
  "days_before_year y = 365 * (y - 1) + (y - 1) div 4 - (y - 1) div 100 + (y - 1) div 400"

definition civil_days :: "int \<Rightarrow> int \<Rightarrow> int \<Rightarrow> int" where
  "civil_days y m d = days_before_year y + sum_list (take (nat (m - 1)) (month_lengths y)) + (d - 1)"

definition ParseDate :: "string \<Rightarrow> time option" where
  "ParseDate raw =
     (if length raw = 10 \<and> raw ! 4 = CHR ''-'' \<and> raw ! 7 = CHR ''-'' \<and>
         list_all is_digit (take 4 raw @ take 2 (drop 5 raw) @ drop 8 raw)
      then let y = digits_value (take 4 raw); m = digits_value (take 2 (drop 5 raw)); d = digits_value (drop 8 raw)
           in if 1 \<le> m \<and> m \<le> 12 \<and> 1 \<le> d \<and> d \<le> month_lengths y ! nat (m - 1)
              then Some (civil_days y m d * 86400000000) else None
      else None)"

definition getDate :: "jobject \<Rightarrow> string \<Rightarrow> time A" where
  "getDate body key =
     (let raw = getString body key in
      if raw = '''' then throwA (NewError ''%q is empty'' [key])
      else case ParseDate raw of
          None \<Rightarrow> throwA (NewError ''%q is not a YYYY-MM-DD date'' [key])
        | Some t \<Rightarrow> retA t)"

subsection \<open>handler.go: upserts shared by the handlers\<close>

text \<open>A lookup whose ErrNotFound is a value.\<close>

definition lookup :: "'a M \<Rightarrow> 'a option A" where
  "lookup m = bindA (tryA (core m)) (\<lambda>r.
     case r of
       Inr x \<Rightarrow> retA (Some x)
     | Inl x \<Rightarrow> if errors_Is x ErrNotFound then retA None else throwA x)"

definition new_identity :: "id \<Rightarrow> string \<Rightarrow> string \<Rightarrow> user_identity" where
  "new_identity uid globalID email = \<lparr> uid_ID = '''', uid_UserID = uid, uid_Source = amieIdentitySource,
     uid_ExternalID = globalID, uid_Email = email, uid_OIDCSub = '''', uid_Metadata = '''', uid_CreatedAt = 0 \<rparr>"

definition ensureUserIdentity :: "id \<Rightarrow> string \<Rightarrow> unit A" where
  "ensureUserIdentity userID globalID =
     bindA (lookup (GetUserIdentityBySourceAndExternalID amieIdentitySource globalID)) (\<lambda>existing.
     case existing of
       Some ident \<Rightarrow>
         (if uid_UserID ident = userID then retA ()
          else throwA (NewError ''user identity for %s=%s is bound to user %s (not %s)''
                 [amieIdentitySource, globalID, uid_UserID ident, userID]))
     | None \<Rightarrow> bindA (wrapA ''create user identity''
         (core (CreateUserIdentity (Some (new_identity userID globalID ''''))))) (\<lambda>_. retA ()))"

fun flip_members :: "id \<Rightarrow> string \<Rightarrow> membership_with_user list \<Rightarrow> compute_allocation_membership list A" where
  "flip_members userID status [] = retA []"
| "flip_members userID status (m # ms) =
     (if mem_UserID (mwu_Membership m) \<noteq> userID then flip_members userID status ms
      else bindA (wrapA ''update membership'' (core (UpdateMembershipStatus (mem_ID (mwu_Membership m)) status)))
        (\<lambda>flipped. bindA (flip_members userID status ms) (\<lambda>rest. retA (flipped # rest))))"

fun flip_allocations :: "id \<Rightarrow> string \<Rightarrow> compute_allocation list \<Rightarrow> compute_allocation_membership list A" where
  "flip_allocations userID status [] = retA []"
| "flip_allocations userID status (a # as) =
     bindA (wrapA ''list memberships for allocation'' (core (ListMembersForAllocation (alc_ID a)))) (\<lambda>members.
     bindA (flip_members userID status members) (\<lambda>flipped.
     bindA (flip_allocations userID status as) (\<lambda>rest. retA (flipped @ rest))))"

definition flipUserMemberships :: "id \<Rightarrow> id \<Rightarrow> string \<Rightarrow> compute_allocation_membership list A" where
  "flipUserMemberships projectID userID status =
     bindA (wrapA ''lookup project'' (lookup (GetProject projectID))) (\<lambda>found.
     case found of
       None \<Rightarrow> retA []
     | Some project \<Rightarrow>
         bindA (wrapA ''list allocations'' (core (ListComputeAllocationsByProject (prj_ID project))))
           (flip_allocations userID status))"

definition ensureOrganization :: "string \<Rightarrow> string \<Rightarrow> organization A" where
  "ensureOrganization code name =
     (if code = '''' then throwA (NewError ''organization code is empty'' [])
      else bindA (lookup (GetOrganizationByOriginatedID code)) (\<lambda>found.
        case found of
          Some org \<Rightarrow> retA org
        | None \<Rightarrow> core (CreateOrganization (Some
            \<lparr> org_ID = '''', org_OriginatedID = code, org_Name = (if name = '''' then code else name) \<rparr>))))"

subsection \<open>posix_alloc.go\<close>

text \<open>The verb %q on a text whose other characters are printable.\<close>

definition quote :: "string \<Rightarrow> string" where
  "quote s = [CHR 0x22] @ concat (map (\<lambda>c. if c \<in> {CHR 0x22, CHR 0x5C} then [CHR 0x5C, c] else [c]) s) @ [CHR 0x22]"

definition posix_audit :: "string \<Rightarrow> id \<Rightarrow> string \<Rightarrow> unit A" where
  "posix_audit eventType userID details = bindA (tryA (core (CreateAuditEvent (Some
     \<lparr> aud_ID = '''', aud_EventType = eventType, aud_EventTime = 0, aud_EntityID = userID,
       aud_EntityType = ''user'', aud_Details = details, aud_Source = '''', aud_TraceID = '''',
       aud_SpanID = '''', aud_ParentSpanID = '''' \<rparr>)))) (\<lambda>_. retA ())"

function try_names :: "id \<Rightarrow> id \<Rightarrow> string \<Rightarrow> nat \<Rightarrow> compute_cluster_user option A" where
  "try_names clusterID userID base n =
     (if n < MaxCollisionSuffix
      then bindA (tryA (core (CreateComputeClusterUser (Some \<lparr> ccu_ID = '''', ccu_ComputeClusterID = clusterID,
        ccu_UserID = userID, ccu_LocalUsername = candidate base n, ccu_ProvisionedAt = None \<rparr>)))) (\<lambda>r.
        case r of
          Inr ccu \<Rightarrow> retA (Some ccu)
        | Inl x \<Rightarrow> if errors_Is x ErrAlreadyExists then try_names clusterID userID base (n + 1) else throwA x)
      else retA None)"
  by pat_completeness auto
termination
  by (relation "measure (\<lambda>(_, _, _, n). MaxCollisionSuffix - n)") auto

declare try_names.simps [simp del]

definition unbuildable :: "user \<Rightarrow> string" where
  "unbuildable u = ''posix: cannot build username from empty first and last name: user '' @ quote (usr_ID u) @
     '' (first='' @ quote (usr_FirstName u) @ '' last='' @ quote (usr_LastName u) @ '')''"

definition allocateAndCreateClusterUser :: "amie_config \<Rightarrow> id \<Rightarrow> compute_cluster_user A" where
  "allocateAndCreateClusterUser cfg userID =
     bindA (wrapA ''lookup user'' (core (GetUser userID))) (\<lambda>user.
     case BuildBase (usr_FirstName user) (usr_LastName user) (Prefix (cfg_PosixPrefix cfg)) of
       None \<Rightarrow> throwA (NewError ''panic: slice bounds out of range'' [])
     | Some Unbuildable \<Rightarrow>
         bindA (posix_audit ''PosixUsernameUnbuildable'' userID (unbuildable user)) (\<lambda>_.
         throwA (NewError (unbuildable user) []))
     | Some (Base base truncated) \<Rightarrow>
         bindA (if truncated then posix_audit ''PosixUsernameTruncated'' userID base else retA ()) (\<lambda>_.
         bindA (try_names (cfg_ClusterID cfg) userID base 0) (\<lambda>r.
         case r of
           Some ccu \<Rightarrow> retA ccu
         | None \<Rightarrow>
             bindA (posix_audit ''PosixUsernameAllocatorExhausted'' userID base) (\<lambda>_.
             throwA (NewError ''posix username allocator exhausted for base %q'' [base])))))"

subsection \<open>request_project_create.go\<close>

definition new_user :: "id \<Rightarrow> string \<Rightarrow> string \<Rightarrow> string \<Rightarrow> user" where
  "new_user orgID firstName lastName email = \<lparr> usr_ID = '''', usr_OrganizationID = orgID, usr_FirstName = firstName,
     usr_LastName = lastName, usr_MiddleName = '''', usr_Email = email, usr_Status = UserPending, usr_Type = '''' \<rparr>"

definition ensurePIUser :: "jobject \<Rightarrow> string \<Rightarrow> user A" where
  "ensurePIUser body globalID =
     bindA (lookup (GetUserByUserIdentity amieIdentitySource globalID)) (\<lambda>found.
     case found of
       Some u \<Rightarrow> retA u
     | None \<Rightarrow>
         bindA (wrapA ''ensure PI organization''
           (ensureOrganization (getString body ''PiOrgCode'') (getString body ''PiOrganization''))) (\<lambda>org.
         bindA (wrapA ''create PI user'' (core (CreateUser (Some (new_user (org_ID org)
           (getString body ''PiFirstName'') (getString body ''PiLastName'') (getString body ''PiEmail'')))))) (\<lambda>user.
         bindA (wrapA ''create PI user identity'' (core (CreateUserIdentity (Some
           (new_identity (usr_ID user) globalID (getString body ''PiEmail'')))))) (\<lambda>_. retA user))))"

definition ensurePIClusterUser :: "amie_config \<Rightarrow> id \<Rightarrow> compute_cluster_user A" where
  "ensurePIClusterUser cfg userID =
     bindA (wrapA ''list compute cluster users'' (core (ListComputeClusterUsersByUser userID))) (\<lambda>existing.
     case find (\<lambda>a. ccu_ComputeClusterID a = cfg_ClusterID cfg) existing of
       Some a \<Rightarrow> retA a
     | None \<Rightarrow> allocateAndCreateClusterUser cfg userID)"

definition ensureProject :: "string \<Rightarrow> string \<Rightarrow> id \<Rightarrow> project A" where
  "ensureProject originatedID grantNumber piID =
     bindA (lookup (GetProjectByOriginatedID originatedID)) (\<lambda>found.
     case found of
       Some p \<Rightarrow> retA p
     | None \<Rightarrow> core (CreateProject (Some \<lparr> prj_ID = '''', prj_OriginatedID = originatedID,
         prj_Title = grantNumber, prj_Origination = amieIdentitySource, prj_ProjectPIID = piID,
         prj_Status = '''', prj_CreatedTime = 0 \<rparr>)))"

definition recordAllocationDiff :: "jobject \<Rightarrow> compute_allocation \<Rightarrow> compute_allocation A" where
  "recordAllocationDiff body existing =
     bindA (getInt64 body ''ServiceUnitsAllocated'') (\<lambda>su.
     let t = ToUpper (TrimSpace (getString body ''AllocationType''));
         diffType = (if t = '''' then ''GRANT'' else t) in
     bindA (wrapA ''record allocation diff'' (core (CreateComputeAllocationDiff (Some
       \<lparr> dif_ID = '''', dif_ComputeAllocationID = alc_ID existing, dif_DiffType = diffType,
         dif_NewSUAmount = su, dif_Status = AllocationACTIVE, dif_Timestamp = 0,
         dif_Description = ''AMIE '' @ diffType @ '' of '' @ FormatInt su @ '' SUs'' \<rparr>)))) (\<lambda>_. retA existing))"

definition ensureAllocation :: "amie_config \<Rightarrow> jobject \<Rightarrow> id \<Rightarrow> string \<Rightarrow> compute_allocation A" where
  "ensureAllocation cfg body projectID grantNumber =
     bindA (wrapA ''list allocations'' (core (ListComputeAllocationsByProject projectID))) (\<lambda>existing.
     case existing of
       a # _ \<Rightarrow> recordAllocationDiff body a
     | [] \<Rightarrow>
         bindA (getInt64 body ''ServiceUnitsAllocated'') (\<lambda>su.
         bindA (getDate body ''StartDate'') (\<lambda>start.
         bindA (getDate body ''EndDate'') (\<lambda>end'.
         core (CreateComputeAllocation (Some \<lparr> alc_ID = '''', alc_ProjectID = projectID, alc_Name = grantNumber,
           alc_Status = '''', alc_ComputeClusterID = cfg_ClusterID cfg, alc_InitialSUAmount = su,
           alc_StartTime = start, alc_EndTime = end' \<rparr>))))))"

definition ensureResourceMapping ::
    "amie_config \<Rightarrow> compute_allocation \<Rightarrow> packet \<Rightarrow> id \<Rightarrow> string \<Rightarrow> unit A" where
  "ensureResourceMapping cfg allocation packet eventID name =
     bindA (wrapA ''lookup resource''
       (lookup (GetComputeAllocationResourceByNameAndCluster name (cfg_ClusterID cfg)))) (\<lambda>found.
     case found of
       None \<Rightarrow> retA ()
     | Some resource \<Rightarrow>
         bindA (tryA (core (AttachResourceToAllocation (alc_ID allocation) (res_ID resource) 0 0))) (\<lambda>r.
         case r of
           Inl x \<Rightarrow> if errors_Is x ErrAlreadyExists then retA ()
                    else throwA (Errorf ''attach resource: %w'' [] x)
         | Inr mapping \<Rightarrow> wrapA ''audit ATTACH_RESOURCE'' (Log (apk_ID packet) eventID ''ATTACH_RESOURCE''
             ''compute_allocation_resource_mapping'' (rmp_ID mapping) name)))"

definition ensureResourceMappings ::
    "amie_config \<Rightarrow> jobject \<Rightarrow> compute_allocation \<Rightarrow> packet \<Rightarrow> id \<Rightarrow> unit A" where
  "ensureResourceMappings cfg body allocation packet eventID =
     eachA (getResourceList body) (ensureResourceMapping cfg allocation packet eventID)"

definition new_membership :: "id \<Rightarrow> id \<Rightarrow> time \<Rightarrow> time \<Rightarrow> string \<Rightarrow> compute_allocation_membership" where
  "new_membership aid uid start end' status = \<lparr> mem_ID = '''', mem_ComputeAllocationID = aid, mem_UserID = uid,
     mem_StartTime = start, mem_EndTime = end', mem_MembershipStatus = status \<rparr>"

definition ensurePIMembership ::
    "compute_allocation \<Rightarrow> id \<Rightarrow> (compute_allocation_membership \<times> bool) A" where
  "ensurePIMembership allocation piID =
     bindA (wrapA ''list memberships'' (core (ListMembersForAllocation (alc_ID allocation)))) (\<lambda>existing.
     case find (\<lambda>m. mem_UserID (mwu_Membership m) = piID) existing of
       Some m \<Rightarrow> retA (mwu_Membership m, False)
     | None \<Rightarrow> bindA (core (CreateComputeAllocationMembership (Some (new_membership (alc_ID allocation) piID
         (alc_StartTime allocation) (alc_EndTime allocation) AllocationACTIVE)))) (\<lambda>m. retA (m, True)))"

definition replied :: "string \<Rightarrow> packet \<Rightarrow> id \<Rightarrow> reply \<Rightarrow> unit A" where
  "replied h packet eventID reply =
     bindA (wrapA (h @ '': sending reply'') (ReplyToPacket (apk_AmieID packet) reply)) (\<lambda>_.
     wrapA (h @ '': audit REPLY_SENT'') (Log (apk_ID packet) eventID ''REPLY_SENT'' ''reply'' '''' ''''))"

definition RequestProjectCreate_Handle :: "amie_config \<Rightarrow> packet_route" where
  "RequestProjectCreate_Handle cfg packetJSON packet eventID =
     bindA (getBody packetJSON) (\<lambda>body.
     let grantNumber = getString body ''GrantNumber''; piGlobalID = getString body ''PiGlobalID'';
         log = (\<lambda>lbl action etype x summary.
           wrapA (''request_project_create: audit '' @ lbl) (Log (apk_ID packet) eventID action etype x summary)) in
     bindA (requireText grantNumber ''GrantNumber'') (\<lambda>_.
     bindA (requireText piGlobalID ''PiGlobalID'') (\<lambda>_.
     if cfg_ClusterID cfg = '''' then throwA (NewError ''AMIE_CLUSTER_ID not configured'' []) else
     bindA (wrapA ''request_project_create: ensure PI'' (ensurePIUser body piGlobalID)) (\<lambda>pi.
     bindA (log ''CREATE_PERSON'' ''CREATE_PERSON'' ''user'' (usr_ID pi) ''PI'') (\<lambda>_.
     bindA (wrapA ''request_project_create: ensure PI cluster user'' (ensurePIClusterUser cfg (usr_ID pi))) (\<lambda>ccu.
     bindA (log ''CREATE_ACCOUNT (PI)'' ''CREATE_ACCOUNT'' ''compute_cluster_user'' (ccu_ID ccu) (ccu_LocalUsername ccu)) (\<lambda>_.
     bindA (wrapA ''request_project_create: ensure project'' (ensureProject grantNumber grantNumber (usr_ID pi))) (\<lambda>project.
     bindA (log ''CREATE_PROJECT'' ''CREATE_PROJECT'' ''project'' (prj_ID project) '''') (\<lambda>_.
     bindA (wrapA ''request_project_create: ensure allocation''
       (ensureAllocation cfg body (prj_ID project) grantNumber)) (\<lambda>allocation.
     bindA (log ''CREATE_ALLOCATION'' ''CREATE_ALLOCATION'' ''compute_allocation'' (alc_ID allocation) '''') (\<lambda>_.
     bindA (wrapA ''request_project_create: ensure resource mappings''
       (ensureResourceMappings cfg body allocation packet eventID)) (\<lambda>_.
     bindA (wrapA ''request_project_create: ensure PI membership'' (ensurePIMembership allocation (usr_ID pi)))
       (\<lambda>(piMembership, created).
     bindA (wrapA ''request_project_create: ensure PI project membership''
       (core (EnsureProjectMembership (prj_ID project) (usr_ID pi) ''PI''))) (\<lambda>_.
     bindA (if created then log ''CREATE_MEMBERSHIP (PI)'' ''CREATE_MEMBERSHIP'' ''compute_allocation_membership''
              (mem_ID piMembership) ''PI'' else retA ()) (\<lambda>_.
     replied ''request_project_create'' packet eventID \<lparr> rep_Type = ''notify_project_create'',
       rep_Body = [(''ProjectID'', AStr (prj_ID project)), (''GrantNumber'', AStr grantNumber),
         (''PiPersonID'', AStr (usr_ID pi)), (''PiRemoteSiteLogin'', AStr (ccu_LocalUsername ccu)),
         (''ResourceList'', json_strings (getResourceList body))] \<rparr>)))))))))))))))"

subsection \<open>request_account_create.go\<close>

definition ensureUser :: "jobject \<Rightarrow> string \<Rightarrow> user A" where
  "ensureUser body globalID =
     bindA (lookup (GetUserByUserIdentity amieIdentitySource globalID)) (\<lambda>found.
     case found of
       Some u \<Rightarrow> retA u
     | None \<Rightarrow>
         bindA (wrapA ''ensure user organization''
           (ensureOrganization (getString body ''UserOrgCode'') (getString body ''UserOrganization''))) (\<lambda>org.
         bindA (wrapA ''create user'' (core (CreateUser (Some (new_user (org_ID org)
           (getString body ''UserFirstName'') (getString body ''UserLastName'') (getString body ''UserEmail'')))))) (\<lambda>user.
         bindA (wrapA ''create user identity'' (core (CreateUserIdentity (Some
           (new_identity (usr_ID user) globalID (getString body ''UserEmail'')))))) (\<lambda>_. retA user))))"

definition ensureComputeClusterUser :: "amie_config \<Rightarrow> id \<Rightarrow> compute_cluster_user A" where
  "ensureComputeClusterUser cfg userID =
     bindA (wrapA ''list compute cluster users'' (core (ListComputeClusterUsersByUser userID))) (\<lambda>existing.
     case find (\<lambda>a. ccu_ComputeClusterID a = cfg_ClusterID cfg) existing of
       Some a \<Rightarrow> retA a
     | None \<Rightarrow> allocateAndCreateClusterUser cfg userID)"

definition ensureMembership :: "id \<Rightarrow> id \<Rightarrow> compute_allocation_membership A" where
  "ensureMembership allocationID userID =
     bindA (wrapA ''list memberships'' (core (ListMembersForAllocation allocationID))) (\<lambda>existing.
     case find (\<lambda>m. mem_UserID (mwu_Membership m) = userID) existing of
       Some m \<Rightarrow> retA (mwu_Membership m)
     | None \<Rightarrow> core (CreateComputeAllocationMembership (Some (new_membership allocationID userID 0 0 ''''))))"

definition RequestAccountCreate_Handle :: "amie_config \<Rightarrow> packet_route" where
  "RequestAccountCreate_Handle cfg packetJSON packet eventID =
     bindA (getBody packetJSON) (\<lambda>body.
     let projectID = getString body ''ProjectID''; userGlobalID = getString body ''UserGlobalID'';
         log = (\<lambda>action etype x summary.
           wrapA (''request_account_create: audit '' @ action) (Log (apk_ID packet) eventID action etype x summary)) in
     bindA (requireText projectID ''ProjectID'') (\<lambda>_.
     bindA (requireText (getString body ''GrantNumber'') ''GrantNumber'') (\<lambda>_.
     bindA (requireText userGlobalID ''UserGlobalID'') (\<lambda>_.
     if cfg_ClusterID cfg = '''' then throwA (NewError ''AMIE_CLUSTER_ID not configured'' []) else
     bindA (wrapA ''request_account_create: ensure user'' (ensureUser body userGlobalID)) (\<lambda>user.
     bindA (log ''CREATE_PERSON'' ''user'' (usr_ID user) '''') (\<lambda>_.
     bindA (wrapA ''request_account_create: project not found (request_project_create must precede this packet)''
       (core (GetProject projectID))) (\<lambda>project.
     bindA (wrapA ''request_account_create: list allocations''
       (core (ListComputeAllocationsByProject (prj_ID project)))) (\<lambda>allocations.
     case allocations of
       [] \<Rightarrow> throwA (NewError ''request_account_create: project %q has no ComputeAllocation'' [projectID])
     | allocation # _ \<Rightarrow>
         bindA (wrapA ''request_account_create: ensure compute cluster user''
           (ensureComputeClusterUser cfg (usr_ID user))) (\<lambda>account.
         bindA (log ''CREATE_ACCOUNT'' ''compute_cluster_user'' (ccu_ID account) (ccu_LocalUsername account)) (\<lambda>_.
         let role = normalizeAMIERole (normalizeRole (getString body ''UserRole'')) in
         bindA (wrapA ''request_account_create: ensure membership''
           (ensureMembership (alc_ID allocation) (usr_ID user))) (\<lambda>membership.
         bindA (wrapA ''request_account_create: ensure project membership''
           (core (EnsureProjectMembership (prj_ID project) (usr_ID user) role))) (\<lambda>_.
         bindA (log ''CREATE_MEMBERSHIP'' ''compute_allocation_membership'' (mem_ID membership)
           (''allocation='' @ alc_ID allocation @ '' user='' @ usr_ID user @ '' role='' @ role)) (\<lambda>_.
         replied ''request_account_create'' packet eventID \<lparr> rep_Type = ''notify_account_create'',
           rep_Body = [(''ProjectID'', AStr projectID), (''GrantNumber'', AStr (getString body ''GrantNumber'')),
             (''UserPersonID'', AStr (usr_ID user)), (''UserRemoteSiteLogin'', AStr (ccu_LocalUsername account)),
             (''ResourceList'', json_strings (getResourceList body))] @
             (if getString body ''UserOrgCode'' = '''' then []
              else [(''UserOrgCode'', AStr (getString body ''UserOrgCode''))]) \<rparr>)))))))))))))"

subsection \<open>data_project_create.go and data_account_create.go\<close>

definition complete_reply :: "string \<Rightarrow> reply" where
  "complete_reply message = \<lparr> rep_Type = ''inform_transaction_complete'',
     rep_Body = [(''StatusCode'', AStr ''Success''), (''DetailCode'', ANum 1), (''Message'', AStr message)] \<rparr>"

definition persist_dns :: "string \<Rightarrow> string \<Rightarrow> packet \<Rightarrow> id \<Rightarrow> jobject \<Rightarrow> id \<Rightarrow> unit A" where
  "persist_dns h what packet eventID body userID =
     (let dns = getDNList body in
      if dns = [] then retA ()
      else bindA (eachA dns (\<lambda>dn. wrapA (h @ '': add DN'') (dns_Add userID dn))) (\<lambda>_.
        wrapA (h @ '': audit PERSIST_DNS'') (Log (apk_ID packet) eventID ''PERSIST_DNS'' ''user'' userID
          (''Persisted '' @ Itoa (length dns) @ what))))"

definition DataProjectCreate_Handle :: packet_route where
  "DataProjectCreate_Handle packetJSON packet eventID =
     bindA (getBody packetJSON) (\<lambda>body.
     bindA (requireText (getString body ''ProjectID'') ''ProjectID'') (\<lambda>_.
     let piGlobalID = getString body ''GlobalID'' in
     bindA (requireText piGlobalID ''GlobalID'') (\<lambda>_.
     bindA (wrapA ''data_project_create: resolve PI user''
       (lookup (GetUserByUserIdentity amieIdentitySource piGlobalID))) (\<lambda>found.
     bindA (case found of
              None \<Rightarrow> retA ()
            | Some user \<Rightarrow>
                bindA (wrapA ''data_project_create: ensure user identity''
                  (ensureUserIdentity (usr_ID user) piGlobalID)) (\<lambda>_.
                persist_dns ''data_project_create'' '' PI DNs'' packet eventID body (usr_ID user))) (\<lambda>_.
     replied ''data_project_create'' packet eventID
       (complete_reply ''Transaction completed successfully by handler.''))))))"

definition DataAccountCreate_Handle :: packet_route where
  "DataAccountCreate_Handle packetJSON packet eventID =
     bindA (getBody packetJSON) (\<lambda>body.
     bindA (requireText (getString body ''ProjectID'') ''ProjectID'') (\<lambda>_.
     let personGlobalID = getString body ''GlobalID'' in
     bindA (requireText personGlobalID ''GlobalID'') (\<lambda>_.
     bindA (wrapA ''data_account_create: resolve user''
       (lookup (GetUserByUserIdentity amieIdentitySource personGlobalID))) (\<lambda>found.
     bindA (case found of
              None \<Rightarrow> retA ()
            | Some user \<Rightarrow>
                bindA (wrapA ''data_account_create: ensure user identity''
                  (ensureUserIdentity (usr_ID user) personGlobalID)) (\<lambda>_.
                persist_dns ''data_account_create'' '' DNs'' packet eventID body (usr_ID user))) (\<lambda>_.
     replied ''data_account_create'' packet eventID
       (complete_reply ''Transaction completed successfully by handler.''))))))"

subsection \<open>inform_transaction_complete.go and noop.go\<close>

definition InformTransactionComplete_Handle :: packet_route where
  "InformTransactionComplete_Handle packetJSON packet eventID =
     bindA (getBody packetJSON) (\<lambda>body.
     let statusCode = (if getString body ''StatusCode'' = '''' then ''Unknown'' else getString body ''StatusCode'') in
     wrapA ''inform_transaction_complete: audit TRANSACTION_COMPLETE'' (Log (apk_ID packet) eventID
       ''TRANSACTION_COMPLETE'' ''transaction'' ''''
       (''Transaction complete: statusCode='' @ statusCode @ '', message='' @ getString body ''Message'')))"

definition NoOp_Handle :: packet_route where
  "NoOp_Handle packetJSON packet eventID = retA ()"

subsection \<open>request_account_inactivate.go and request_account_reactivate.go\<close>

definition log_flipped :: "string \<Rightarrow> string \<Rightarrow> packet \<Rightarrow> id \<Rightarrow> compute_allocation_membership \<Rightarrow> unit A" where
  "log_flipped h action packet eventID m =
     wrapA (h @ '': audit '' @ action) (Log (apk_ID packet) eventID action ''compute_allocation_membership''
       (mem_ID m) (''user='' @ mem_UserID m @ '' allocation='' @ mem_ComputeAllocationID m))"

definition account_reply :: "string \<Rightarrow> id \<Rightarrow> id \<Rightarrow> reply" where
  "account_reply t projectID personID = \<lparr> rep_Type = t,
     rep_Body = [(''ProjectID'', AStr projectID), (''PersonID'', AStr personID)] \<rparr>"

definition RequestAccountInactivate_Handle :: packet_route where
  "RequestAccountInactivate_Handle packetJSON packet eventID =
     bindA (getBody packetJSON) (\<lambda>body.
     let projectID = getString body ''ProjectID''; personID = getString body ''PersonID'' in
     bindA (requireText projectID ''ProjectID'') (\<lambda>_.
     bindA (requireText personID ''PersonID'') (\<lambda>_.
     bindA (wrapA ''request_account_inactivate: flip memberships''
       (flipUserMemberships projectID personID AllocationINACTIVE)) (\<lambda>flipped.
     bindA (eachA flipped (log_flipped ''request_account_inactivate'' ''INACTIVATE_MEMBERSHIP'' packet eventID)) (\<lambda>_.
     replied ''request_account_inactivate'' packet eventID
       (account_reply ''notify_account_inactivate'' projectID personID))))))"

definition RequestAccountReactivate_Handle :: packet_route where
  "RequestAccountReactivate_Handle packetJSON packet eventID =
     bindA (getBody packetJSON) (\<lambda>body.
     let projectID = getString body ''ProjectID''; personID = getString body ''PersonID'' in
     bindA (requireText projectID ''ProjectID'') (\<lambda>_.
     bindA (requireText personID ''PersonID'') (\<lambda>_.
     bindA (wrapA ''request_account_reactivate: flip memberships''
       (flipUserMemberships projectID personID AllocationACTIVE)) (\<lambda>flipped.
     bindA (eachA flipped (log_flipped ''request_account_reactivate'' ''REACTIVATE_MEMBERSHIP'' packet eventID)) (\<lambda>_.
     replied ''request_account_reactivate'' packet eventID
       (account_reply ''notify_account_reactivate'' projectID personID))))))"

subsection \<open>request_person_merge.go\<close>

definition replyAndAudit :: "packet \<Rightarrow> id \<Rightarrow> unit A" where
  "replyAndAudit packet eventID =
     replied ''request_person_merge'' packet eventID (complete_reply ''Person merge completed.'')"

definition RequestPersonMerge_Handle :: packet_route where
  "RequestPersonMerge_Handle packetJSON packet eventID =
     bindA (getBody packetJSON) (\<lambda>body.
     let keepGlobalID = getString body ''KeepGlobalID''; deleteGlobalID = getString body ''DeleteGlobalID'';
         deletePersonID = getString body ''DeletePersonID'' in
     bindA (requireText keepGlobalID ''KeepGlobalID'') (\<lambda>_.
     bindA (requireText deleteGlobalID ''DeleteGlobalID'') (\<lambda>_.
     bindA (requireText deletePersonID ''DeletePersonID'') (\<lambda>_.
     if keepGlobalID = deleteGlobalID
     then throwA (NewError ''request_person_merge: keep and delete global IDs are identical'' []) else
     bindA (tryA (core (GetUser deletePersonID))) (\<lambda>r.
     if (case r of Inr u \<Rightarrow> usr_Status u = UserMerged | Inl _ \<Rightarrow> False) then replyAndAudit packet eventID else
     bindA (wrapA ''request_person_merge: resolve surviving user''
       (core (GetUserByUserIdentity amieIdentitySource keepGlobalID))) (\<lambda>survivor.
     bindA (wrapA ''request_person_merge: resolve retiring user''
       (core (GetUserByUserIdentity amieIdentitySource deleteGlobalID))) (\<lambda>retiring.
     bindA (wrapA ''request_person_merge: list memberships''
       (core (ListAllocationsForUser (usr_ID retiring)))) (\<lambda>_.
     bindA (wrapA ''request_person_merge: merge'' (core (MergeUsers (usr_ID survivor) (usr_ID retiring)))) (\<lambda>_.
     bindA (wrapA ''request_person_merge: reassign DNs''
       (dns_ReassignUser (usr_ID retiring) (usr_ID survivor))) (\<lambda>_.
     let reason = (if getString body ''MergeReason'' = ''''
           then ''AMIE request_person_merge packet '' @ FormatInt (apk_AmieID packet) else getString body ''MergeReason'') in
     bindA (wrapA ''request_person_merge: audit MERGE_PERSONS'' (Log (apk_ID packet) eventID ''MERGE_PERSONS''
       ''user'' (usr_ID survivor) (''merged '' @ usr_ID retiring @ '' into '' @ usr_ID survivor @ '': '' @ reason))) (\<lambda>_.
     replyAndAudit packet eventID)))))))))))"

subsection \<open>request_project_inactivate.go and request_project_reactivate.go\<close>

definition project_reply :: "string \<Rightarrow> string \<Rightarrow> packet \<Rightarrow> id \<Rightarrow> id \<Rightarrow> unit A" where
  "project_reply h t packet eventID projectID =
     replied h packet eventID \<lparr> rep_Type = t, rep_Body = [(''ProjectID'', AStr projectID)] \<rparr>"

definition describeStatusChange :: "string \<Rightarrow> string \<Rightarrow> string" where
  "describeStatusChange primary comment = (if comment = '''' then primary else primary @ '' ('' @ comment @ '')'')"

definition status_diff :: "id \<Rightarrow> string \<Rightarrow> string \<Rightarrow> compute_allocation_diff" where
  "status_diff aid status description = \<lparr> dif_ID = '''', dif_ComputeAllocationID = aid,
     dif_DiffType = ''ALLOCATION_STATUS_CHANGE'', dif_NewSUAmount = 0, dif_Status = status,
     dif_Timestamp = 0, dif_Description = description \<rparr>"

definition inactivate_member :: "packet \<Rightarrow> id \<Rightarrow> id \<Rightarrow> membership_with_user \<Rightarrow> unit A" where
  "inactivate_member packet eventID aid m = (let mem = mwu_Membership m in
     bindA (wrapA ''inactivate membership'' (core (UpdateMembershipStatus (mem_ID mem) AllocationINACTIVE))) (\<lambda>_.
     wrapA ''audit INACTIVATE_MEMBERSHIP'' (Log (apk_ID packet) eventID ''INACTIVATE_MEMBERSHIP''
       ''compute_allocation_membership'' (mem_ID mem) (''user='' @ mem_UserID mem @ '' allocation='' @ aid))))"

definition deactivateAllocations :: "packet \<Rightarrow> id \<Rightarrow> id \<Rightarrow> string \<Rightarrow> unit A" where
  "deactivateAllocations packet eventID projectID comment =
     bindA (wrapA ''list allocations'' (core (ListComputeAllocationsByProject projectID))) (\<lambda>allocations.
     eachA allocations (\<lambda>a.
       bindA (wrapA ''inactivate allocation''
         (core (UpdateComputeAllocation (Some (a\<lparr>alc_Status := AllocationINACTIVE\<rparr>))))) (\<lambda>_.
       bindA (wrapA ''record inactivate diff'' (core (CreateComputeAllocationDiff (Some (status_diff (alc_ID a)
         AllocationINACTIVE (describeStatusChange ''Inactivated by AMIE request_project_inactivate'' comment)))))) (\<lambda>_.
       bindA (wrapA ''list memberships for allocation'' (core (ListMembersForAllocation (alc_ID a)))) (\<lambda>members.
       eachA members (inactivate_member packet eventID (alc_ID a)))))))"

definition RequestProjectInactivate_Handle :: packet_route where
  "RequestProjectInactivate_Handle packetJSON packet eventID =
     bindA (getBody packetJSON) (\<lambda>body.
     let projectID = getString body ''ProjectID'';
         reply = project_reply ''request_project_inactivate'' ''notify_project_inactivate'' packet eventID projectID in
     bindA (requireText projectID ''ProjectID'') (\<lambda>_.
     bindA (wrapA ''request_project_inactivate: lookup project'' (lookup (GetProject projectID))) (\<lambda>found.
     case found of
       None \<Rightarrow> reply
     | Some project \<Rightarrow>
         bindA (wrapA ''request_project_inactivate: update project status''
           (core (UpdateProjectStatus (prj_ID project) ProjectInactive))) (\<lambda>_.
         bindA (wrapA ''request_project_inactivate: audit INACTIVATE_PROJECT''
           (Log (apk_ID packet) eventID ''INACTIVATE_PROJECT'' ''project'' (prj_ID project) '''')) (\<lambda>_.
         bindA (deactivateAllocations packet eventID (prj_ID project) (getString body ''Comment'')) (\<lambda>_.
         reply))))))"

definition reactivate_member :: "packet \<Rightarrow> id \<Rightarrow> id \<Rightarrow> id \<Rightarrow> membership_with_user \<Rightarrow> unit A" where
  "reactivate_member packet eventID piID aid m = (let mem = mwu_Membership m in
     if mem_UserID mem \<noteq> piID then retA ()
     else bindA (wrapA ''reactivate PI membership'' (core (UpdateMembershipStatus (mem_ID mem) AllocationACTIVE))) (\<lambda>_.
       wrapA ''audit REACTIVATE_MEMBERSHIP'' (Log (apk_ID packet) eventID ''REACTIVATE_MEMBERSHIP''
         ''compute_allocation_membership'' (mem_ID mem) (''PI user='' @ mem_UserID mem @ '' allocation='' @ aid))))"

definition reactivateAllocationsAndPI :: "packet \<Rightarrow> id \<Rightarrow> project \<Rightarrow> unit A" where
  "reactivateAllocationsAndPI packet eventID project =
     bindA (wrapA ''list allocations'' (core (ListComputeAllocationsByProject (prj_ID project)))) (\<lambda>allocations.
     eachA allocations (\<lambda>a.
       bindA (wrapA ''reactivate allocation''
         (core (UpdateComputeAllocation (Some (a\<lparr>alc_Status := AllocationACTIVE\<rparr>))))) (\<lambda>_.
       bindA (wrapA ''record reactivate diff'' (core (CreateComputeAllocationDiff (Some (status_diff (alc_ID a)
         AllocationACTIVE ''Reactivated by AMIE request_project_reactivate''))))) (\<lambda>_.
       if prj_ProjectPIID project = '''' then retA ()
       else bindA (wrapA ''list memberships for allocation'' (core (ListMembersForAllocation (alc_ID a)))) (\<lambda>members.
         eachA members (reactivate_member packet eventID (prj_ProjectPIID project) (alc_ID a)))))))"

definition RequestProjectReactivate_Handle :: packet_route where
  "RequestProjectReactivate_Handle packetJSON packet eventID =
     bindA (getBody packetJSON) (\<lambda>body.
     let projectID = getString body ''ProjectID'';
         reply = project_reply ''request_project_reactivate'' ''notify_project_reactivate'' packet eventID projectID in
     bindA (requireText projectID ''ProjectID'') (\<lambda>_.
     bindA (wrapA ''request_project_reactivate: lookup project'' (lookup (GetProject projectID))) (\<lambda>found.
     case found of
       None \<Rightarrow> reply
     | Some project \<Rightarrow>
         bindA (wrapA ''request_project_reactivate: update project status''
           (core (UpdateProjectStatus (prj_ID project) ProjectActive))) (\<lambda>_.
         bindA (wrapA ''request_project_reactivate: audit REACTIVATE_PROJECT''
           (Log (apk_ID packet) eventID ''REACTIVATE_PROJECT'' ''project'' (prj_ID project) '''')) (\<lambda>_.
         bindA (reactivateAllocationsAndPI packet eventID project) (\<lambda>_. reply))))))"

subsection \<open>request_user_modify.go\<close>

text \<open>The metadata map, in the order of its keys.\<close>

definition identity_metadata :: "jobject \<Rightarrow> (string \<times> string) list" where
  "identity_metadata body = filter (\<lambda>(k, v). v \<noteq> '''')
     [(''nsf_status_code'', getString body ''NsfStatusCode''), (''org_code'', getString body ''UserOrgCode''),
      (''organization'', getString body ''UserOrganization'')]"

definition updateUserIdentity :: "jobject \<Rightarrow> id \<Rightarrow> string \<Rightarrow> unit A" where
  "updateUserIdentity body userID userGlobalID =
     bindA (lookup (GetUserIdentityBySourceAndExternalID amieIdentitySource userGlobalID)) (\<lambda>found.
     case found of
       None \<Rightarrow> retA ()
     | Some ident \<Rightarrow>
         let metadata = identity_metadata body; email = getString body ''UserEmail'';
             emailChanged = (email \<noteq> '''' \<and> email \<noteq> uid_Email ident) in
         if metadata = [] \<and> \<not> emailChanged then retA ()
         else core (UpdateUserIdentity (Some (ident\<lparr>
           uid_Email := (if emailChanged then email else uid_Email ident),
           uid_Metadata := (if metadata \<noteq> [] then json_Marshal metadata else uid_Metadata ident),
           uid_UserID := userID\<rparr>))))"

definition deleteDNs :: "packet \<Rightarrow> id \<Rightarrow> jobject \<Rightarrow> id \<Rightarrow> unit A" where
  "deleteDNs packet eventID body userID =
     (let dns = getDNList body in
      if dns = [] then retA ()
      else bindA (wrapA ''list user DNs'' (dns_ListByUser userID)) (\<lambda>existing.
        let hits = filter (\<lambda>r. udn_DN r \<in> set dns) existing in
        bindA (eachA hits (\<lambda>r. wrapA ''remove DN'' (dns_DeleteByID (udn_ID r)))) (\<lambda>_.
        if hits = [] then retA ()
        else wrapA ''audit PERSIST_DNS'' (Log (apk_ID packet) eventID ''PERSIST_DNS'' ''user'' userID
               (''DN delete: -'' @ Itoa (length hits))))))"

definition syncDNs :: "packet \<Rightarrow> id \<Rightarrow> jobject \<Rightarrow> id \<Rightarrow> unit A" where
  "syncDNs packet eventID body userID =
     (let incoming = getDNList body in
      if incoming = [] then retA ()
      else bindA (wrapA ''list user DNs'' (dns_ListByUser userID)) (\<lambda>existing.
        let gone = filter (\<lambda>r. udn_DN r \<notin> set incoming) existing;
            new = filter (\<lambda>dn. dn \<notin> udn_DN ` set existing) (remdups incoming) in
        bindA (eachA gone (\<lambda>r. wrapA ''remove DN'' (dns_DeleteByID (udn_ID r)))) (\<lambda>_.
        bindA (eachA new (\<lambda>dn. wrapA ''add DN'' (dns_Add userID dn))) (\<lambda>_.
        if new = [] \<and> gone = [] then retA ()
        else wrapA ''audit PERSIST_DNS'' (Log (apk_ID packet) eventID ''PERSIST_DNS'' ''user'' userID
               (''DN sync: +'' @ Itoa (length new) @ '' -'' @ Itoa (length gone)))))))"

definition replaced_user :: "jobject \<Rightarrow> user \<Rightarrow> user" where
  "replaced_user body user = (let pick = (\<lambda>key old. let v = getString body key in if v \<noteq> '''' then v else old) in
     user\<lparr>usr_FirstName := pick ''UserFirstName'' (usr_FirstName user),
          usr_LastName := pick ''UserLastName'' (usr_LastName user),
          usr_Email := pick ''UserEmail'' (usr_Email user)\<rparr>)"

definition applyReplace :: "packet \<Rightarrow> id \<Rightarrow> jobject \<Rightarrow> user \<Rightarrow> string \<Rightarrow> unit A" where
  "applyReplace packet eventID body user userGlobalID =
     bindA (wrapA ''update user'' (core (UpdateUser (Some (replaced_user body user))))) (\<lambda>_.
     bindA (wrapA ''audit UPDATE_PERSON''
       (Log (apk_ID packet) eventID ''UPDATE_PERSON'' ''user'' (usr_ID user) '''')) (\<lambda>_.
     bindA (wrapA ''update user identity'' (updateUserIdentity body (usr_ID user) userGlobalID)) (\<lambda>_.
     wrapA ''sync user DNs'' (syncDNs packet eventID body (usr_ID user)))))"

text \<open>strings.EqualFold with a word that has no k and no s folds ASCII letters only.\<close>

definition RequestUserModify_Handle :: packet_route where
  "RequestUserModify_Handle packetJSON packet eventID =
     bindA (getBody packetJSON) (\<lambda>body.
     let actionType = getString body ''ActionType''; userGlobalID = getString body ''UserGlobalID'' in
     bindA (requireText actionType ''ActionType'') (\<lambda>_.
     bindA (requireText userGlobalID ''UserGlobalID'') (\<lambda>_.
     bindA (wrapA ''request_user_modify: resolve user''
       (lookup (GetUserByUserIdentity amieIdentitySource userGlobalID))) (\<lambda>found.
     bindA (if lower actionType = ''replace''
            then (case found of None \<Rightarrow> retA ()
                  | Some user \<Rightarrow> applyReplace packet eventID body user userGlobalID)
            else if lower actionType = ''delete''
            then (case found of None \<Rightarrow> retA () | Some user \<Rightarrow> deleteDNs packet eventID body (usr_ID user))
            else throwA (NewError ''unsupported ActionType: %s'' [actionType])) (\<lambda>_.
     replied ''request_user_modify'' packet eventID (complete_reply ''Transaction completed successfully''))))))"

subsection \<open>router.go, with the handlers of pkg/amie/loader.go\<close>

definition handlers :: "amie_config \<Rightarrow> (string \<times> packet_route) list" where
  "handlers cfg = [
     (''request_project_create'', RequestProjectCreate_Handle cfg),
     (''request_account_create'', RequestAccountCreate_Handle cfg),
     (''request_project_inactivate'', RequestProjectInactivate_Handle),
     (''request_project_reactivate'', RequestProjectReactivate_Handle),
     (''request_account_inactivate'', RequestAccountInactivate_Handle),
     (''request_account_reactivate'', RequestAccountReactivate_Handle),
     (''request_person_merge'', RequestPersonMerge_Handle),
     (''request_user_modify'', RequestUserModify_Handle),
     (''data_project_create'', DataProjectCreate_Handle),
     (''data_account_create'', DataAccountCreate_Handle),
     (''inform_transaction_complete'', InformTransactionComplete_Handle),
     (''*'', NoOp_Handle)]"

text \<open>The registered handlers and the one for every other type; a later handler of a type replaces an
  earlier one.\<close>

definition NewPacketRouter :: "(string \<times> packet_route) list \<Rightarrow> (string \<Rightarrow> packet_route option) \<times> packet_route option" where
  "NewPacketRouter hs = foldl (\<lambda>(m, noop) (t, h).
     if ToLower t = ''*'' then (m, Some h) else (m(ToLower t \<mapsto> h), noop)) (Map.empty, None) hs"

definition Route :: "(string \<Rightarrow> packet_route option) \<times> packet_route option \<Rightarrow> packet_route" where
  "Route r packetJSON packet eventID =
     (case fst r (ToLower (apk_Type packet)) of
        Some h \<Rightarrow> h packetJSON packet eventID
      | None \<Rightarrow> (case snd r of
          Some h \<Rightarrow> h packetJSON packet eventID
        | None \<Rightarrow> throwA (NewError ''no handler for packet type: %s'' [apk_Type packet])))"

definition dispatcher :: "amie_config \<Rightarrow> packet_route" where
  "dispatcher cfg = Route (NewPacketRouter (handlers cfg))"

subsection \<open>The dispatcher, computed\<close>

text \<open>The registered names are in lower case already.\<close>

definition name_chars :: string where
  "name_chars = ''abcdefghijklmnopqrstuvwxyz_*''"

lemma lower_alphabet: "list_all (\<lambda>c. lower_char c = c \<and> c \<noteq> CHR 0xE2 \<and> c \<noteq> CHR 0xC4) name_chars"
  by code_simp

lemma ToLower_id: "set s \<subseteq> set name_chars \<Longrightarrow> ToLower s = s"
proof (induction s rule: ToLower.induct)
  case (2 c s)
  then have "c \<in> set name_chars" "set s \<subseteq> set name_chars"
    unfolding list.set by blast+
  moreover from this(1) have "lower_char c = c" "c \<noteq> CHR 0xE2" "c \<noteq> CHR 0xC4"
    using lower_alphabet unfolding list_all_iff by blast+
  ultimately show ?case using 2(3) by simp
qed simp

lemma lower_names: "list_all (\<lambda>t. set t \<subseteq> set name_chars) (map fst (handlers cfg))"
  by (simp add: handlers_def name_chars_def)

lemma NewPacketRouter_fold:
  "list_all (\<lambda>(t, _). ToLower t = t) hs \<Longrightarrow>
    NewPacketRouter hs = (map_of (rev (filter (\<lambda>(t, _). t \<noteq> ''*'') hs)),
      (case rev (filter (\<lambda>(t, _). t = ''*'') hs) of [] \<Rightarrow> None | (_, h) # _ \<Rightarrow> Some h))"
proof (induction hs rule: rev_induct)
  case (snoc x hs)
  then show ?case by (cases x) (auto simp: NewPacketRouter_def fun_upd_def map_add_def split: prod.splits)
qed (simp add: NewPacketRouter_def)

lemma dispatcher_code [code]:
  "dispatcher cfg = Route (map_of (rev (butlast (handlers cfg))), Some NoOp_Handle)"
proof -
  have "list_all (\<lambda>(t, _). ToLower t = t) (handlers cfg)"
    using lower_names [of cfg] ToLower_id by (auto simp: list_all_iff)
  from NewPacketRouter_fold [OF this] show ?thesis
    by (simp add: dispatcher_def handlers_def)
qed

subsection \<open>What holds along every handler\<close>

lemma core_voidM: "core m e w = (r, w') \<Longrightarrow> \<exists>r'. core (voidM m) e w = (r', w')"
  by (cases r) (auto simp: core_iff voidM_def bindM_def retM_def)

lemma NewPacketRouter_from:
  "(fst (NewPacketRouter hs) t = Some h \<longrightarrow> h \<in> snd ` set hs) \<and> (snd (NewPacketRouter hs) = Some h \<longrightarrow> h \<in> snd ` set hs)"
proof (induction hs rule: rev_induct)
  case (snoc x hs)
  then show ?case by (cases x) (auto simp: NewPacketRouter_def split: prod.splits if_splits)
qed (simp add: NewPacketRouter_def)

lemma along_case_list [along_intros]:
  "along R m \<Longrightarrow> (\<And>x xs. along R (f x xs)) \<Longrightarrow> along R (case ys of [] \<Rightarrow> m | x # xs \<Rightarrow> f x xs)"
  by (cases ys) auto

lemma along_case_base_result [along_intros]:
  "along R m \<Longrightarrow> (\<And>x t. along R (f x t)) \<Longrightarrow> along R (case y of Unbuildable \<Rightarrow> m | Base x t \<Rightarrow> f x t)"
  by (cases y) auto

lemma connector_reads:
  "readonly (GetUserByUserIdentity x y)" "readonly (GetUser x)" "readonly (GetProject x)"
  "readonly (ListComputeAllocationsByProject x)" "readonly (ListMembersForAllocation x)"
  "readonly (ListAllocationsForUser x)" "readonly (ListComputeClusterUsersByUser x)"
  "readonly (GetUserIdentityBySourceAndExternalID x y)" "readonly (GetProjectByOriginatedID x)"
  "readonly (GetOrganizationByOriginatedID x)" "readonly (GetComputeAllocationResourceByNameAndCluster x y)"
  unfolding GetUserByUserIdentity_def GetUser_def GetProject_def ListComputeAllocationsByProject_def
    ListMembersForAllocation_def ListAllocationsForUser_def ListComputeClusterUsersByUser_def
    GetUserIdentityBySourceAndExternalID_def GetProjectByOriginatedID_def GetOrganizationByOriginatedID_def
    GetComputeAllocationResourceByNameAndCluster_def
  by (intro readonly_intros)+

text \<open>A relation between worlds that holds along every call of the core, every audit row, every reply
  and every change of the DN table holds along every handler.\<close>

locale connector_relation = world_preorder +
  assumes core_call: "core_op m \<or> readonly m \<Longrightarrow> along R (core (m :: unit M))"
    and audit_call: "along R (Log x y a t z s)"
    and reply_call: "along R (ReplyToPacket n rep)"
    and dns_calls: "along R (dns_Add uid dn)" "along R (dns_ListByUser uid)" "along R (dns_DeleteByID x)"
      "along R (dns_ReassignUser uid vid)"
begin

lemma along_core:
  assumes "core_op (voidM m) \<or> readonly m"
  shows "along R (core m)"
proof -
  have "along R (core (voidM m))"
    using assms by (intro core_call) (auto simp: voidM_def intro: readonly_intros)
  then show ?thesis unfolding along_def using core_voidM by blast
qed

lemmas reads = along_core [OF disjI2]
lemmas writes = along_core [OF disjI1]

lemma along_reading [along_intros]:
  "along R (getBody j)" "along R (requireText v f)" "along R (getInt64 b k)" "along R (getDate b k)"
  by (auto simp: getBody_def requireText_def getInt64_def getDate_def along_ret Let_def
      split: option.splits json.splits)

lemma along_reads [along_intros]:
  "along R (core (GetUserByUserIdentity x y))" "along R (core (GetUser x))"
  "along R (core (GetProject x))" "along R (core (ListComputeAllocationsByProject x))"
  "along R (core (ListMembersForAllocation x))" "along R (core (ListAllocationsForUser x))"
  "along R (core (ListComputeClusterUsersByUser x))"
  by (intro reads connector_reads)+

lemma along_writes [along_intros]:
  "along R (core (CreateOrganization org))" "along R (core (CreateUser usr))" "along R (core (UpdateUser usr))"
  "along R (core (CreateUserIdentity ident))" "along R (core (UpdateUserIdentity ident))"
  "along R (core (CreateComputeClusterUser ccu))" "along R (core (CreateProject prj))"
  "along R (core (UpdateProjectStatus x st))" "along R (core (EnsureProjectMembership x y role))"
  "along R (core (CreateComputeAllocation alc))" "along R (core (UpdateComputeAllocation alc))"
  "along R (core (CreateComputeAllocationDiff dif))" "along R (core (AttachResourceToAllocation x y i j))"
  "along R (core (CreateComputeAllocationMembership mem))" "along R (core (UpdateMembershipStatus x st))"
  "along R (core (MergeUsers x y))" "along R (core (CreateAuditEvent aud))"
  by (intro writes core_atomic atomic_op.intros)+

lemma along_lookup: "readonly m \<Longrightarrow> along R (lookup m)"
  unfolding lookup_def by (intro along_intros reads)

lemma along_lookups [along_intros]:
  "along R (lookup (GetUserIdentityBySourceAndExternalID x y))" "along R (lookup (GetUserByUserIdentity x y))"
  "along R (lookup (GetProject x))" "along R (lookup (GetProjectByOriginatedID x))"
  "along R (lookup (GetOrganizationByOriginatedID x))"
  "along R (lookup (GetComputeAllocationResourceByNameAndCluster x y))"
  by (intro along_lookup connector_reads)+

lemmas along_calls [along_intros] = audit_call reply_call dns_calls

lemma along_upserts [along_intros]:
  "along R (ensureUserIdentity x g)" "along R (ensureOrganization c n)" "along R (posix_audit t x s)"
  "along R (ensureProject o' g x)" "along R (recordAllocationDiff b a)" "along R (ensurePIMembership a x)"
  "along R (ensureMembership x y)" "along R (replied h p v rep)"
  unfolding ensureUserIdentity_def ensureOrganization_def posix_audit_def ensureProject_def
    recordAllocationDiff_def ensurePIMembership_def ensureMembership_def replied_def
  by (intro along_intros)+

lemma along_flip_members [along_intros]: "along R (flip_members x st ms)"
  by (induction ms) (auto intro!: along_intros)

lemma along_flip_allocations [along_intros]: "along R (flip_allocations x st as)"
  by (induction as) (simp_all, (intro along_intros | assumption)+)

lemma along_try_names [along_intros]: "along R (try_names x y base n)"
proof (induction x y base n rule: try_names.induct)
  case (1 x y base n)
  show ?case by (subst try_names.simps) (intro along_intros 1)
qed

lemma along_accounts [along_intros]:
  "along R (flipUserMemberships x y st)" "along R (allocateAndCreateClusterUser cfg x)"
  "along R (ensurePIUser b g)" "along R (ensureUser b g)" "along R (ensureAllocation cfg b x g)"
  "along R (ensureResourceMappings cfg b a p v)"
  unfolding flipUserMemberships_def allocateAndCreateClusterUser_def ensurePIUser_def ensureUser_def
    ensureAllocation_def ensureResourceMappings_def ensureResourceMapping_def
  by (intro along_intros)+

lemma along_cluster_users [along_intros]:
  "along R (ensurePIClusterUser cfg x)" "along R (ensureComputeClusterUser cfg x)"
  unfolding ensurePIClusterUser_def ensureComputeClusterUser_def by (intro along_intros)+

lemma along_create_handlers:
  "along R (RequestProjectCreate_Handle cfg j p v)" "along R (RequestAccountCreate_Handle cfg j p v)"
  unfolding RequestProjectCreate_Handle_def RequestAccountCreate_Handle_def Let_def by (intro along_intros)+

lemma along_data_handlers:
  "along R (DataProjectCreate_Handle j p v)" "along R (DataAccountCreate_Handle j p v)"
  "along R (InformTransactionComplete_Handle j p v)" "along R (NoOp_Handle j p v)"
  unfolding DataProjectCreate_Handle_def DataAccountCreate_Handle_def persist_dns_def
    InformTransactionComplete_Handle_def NoOp_Handle_def by (intro along_intros)+

lemma along_status_handlers:
  "along R (RequestAccountInactivate_Handle j p v)" "along R (RequestAccountReactivate_Handle j p v)"
  "along R (RequestProjectInactivate_Handle j p v)" "along R (RequestProjectReactivate_Handle j p v)"
  unfolding RequestAccountInactivate_Handle_def RequestAccountReactivate_Handle_def log_flipped_def
    RequestProjectInactivate_Handle_def RequestProjectReactivate_Handle_def project_reply_def
    deactivateAllocations_def inactivate_member_def reactivateAllocationsAndPI_def reactivate_member_def Let_def
  by (intro along_intros)+

lemma along_person_handlers:
  "along R (RequestPersonMerge_Handle j p v)" "along R (RequestUserModify_Handle j p v)"
  unfolding RequestPersonMerge_Handle_def replyAndAudit_def RequestUserModify_Handle_def applyReplace_def
    updateUserIdentity_def deleteDNs_def syncDNs_def
  by (intro along_intros)+

text \<open>The dispatcher calls one of the handlers above.\<close>

lemma along_dispatcher: "along R (dispatcher cfg j p v)"
proof -
  have "along R (h j p v)" if "h \<in> snd ` set (handlers cfg)" for h
    using that along_create_handlers along_data_handlers along_status_handlers along_person_handlers
    by (auto simp: handlers_def)
  then show ?thesis
    unfolding dispatcher_def Route_def using NewPacketRouter_from [of "handlers cfg"]
    by (auto intro: along_ret split: option.split)
qed

end

end
