(* ===== verification/Amie_Safety.thy ===== *)
theory Amie_Safety
  imports Amie_Lifecycle Amie_Handlers
begin

text \<open>
  The connector with its handlers as a transition system: rounds of the poller
  and of the processor, and operations of the core by other callers in between,
  each under any environment.  The invariant of the connector's tables and the
  invariants of the core hold in every reachable world, every event follows the
  abstract machine, and without database faults every due event moves on.
\<close>

subsection \<open>The dispatcher is a router\<close>

interpretation handlers_frame: connector_relation framed
  by unfold_locales (intro along_intros)+

interpretation amie: packet_router "dispatcher cfg" for cfg
  by unfold_locales (rule handlers_frame.along_dispatcher)

subsection \<open>The handlers keep the core's invariants\<close>

definition core_ok :: "database \<Rightarrow> bool" where
  "core_ok d = (schema_ok d \<and> one_pi d)"

definition core_kept :: "world \<Rightarrow> world \<Rightarrow> bool" where
  "core_kept w w' = (core_ok (db (w_core w)) \<longrightarrow> core_ok (db (w_core w')))"

lemma core_op_keeps_ok: "core_op m \<Longrightarrow> core_ok (db s) \<Longrightarrow> m e s = (r, s') \<Longrightarrow> core_ok (db s')"
  using core_op_keeps_schema core_op_keeps_one_pi unfolding core_ok_def keeps_def by blast

interpretation keep: world_preorder core_kept
  by unfold_locales (auto simp: core_kept_def)

lemma core_kept_core:
  "core_op m \<or> readonly m \<Longrightarrow> along core_kept (core m)"
  by (auto simp: along_def core_kept_def core_iff readonly_def frame_def dest: core_op_keeps_ok)

lemma core_kept_prim [along_intros]: "along core_kept (core newID)" "along core_kept (core nowUTC)"
  "along core_kept (core (askM f))" "along core_kept (aq q)" "along core_kept (ax cons upd)"
  "along core_kept (ReplyToPacket n rep)" "along core_kept (audit_Create row)"
  by (auto simp: along_def core_kept_def arun_simps aq_def ax_def ReplyToPacket_def audit_Create_def
      split: if_splits option.splits)

lemma core_kept_extras_Save [along_intros]: "along core_kept (extras_Save x)"
  using core_kept_prim(5) unfolding along_def extras_Save_def by blast

lemma core_kept_store [along_intros]:
  "along core_kept (packets_FindByAmieID n)" "along core_kept (packets_FindByID x)" "along core_kept (packets_Save p)"
  "along core_kept (packets_Update p)" "along core_kept (events_FindByID x)" "along core_kept (events_Save v)"
  "along core_kept (events_FindTop50EventsToProcess sts now)"
  "along core_kept (events_Update v)" "along core_kept (errors_Save er)" "along core_kept (dns_Add uid dn)"
  "along core_kept (dns_ListByUser uid)" "along core_kept (dns_DeleteByID x)"
  "along core_kept (dns_ReassignUser uid vid)" "along core_kept (Log x y a t z s)"
  unfolding packets_FindByAmieID_def packets_FindByID_def packets_Save_def packets_Update_def
    events_FindByID_def events_Save_def events_Update_def errors_Save_def dns_Add_def dns_ListByUser_def
    dns_DeleteByID_def dns_ReassignUser_def Log_def events_FindTop50EventsToProcess_def
  by (intro along_intros)+

interpretation handlers_keep: connector_relation core_kept
  by unfold_locales (rule core_kept_core, assumption, (rule along_intros)+)

text \<open>The audit rows that a commit adds have fresh keys.\<close>

lemma core_ok_commit:
  assumes "core_ok d" "list_all snd (audit_events_cons (commit_audit rows d))"
  shows "core_ok (commit_audit rows d)"
  using assms by (simp add: core_ok_def one_pi_def pi_rows_def commit_audit_def schema_simps)

lemma core_kept_TxFn [along_intros]: "along core_kept fn \<Longrightarrow> along core_kept (amie_TxFn fn)"
  unfolding along_def core_kept_def amie_TxFn_def
  by (auto split: if_splits prod.splits sum.splits intro: core_ok_commit)

lemma core_kept_execute [along_intros]: "along core_kept (executeInTransaction (dispatcher cfg) ewp)"
  unfolding executeInTransaction_def run_event_def nil_packet_def Let_def
  by (intro along_intros handlers_keep.along_dispatcher)

lemma core_kept_process_event [along_intros]: "along core_kept (process_event (dispatcher cfg) ewp)"
  unfolding process_event_def recordFailureInNewTransaction_def record_failure_def ComputeNextRetryAt_def
    nil_packet_def Let_def
  by (intro along_intros)

lemma core_kept_workers [along_intros]:
  "along core_kept (pollForPackets fetched)" "along core_kept (processPendingEvents (dispatcher cfg))"
  unfolding pollForPackets_def processIndividualPacket_def persist_packet_def processPendingEvents_def
  by (intro along_intros)+

subsection \<open>Rounds of the workers\<close>

lemma framed_fetch: "along same_db (events_FindTop50EventsToProcess sts now)"
  unfolding events_FindTop50EventsToProcess_def by (intro along_intros)

lemma persist_packet_same_db: "along same_db (persist_packet node)"
  unfolding persist_packet_def by (intro along_intros)

lemma amie_ok_persist:
  assumes "amie_TxFn (persist_packet node) e w = (r, w')" "amie_ok (w_db w)"
  shows "amie_ok (w_db w') \<and> (\<exists>vs. amie_processing_events (w_db w') = amie_processing_events (w_db w) @ vs)"
proof (cases r)
  case (Inl x)
  then show ?thesis using assms amie_TxFn_failed [OF _ persist_packet_same_db] by auto
next
  case (Inr x)
  obtain w1 where run: "persist_packet node e
      ((tickA w)\<lparr>w_tx := w_db w, w_now := clock e (ticks (w_core w)), w_audit := []\<rparr>) = (Inr x, w1)"
    and w1: "w_db w' = w_tx w1"
    using amie_TxFn_done [OF assms(1) [unfolded Inr]] .
  then show ?thesis
    using persist_packet_ok [OF run] assms(2) by (auto elim!: persist_packet_effect)
qed

text \<open>What a round of the poller does: events are added at the end of the table.\<close>

definition polled :: "world \<Rightarrow> world \<Rightarrow> bool" where
  "polled w w' = (amie_ok (w_db w) \<longrightarrow> amie_ok (w_db w') \<and>
     (\<exists>vs. amie_processing_events (w_db w') = amie_processing_events (w_db w) @ vs))"

interpretation poll: world_preorder polled
  by unfold_locales (auto simp: polled_def)

lemma poll_polled: "along polled (pollForPackets fetched)"
proof -
  have "along polled (amie_TxFn (persist_packet node))" for node
    using amie_ok_persist unfolding along_def polled_def by blast
  moreover have "along polled (packets_FindByAmieID n)" for n
    using same_db_store(1) [of n] by (auto simp: along_def same_db_def polled_def)
  ultimately show ?thesis
    unfolding pollForPackets_def processIndividualPacket_def by (intro along_intros) auto
qed

text \<open>What a round of the processor does, with the events it fetched.\<close>

lemma process_steps:
  assumes "processPendingEvents (dispatcher cfg) e w = (r, w')"
  obtains "w_db w' = w_db w" "fault e (ticks (w_core w))" | "\<not> fault e (ticks (w_core w))"
    "eachA (due_events [ProcessingStatusNew, ProcessingStatusRetryScheduled] (clock e (ticks (w_core w))) (w_db w))
      (process_event (dispatcher cfg)) e (tickA w) = (r, w')"
  using assms
  by (auto simp: processPendingEvents_def events_FindTop50EventsToProcess_def bindA_any arun_simps aq_def
      split: if_splits)

lemma due_events_waiting:
  assumes "ewp \<in> set (due_events [ProcessingStatusNew, ProcessingStatusRetryScheduled] now d)"
  shows "ewp_Event ewp \<in> set (amie_processing_events d) \<and> waiting (ewp_Event ewp)"
  using due_events_row [OF assms] by (simp add: waiting_def)

lemma process_round:
  assumes "processPendingEvents (dispatcher cfg) e w = (r, w')" "amie_ok (w_db w)"
  shows "amie_ok (w_db w') \<and> stepped True UNIV (w_db w) (w_db w')"
  using assms(1)
proof (cases rule: process_steps)
  case 1
  then show ?thesis using assms(2) by (simp add: stepped_lazy)
next
  case 2
  have "stepped True X d d' \<Longrightarrow> stepped True UNIV d d'" for X d d'
    unfolding stepped_def by (erule list_all2_mono) (auto split: if_splits)
  moreover have "True \<and> amie_ok (w_db w') \<and> stepped True ((\<lambda>ewp. pev_ID (ewp_Event ewp)) ` set (due_events
      [ProcessingStatusNew, ProcessingStatusRetryScheduled] (clock e (ticks (w_core w))) (w_db w))) (w_db (tickA w)) (w_db w')"
  proof (rule amie.process_loop [where I = "\<lambda>_. True", OF _ 2(2)])
    fix ewp w r w'
    assume "amie_ok (w_db w)" "ewp_Event ewp \<in> set (amie_processing_events (w_db w))" "waiting (ewp_Event ewp)"
      "process_event (dispatcher cfg) ewp e w = (r, w')"
    then show "True \<and> amie_ok (w_db w') \<and> (moved (pev_ID (ewp_Event ewp)) (w_db w) (w_db w') \<or> True \<and> w_db w' = w_db w)"
      using amie.process_event_moved by blast
  qed (use assms(2) due_events_waiting due_events_distinct in auto)
  ultimately show ?thesis by auto
qed

subsection \<open>The transition system\<close>

text \<open>Audit rows that the core deletes take their extras with them.\<close>

definition core_activity :: "world \<Rightarrow> state \<Rightarrow> world" where
  "core_activity w s = w\<lparr>w_core := s, w_db := (w_db w)\<lparr>amie_audit_extras_rows :=
     filter (\<lambda>x. aae_AuditEventID x \<in> aud_ID ` set (audit_events (db s))) (amie_audit_extras_rows (w_db w))\<rparr>\<rparr>"

inductive amie_step :: "amie_config \<Rightarrow> world \<Rightarrow> world \<Rightarrow> bool" for cfg where
  step_poll: "pollForPackets fetched e w = (r, w') \<Longrightarrow> amie_step cfg w w'"
| step_process: "processPendingEvents (dispatcher cfg) e w = (r, w') \<Longrightarrow> amie_step cfg w w'"
| step_core: "core_op m \<Longrightarrow> m e (w_core w) = (r, s) \<Longrightarrow> amie_step cfg w (core_activity w s)"

inductive amie_reachable :: "amie_config \<Rightarrow> world \<Rightarrow> bool" for cfg where
  amie_init: "db (w_core w) = empty_db \<Longrightarrow> w_db w = empty_amie_db \<Longrightarrow> amie_reachable cfg w"
| amie_next: "amie_reachable cfg w \<Longrightarrow> amie_step cfg w w' \<Longrightarrow> amie_reachable cfg w'"

lemma amie_ok_empty: "amie_ok empty_amie_db"
  by (simp add: amie_ok_def empty_amie_db_def uniq_def amie_errors_cons_def side_defs refs_def refs_opt_def)

lemma core_ok_empty: "core_ok empty_db"
proof -
  have "one_pi empty_db" by (simp add: one_pi_def pi_rows_def empty_db_def uniq_def)
  then show ?thesis by (simp add: core_ok_def schema_ok_empty)
qed

lemma amie_ok_activity: "amie_ok (w_db w) \<Longrightarrow> amie_ok (w_db (core_activity w s))"
  by (auto simp: amie_ok_def core_activity_def amie_errors_cons_def side_defs refs_def refs_opt_def uniq_def
      distinct_map_filter list_all_iff)

lemma amie_step_ok:
  assumes "amie_step cfg w w'" "amie_ok (w_db w)" "core_ok (db (w_core w))"
  shows "amie_ok (w_db w')" "core_ok (db (w_core w'))"
proof -
  show "amie_ok (w_db w')"
    using assms(1)
  proof cases
    case step_poll
    then show ?thesis using alongD [OF poll_polled] assms(2) by (auto simp: polled_def)
  next
    case step_process
    then show ?thesis using process_round assms(2) by blast
  qed (use assms(2) amie_ok_activity in auto)
  show "core_ok (db (w_core w'))"
    using assms(1)
  proof cases
    case step_poll
    then show ?thesis using alongD [OF core_kept_workers(1)] assms(3) by (auto simp: core_kept_def)
  next
    case step_process
    then show ?thesis using alongD [OF core_kept_workers(2)] assms(3) by (auto simp: core_kept_def)
  qed (use assms(3) core_op_keeps_ok in \<open>auto simp: core_activity_def\<close>)
qed

lemma amie_reachable_ok: "amie_reachable cfg w \<Longrightarrow> amie_ok (w_db w) \<and> core_ok (db (w_core w))"
proof (induction rule: amie_reachable.induct)
  case (amie_init w)
  then show ?case by (simp add: amie_ok_empty core_ok_empty)
qed (use amie_step_ok in blast)

subsection \<open>Without database faults\<close>

lemma refs_opt_snoc: "refs_opt f (cs @ [c]) g ps \<longleftrightarrow> refs_opt f cs g ps \<and>
    (case f c of None \<Rightarrow> True | Some k \<Rightarrow> k \<in> g ` set ps)"
  by (simp add: refs_opt_def split: option.split)

text \<open>A failure of an event is recorded, and the core is left alone.\<close>

lemma record_failure_total:
  assumes nofault: "\<And>n. \<not> fault e n" and "w_tx w = w_db w" "amie_ok (w_db w)"
    and u: "u \<in> set (amie_processing_events (w_db w))"
  shows "\<exists>w'. record_failure (pev_ID u) cause e w = (Inr (), w') \<and> w_audit w' = w_audit w \<and>
    db (w_core w') = db (w_core w)"
proof -
  obtain q where q: "q \<in> set (amie_packets (w_db w))" "lifecycle q u"
    "find (\<lambda>r. apk_ID r = pev_PacketID u) (amie_packets (w_db w)) = Some q"
    using packet_of_event [OF assms(3) u] .
  have uu: "find (\<lambda>r. pev_ID r = pev_ID u) (amie_processing_events (w_db w)) = Some u"
    using assms(3) u by (simp add: find_key amie_ok_def)
  have "refs_opt per_PacketID (amie_processing_errors (w_db w)) apk_ID (amie_packets (w_db w))"
    "refs_opt per_EventID (amie_processing_errors (w_db w)) pev_ID (amie_processing_events (w_db w))"
    "pev_PacketID u \<in> apk_ID ` set (amie_packets (w_db w))"
    using assms(3) u q by (auto simp: amie_ok_def lifecycle_def amie_errors_cons_def)
  with u show ?thesis
    unfolding record_failure_def ComputeNextRetryAt_def
    by (simp add: bindA_def wrapA_def retA_def events_FindByID_def packets_FindByID_def aq_def nofault uu q(3)
        nil_packet_def packets_Update_def events_Update_def errors_Save_def ax_def core_def nowUTC_def
        amie_errors_cons_def image_update_where refs_opt_snoc assms(2) insert_row_def Let_def del: set_update_where)
qed

lemma record_total:
  assumes nofault: "\<And>n. \<not> fault e n" and ok: "amie_ok (w_db w)" "core_ok (db (w_core w))"
    and u: "u \<in> set (amie_processing_events (w_db w))"
  shows "\<exists>w'. recordFailureInNewTransaction (pev_ID u) cause e w = (Inr (), w')"
proof -
  let ?w = "(tickA w)\<lparr>w_tx := w_db w, w_now := clock e (ticks (w_core w)), w_audit := []\<rparr>"
  obtain w1 where w1: "record_failure (pev_ID u) cause e ?w = (Inr (), w1)" "w_audit w1 = []"
    "db (w_core w1) = db (w_core w)"
    using record_failure_total [OF nofault, of ?w u cause] ok u by auto
  have "list_all snd (audit_events_cons (db (w_core w)))"
    using ok(2) by (auto simp: core_ok_def dest: schema_okD)
  then show ?thesis
    using w1 by (simp add: recordFailureInNewTransaction_def amie_TxFn_def nofault commit_audit_def)
qed

lemma process_event_moves:
  assumes nofault: "\<And>n. \<not> fault e n" and ok: "amie_ok (w_db w)" "core_ok (db (w_core w))"
    and u: "ewp_Event ewp = u" "u \<in> set (amie_processing_events (w_db w))" "waiting u"
    and run: "process_event (dispatcher cfg) ewp e w = (r, w')"
  shows "moved (pev_ID u) (w_db w) (w_db w')"
proof -
  obtain r1 w1 where ex: "executeInTransaction (dispatcher cfg) ewp e w = (r1, w1)"
    by (cases "executeInTransaction (dispatcher cfg) ewp e w")
  show ?thesis
  proof (cases r1)
    case (Inl x)
    then have same: "w_db w1 = w_db w"
      using ex amie_TxFn_failed [OF _ amie.run_event_same_db] by (auto simp: executeInTransaction_def)
    have core1: "core_ok (db (w_core w1))"
      using alongD [OF core_kept_execute ex] ok(2) by (simp add: core_kept_def)
    obtain r2 where r2: "recordFailureInNewTransaction (pev_ID u) x e w1 = (r2, w')"
      using run ex Inl u(1) by (auto simp: process_event_def bindA_any arun_simps)
    with record_total [OF nofault, of w1 u x] same ok(1) core1 u(2)
    have "recordFailureInNewTransaction (pev_ID u) x e w1 = (Inr (), w')" by auto
    with record_failed_moved(1) [OF this] same ok(1) u show ?thesis by simp
  next
    case (Inr y)
    then have "w' = w1" using run ex by (auto simp: process_event_def bindA_any arun_simps)
    with amie.execute_moved(1) [OF ex [unfolded Inr] ok(1) u] show ?thesis by simp
  qed
qed

lemma due_events_move:
  assumes nofault: "\<And>n. \<not> fault e n" and ok: "amie_ok (w_db w)" "core_ok (db (w_core w))"
    and run: "processPendingEvents (dispatcher cfg) e w = (r, w')"
  shows "stepped False ((\<lambda>ewp. pev_ID (ewp_Event ewp)) ` set (due_events
    [ProcessingStatusNew, ProcessingStatusRetryScheduled] (clock e (ticks (w_core w))) (w_db w))) (w_db w) (w_db w')"
proof -
  have loop: "eachA (due_events [ProcessingStatusNew, ProcessingStatusRetryScheduled]
      (clock e (ticks (w_core w))) (w_db w)) (process_event (dispatcher cfg)) e (tickA w) = (r, w')"
    using run by (cases rule: process_steps) (auto simp: nofault)
  have "core_ok (db (w_core w')) \<and> amie_ok (w_db w') \<and> stepped False ((\<lambda>ewp. pev_ID (ewp_Event ewp)) ` set (due_events
      [ProcessingStatusNew, ProcessingStatusRetryScheduled] (clock e (ticks (w_core w))) (w_db w))) (w_db (tickA w)) (w_db w')"
  proof (rule amie.process_loop [where I = "\<lambda>w. core_ok (db (w_core w))", OF _ loop])
    fix ewp w r w'
    assume *: "core_ok (db (w_core w))" "amie_ok (w_db w)" "ewp_Event ewp \<in> set (amie_processing_events (w_db w))"
      "waiting (ewp_Event ewp)" "process_event (dispatcher cfg) ewp e w = (r, w')"
    have "core_ok (db (w_core w'))"
      using alongD [OF core_kept_process_event *(5)] *(1) by (simp add: core_kept_def)
    then show "core_ok (db (w_core w')) \<and> amie_ok (w_db w') \<and>
        (moved (pev_ID (ewp_Event ewp)) (w_db w) (w_db w') \<or> False \<and> w_db w' = w_db w)"
      using * process_event_moves [OF nofault *(2,1) refl *(3-5)] amie.process_event_moved [OF *(5,2) refl *(3,4)]
      by blast
  qed (use ok due_events_waiting due_events_distinct in auto)
  then show ?thesis by simp
qed


subsection \<open>A sample run\<close>

definition demo_cfg :: amie_config where
  "demo_cfg = \<lparr> cfg_ClusterID = ''c1'', cfg_PosixPrefix = '''' \<rparr>"

definition blank_world :: "state \<Rightarrow> amie_db \<Rightarrow> world" where
  "blank_world s d = \<lparr> w_core = s, w_db = d, w_tx = d, w_now = 0, w_audit = [], w_sent = [] \<rparr>"

definition bare_packet :: "string \<Rightarrow> int \<Rightarrow> jobject" where
  "bare_packet t n = [(''type'', AStr t), (''header'', AObj [(''packet_rec_id'', ANum (of_int n))])]"

definition polled_world :: world where
  "polled_world = snd (pollForPackets (Inr [bare_packet ''ping'' 7, bare_packet ''data_project_create'' 8])
     quiet_env (blank_world (fresh_state empty_db) empty_amie_db))"

definition processed_world :: world where
  "processed_world = snd (processPendingEvents (dispatcher demo_cfg) quiet_env polled_world)"

lemma polled_reachable: "amie_reachable demo_cfg polled_world"
  unfolding polled_world_def
  by (rule amie_next [OF amie_init step_poll [OF surjective_pairing]])
    (simp_all add: blank_world_def fresh_state_def)

lemma processed_step: "amie_step demo_cfg polled_world processed_world"
  unfolding processed_world_def by (rule step_process [OF surjective_pairing])

lemma processed_reachable: "amie_reachable demo_cfg processed_world"
  by (rule amie_next [OF polled_reachable processed_step])

subsection \<open>Properties\<close>

definition attempts_left :: "processing_event \<Rightarrow> int" where
  "attempts_left v = (if waiting v then MaxAttempts - pev_Attempts v else 0)"

lemma sint_small: "- (2 ^ 63) \<le> i \<Longrightarrow> i < 2 ^ 63 \<Longrightarrow> sint (word_of_int i :: 64 word) = i"
  using signed_take_bit_int_eq_self [of 63 i] by (simp add: sint_sbintrunc')

lemma backoffSeconds_eq:
  assumes "k < 59"
  shows "backoffSeconds (word_of_int (int (Suc k))) = word_of_int (min 600 (30 * 2 ^ k))"
proof -
  have exp: "word_of_int (int (Suc k)) - 1 = (word_of_int (int k) :: 64 word)" by simp
  have "(2 :: int) ^ k \<le> 2 ^ 58" using assms by (intro power_increasing) auto
  then have small: "30 * 2 ^ k < (2 ^ 63 :: int)" by simp
  have k: "sint (of_nat k :: 64 word) = int k" "unat (of_nat k :: 64 word) = k"
    using assms sint_small [of "int k"] by (simp_all add: unat_of_nat)
  have "BaseBackoffSeconds * push_bit k 1 = word_of_int (30 * 2 ^ k)"
    by (simp add: BaseBackoffSeconds_def push_bit_eq_mult)
  moreover have "sint (word_of_int (30 * 2 ^ k) :: 64 word) = 30 * 2 ^ k"
    using small by (intro sint_small) (auto intro: order_trans [of _ 0])
  moreover have "(2 :: 64 word) ^ k = 20" if "(2 :: int) ^ k = 20"
    using arg_cong [OF that, of "word_of_int :: int \<Rightarrow> 64 word"] by simp
  ultimately show ?thesis
    by (simp add: backoffSeconds_def exp [simplified] Let_def MaxBackoffSeconds_def k min_def)
qed

text \<open>C4: In every world that rounds of the poller, rounds of the processor and operations of the core
  can lead to, under any failures, every AMIE packet is stored once and has exactly one processing
  event, and the two rows agree: a new or retried event has made at most two failed attempts, which are
  its packet's retries, a retry has its next time set, a success has marked the packet decoded, and three
  failures have marked event and packet failed for good.  No committed event is RUNNING.\<close>

theorem connector_invariant:
  assumes "amie_reachable cfg w"
  shows "uniq apk_AmieID (amie_packets (w_db w)) \<and>
    list_all2 lifecycle (amie_packets (w_db w)) (amie_processing_events (w_db w))"
  using amie_reachable_ok [OF assms] by (simp add: amie_ok_def)

theorem connector_invariant_witness:
  "list_all2 lifecycle (amie_packets (w_db processed_world)) (amie_processing_events (w_db processed_world)) \<and>
   map apk_AmieID (amie_packets (w_db polled_world)) = [7, 8]"
proof -
  have "map apk_AmieID (amie_packets (w_db polled_world)) = [7, 8]" by code_simp
  then show ?thesis using connector_invariant [OF processed_reachable] by simp
qed



text \<open>C5: The connector's tables refine the abstract retry machine: in every step of the system an event
  stays in the table and its status either stands for the same phase or takes one step of the machine,
  from waiting with n failures to completed, to waiting with n + 1 failures if that is less than three,
  or else to given up.\<close>

theorem event_refines_machine:
  assumes "amie_reachable cfg w" "amie_step cfg w w'" "v \<in> set (amie_processing_events (w_db w))"
  shows "\<exists>v'\<in>set (amie_processing_events (w_db w')). pev_ID v' = pev_ID v \<and>
    (phase v' = phase v \<or> phase_step (phase v) (phase v'))"
  using assms(2)
proof cases
  case step_poll
  then show ?thesis
    using alongD [OF poll_polled] amie_reachable_ok [OF assms(1)] assms(3) by (fastforce simp: polled_def)
next
  case step_process
  then have "stepped True UNIV (w_db w) (w_db w')"
    using process_round amie_reachable_ok [OF assms(1)] by blast
  from stepped_row [OF this assms(3)] show ?thesis by auto
next
  case step_core
  then show ?thesis using assms(3) by (auto simp: core_activity_def)
qed

theorem event_refines_machine_witness:
  "\<exists>v'\<in>set (amie_processing_events (w_db processed_world)). pev_ID v' = ''id-i'' \<and>
    (phase v' = Waiting 0 \<or> phase_step (Waiting 0) (phase v'))"
proof -
  have "pev_ID (hd (amie_processing_events (w_db polled_world))) = ''id-i''"
    "phase (hd (amie_processing_events (w_db polled_world))) = Waiting 0"
    "hd (amie_processing_events (w_db polled_world)) \<in> set (amie_processing_events (w_db polled_world))"
    by code_simp+
  with event_refines_machine [OF polled_reachable processed_step this(3)] show ?thesis by simp
qed



text \<open>The delay before the retry after the n-th failed attempt is 30 seconds doubled n - 1 times and
  at most ten minutes; the 64-bit product does not overflow for any n below 60.\<close>

theorem ComputeNextRetryAt_delay:
  assumes "1 \<le> n" "n < 60"
  shows "ComputeNextRetryAt (int n) e w =
    (Inr (clock e (ticks (w_core w)) + 1000000 * min 600 (30 * 2 ^ (n - 1))), w)"
proof -
  obtain k where k: "n = Suc k" "k < 59" using assms by (cases n) auto
  have "backoffSeconds (word_of_int (int n)) * 1000000000 = word_of_int (1000000000 * min 600 (30 * 2 ^ k))"
    using backoffSeconds_eq [OF k(2)] by (simp add: k(1))
  moreover have "sint (word_of_int (1000000000 * m) :: 64 word) = 1000000000 * m" if "0 \<le> m" "m \<le> 600" for m
    using that by (intro sint_small) auto
  ultimately show ?thesis
    by (simp add: ComputeNextRetryAt_def bindA_def core_def nowUTC_def retA_def k(1))
qed

theorem ComputeNextRetryAt_delay_witness:
  "fst (ComputeNextRetryAt 2 quiet_env (blank_world (fresh_state empty_db) empty_amie_db)) = Inr 60001000"
  using ComputeNextRetryAt_delay [of 2 quiet_env "blank_world (fresh_state empty_db) empty_amie_db"]
  by (simp add: quiet_env_def blank_world_def fresh_state_def)

end
