(* ===== verification/Amie_Replay.thy ===== *)
theory Amie_Replay
  imports Amie_Safety Change_Safety
begin

text \<open>
  What the connector's handlers do when a packet is tried again.  The calls of
  the core service that a handler has made are committed when a later step
  fails and the connector's transaction is rolled back; the next attempt starts
  from there.
\<close>

subsection \<open>The DN table\<close>

definition dns_of :: "id \<Rightarrow> amie_db \<Rightarrow> string set" where
  "dns_of uid d = udn_DN ` {r \<in> set (amie_user_dns d). udn_UserID r = uid}"

lemma dns_ReassignUser_rows:
  assumes "dns_ReassignUser x y e w = (Inr z, w')"
  shows "set (amie_user_dns (w_tx w')) = (\<lambda>r. if udn_UserID r = x then r\<lparr>udn_UserID := y\<rparr> else r) `
    {r \<in> set (amie_user_dns (w_tx w)). \<not> (udn_UserID r = x \<and> udn_DN r \<in> dns_of y (w_tx w))}"
  using assms by (auto simp: dns_ReassignUser_def arun_simps dns_of_def)

lemma dns_ReassignUser_effect:
  assumes "dns_ReassignUser x y e w = (Inr z, w')" "x \<noteq> y"
  shows "dns_of x (w_tx w') = {}" "dns_of y (w_tx w') = dns_of y (w_tx w) \<union> dns_of x (w_tx w)"
proof -
  let ?f = "\<lambda>r. if udn_UserID r = x then r\<lparr>udn_UserID := y\<rparr> else r"
  let ?A = "{r \<in> set (amie_user_dns (w_tx w)). \<not> (udn_UserID r = x \<and> udn_DN r \<in> dns_of y (w_tx w))}"
  have f: "udn_UserID (?f r) = (if udn_UserID r = x then y else udn_UserID r)" "udn_DN (?f r) = udn_DN r" for r
    by simp_all
  have "{r' \<in> ?f ` ?A. udn_UserID r' = u} = ?f ` {r \<in> ?A. udn_UserID (?f r) = u}" for u by blast
  then have dns: "dns_of u (w_tx w') = udn_DN ` {r \<in> ?A. (if udn_UserID r = x then y else udn_UserID r) = u}" for u
    unfolding dns_of_def [of u "w_tx w'"] dns_ReassignUser_rows [OF assms(1)] by (simp only: image_image f)
  show "dns_of x (w_tx w') = {}"
    using assms(2) unfolding dns by auto
  have "dn \<in> dns_of y (w_tx w')" if "dn \<in> dns_of y (w_tx w)" for dn
    using that assms(2) unfolding dns by (auto simp: dns_of_def image_iff)
  moreover have "dn \<in> dns_of y (w_tx w')" if "dn \<in> dns_of x (w_tx w)" "dn \<notin> dns_of y (w_tx w)" for dn
    using that unfolding dns dns_of_def [of x] by (force simp: image_iff)
  moreover have "dns_of y (w_tx w') \<subseteq> dns_of y (w_tx w) \<union> dns_of x (w_tx w)"
    unfolding dns [of y] by (auto simp: dns_of_def split: if_splits)
  ultimately show "dns_of y (w_tx w') = dns_of y (w_tx w) \<union> dns_of x (w_tx w)" by blast
qed

text \<open>Steps that change neither the core's database nor the DN table.\<close>

definition untouched :: "world \<Rightarrow> world \<Rightarrow> bool" where
  "untouched w w' = (db (w_core w') = db (w_core w) \<and> amie_user_dns (w_tx w') = amie_user_dns (w_tx w))"

interpretation untouch: world_preorder untouched
  by unfold_locales (auto simp: untouched_def)

lemma untouched_core [along_intros]:
  "readonly m \<Longrightarrow> along untouched (core m)"
  by (auto simp: along_def untouched_def core_iff readonly_def frame_def)

lemma untouched_prim [along_intros]:
  "along untouched (core newID)" "along untouched (core nowUTC)" "along untouched (core (askM f))"
  "along untouched (ReplyToPacket n rep)" "along untouched (audit_Create row)" "along untouched (extras_Save x)"
  by (auto simp: along_def untouched_def arun_simps ReplyToPacket_def audit_Create_def extras_Save_def ax_def
      split: if_splits option.splits)

lemma untouched_replied [along_intros]: "along untouched (Log pid vid a t x s)" "along untouched (replied h p v rep)"
  unfolding replied_def Log_def by (intro along_intros)+

subsection \<open>Merges\<close>

lemma requireText_Inr: "requireText v f e w = (Inr z, w') \<longleftrightarrow> TrimSpace v \<noteq> '''' \<and> w' = w"
  by (auto simp: requireText_def arun_simps)

lemma getBody_Inr: "getBody j e w = (Inr b, w') \<longleftrightarrow> map_of j ''body'' = Some (AObj b) \<and> w' = w"
  by (auto simp: getBody_def arun_simps split: option.splits json.splits)

lemma GetUser_Inr:
  "core (GetUser x) e w = (Inr u, w') \<Longrightarrow> u \<in> set (users (db (w_core w))) \<and> usr_ID u = x"
  by (auto simp: core_iff GetUser_def run_simps store_defs orNotFound_def dest: find_SomeD split: option.splits)

lemma GetUserByUserIdentity_Inr:
  assumes "core (GetUserByUserIdentity src ext) e w = (Inr u, w')"
  shows "\<exists>i\<in>set (user_identities (db (w_core w))). uid_Source i = src \<and> uid_ExternalID i = ext \<and> uid_UserID i = usr_ID u"
  using assms
  by (auto simp: core_iff GetUserByUserIdentity_def GetUser_def invalid_def run_simps store_defs orNotFound_def dest!: find_SomeD
      split: option.splits if_splits)

lemma Log_sent: "Log pid vid a t x s e w = (r, w') \<Longrightarrow> w_sent w' = w_sent w"
  by (auto simp: Log_def bindA_def wrapA_def throwA_def core_def newID_def nowUTC_def askM_def audit_Create_def
      extras_Save_def ax_def tickA_def split: if_splits option.splits prod.splits sum.splits)

lemma merged_replay:
  assumes "RequestPersonMerge_Handle packetJSON packet eventID e w = (r, w')"
    and "map_of packetJSON ''body'' = Some (AObj body)" "uniq usr_ID (users (db (w_core w)))"
    and "u \<in> set (users (db (w_core w)))" "usr_ID u = getString body ''DeletePersonID''" "usr_Status u = UserMerged"
    and "\<not> fault e (ticks (w_core w))"
  shows "untouched w w' \<and> (r = Inr () \<longrightarrow>
    w_sent w' = w_sent w @ [(apk_AmieID packet, complete_reply ''Person merge completed.'')])"
proof -
  have f: "find (\<lambda>r. usr_ID r = getString body ''DeletePersonID'') (users (db (w_core w))) = Some u"
    using find_uniq_iff [OF assms(3)] assms(4,5) by simp
  have get: "core (GetUser (getString body ''DeletePersonID'')) e w = (Inr u, tickA w)"
    using f assms(7) by (simp add: core_def GetUser_def orNotFound_def bindM_def wrapM_def store_defs dbq_def retM_def tickA_def)
  have "(w' = w \<and> (\<exists>x. r = Inl x)) \<or> replyAndAudit packet eventID e (tickA w) = (r, w')"
    using assms(1,2,6) get
    by (auto simp: RequestPersonMerge_Handle_def getBody_def requireText_def bindA_def tryA_def retA_def throwA_def Let_def
        split: if_splits)
  then show ?thesis
  proof
    assume run: "replyAndAudit packet eventID e (tickA w) = (r, w')"
    have "along untouched (replyAndAudit packet eventID)" unfolding replyAndAudit_def by (intro along_intros)
    from alongD [OF this run] have "untouched w w'" by (simp add: untouched_def tickA_def)
    moreover have "w_sent w' = w_sent w @ [(apk_AmieID packet, complete_reply ''Person merge completed.'')]" if "r = Inr ()"
      using run Log_sent that unfolding replyAndAudit_def replied_def
      by (fastforce simp: bindA_Inr wrapA_Inr ReplyToPacket_def tickA_def split: if_splits)
    ultimately show ?thesis by simp
  qed (auto simp: untouched_def)
qed

text \<open>C38: A merge packet whose retiring user is already merged is answered with success, and neither the core
  nor the DN table is touched.  The first attempt of a merge commits the merge in the core before the DNs
  move in the connector's transaction; when that is rolled back, the next attempt takes this path, and the
  DNs stay with the retired user.\<close>

theorem replayed_merge_leaves_dns:
  assumes "RequestPersonMerge_Handle packetJSON packet eventID e w = (Inr (), w')"
    and "map_of packetJSON ''body'' = Some (AObj body)" "uniq usr_ID (users (db (w_core w)))"
    and "u \<in> set (users (db (w_core w)))" "usr_ID u = getString body ''DeletePersonID''" "usr_Status u = UserMerged"
    and "\<not> fault e (ticks (w_core w))"
  shows "db (w_core w') = db (w_core w) \<and> dns_of (usr_ID u) (w_tx w') = dns_of (usr_ID u) (w_tx w) \<and>
    w_sent w' = w_sent w @ [(apk_AmieID packet, complete_reply ''Person merge completed.'')]"
  using merged_replay [OF assms] by (simp add: untouched_def dns_of_def)


definition merged_db :: database where
  "merged_db = sample_db\<lparr>users := [sample_user ''alice'' UserActive, sample_user ''bob'' UserMerged]\<rparr>"

definition merge_body :: jobject where
  "merge_body = [(''KeepGlobalID'', AStr ''100''), (''DeleteGlobalID'', AStr ''200''), (''DeletePersonID'', AStr ''bob'')]"

definition merge_packet :: packet where
  "merge_packet = \<lparr> apk_ID = ''p1'', apk_AmieID = 7, apk_Type = ''request_person_merge'', apk_Status = PacketStatusNew,
     apk_RawJSON = RawJSON (AObj [(''body'', AObj merge_body)]), apk_ReceivedAt = 1, apk_DecodedAt = None,
     apk_ProcessedAt = None, apk_Retries = 1, apk_LastError = None \<rparr>"

definition merge_amie_db :: amie_db where
  "merge_amie_db = empty_amie_db\<lparr>amie_packets := [merge_packet],
     amie_user_dns := [\<lparr> udn_ID = ''d1'', udn_UserID = ''bob'', udn_DN = ''CN=Bob'', udn_CreatedAt = 1 \<rparr>]\<rparr>"

theorem replayed_merge_leaves_dns_witness:
  "dns_of ''bob'' (w_tx (snd (RequestPersonMerge_Handle [(''body'', AObj merge_body)] merge_packet '''' quiet_env
     (blank_world (fresh_state merged_db) merge_amie_db)))) = {''CN=Bob''}"
proof -
  let ?w = "blank_world (fresh_state merged_db) merge_amie_db"
  let ?run = "RequestPersonMerge_Handle [(''body'', AObj merge_body)] merge_packet '''' quiet_env ?w"
  have "isl (fst ?run) = False" by code_simp
  then have run: "?run = (Inr (), snd ?run)" by (cases "fst ?run") (auto simp: prod_eq_iff)
  have "uniq usr_ID (users (db (w_core ?w)))" "sample_user ''bob'' UserMerged \<in> set (users (db (w_core ?w)))"
    "dns_of ''bob'' (w_tx ?w) = {''CN=Bob''}" "usr_ID (sample_user ''bob'' UserMerged) = ''bob''"
    "getString merge_body ''DeletePersonID'' = ''bob''" "usr_Status (sample_user ''bob'' UserMerged) = UserMerged"
    by code_simp+
  then show ?thesis
    using replayed_merge_leaves_dns [OF run, of merge_body "sample_user ''bob'' UserMerged"]
    by (simp add: quiet_env_def)
qed

subsection \<open>Grants\<close>

text \<open>What the connector calls the effective service units: the initial amount and the sum of the diffs.\<close>

definition effective_sus :: "compute_allocation \<Rightarrow> database \<Rightarrow> int" where
  "effective_sus a d = alc_InitialSUAmount a + sum_list (map dif_NewSUAmount
     (filter (\<lambda>f. dif_ComputeAllocationID f = alc_ID a) (compute_allocation_diffs d)))"

lemma getInt64_Inr:
  "getInt64 body k e w = (Inr n, w') \<longleftrightarrow> ParseInt (getString body k) = Some n \<and> getString body k \<noteq> '''' \<and> w' = w"
  by (auto simp: getInt64_def arun_simps Let_def split: option.splits)

lemma recordAllocationDiff_effect:
  assumes "recordAllocationDiff body a e w = (Inr b, w')" "ParseInt (getString body ''ServiceUnitsAllocated'') = Some su"
  shows "b = a \<and> effective_sus a (db (w_core w')) = effective_sus a (db (w_core w)) + su"
proof -
  let ?t = "let t = ToUpper (TrimSpace (getString body ''AllocationType'')) in if t = '''' then ''GRANT'' else t"
  let ?f = "\<lparr> dif_ID = '''', dif_ComputeAllocationID = alc_ID a, dif_DiffType = ?t, dif_NewSUAmount = su,
    dif_Status = AllocationACTIVE, dif_Timestamp = 0, dif_Description = ''AMIE '' @ ?t @ '' of '' @ FormatInt su @ '' SUs'' \<rparr>"
  obtain g s where run: "CreateComputeAllocationDiff (Some ?f) e (w_core w) = (Inr g, s)" "w' = w\<lparr>w_core := s\<rparr>" "b = a"
    using assms unfolding recordAllocationDiff_def Let_def
    by (auto simp only: bindA_Inr wrapA_Inr getInt64_Inr retA_iff core_iff option.inject sum.inject)
  from CreateDiff_ok [OF run(1)] show ?thesis using run(2,3)
    by (auto simp: effective_sus_def insert_row_def)
qed

lemma CreateAllocation_ok:
  assumes "CreateComputeAllocation (Some a0) e s = (Inr a, s')" "alc_ID a0 = ''''"
  shows "\<exists>x. a = a0\<lparr>alc_ID := x, alc_Status := orElse (alc_Status a0) AllocationACTIVE\<rparr> \<and>
    db s' = (db s)\<lparr>compute_allocations := insert_row a (compute_allocations (db s))\<rparr> \<and>
    uniq alc_ID (compute_allocations (db s'))"
  using assms unfolding CreateComputeAllocation_def
  by (auto simp: bindM_Inr wrapM_Inr invalid_iff projs_FindByID_def clusters_FindByID_def dbq_Inr idOrNew_Inr andPublish_Inr
      inTx_Inr allocs_Create_def txx_Inr Let_def schema_defs split: option.splits if_splits)

lemma list_project_Inr:
  "core (ListComputeAllocationsByProject pid) e w = (Inr as, w') \<Longrightarrow>
     as = select_where (\<lambda>a. alc_ProjectID a = pid) (compute_allocations (db (w_core w))) \<and> db (w_core w') = db (w_core w)"
  by (auto simp: core_iff ListComputeAllocationsByProject_def store_defs run_simps)

lemma getDate_Inr: "getDate body k e w = (Inr t, w') \<Longrightarrow> w' = w"
  by (auto simp: getDate_def arun_simps Let_def split: option.splits if_splits)

lemma first_grant:
  assumes "schema_ok (db (w_core w))" "list_all (\<lambda>a. alc_ProjectID a \<noteq> pid) (compute_allocations (db (w_core w)))"
    and "ensureAllocation cfg body pid g e w = (Inr a, w')" "ParseInt (getString body ''ServiceUnitsAllocated'') = Some su"
  shows "select_where (\<lambda>a. alc_ProjectID a = pid) (compute_allocations (db (w_core w'))) = [a] \<and>
    effective_sus a (db (w_core w')) = su"
proof -
  obtain as w1 where list: "core (ListComputeAllocationsByProject pid) e w = (Inr as, w1)"
    and run: "(case as of a # _ \<Rightarrow> recordAllocationDiff body a
     | [] \<Rightarrow> bindA (getInt64 body ''ServiceUnitsAllocated'') (\<lambda>su. bindA (getDate body ''StartDate'') (\<lambda>start.
         bindA (getDate body ''EndDate'') (\<lambda>end'. core (CreateComputeAllocation (Some \<lparr> alc_ID = '''',
           alc_ProjectID = pid, alc_Name = g, alc_Status = '''', alc_ComputeClusterID = cfg_ClusterID cfg,
           alc_InitialSUAmount = su, alc_StartTime = start, alc_EndTime = end' \<rparr>)))))) e w1 = (Inr a, w')"
    using assms(3) unfolding ensureAllocation_def bindA_Inr [where m = "wrapA l m" for l m] wrapA_Inr by blast
  note l = list_project_Inr [OF list]
  have "as = []" using l assms(2) by (auto simp: select_where_def filter_empty_conv list_all_iff)
  with run obtain t0 t1 s where c: "CreateComputeAllocation (Some \<lparr> alc_ID = '''', alc_ProjectID = pid, alc_Name = g,
      alc_Status = '''', alc_ComputeClusterID = cfg_ClusterID cfg, alc_InitialSUAmount = su, alc_StartTime = t0,
      alc_EndTime = t1 \<rparr>) e (w_core w1) = (Inr a, s)" "w' = w1\<lparr>w_core := s\<rparr>"
    using assms(4) by (auto simp: bindA_Inr getInt64_Inr core_iff dest!: getDate_Inr)
  from CreateAllocation_ok [OF c(1)] l c(2) have a: "alc_ProjectID a = pid" "alc_InitialSUAmount a = su"
    and d: "db (w_core w') = (db (w_core w))\<lparr>compute_allocations := compute_allocations (db (w_core w)) @ [a]\<rparr>"
    and u: "alc_ID a \<notin> alc_ID ` set (compute_allocations (db (w_core w)))"
    by (auto simp: insert_row_def uniq_def)
  have "refs dif_ComputeAllocationID (compute_allocation_diffs (db (w_core w))) alc_ID (compute_allocations (db (w_core w)))"
    using schema_okD(12) [OF assms(1)] by (simp add: schema_defs)
  then have "\<forall>f\<in>set (compute_allocation_diffs (db (w_core w))). dif_ComputeAllocationID f \<noteq> alc_ID a"
    using u unfolding refs_iff by (metis image_eqI)
  then have "filter (\<lambda>f. dif_ComputeAllocationID f = alc_ID a) (compute_allocation_diffs (db (w_core w))) = []"
    by (simp add: filter_empty_conv)
  then show ?thesis using a d assms(2) by (auto simp: effective_sus_def select_where_def filter_empty_conv list_all_iff)
qed

text \<open>C37: A request_project_create packet that is tried again after its first attempt has created the allocation
  grants its service units a second time: the allocation's effective amount, which is the initial amount
  and the sum of the diffs, becomes twice the granted one.  The first attempt's calls of the core stay
  committed whatever later step made it fail.\<close>

theorem retried_grant_counts_twice:
  assumes "schema_ok (db (w_core w))" "list_all (\<lambda>a. alc_ProjectID a \<noteq> pid) (compute_allocations (db (w_core w)))"
    and "ParseInt (getString body ''ServiceUnitsAllocated'') = Some su"
    and "ensureAllocation cfg body pid g e w = (Inr a, w1)" "db (w_core w2) = db (w_core w1)"
    and "ensureAllocation cfg body pid g e' w2 = (Inr b, w3)"
  shows "b = a \<and> effective_sus a (db (w_core w1)) = su \<and> effective_sus a (db (w_core w3)) = 2 * su"
proof -
  note first = first_grant [OF assms(1,2,4,3)]
  obtain as w4 where list: "core (ListComputeAllocationsByProject pid) e' w2 = (Inr as, w4)"
    and run: "(case as of a # _ \<Rightarrow> recordAllocationDiff body a
     | [] \<Rightarrow> bindA (getInt64 body ''ServiceUnitsAllocated'') (\<lambda>su. bindA (getDate body ''StartDate'') (\<lambda>start.
         bindA (getDate body ''EndDate'') (\<lambda>end'. core (CreateComputeAllocation (Some \<lparr> alc_ID = '''',
           alc_ProjectID = pid, alc_Name = g, alc_Status = '''', alc_ComputeClusterID = cfg_ClusterID cfg,
           alc_InitialSUAmount = su, alc_StartTime = start, alc_EndTime = end' \<rparr>)))))) e' w4 = (Inr b, w3)"
    using assms(6) unfolding ensureAllocation_def bindA_Inr [where m = "wrapA l m" for l m] wrapA_Inr by blast
  note l = list_project_Inr [OF list]
  have "as = [a]" using l first assms(5) by simp
  then have "recordAllocationDiff body a e' w4 = (Inr b, w3)" using run by simp
  from recordAllocationDiff_effect [OF this assms(3)] show ?thesis using first l assms(5) by simp
qed

definition grant_body :: jobject where
  "grant_body = [(''ServiceUnitsAllocated'', AStr ''1000''), (''StartDate'', AStr ''2025-01-01''),
     (''EndDate'', AStr ''2026-01-01'')]"

definition grant_world :: world where
  "grant_world = blank_world (fresh_state (sample_db\<lparr>compute_clusters := [\<lparr> ccl_ID = ''c1'', ccl_Name = ''cluster'' \<rparr>]\<rparr>))
     empty_amie_db"

definition grant_run :: "world \<Rightarrow> (err + compute_allocation) \<times> world" where
  "grant_run w = ensureAllocation demo_cfg grant_body ''p1'' ''G'' quiet_env w"

theorem retried_grant_counts_twice_witness:
  "effective_sus (projr (fst (grant_run grant_world))) (db (w_core (snd (grant_run grant_world)))) = 1000 \<and>
   effective_sus (projr (fst (grant_run grant_world))) (db (w_core (snd (grant_run (snd (grant_run grant_world)))))) = 2000"
proof -
  let ?w = "snd (grant_run grant_world)"
  have "\<not> isl (fst (grant_run grant_world))" "\<not> isl (fst (grant_run ?w))" by code_simp+
  then have run: "grant_run grant_world = (Inr (projr (fst (grant_run grant_world))), ?w)"
    "grant_run ?w = (Inr (projr (fst (grant_run ?w))), snd (grant_run ?w))" by (simp_all add: prod_eq_iff)
  have "schema_ok (db (w_core grant_world))" "list_all (\<lambda>a. alc_ProjectID a \<noteq> ''p1'') (compute_allocations (db (w_core grant_world)))"
    "ParseInt (getString grant_body ''ServiceUnitsAllocated'') = Some 1000" by code_simp+
  from retried_grant_counts_twice [OF this run(1) [unfolded grant_run_def] refl run(2) [unfolded grant_run_def]]
  show ?thesis by (simp add: grant_run_def)
qed

end
