(* ===== verification/Slurm_Client.thy ===== *)
theory Slurm_Client
  imports Svc_Directory Svc_Project Svc_Allocation Svc_Change "HOL-Library.Multiset"
begin

text \<open>
  The SLURM REST client (connectors/SLURM/Rest-Client/pkg/client): associations
  with their limits, the record they travel as, and the calls that the
  association mapper makes.

  slurmrestd is a parameter: it answers a request, given the requests it has had
  before, with a failure or with association records.  The state of a run is the
  state of the core and the requests sent so far.  Encoding to JSON and the HTTP
  transport are part of the parameter.

  A float64 is the rational number it denotes; the conversions and products that
  round are rounded here as well.
\<close>

subsection \<open>float64\<close>

text \<open>Rounding to the nearest float64, ties to even: 53 significant bits and no digit below 2^-1074.
  Numbers beyond the range of float64 are rounded to 53 bits like the others.\<close>

definition pow2 :: "int \<Rightarrow> rat" where
  "pow2 e = (if 0 \<le> e then 2 ^ nat e else 1 / 2 ^ nat (- e))"

function shift_down :: "int \<Rightarrow> rat \<Rightarrow> int" where
  "shift_down e q = (if - 1074 < e \<and> \<bar>q\<bar> < 2 ^ 52 * pow2 e then shift_down (e - 1) q else e)"
  by pat_completeness auto
termination
  by (relation "measure (\<lambda>(e, q). nat (e + 1074))") auto

function shift_up :: "int \<Rightarrow> rat \<Rightarrow> int" where
  "shift_up e q = (if e < 971 \<and> 2 ^ 53 * pow2 e \<le> \<bar>q\<bar> then shift_up (e + 1) q else e)"
  by pat_completeness auto
termination
  by (relation "measure (\<lambda>(e, q). nat (971 - e))") auto

declare shift_down.simps [simp del] shift_up.simps [simp del]

definition round64 :: "rat \<Rightarrow> rat" where
  "round64 q = (let e = shift_up (shift_down 0 q) q in of_int (round_half_even (q / pow2 e)) * pow2 e)"

lemma pow2_pos: "0 < pow2 e"
  by (simp add: pow2_def)

lemma round64_nonneg: "0 \<le> q \<Longrightarrow> 0 \<le> round64 q"
  by (auto simp: round64_def round_half_even_def Let_def pow2_pos less_imp_le
      intro!: mult_nonneg_nonneg)

lemma shift_down_le: "e \<le> 0 \<Longrightarrow> shift_down e q \<le> 0"
  by (induction e q rule: shift_down.induct) (subst shift_down.simps, auto)

lemma shift_up_le: "e \<le> 0 \<Longrightarrow> \<bar>q\<bar> < 2 ^ 53 \<Longrightarrow> shift_up e q \<le> 0"
proof (induction e q rule: shift_up.induct)
  case (1 e q)
  have "e + 1 \<le> 0" if "2 ^ 53 * pow2 e \<le> \<bar>q\<bar>"
  proof (rule ccontr)
    assume "\<not> e + 1 \<le> 0"
    then have "e = 0" using 1(2) by simp
    then show False using that 1(3) by (simp add: pow2_def)
  qed
  then show ?case using 1 by (subst shift_up.simps) auto
qed

text \<open>A whole number below 2^53 is a float64.\<close>

lemma round64_int:
  assumes "\<bar>n\<bar> < 2 ^ 53"
  shows "round64 (of_int n) = of_int n"
proof -
  let ?e = "shift_up (shift_down 0 (of_int n)) (of_int n)"
  have "of_int \<bar>n\<bar> < (of_int (2 ^ 53) :: rat)" using assms by (simp only: of_int_less_iff)
  then have "\<bar>of_int n :: rat\<bar> < 2 ^ 53" by simp
  then have e: "?e \<le> 0" by (intro shift_up_le shift_down_le) auto
  then have p: "pow2 ?e = 1 / 2 ^ nat (- ?e)" by (auto simp: pow2_def)
  have "of_int n / pow2 ?e = of_int (n * 2 ^ nat (- ?e))" by (simp add: p)
  then have "round_half_even (of_int n / pow2 ?e) = n * 2 ^ nat (- ?e)"
    by (simp only: round_half_even_def Let_def floor_of_int) simp
  then show ?thesis by (simp add: round64_def p)
qed

subsection \<open>types.go\<close>

record tres =
  trs_Type :: string
  trs_Name :: string
  trs_Count :: rat

record slurm_account =
  sac_Name :: string
  sac_Description :: string
  sac_Organization :: string

record assoc_limits =
  lim_GrpJobs :: "int option"
  lim_GrpTRES :: "tres list"
  lim_GrpTRESMins :: "tres list"
  lim_MaxWallPM :: "int option"

record association =
  aso_Account :: string
  aso_Cluster :: string
  aso_User :: string
  aso_Partition :: string
  aso_ParentAccount :: string
  aso_IsDefault :: "bool option"
  aso_ID :: int
  aso_QoS :: "string list"
  aso_Limits :: assoc_limits

record slurm_number =
  num_Set :: bool
  num_Infinite :: bool
  num_Number :: int

record assoc_max_jobs_per =
  mjp_Count :: "slurm_number option"
  mjp_WallClock :: "slurm_number option"

record assoc_max_jobs =
  mjb_Per :: "assoc_max_jobs_per option"

record assoc_max_tres_group =
  mtg_Minutes :: "tres list"

record assoc_max_tres =
  mtr_Total :: "tres list"
  mtr_Group :: "assoc_max_tres_group option"

record assoc_max =
  max_Jobs :: "assoc_max_jobs option"
  max_TRES :: "assoc_max_tres option"

record assoc_wire =
  wir_Account :: string
  wir_Cluster :: string
  wir_User :: string
  wir_Partition :: string
  wir_ParentAccount :: string
  wir_IsDefault :: "bool option"
  wir_ID :: int
  wir_QoS :: "string list"
  wir_Max :: "assoc_max option"

definition numPtr :: "int option \<Rightarrow> slurm_number option" where
  "numPtr n = (case n of None \<Rightarrow> None
   | Some k \<Rightarrow> Some \<lparr> num_Set = True, num_Infinite = False, num_Number = k \<rparr>)"

definition ptrNum :: "slurm_number option \<Rightarrow> int option" where
  "ptrNum n = (case n of None \<Rightarrow> None
   | Some k \<Rightarrow> if \<not> num_Set k \<or> num_Infinite k then None else Some (num_Number k))"

definition max_jobs :: "assoc_limits \<Rightarrow> assoc_max_jobs option" where
  "max_jobs l = (if lim_GrpJobs l \<noteq> None \<or> lim_MaxWallPM l \<noteq> None
     then Some \<lparr> mjb_Per = Some \<lparr> mjp_Count = numPtr (lim_GrpJobs l), mjp_WallClock = numPtr (lim_MaxWallPM l) \<rparr> \<rparr>
     else None)"

definition max_tres :: "assoc_limits \<Rightarrow> assoc_max_tres option" where
  "max_tres l = (if lim_GrpTRES l \<noteq> [] \<or> lim_GrpTRESMins l \<noteq> []
     then Some \<lparr> mtr_Total = lim_GrpTRES l,
       mtr_Group = (if lim_GrpTRESMins l \<noteq> [] then Some \<lparr> mtg_Minutes = lim_GrpTRESMins l \<rparr> else None) \<rparr>
     else None)"

definition MarshalJSON :: "association \<Rightarrow> assoc_wire" where
  "MarshalJSON a = (let m = \<lparr> max_Jobs = max_jobs (aso_Limits a), max_TRES = max_tres (aso_Limits a) \<rparr> in
     \<lparr> wir_Account = aso_Account a, wir_Cluster = aso_Cluster a, wir_User = aso_User a,
       wir_Partition = aso_Partition a, wir_ParentAccount = aso_ParentAccount a,
       wir_IsDefault = aso_IsDefault a, wir_ID = aso_ID a, wir_QoS = aso_QoS a,
       wir_Max = (if max_Jobs m \<noteq> None \<or> max_TRES m \<noteq> None then Some m else None) \<rparr>)"

definition no_limits :: assoc_limits where
  "no_limits = \<lparr> lim_GrpJobs = None, lim_GrpTRES = [], lim_GrpTRESMins = [], lim_MaxWallPM = None \<rparr>"

definition UnmarshalJSON :: "assoc_wire \<Rightarrow> association" where
  "UnmarshalJSON w =
     \<lparr> aso_Account = wir_Account w, aso_Cluster = wir_Cluster w, aso_User = wir_User w,
       aso_Partition = wir_Partition w, aso_ParentAccount = wir_ParentAccount w,
       aso_IsDefault = wir_IsDefault w, aso_ID = wir_ID w, aso_QoS = wir_QoS w,
       aso_Limits = (case wir_Max w of None \<Rightarrow> no_limits
       | Some m \<Rightarrow>
           let l = (case max_Jobs m of None \<Rightarrow> no_limits
               | Some j \<Rightarrow> (case mjb_Per j of None \<Rightarrow> no_limits
                   | Some p \<Rightarrow> no_limits\<lparr>lim_GrpJobs := ptrNum (mjp_Count p),
                       lim_MaxWallPM := ptrNum (mjp_WallClock p)\<rparr>)) in
           (case max_TRES m of None \<Rightarrow> l
            | Some t \<Rightarrow>
                let l = l\<lparr>lim_GrpTRES := mtr_Total t\<rparr> in
                (case mtr_Group t of None \<Rightarrow> l
                 | Some g \<Rightarrow> l\<lparr>lim_GrpTRESMins := mtg_Minutes g\<rparr>))) \<rparr>"

subsection \<open>Requests\<close>

record assoc_filter =
  flt_Account :: string
  flt_User :: string
  flt_Cluster :: string
  flt_Partition :: string

text \<open>The parameters of a request: a field that is empty is not a parameter.\<close>

definition query :: "assoc_filter \<Rightarrow> (string \<times> string) list" where
  "query f = filter (\<lambda>(k, v). v \<noteq> [])
     [(''account'', flt_Account f), (''cluster'', flt_Cluster f), (''partition'', flt_Partition f),
      (''user'', flt_User f)]"

datatype slurm_request =
    GetAssociations assoc_filter
  | PostAssociations "assoc_wire list"
  | DeleteAssociations assoc_filter
  | PostAccountsAssociation slurm_account string

type_synonym slurmrestd = "slurm_request list \<Rightarrow> slurm_request \<Rightarrow> err + assoc_wire list"

record slurm_world =
  sw_core :: state
  sw_sent :: "slurm_request list"

type_synonym 'a L = "slurmrestd \<Rightarrow> env \<Rightarrow> slurm_world \<Rightarrow> (err + 'a) \<times> slurm_world"

definition retL :: "'a \<Rightarrow> 'a L" where
  "retL x srv e w = (Inr x, w)"

definition throwL :: "err \<Rightarrow> 'a L" where
  "throwL x srv e w = (Inl x, w)"

definition bindL :: "'a L \<Rightarrow> ('a \<Rightarrow> 'b L) \<Rightarrow> 'b L" where
  "bindL m f srv e w = (case m srv e w of (Inl x, w') \<Rightarrow> (Inl x, w') | (Inr x, w') \<Rightarrow> f x srv e w')"

definition wrapL :: "string \<Rightarrow> 'a L \<Rightarrow> 'a L" where
  "wrapL lbl m srv e w = (case m srv e w of
     (Inl x, w') \<Rightarrow> (Inl (Errorf (lbl @ '': %w'') [] x), w') | (Inr x, w') \<Rightarrow> (Inr x, w'))"

definition tryL :: "'a L \<Rightarrow> (err + 'a) L" where
  "tryL m srv e w = (case m srv e w of (r, w') \<Rightarrow> (Inr r, w'))"

definition coreL :: "'a M \<Rightarrow> 'a L" where
  "coreL m srv e w = (case m e (sw_core w) of (r, s) \<Rightarrow> (r, w\<lparr>sw_core := s\<rparr>))"

definition client_do :: "slurm_request \<Rightarrow> assoc_wire list L" where
  "client_do q srv e w = (srv (sw_sent w) q, w\<lparr>sw_sent := sw_sent w @ [q]\<rparr>)"

subsection \<open>associations.go and accounts.go\<close>

definition ListAssociations :: "assoc_filter \<Rightarrow> association list L" where
  "ListAssociations f = bindL (client_do (GetAssociations f)) (\<lambda>ws. retL (map UnmarshalJSON ws))"

text \<open>The first loop counts the records of one slice, the second one takes those of the other away.\<close>

definition tres_counts :: "tres list \<Rightarrow> tres \<Rightarrow> int" where
  "tres_counts a = foldl (\<lambda>counts t. counts(t := counts t + 1)) (\<lambda>_. 0) a"

fun take_counts :: "(tres \<Rightarrow> int) \<Rightarrow> tres list \<Rightarrow> bool" where
  "take_counts counts [] = True"
| "take_counts counts (t # b) =
     (let counts = counts(t := counts t - 1) in if counts t < 0 then False else take_counts counts b)"

definition tresSliceEqualUnordered :: "tres list \<Rightarrow> tres list \<Rightarrow> bool" where
  "tresSliceEqualUnordered a b =
     (if length a \<noteq> length b then False else take_counts (tres_counts a) b)"

definition filter_of :: "association \<Rightarrow> assoc_filter" where
  "filter_of a = \<lparr> flt_Account = aso_Account a, flt_User = aso_User a, flt_Cluster = aso_Cluster a,
     flt_Partition = aso_Partition a \<rparr>"

definition UpsertAssociation :: "association \<Rightarrow> unit L" where
  "UpsertAssociation a =
     bindL (client_do (PostAssociations [MarshalJSON a])) (\<lambda>_.
     bindL (ListAssociations (filter_of a)) (\<lambda>assos.
     case assos of
       [] \<Rightarrow> throwL (NewError ''association not found after upsert'' [])
     | fetched # _ \<Rightarrow>
         if aso_Account fetched \<noteq> aso_Account a \<or> aso_User fetched \<noteq> aso_User a \<or>
            aso_Cluster fetched \<noteq> aso_Cluster a \<or> aso_Partition fetched \<noteq> aso_Partition a
         then throwL (NewError ''fetched association does not match upserted association'' [])
         else if \<not> tresSliceEqualUnordered (lim_GrpTRES (aso_Limits fetched)) (lim_GrpTRES (aso_Limits a))
         then throwL (NewError
           ''fetched association limits GrpTRES does not match upserted association limits GrpTRES'' [])
         else if \<not> tresSliceEqualUnordered (lim_GrpTRESMins (aso_Limits fetched)) (lim_GrpTRESMins (aso_Limits a))
         then throwL (NewError
           ''fetched association limits GrpTRESMins does not match upserted association limits GrpTRESMins'' [])
         else retL ()))"

definition DeleteAssociation :: "assoc_filter \<Rightarrow> unit L" where
  "DeleteAssociation f = bindL (client_do (DeleteAssociations f)) (\<lambda>_. retL ())"

definition CreateAccount :: "slurm_account \<Rightarrow> string \<Rightarrow> unit L" where
  "CreateAccount a cluster = bindL (client_do (PostAccountsAssociation a cluster)) (\<lambda>_. retL ())"

subsection \<open>What the client promises\<close>

lemma tres_counts_count: "tres_counts a t = int (count (mset a) t)"
proof -
  have "foldl (\<lambda>counts t. counts(t := counts t + 1)) f a t = f t + int (count (mset a) t)" for f :: "tres \<Rightarrow> int"
    by (induction a arbitrary: f) auto
  then show ?thesis by (simp add: tres_counts_def)
qed

lemma take_counts_iff:
  "(\<And>t. 0 \<le> c t) \<Longrightarrow> take_counts c b \<longleftrightarrow> (\<forall>t. int (count (mset b) t) \<le> c t)"
proof (induction b arbitrary: c)
  case (Cons x b)
  show ?case
  proof (cases "c x \<le> 0")
    case True
    then have "c x = 0" using Cons.prems [of x] by simp
    then have "\<not> int (count (mset (x # b)) x) \<le> c x" by simp
    then show ?thesis using True by (auto simp: Let_def)
  next
    case False
    let ?c = "c(x := c x - 1)"
    have nonneg: "0 \<le> ?c t" for t using False Cons.prems [of t] by simp
    have IH: "take_counts ?c b \<longleftrightarrow> (\<forall>t. int (count (mset b) t) \<le> ?c t)" by (rule Cons.IH) (rule nonneg)
    have "(\<forall>t. int (count (mset (x # b)) t) \<le> c t) \<longleftrightarrow> (\<forall>t. int (count (mset b) t) \<le> ?c t)" by auto
    moreover have "take_counts c (x # b) \<longleftrightarrow> take_counts ?c b" using False by (simp add: Let_def)
    ultimately show ?thesis using IH by simp
  qed
qed simp

text \<open>The comparison of two limit lists after an upsert ignores the order and nothing else: it holds
  exactly for lists with the same entries the same number of times.\<close>

theorem tresSliceEqualUnordered_mset: "tresSliceEqualUnordered a b \<longleftrightarrow> mset a = mset b"
proof (cases "length a = length b")
  case True
  have "tresSliceEqualUnordered a b \<longleftrightarrow> mset b \<subseteq># mset a"
    using True by (simp add: tresSliceEqualUnordered_def take_counts_iff tres_counts_count subseteq_mset_def)
  also have "\<dots> \<longleftrightarrow> mset a = mset b"
    using True by (metis mset_subset_eqD size_mset subset_mset.order_refl mset_subset_size
        subset_mset.le_imp_less_or_eq less_irrefl)
  finally show ?thesis .
next
  case False
  then show ?thesis by (metis size_mset tresSliceEqualUnordered_def)
qed

text \<open>C29: An association read back from the record it is sent as is the association that was sent, its
  limits included.\<close>

theorem association_round_trip: "UnmarshalJSON (MarshalJSON a) = a"
proof -
  obtain jobs tres mins wall where l: "aso_Limits a =
      \<lparr> lim_GrpJobs = jobs, lim_GrpTRES = tres, lim_GrpTRESMins = mins, lim_MaxWallPM = wall \<rparr>"
    by (cases "aso_Limits a")
  have "ptrNum (numPtr n) = n" for n by (cases n) (auto simp: numPtr_def ptrNum_def)
  then have "aso_Limits (UnmarshalJSON (MarshalJSON a)) = aso_Limits a"
    by (auto simp: l UnmarshalJSON_def MarshalJSON_def max_jobs_def max_tres_def no_limits_def Let_def)
  then show ?thesis by (simp add: UnmarshalJSON_def MarshalJSON_def Let_def)
qed

end
