(* ===== verification/Slurm_Mapper.thy ===== *)
theory Slurm_Mapper
  imports Slurm_Client Posix "HOL-Library.AList"
begin

text \<open>
  The SLURM association mapper (connectors/SLURM/Association-Mapper/internal/
  subscribers): the subscribers that turn events of the core into accounts and
  associations of SLURM, and the reconciler that sweeps every cluster.

  A subscriber returns nothing: its errors go to the log and to the audit table.
  The text of an error, part of which the database driver writes, is a
  parameter.  The deadlines of the contexts are among the failing calls of the
  environment.  The counters of a sweep feed the log only and are left out; Go
  ranges over the map of existing associations in no fixed order, the model in
  the order in which they were listed.  Durations are in microseconds.
\<close>

subsection \<open>subscriber.go\<close>

record association_subscriber =
  sub_provisionGrace :: int
  sub_Error :: "err \<Rightarrow> string"

definition mapErrL :: "(err \<Rightarrow> err) \<Rightarrow> 'a L \<Rightarrow> 'a L" where
  "mapErrL f m srv e w = (case m srv e w of (Inl x, w') \<Rightarrow> (Inl (f x), w') | (Inr x, w') \<Rightarrow> (Inr x, w'))"

fun eachL :: "'a list \<Rightarrow> ('a \<Rightarrow> unit L) \<Rightarrow> unit L" where
  "eachL [] f = retL ()"
| "eachL (x # xs) f = bindL (f x) (\<lambda>_. eachL xs f)"

definition recordAuditEvent :: "string \<Rightarrow> string \<Rightarrow> id \<Rightarrow> string \<Rightarrow> unit L" where
  "recordAuditEvent eventType entityType entityId message =
     bindL (coreL nowUTC) (\<lambda>now.
     bindL (tryL (coreL (CreateAuditEvent (Some
       \<lparr> aud_ID = '''', aud_EventType = eventType, aud_EventTime = now, aud_EntityID = entityId,
         aud_EntityType = entityType, aud_Details = message, aud_Source = '''', aud_TraceID = '''',
         aud_SpanID = '''', aud_ParentSpanID = '''' \<rparr>)))) (\<lambda>_. retL ()))"

text \<open>A call whose error is reported and ends the subscriber.\<close>

definition orReport :: "(string \<Rightarrow> unit L) \<Rightarrow> association_subscriber \<Rightarrow> string \<Rightarrow> 'a L \<Rightarrow> ('a \<Rightarrow> unit L) \<Rightarrow> unit L" where
  "orReport report a message m k = bindL (tryL m) (\<lambda>r.
     case r of Inl x \<Rightarrow> report (message @ '' Error: '' @ sub_Error a x) | Inr v \<Rightarrow> k v)"

definition WithSource :: "string \<Rightarrow> 'a L \<Rightarrow> 'a L" where
  "WithSource src m srv e w = m srv (e\<lparr>ctx_Source := src\<rparr>) w"

subsection \<open>association_writer.go\<close>

definition tresFor :: "string \<Rightarrow> int \<Rightarrow> tres" where
  "tresFor resourceType n =
     (if CHR ''/'' \<in> set resourceType
      then \<lparr> trs_Type = takeWhile (\<lambda>c. c \<noteq> CHR ''/'') resourceType,
             trs_Name = tl (dropWhile (\<lambda>c. c \<noteq> CHR ''/'') resourceType), trs_Count = round64 (of_int n) \<rparr>
      else \<lparr> trs_Type = resourceType, trs_Name = '''', trs_Count = round64 (of_int n) \<rparr>)"

definition errNotProvisioned :: err where
  "errNotProvisioned = NewError ''cluster account not provisioned yet'' []"

type_synonym assoc_key = "string \<times> string \<times> string"

definition keyOf :: "association \<Rightarrow> assoc_key" where
  "keyOf a = (aso_Account a, aso_User a, aso_Partition a)"

definition sameTRES :: "tres list \<Rightarrow> tres list \<Rightarrow> bool" where
  "sameTRES want got =
     (if length want \<noteq> length got then False
      else let counts = map_of (rev (map (\<lambda>t. (trs_Type t, trs_Count t)) want)) in
        list_all (\<lambda>t. counts (trs_Type t) = Some (trs_Count t)) got)"

definition sameLimits :: "association \<Rightarrow> association \<Rightarrow> bool" where
  "sameLimits want got = (sameTRES (lim_GrpTRES (aso_Limits want)) (lim_GrpTRES (aso_Limits got)) \<and>
     sameTRES (lim_GrpTRESMins (aso_Limits want)) (lim_GrpTRESMins (aso_Limits got)))"

definition limitsFor :: "compute_allocation_resource \<Rightarrow>
    compute_allocation_membership_resource_override option \<Rightarrow> assoc_limits" where
  "limitsFor resource override = (case override of None \<Rightarrow> no_limits
   | Some o1 \<Rightarrow> no_limits\<lparr>
       lim_GrpTRES := (if 0 < ovr_OverrideResourceAmount o1
         then [tresFor (res_ResourceType resource) (ovr_OverrideResourceAmount o1)] else []),
       lim_GrpTRESMins := (if 0 < ovr_OverrideResourceTime o1
         then [tresFor (res_ResourceType resource) (ovr_OverrideResourceTime o1)] else [])\<rparr>)"

definition activeAllocation :: "compute_allocation \<Rightarrow> bool" where
  "activeAllocation allocation = (alc_Status allocation = AllocationACTIVE)"

definition desired_association :: "compute_allocation \<Rightarrow> compute_cluster \<Rightarrow> compute_cluster_user \<Rightarrow>
    compute_allocation_membership_resource_override list \<Rightarrow> compute_allocation_resource \<Rightarrow> association" where
  "desired_association allocation cluster csu overrides resource =
     \<lparr> aso_Account = alc_Name allocation, aso_Cluster = ccl_Name cluster, aso_User = ccu_LocalUsername csu,
       aso_Partition = res_Name resource, aso_ParentAccount = '''', aso_IsDefault = None, aso_ID = 0,
       aso_QoS = [''normal''],
       aso_Limits = limitsFor resource
         (map_of (rev (map (\<lambda>o1. (ovr_ComputeAllocationResourceID o1, o1)) overrides)) (res_ID resource)) \<rparr>"

definition desiredAssociationsForMembership :: "compute_allocation_membership \<Rightarrow> association list L" where
  "desiredAssociationsForMembership membership =
     bindL (wrapL ''get compute allocation'' (coreL (GetComputeAllocation (mem_ComputeAllocationID membership)))) (\<lambda>allocation.
     if \<not> activeAllocation allocation then retL []
     else
       bindL (wrapL ''get compute cluster'' (coreL (GetComputeCluster (alc_ComputeClusterID allocation)))) (\<lambda>cluster.
       bindL (wrapL ''get compute cluster user''
         (coreL (GetComputeClusterUserByPair (ccl_ID cluster) (mem_UserID membership)))) (\<lambda>csu.
       if ccu_ProvisionedAt csu = None then throwL errNotProvisioned
       else
         bindL (wrapL ''list resources for allocation''
           (coreL (ListResourcesForAllocation (alc_ID allocation)))) (\<lambda>resources.
         if resources = [] then retL []
         else
           bindL (wrapL ''list overrides for membership''
             (coreL (ListOverridesForMembership (mem_ID membership)))) (\<lambda>overrides.
           retL (map (desired_association allocation cluster csu overrides) resources))))))"

type_synonym existing = "(assoc_key \<times> association) list"

definition written_already :: "existing \<Rightarrow> association \<Rightarrow> bool" where
  "written_already existing want = (case map_of existing (keyOf want) of None \<Rightarrow> False
   | Some got \<Rightarrow> sameLimits want got)"

definition syncAssociationsForMembership :: "compute_allocation_membership \<Rightarrow> existing \<Rightarrow> unit L" where
  "syncAssociationsForMembership membership existing =
     bindL (desiredAssociationsForMembership membership) (\<lambda>desired.
     eachL desired (\<lambda>want.
       if written_already existing want then retL ()
       else mapErrL (Errorf ''upsert association for partition %s: %w'' [aso_Partition want])
         (UpsertAssociation want)))"

definition upsertAssociationsForMembership :: "compute_allocation_membership \<Rightarrow> unit L" where
  "upsertAssociationsForMembership membership = syncAssociationsForMembership membership []"

subsection \<open>deprovision.go\<close>

definition removeAssociationsForMembership :: "compute_allocation_membership \<Rightarrow> unit L" where
  "removeAssociationsForMembership membership =
     bindL (wrapL ''get compute allocation'' (coreL (GetComputeAllocation (mem_ComputeAllocationID membership)))) (\<lambda>allocation.
     bindL (wrapL ''get compute cluster'' (coreL (GetComputeCluster (alc_ComputeClusterID allocation)))) (\<lambda>cluster.
     bindL (wrapL ''get compute cluster user''
       (coreL (GetComputeClusterUserByPair (ccl_ID cluster) (mem_UserID membership)))) (\<lambda>csu.
     mapErrL (Errorf ''delete associations for %s on %s: %w'' [ccu_LocalUsername csu, alc_Name allocation])
       (DeleteAssociation \<lparr> flt_Account = alc_Name allocation, flt_User = ccu_LocalUsername csu,
          flt_Cluster = ccl_Name cluster, flt_Partition = '''' \<rparr>))))"

definition removeAssociationsForAllocation :: "compute_allocation \<Rightarrow> unit L" where
  "removeAssociationsForAllocation allocation =
     bindL (wrapL ''get compute cluster'' (coreL (GetComputeCluster (alc_ComputeClusterID allocation)))) (\<lambda>cluster.
     mapErrL (Errorf ''delete associations for allocation %s: %w'' [alc_Name allocation])
       (DeleteAssociation \<lparr> flt_Account = alc_Name allocation, flt_User = '''',
          flt_Cluster = ccl_Name cluster, flt_Partition = '''' \<rparr>))"

fun restore_members :: "membership_with_user list \<Rightarrow> nat \<Rightarrow> nat L" where
  "restore_members [] failed = retL failed"
| "restore_members (member # members) failed =
     (if mem_MembershipStatus (mwu_Membership member) \<noteq> AllocationACTIVE then restore_members members failed
      else bindL (tryL (upsertAssociationsForMembership (mwu_Membership member))) (\<lambda>r.
        case r of
          Inl x \<Rightarrow> restore_members members (if errors_Is x errNotProvisioned then failed else failed + 1)
        | Inr _ \<Rightarrow> restore_members members failed))"

definition restoreAssociationsForAllocation :: "compute_allocation \<Rightarrow> unit L" where
  "restoreAssociationsForAllocation allocation =
     bindL (wrapL ''list members for allocation'' (coreL (ListMembersForAllocation (alc_ID allocation)))) (\<lambda>members.
     bindL (restore_members members 0) (\<lambda>failed.
     if 0 < failed then throwL (NewError ''%d of %d members could not be restored''
       [Itoa failed, Itoa (length members)])
     else retL ()))"

subsection \<open>members.go\<close>

definition SubscribeToComputeAllocationMembershipCreation ::
    "association_subscriber \<Rightarrow> compute_allocation_membership \<Rightarrow> unit L" where
  "SubscribeToComputeAllocationMembershipCreation a membership = WithSource ''slurm'' (
     let failed = recordAuditEvent ''ComputeAllocationMembershipCreationFailed''
           ''compute_allocation_membership'' (mem_ID membership) in
     orReport failed a ''Failed to get compute allocation.''
       (coreL (GetComputeAllocation (mem_ComputeAllocationID membership))) (\<lambda>allocation.
     orReport failed a ''Failed to get compute cluster.''
       (coreL (GetComputeCluster (alc_ComputeClusterID allocation))) (\<lambda>cluster.
     bindL (tryL (upsertAssociationsForMembership membership)) (\<lambda>r.
     case r of
       Inl x \<Rightarrow> if errors_Is x errNotProvisioned then retL ()
                else failed (''Failed to upsert association. Error: '' @ sub_Error a x)
     | Inr _ \<Rightarrow> recordAuditEvent ''ComputeAllocationMembershipCreationSucceeded''
         ''compute_allocation_membership'' (mem_ID membership) ''Successfully upserted association.''))))"

definition SubscribeToComputeAllocationMembershipResourceOverrideCreation ::
    "association_subscriber \<Rightarrow> compute_allocation_membership_resource_override \<Rightarrow> unit L" where
  "SubscribeToComputeAllocationMembershipResourceOverrideCreation a override = WithSource ''slurm'' (
     let failed = recordAuditEvent ''ComputeAllocationMembershipResourceOverrideCreationFailed''
           ''compute_allocation_membership_resource_override'' (ovr_ID override) in
     orReport failed a ''Failed to get compute allocation membership.''
       (coreL (GetComputeAllocationMembership (ovr_ComputeAllocationMembershipID override))) (\<lambda>membership.
     bindL (tryL (upsertAssociationsForMembership membership)) (\<lambda>r.
     case r of
       Inl x \<Rightarrow> if errors_Is x errNotProvisioned then retL ()
                else failed (''Failed to upsert association. Error: '' @ sub_Error a x)
     | Inr _ \<Rightarrow> recordAuditEvent ''ComputeAllocationMembershipResourceOverrideCreationSucceeded''
         ''compute_allocation_membership_resource_override'' (ovr_ID override)
         ''Successfully upserted association.'')))"

definition SubscribeToComputeAllocationMembershipUpdate ::
    "association_subscriber \<Rightarrow> compute_allocation_membership \<Rightarrow> unit L" where
  "SubscribeToComputeAllocationMembershipUpdate a membership = WithSource ''slurm'' (
     let failed = recordAuditEvent ''ComputeAllocationMembershipUpdateFailed''
           ''compute_allocation_membership'' (mem_ID membership) in
     if mem_MembershipStatus membership = AllocationACTIVE
     then bindL (tryL (upsertAssociationsForMembership membership)) (\<lambda>r.
       case r of
         Inl x \<Rightarrow> if errors_Is x errNotProvisioned then retL ()
                  else failed (''Failed to upsert association. Error: '' @ sub_Error a x)
       | Inr _ \<Rightarrow> retL ())
     else orReport failed a ''Failed to remove associations.'' (removeAssociationsForMembership membership) (\<lambda>_.
       recordAuditEvent ''ComputeAllocationMembershipDeprovisioned'' ''compute_allocation_membership''
         (mem_ID membership) ''Removed cluster associations for the deactivated membership.''))"

definition SubscribeToComputeAllocationMembershipDeletion ::
    "association_subscriber \<Rightarrow> compute_allocation_membership \<Rightarrow> unit L" where
  "SubscribeToComputeAllocationMembershipDeletion a membership = WithSource ''slurm'' (
     let failed = recordAuditEvent ''ComputeAllocationMembershipDeletionFailed''
           ''compute_allocation_membership'' (mem_ID membership) in
     orReport failed a ''Failed to remove associations.'' (removeAssociationsForMembership membership) (\<lambda>_.
       recordAuditEvent ''ComputeAllocationMembershipDeprovisioned'' ''compute_allocation_membership''
         (mem_ID membership) ''Removed cluster associations for the deleted membership.''))"

subsection \<open>account.go\<close>

definition SubscribeToComputeAllocationCreation ::
    "association_subscriber \<Rightarrow> compute_allocation \<Rightarrow> unit L" where
  "SubscribeToComputeAllocationCreation a computeAllocation = WithSource ''slurm'' (
     let failed = recordAuditEvent ''ComputeAllocationCreationFailed''
           ''compute_allocation'' (alc_ID computeAllocation) in
     orReport failed a ''Failed to get compute cluster.''
       (coreL (GetComputeCluster (alc_ComputeClusterID computeAllocation))) (\<lambda>cluster.
     orReport failed a ''Failed to get project.'' (coreL (GetProject (alc_ProjectID computeAllocation))) (\<lambda>project.
     orReport failed a ''Failed to get project PI.'' (coreL (GetUser (prj_ProjectPIID project))) (\<lambda>pi.
     orReport failed a ''Failed to get organization.'' (coreL (GetOrganization (usr_OrganizationID pi))) (\<lambda>organization.
     orReport failed a ''Failed to create SLURM account.''
       (CreateAccount \<lparr> sac_Name = alc_Name computeAllocation, sac_Description = alc_Name computeAllocation,
          sac_Organization = org_Name organization \<rparr> (ccl_Name cluster)) (\<lambda>_.
     recordAuditEvent ''ComputeAllocationCreationSucceeded'' ''compute_allocation'' (alc_ID computeAllocation)
       ''Successfully created SLURM account for compute allocation.''))))))"

definition SubscribeToComputeAllocationDeletion ::
    "association_subscriber \<Rightarrow> compute_allocation \<Rightarrow> unit L" where
  "SubscribeToComputeAllocationDeletion a computeAllocation = WithSource ''slurm'' (
     let failed = recordAuditEvent ''ComputeAllocationDeletionFailed''
           ''compute_allocation'' (alc_ID computeAllocation) in
     orReport failed a ''Failed to remove associations.'' (removeAssociationsForAllocation computeAllocation) (\<lambda>_.
       recordAuditEvent ''ComputeAllocationDeprovisioned'' ''compute_allocation'' (alc_ID computeAllocation)
         ''Removed cluster associations for the deleted allocation.''))"

definition SubscribeToComputeAllocationUpdate ::
    "association_subscriber \<Rightarrow> compute_allocation \<Rightarrow> unit L" where
  "SubscribeToComputeAllocationUpdate a computeAllocation = WithSource ''slurm'' (
     let failed = recordAuditEvent ''ComputeAllocationUpdateFailed''
           ''compute_allocation'' (alc_ID computeAllocation) in
     if activeAllocation computeAllocation
     then orReport failed a ''Failed to restore associations.''
       (restoreAssociationsForAllocation computeAllocation) (\<lambda>_.
       recordAuditEvent ''ComputeAllocationProvisioned'' ''compute_allocation'' (alc_ID computeAllocation)
         ''Restored cluster associations for the active allocation.'')
     else orReport failed a ''Failed to remove associations.''
       (removeAssociationsForAllocation computeAllocation) (\<lambda>_.
       recordAuditEvent ''ComputeAllocationDeprovisioned'' ''compute_allocation'' (alc_ID computeAllocation)
         ''Removed cluster associations for the deactivated allocation.''))"

definition mapping_association :: "compute_allocation \<Rightarrow> compute_cluster \<Rightarrow> compute_allocation_resource \<Rightarrow>
    compute_allocation_resource_mapping \<Rightarrow> association" where
  "mapping_association allocation cluster resource mapping =
     \<lparr> aso_Account = alc_Name allocation, aso_Cluster = ccl_Name cluster, aso_User = '''',
       aso_Partition = '''', aso_ParentAccount = '''', aso_IsDefault = None, aso_ID = 0, aso_QoS = [],
       aso_Limits = no_limits\<lparr>
         lim_GrpTRES := (if 0 < rmp_ResourceAmount mapping
           then [tresFor (res_ResourceType resource) (rmp_ResourceAmount mapping)] else []),
         lim_GrpTRESMins := (if 0 < rmp_ResourceTime mapping
           then [tresFor (res_ResourceType resource) (rmp_ResourceTime mapping)] else [])\<rparr> \<rparr>"

definition SubscribeToComputeAllocationResourceMappingCreation ::
    "association_subscriber \<Rightarrow> compute_allocation_resource_mapping \<Rightarrow> unit L" where
  "SubscribeToComputeAllocationResourceMappingCreation a mapping = WithSource ''slurm'' (
     let failed = recordAuditEvent ''ComputeAllocationResourceMappingCreationFailed''
           ''compute_allocation_resource_mapping'' (rmp_ID mapping) in
     orReport failed a ''Failed to get compute allocation.''
       (coreL (GetComputeAllocation (rmp_ComputeAllocationID mapping))) (\<lambda>allocation.
     orReport failed a ''Failed to get compute cluster.''
       (coreL (GetComputeCluster (alc_ComputeClusterID allocation))) (\<lambda>cluster.
     orReport failed a ''Failed to get compute allocation resource.''
       (coreL (GetComputeAllocationResource (rmp_ComputeAllocationResourceID mapping))) (\<lambda>resource.
     if (0 < rmp_ResourceAmount mapping \<or> 0 < rmp_ResourceTime mapping) \<and> res_ResourceType resource = ''''
     then failed ''Resource type is empty for resource mapping creation''
     else orReport failed a ''Failed to upsert association.''
       (UpsertAssociation (mapping_association allocation cluster resource mapping)) (\<lambda>_.
       recordAuditEvent ''ComputeAllocationResourceMappingCreationSucceeded''
         ''compute_allocation_resource_mapping'' (rmp_ID mapping)
         ''Successfully upserted association for compute allocation resource mapping creation'')))))"

subsection \<open>reconciler.go\<close>

definition DefaultProvisionGrace :: int where
  "DefaultProvisionGrace = 30 * 1000000"

definition readyForAssociation :: "association_subscriber \<Rightarrow> compute_cluster_user \<Rightarrow> bool L" where
  "readyForAssociation a csu = (case ccu_ProvisionedAt csu of None \<Rightarrow> retL False
   | Some t \<Rightarrow> bindL (coreL nowUTC) (\<lambda>now.
       let grace = (if sub_provisionGrace a \<le> 0 then DefaultProvisionGrace else sub_provisionGrace a) in
       retL (grace \<le> now - t)))"

definition existingAssociations :: "string \<Rightarrow> existing L" where
  "existingAssociations clusterName =
     bindL (ListAssociations \<lparr> flt_Account = '''', flt_User = '''', flt_Cluster = clusterName, flt_Partition = '''' \<rparr>)
       (\<lambda>assocs. retL (foldl (\<lambda>byKey assoc. AList.update (keyOf assoc) assoc byKey) [] assocs))"

definition managedAccounts :: "id \<Rightarrow> string list L" where
  "managedAccounts clusterID =
     bindL (coreL (ListComputeAllocationsByCluster clusterID)) (\<lambda>allocations. retL (map alc_Name allocations))"

definition pruneStaleAssociations :: "compute_cluster \<Rightarrow> existing \<Rightarrow> assoc_key list \<Rightarrow> unit L" where
  "pruneStaleAssociations cluster existing desired =
     (if existing = [] then retL ()
      else if desired = [] then retL ()
      else bindL (tryL (managedAccounts (ccl_ID cluster))) (\<lambda>r.
        case r of Inl _ \<Rightarrow> retL ()
        | Inr managed \<Rightarrow> eachL existing (\<lambda>(key, assoc).
            if aso_User assoc = '''' then retL ()
            else if aso_Account assoc \<notin> set managed then retL ()
            else if key \<in> set desired then retL ()
            else bindL (tryL (DeleteAssociation \<lparr> flt_Account = aso_Account assoc, flt_User = aso_User assoc,
              flt_Cluster = ccl_Name cluster, flt_Partition = aso_Partition assoc \<rparr>)) (\<lambda>_. retL ()))))"

definition write_records :: "existing \<Rightarrow> association list \<Rightarrow> unit L" where
  "write_records existing records = eachL records (\<lambda>record.
     if written_already existing record then retL ()
     else bindL (tryL (UpsertAssociation record)) (\<lambda>_. retL ()))"

text \<open>The two loops of reconcileCluster.  An error is its early return, without the removal.\<close>

fun reconcile_memberships :: "association_subscriber \<Rightarrow> existing \<Rightarrow> compute_cluster_user \<Rightarrow>
    compute_allocation_membership list \<Rightarrow> assoc_key list \<Rightarrow> assoc_key list L" where
  "reconcile_memberships a existing csu [] desired = retL desired"
| "reconcile_memberships a existing csu (membership # memberships) desired =
     (if mem_MembershipStatus membership \<noteq> AllocationACTIVE then reconcile_memberships a existing csu memberships desired
      else bindL (desiredAssociationsForMembership membership) (\<lambda>records.
        bindL (readyForAssociation a csu) (\<lambda>ready.
        bindL (if ready then write_records existing records else retL ()) (\<lambda>_.
        reconcile_memberships a existing csu memberships (desired @ map keyOf records)))))"

fun reconcile_users :: "association_subscriber \<Rightarrow> existing \<Rightarrow> compute_cluster_user list \<Rightarrow>
    assoc_key list \<Rightarrow> assoc_key list L" where
  "reconcile_users a existing [] desired = retL desired"
| "reconcile_users a existing (csu # clusterUsers) desired =
     (if ccu_ProvisionedAt csu = None then reconcile_users a existing clusterUsers desired
      else bindL (coreL (ListAllocationsForUser (ccu_UserID csu))) (\<lambda>memberships.
        bindL (reconcile_memberships a existing csu memberships desired) (\<lambda>desired.
        reconcile_users a existing clusterUsers desired)))"

definition reconcileCluster :: "association_subscriber \<Rightarrow> compute_cluster \<Rightarrow> unit L" where
  "reconcileCluster a cluster =
     bindL (tryL (coreL (ListComputeClusterUsersByCluster (ccl_ID cluster)))) (\<lambda>r.
     case r of Inl _ \<Rightarrow> retL ()
     | Inr clusterUsers \<Rightarrow>
         bindL (tryL (existingAssociations (ccl_Name cluster))) (\<lambda>r.
         let existing = (case r of Inl _ \<Rightarrow> [] | Inr byKey \<Rightarrow> byKey) in
         bindL (tryL (reconcile_users a existing clusterUsers [])) (\<lambda>r.
         case r of Inl _ \<Rightarrow> retL ()
         | Inr desired \<Rightarrow> pruneStaleAssociations cluster existing desired)))"

definition reconcile :: "association_subscriber \<Rightarrow> unit L" where
  "reconcile a = bindL (tryL (coreL ListComputeClusters)) (\<lambda>r.
     case r of Inl _ \<Rightarrow> retL () | Inr clusters \<Rightarrow> eachL clusters (reconcileCluster a))"

end
