(* ===== verification/Slurm_Safety.thy ===== *)
theory Slurm_Safety
  imports Slurm_Mapper
begin

text \<open>
  What a sweep of the reconciler asks of SLURM.  An entitlement is an active
  membership in an active allocation of the cluster, of a user whose account on
  the cluster is provisioned, for a resource that is mapped to the allocation;
  it stands for one association.
\<close>

subsection \<open>Runs\<close>

named_theorems lrun_simps "the outcomes of runs against SLURM"
named_theorems sends_intros "which requests a run sends"

lemma retL_iff [lrun_simps]: "retL x srv e w = (r, w') \<longleftrightarrow> r = Inr x \<and> w' = w"
  by (auto simp: retL_def)

lemma throwL_iff [lrun_simps]: "throwL x srv e w = (r, w') \<longleftrightarrow> r = Inl x \<and> w' = w"
  by (auto simp: throwL_def)

lemma bindL_Inr [lrun_simps]:
  "bindL m f srv e w = (Inr y, w') \<longleftrightarrow> (\<exists>x w1. m srv e w = (Inr x, w1) \<and> f x srv e w1 = (Inr y, w'))"
  by (auto simp: bindL_def split: prod.splits sum.splits)

lemma bindL_any:
  "bindL m f srv e w = (r, w') \<longleftrightarrow> (\<exists>x. m srv e w = (Inl x, w') \<and> r = Inl x) \<or>
     (\<exists>x w1. m srv e w = (Inr x, w1) \<and> f x srv e w1 = (r, w'))"
  by (auto simp: bindL_def split: prod.splits sum.splits)

lemma wrapL_Inr [lrun_simps]: "wrapL lbl m srv e w = (Inr x, w') \<longleftrightarrow> m srv e w = (Inr x, w')"
  by (auto simp: wrapL_def split: prod.splits sum.splits)

lemma tryL_iff [lrun_simps]: "tryL m srv e w = (r, w') \<longleftrightarrow> (\<exists>r1. m srv e w = (r1, w') \<and> r = Inr r1)"
  by (auto simp: tryL_def split: prod.splits)

lemma coreL_iff [lrun_simps]:
  "coreL m srv e w = (r, w') \<longleftrightarrow> (\<exists>s. m e (sw_core w) = (r, s) \<and> w' = w\<lparr>sw_core := s\<rparr>)"
  by (auto simp: coreL_def split: prod.splits)

text \<open>A run that leaves the core's database alone and sends only requests that satisfy P.\<close>

definition sends :: "(slurm_request \<Rightarrow> bool) \<Rightarrow> 'a L \<Rightarrow> bool" where
  "sends P m = (\<forall>srv e w r w'. m srv e w = (r, w') \<longrightarrow> db (sw_core w') = db (sw_core w) \<and>
     (\<exists>qs. sw_sent w' = sw_sent w @ qs \<and> list_all P qs))"

lemma sendsD: "sends P m \<Longrightarrow> m srv e w = (r, w') \<Longrightarrow>
    db (sw_core w') = db (sw_core w) \<and> (\<exists>qs. sw_sent w' = sw_sent w @ qs \<and> list_all P qs)"
  unfolding sends_def by blast

lemma sends_mono: "sends P m \<Longrightarrow> (\<And>q. P q \<Longrightarrow> Q q) \<Longrightarrow> sends Q m"
  unfolding sends_def list_all_iff by blast

lemma sends_prims [sends_intros]:
  "sends P (retL x)" "sends P (throwL y)" "P q \<Longrightarrow> sends P (client_do q)"
  by (auto simp: sends_def retL_def throwL_def client_do_def)

lemma sends_coreL [sends_intros]: "readonly m \<Longrightarrow> sends P (coreL m)"
  by (auto simp: sends_def coreL_iff dest: readonlyD)

lemma sends_bindL [sends_intros]:
  assumes "sends P m" "\<And>x. sends P (f x)"
  shows "sends P (bindL m f)"
  unfolding sends_def
proof (intro allI impI)
  fix srv e w r w' assume "bindL m f srv e w = (r, w')"
  then consider (failed) x where "m srv e w = (Inl x, w')"
    | (went) x w1 where "m srv e w = (Inr x, w1)" "f x srv e w1 = (r, w')"
    unfolding bindL_any by blast
  then show "db (sw_core w') = db (sw_core w) \<and> (\<exists>qs. sw_sent w' = sw_sent w @ qs \<and> list_all P qs)"
  proof cases
    case went
    from sendsD [OF assms(1) went(1)] obtain qs where 1: "db (sw_core w1) = db (sw_core w)"
      "sw_sent w1 = sw_sent w @ qs" "list_all P qs" by blast
    from sendsD [OF assms(2) went(2)] obtain qs' where "db (sw_core w') = db (sw_core w1)"
      "sw_sent w' = sw_sent w1 @ qs'" "list_all P qs'" by blast
    with 1 show ?thesis by simp
  next
    case failed
    then show ?thesis by (rule sendsD [OF assms(1)])
  qed
qed

lemma sends_wrappers [sends_intros]:
  "sends P m \<Longrightarrow> sends P (wrapL lbl m)" "sends P m \<Longrightarrow> sends P (mapErrL f m)" "sends P m \<Longrightarrow> sends P (tryL m)"
  by (auto simp: sends_def wrapL_def mapErrL_def tryL_def split: prod.splits sum.splits)

lemma sends_if [sends_intros]: "(b \<Longrightarrow> sends P m) \<Longrightarrow> (\<not> b \<Longrightarrow> sends P n) \<Longrightarrow> sends P (if b then m else n)"
  by simp

lemma sends_cases [sends_intros]:
  "(\<And>x. r = Inl x \<Longrightarrow> sends P (f x)) \<Longrightarrow> (\<And>y. r = Inr y \<Longrightarrow> sends P (g y)) \<Longrightarrow>
     sends P (case r of Inl x \<Rightarrow> f x | Inr y \<Rightarrow> g y)"
  "sends P m \<Longrightarrow> (\<And>z. sends P (h z)) \<Longrightarrow> sends P (case t of None \<Rightarrow> m | Some z \<Rightarrow> h z)"
  "sends P m \<Longrightarrow> (\<And>z zs. sends P (k z zs)) \<Longrightarrow> sends P (case l of [] \<Rightarrow> m | z # zs \<Rightarrow> k z zs)"
  by (auto split: sum.splits option.splits list.splits)

lemma sends_eachL [sends_intros]: "(\<And>x. x \<in> set xs \<Longrightarrow> sends P (f x)) \<Longrightarrow> sends P (eachL xs f)"
  by (induction xs) (auto intro!: sends_intros)

subsection \<open>The parts of a sweep\<close>

definition is_delete :: "slurm_request \<Rightarrow> bool" where
  "is_delete q = (case q of DeleteAssociations _ \<Rightarrow> True | _ \<Rightarrow> False)"

lemma is_delete_simps [simp]:
  "\<not> is_delete (GetAssociations f)" "\<not> is_delete (PostAssociations ws)" "is_delete (DeleteAssociations f)"
  by (simp_all add: is_delete_def)

lemma readonly_queries [readonly_intros]:
  "readonly (GetComputeAllocation x)" "readonly (GetComputeCluster x)" "readonly (GetComputeClusterUserByPair x y)"
  "readonly (ListResourcesForAllocation x)" "readonly (ListOverridesForMembership x)"
  "readonly (ListAllocationsForUser x)" "readonly (ListComputeClusterUsersByCluster x)"
  "readonly (ListComputeAllocationsByCluster x)"
  unfolding GetComputeAllocation_def GetComputeCluster_def GetComputeClusterUserByPair_def
    ListResourcesForAllocation_def ListOverridesForMembership_def ListAllocationsForUser_def
    ListComputeClusterUsersByCluster_def ListComputeAllocationsByCluster_def
  by (intro readonly_intros)+

lemma desired_sends: "sends P (desiredAssociationsForMembership m)"
  unfolding desiredAssociationsForMembership_def by (intro sends_intros readonly_intros)

lemma upsert_sends:
  "(\<And>f. P (GetAssociations f)) \<Longrightarrow> P (PostAssociations [MarshalJSON a]) \<Longrightarrow> sends P (UpsertAssociation a)"
  unfolding UpsertAssociation_def ListAssociations_def by (intro sends_intros) auto

lemma existing_sends: "(\<And>f. P (GetAssociations f)) \<Longrightarrow> sends P (existingAssociations c)"
  unfolding existingAssociations_def ListAssociations_def by (intro sends_intros) auto

lemma ready_sends: "sends P (readyForAssociation a csu)"
  unfolding readyForAssociation_def Let_def by (intro sends_intros readonly_intros)

lemma write_sends: "sends (\<lambda>q. \<not> is_delete q) (write_records ex rs)"
  unfolding write_records_def by (intro sends_intros upsert_sends) auto

lemma memberships_send: "sends (\<lambda>q. \<not> is_delete q) (reconcile_memberships a ex csu ms ds)"
proof (induction ms arbitrary: ds)
  case (Cons m ms)
  show ?case unfolding reconcile_memberships.simps
    by (intro sends_intros desired_sends ready_sends write_sends Cons.IH)
qed (simp add: sends_prims)

lemma users_send: "sends (\<lambda>q. \<not> is_delete q) (reconcile_users a ex us ds)"
proof (induction us arbitrary: ds)
  case (Cons u us)
  show ?case unfolding reconcile_users.simps
    by (intro sends_intros readonly_intros memberships_send Cons.IH)
qed (simp add: sends_prims)

subsection \<open>What a sweep wants\<close>

definition mapped_resource :: "database \<Rightarrow> id \<Rightarrow> compute_allocation_resource \<Rightarrow> bool" where
  "mapped_resource d aid r = (r \<in> set (compute_allocation_resources d) \<and>
     list_ex (\<lambda>m. rmp_ComputeAllocationResourceID m = res_ID r \<and> rmp_ComputeAllocationID m = aid)
       (compute_allocation_resource_mappings d))"

text \<open>Every association that the membership stands for is among the given ones.\<close>

definition covered :: "database \<Rightarrow> compute_allocation_membership \<Rightarrow> assoc_key set \<Rightarrow> bool" where
  "covered d m K = (\<forall>a\<in>set (compute_allocations d). alc_ID a = mem_ComputeAllocationID m \<longrightarrow> activeAllocation a \<longrightarrow>
     (\<exists>u\<in>set (compute_cluster_users d). ccu_ComputeClusterID u = alc_ComputeClusterID a \<and>
        ccu_UserID u = mem_UserID m \<and> ccu_ProvisionedAt u \<noteq> None \<and>
        (\<forall>r. mapped_resource d (alc_ID a) r \<longrightarrow> (alc_Name a, ccu_LocalUsername u, res_Name r) \<in> K)))"

lemma covered_mono: "covered d m K \<Longrightarrow> K \<subseteq> L \<Longrightarrow> covered d m L"
  unfolding covered_def by blast

lemma schema_keys:
  assumes "schema_ok d"
  shows "uniq alc_ID (compute_allocations d)"
    and "uniq (\<lambda>c. (ccu_ComputeClusterID c, ccu_UserID c)) (compute_cluster_users d)"
  using schema_okD(8,5) [OF assms] by (simp_all add: schema_defs)

text \<open>The answers of the core, read off its database.\<close>

lemma query_Inr:
  "coreL (GetComputeAllocation x) srv e w = (Inr a, w') \<Longrightarrow>
     a \<in> set (compute_allocations (db (sw_core w))) \<and> alc_ID a = x \<and> db (sw_core w') = db (sw_core w)"
  "coreL (GetComputeCluster x) srv e w = (Inr c, w') \<Longrightarrow> ccl_ID c = x \<and> db (sw_core w') = db (sw_core w)"
  "coreL (GetComputeClusterUserByPair x y) srv e w = (Inr u, w') \<Longrightarrow>
     u \<in> set (compute_cluster_users (db (sw_core w))) \<and> ccu_ComputeClusterID u = x \<and> ccu_UserID u = y \<and>
     db (sw_core w') = db (sw_core w)"
  "coreL (ListResourcesForAllocation x) srv e w = (Inr rs, w') \<Longrightarrow>
     set rs = {r. mapped_resource (db (sw_core w)) x r}"
  by (auto simp: lrun_simps run_simps store_defs GetComputeAllocation_def GetComputeCluster_def
      GetComputeClusterUserByPair_def ListResourcesForAllocation_def mapped_resource_def list_ex_iff
      dest: find_SomeD [OF sym] split: if_splits)

lemma keyOf_desired: "keyOf (desired_association a c u ovs r) = (alc_Name a, ccu_LocalUsername u, res_Name r)"
  by (simp add: keyOf_def desired_association_def)

lemma desired_Inr:
  assumes "desiredAssociationsForMembership m srv e w = (Inr rs, w')"
  obtains (inactive) a w1 where "coreL (GetComputeAllocation (mem_ComputeAllocationID m)) srv e w = (Inr a, w1)"
      "\<not> activeAllocation a"
  | (active) a w1 c w2 u w3 res w4 where
      "coreL (GetComputeAllocation (mem_ComputeAllocationID m)) srv e w = (Inr a, w1)"
      "coreL (GetComputeCluster (alc_ComputeClusterID a)) srv e w1 = (Inr c, w2)"
      "coreL (GetComputeClusterUserByPair (ccl_ID c) (mem_UserID m)) srv e w2 = (Inr u, w3)"
      "ccu_ProvisionedAt u \<noteq> None"
      "coreL (ListResourcesForAllocation (alc_ID a)) srv e w3 = (Inr res, w4)"
      "keyOf ` set rs = (\<lambda>r. (alc_Name a, ccu_LocalUsername u, res_Name r)) ` set res"
proof -
  from assms obtain a w1 where 1: "coreL (GetComputeAllocation (mem_ComputeAllocationID m)) srv e w = (Inr a, w1)"
    and r1: "(if \<not> activeAllocation a then retL []
      else bindL (wrapL ''get compute cluster'' (coreL (GetComputeCluster (alc_ComputeClusterID a)))) (\<lambda>cluster.
       bindL (wrapL ''get compute cluster user''
         (coreL (GetComputeClusterUserByPair (ccl_ID cluster) (mem_UserID m)))) (\<lambda>csu.
       if ccu_ProvisionedAt csu = None then throwL errNotProvisioned
       else bindL (wrapL ''list resources for allocation''
           (coreL (ListResourcesForAllocation (alc_ID a)))) (\<lambda>resources.
         if resources = [] then retL []
         else bindL (wrapL ''list overrides for membership''
             (coreL (ListOverridesForMembership (mem_ID m)))) (\<lambda>overrides.
           retL (map (desired_association a cluster csu overrides) resources)))))) srv e w1 = (Inr rs, w')"
    unfolding desiredAssociationsForMembership_def bindL_Inr [where m = "wrapL ''get compute allocation'' X" for X] wrapL_Inr
    by blast
  show thesis
  proof (cases "activeAllocation a")
    case True
    from r1 True obtain c w2 u w3 where 2: "coreL (GetComputeCluster (alc_ComputeClusterID a)) srv e w1 = (Inr c, w2)"
      "coreL (GetComputeClusterUserByPair (ccl_ID c) (mem_UserID m)) srv e w2 = (Inr u, w3)"
      and r2: "(if ccu_ProvisionedAt u = None then throwL errNotProvisioned
       else bindL (wrapL ''list resources for allocation''
           (coreL (ListResourcesForAllocation (alc_ID a)))) (\<lambda>resources.
         if resources = [] then retL []
         else bindL (wrapL ''list overrides for membership''
             (coreL (ListOverridesForMembership (mem_ID m)))) (\<lambda>overrides.
           retL (map (desired_association a c u overrides) resources)))) srv e w3 = (Inr rs, w')"
      by (simp add: bindL_Inr wrapL_Inr) blast
    from r2 have p: "ccu_ProvisionedAt u \<noteq> None" by (cases "ccu_ProvisionedAt u = None") (simp_all add: throwL_iff)
    with r2 obtain res w4 where 3: "coreL (ListResourcesForAllocation (alc_ID a)) srv e w3 = (Inr res, w4)"
      and r3: "res = [] \<and> rs = [] \<or> (\<exists>ovs. rs = map (desired_association a c u ovs) res)"
      by (auto simp: bindL_Inr wrapL_Inr retL_iff split: if_splits)
    from r3 have "keyOf ` set rs = (\<lambda>r. (alc_Name a, ccu_LocalUsername u, res_Name r)) ` set res"
      by (auto simp: image_image keyOf_desired)
    from active [OF 1 2 p 3 this] show thesis .
  qed (use 1 inactive in blast)
qed

lemma desired_covered:
  assumes "desiredAssociationsForMembership m srv e w = (Inr rs, w')" "schema_ok (db (sw_core w))"
  shows "covered (db (sw_core w)) m (keyOf ` set rs)"
  using assms(1)
proof (cases rule: desired_Inr)
  case (inactive a w1)
  have "b = a" if "b \<in> set (compute_allocations (db (sw_core w)))" "alc_ID b = mem_ComputeAllocationID m" for b
    using uniqD [OF schema_keys(1) [OF assms(2)] that(1), of a] query_Inr(1) [OF inactive(1)] that(2) by simp
  then show ?thesis unfolding covered_def using inactive(2) by blast
next
  case (active a w1 c w2 u w3 res w4)
  note q = query_Inr(1) [OF active(1)] query_Inr(2) [OF active(2)] query_Inr(3) [OF active(3)] query_Inr(4) [OF active(5)]
  show ?thesis unfolding covered_def
  proof (intro ballI impI)
    fix b assume b: "b \<in> set (compute_allocations (db (sw_core w)))" "alc_ID b = mem_ComputeAllocationID m"
    have "b = a" using uniqD [OF schema_keys(1) [OF assms(2)] b(1), of a] q(1) b(2) by simp
    then show "\<exists>u\<in>set (compute_cluster_users (db (sw_core w))). ccu_ComputeClusterID u = alc_ComputeClusterID b \<and>
      ccu_UserID u = mem_UserID m \<and> ccu_ProvisionedAt u \<noteq> None \<and> (\<forall>r. mapped_resource (db (sw_core w)) (alc_ID b) r \<longrightarrow>
        (alc_Name b, ccu_LocalUsername u, res_Name r) \<in> keyOf ` set rs)"
      using q active(4,6) by (intro bexI [of _ u] conjI) simp_all
  qed
qed

lemma memberships_covered:
  assumes "reconcile_memberships a ex csu ms ds srv e w = (Inr ds', w')" "schema_ok (db (sw_core w))"
  shows "set ds \<subseteq> set ds' \<and> db (sw_core w') = db (sw_core w) \<and>
    (\<forall>m\<in>set ms. mem_MembershipStatus m = AllocationACTIVE \<longrightarrow> covered (db (sw_core w)) m (set ds'))"
  using assms
proof (induction ms arbitrary: ds w)
  case (Cons m ms)
  show ?case
  proof (cases "mem_MembershipStatus m = AllocationACTIVE")
    case True
    obtain rs w1 x w2 w3 where 1: "desiredAssociationsForMembership m srv e w = (Inr rs, w1)"
      and 2: "readyForAssociation a csu srv e w1 = (Inr x, w2)"
      and 3: "(if x then write_records ex rs else retL ()) srv e w2 = (Inr (), w3)"
      and 4: "reconcile_memberships a ex csu ms (ds @ map keyOf rs) srv e w3 = (Inr ds', w')"
      using Cons.prems(1) True by (auto simp: bindL_Inr)
    have s: "sends (\<lambda>q. \<not> is_delete q) (if x then write_records ex rs else retL ())"
      by (intro sends_intros write_sends)
    have d: "db (sw_core w3) = db (sw_core w)"
      using sendsD [OF desired_sends 1] sendsD [OF ready_sends 2] sendsD [OF s 3] by simp
    then have IH: "set (ds @ map keyOf rs) \<subseteq> set ds' \<and> db (sw_core w') = db (sw_core w3) \<and>
      (\<forall>m\<in>set ms. mem_MembershipStatus m = AllocationACTIVE \<longrightarrow> covered (db (sw_core w3)) m (set ds'))"
      using Cons.IH [OF 4] Cons.prems(2) by simp
    moreover have "covered (db (sw_core w)) m (set ds')"
      using desired_covered [OF 1 Cons.prems(2)] IH by (auto intro: covered_mono)
    ultimately show ?thesis using d by auto
  qed (use Cons in auto)
qed (simp add: retL_iff)

lemma users_covered:
  assumes "reconcile_users a ex us ds srv e w = (Inr ds', w')" "schema_ok (db (sw_core w))"
  shows "set ds \<subseteq> set ds' \<and> (\<forall>u\<in>set us. ccu_ProvisionedAt u \<noteq> None \<longrightarrow>
    (\<forall>m\<in>set (compute_allocation_memberships (db (sw_core w))). mem_UserID m = ccu_UserID u \<longrightarrow>
      mem_MembershipStatus m = AllocationACTIVE \<longrightarrow> covered (db (sw_core w)) m (set ds')))"
  using assms
proof (induction us arbitrary: ds w)
  case (Cons u us)
  show ?case
  proof (cases "ccu_ProvisionedAt u = None")
    case False
    obtain ms w1 ds1 w2 where 1: "coreL (ListAllocationsForUser (ccu_UserID u)) srv e w = (Inr ms, w1)"
      and 2: "reconcile_memberships a ex u ms ds srv e w1 = (Inr ds1, w2)"
      and 3: "reconcile_users a ex us ds1 srv e w2 = (Inr ds', w')"
      using Cons.prems(1) False by (auto simp: bindL_Inr)
    have ms: "set ms = {m \<in> set (compute_allocation_memberships (db (sw_core w))). mem_UserID m = ccu_UserID u}"
      and d: "db (sw_core w1) = db (sw_core w)"
      using 1 by (auto simp: lrun_simps run_simps store_defs ListAllocationsForUser_def split: if_splits)
    note m = memberships_covered [OF 2, unfolded d, OF Cons.prems(2)]
    then have d2: "db (sw_core w2) = db (sw_core w)" by simp
    note IH = Cons.IH [OF 3, unfolded d2, OF Cons.prems(2)]
    have "covered (db (sw_core w)) m (set ds')" if "m \<in> set ms" "mem_MembershipStatus m = AllocationACTIVE" for m
      using m IH that by (meson covered_mono)
    then have "\<forall>m\<in>set (compute_allocation_memberships (db (sw_core w))). mem_UserID m = ccu_UserID u \<longrightarrow>
      mem_MembershipStatus m = AllocationACTIVE \<longrightarrow> covered (db (sw_core w)) m (set ds')" using ms by simp
    then show ?thesis using IH m by (simp add: subset_trans [of "set ds" "set ds1"])
  qed (use Cons in auto)
qed (simp add: retL_iff)

subsection \<open>What a sweep removes\<close>

definition entitled :: "database \<Rightarrow> id \<Rightarrow> assoc_key \<Rightarrow> bool" where
  "entitled d c k = (\<exists>a\<in>set (compute_allocations d). activeAllocation a \<and> alc_ComputeClusterID a = c \<and>
     (\<exists>m\<in>set (compute_allocation_memberships d). mem_ComputeAllocationID m = alc_ID a \<and>
        mem_MembershipStatus m = AllocationACTIVE \<and>
        (\<exists>u\<in>set (compute_cluster_users d). ccu_ComputeClusterID u = c \<and> ccu_UserID u = mem_UserID m \<and>
           ccu_ProvisionedAt u \<noteq> None \<and>
           (\<exists>r\<in>set (compute_allocation_resources d). mapped_resource d (alc_ID a) r \<and>
              k = (alc_Name a, ccu_LocalUsername u, res_Name r)))))"

definition stale :: "database \<Rightarrow> compute_cluster \<Rightarrow> assoc_key set \<Rightarrow> assoc_filter \<Rightarrow> bool" where
  "stale d c K f = (flt_Cluster f = ccl_Name c \<and> flt_User f \<noteq> '''' \<and>
     (\<exists>a\<in>set (compute_allocations d). alc_ComputeClusterID a = ccl_ID c \<and> alc_Name a = flt_Account f) \<and>
     (flt_Account f, flt_User f, flt_Partition f) \<notin> K)"

lemma existing_keys:
  assumes "existingAssociations c srv e w = (Inr ex, w')" "(k, v) \<in> set ex"
  shows "k = keyOf v"
proof -
  have "(k, v) \<in> set (foldl (\<lambda>byKey assoc. AList.update (keyOf assoc) assoc byKey) xs as) \<Longrightarrow>
    \<forall>(k, v)\<in>set xs. k = keyOf v \<Longrightarrow> k = keyOf v" for xs as
  proof (induction as arbitrary: xs)
    case (Cons a as)
    have "\<forall>(k, v)\<in>set (AList.update (keyOf a) a xs). k = keyOf v"
      using Cons.prems(2) by (induction xs) auto
    then show ?case using Cons by simp
  qed auto
  then show ?thesis using assms by (auto simp: existingAssociations_def lrun_simps)
qed

lemma managed_Inr:
  assumes "managedAccounts c srv e w = (Inr managed, w')"
  shows "set managed = alc_Name ` {a \<in> set (compute_allocations (db (sw_core w))). alc_ComputeClusterID a = c} \<and>
    sw_sent w' = sw_sent w"
  using assms by (auto simp: managedAccounts_def lrun_simps run_simps store_defs ListComputeAllocationsByCluster_def)

lemma prune_stale:
  assumes "pruneStaleAssociations c ex ds srv e w = (r, w')" "\<forall>(k, v)\<in>set ex. k = keyOf v"
  shows "\<exists>qs. sw_sent w' = sw_sent w @ qs \<and>
    list_all (\<lambda>q. \<exists>f. q = DeleteAssociations f \<and> stale (db (sw_core w)) c (set ds) f) qs"
proof -
  let ?P = "\<lambda>q. \<exists>f. q = DeleteAssociations f \<and> stale (db (sw_core w)) c (set ds) f"
  let ?f = "\<lambda>managed (key, assoc). if aso_User assoc = '''' then retL ()
    else if aso_Account assoc \<notin> set managed then retL () else if key \<in> set ds then retL ()
    else bindL (tryL (DeleteAssociation \<lparr> flt_Account = aso_Account assoc, flt_User = aso_User assoc,
      flt_Cluster = ccl_Name c, flt_Partition = aso_Partition assoc \<rparr>)) (\<lambda>_. retL ())"
  have each: "sends ?P (eachL ex (?f managed))"
    if managed: "set managed = alc_Name ` {a \<in> set (compute_allocations (db (sw_core w))). alc_ComputeClusterID a = ccl_ID c}"
    for managed
  proof (rule sends_eachL)
    fix x assume x: "x \<in> set ex"
    obtain k v where kv: "x = (k, v)" by (cases x)
    then have k: "k = (aso_Account v, aso_User v, aso_Partition v)" using x assms(2) by (auto simp: keyOf_def)
    have "stale (db (sw_core w)) c (set ds) \<lparr> flt_Account = aso_Account v, flt_User = aso_User v,
      flt_Cluster = ccl_Name c, flt_Partition = aso_Partition v \<rparr>"
      if "aso_User v \<noteq> ''''" "aso_Account v \<in> set managed" "k \<notin> set ds"
      using that managed k unfolding stale_def by force
    then show "sends ?P (?f managed x)"
      unfolding kv prod.case DeleteAssociation_def by (intro sends_intros) auto
  qed
  have "sends (\<lambda>_. False) (managedAccounts (ccl_ID c))"
    unfolding managedAccounts_def by (intro sends_intros readonly_intros)
  note quiet = sendsD [OF this]
  obtain r1 w1 where 1: "managedAccounts (ccl_ID c) srv e w = (r1, w1)" by fastforce
  have w1: "sw_sent w1 = sw_sent w" using quiet [OF 1] by (auto simp: list_all_iff)
  show ?thesis
  proof (cases "ex = [] \<or> ds = []")
    case False
    then have run: "(case r1 of Inl _ \<Rightarrow> retL () | Inr managed \<Rightarrow> eachL ex (?f managed)) srv e w1 = (r, w')"
      using assms(1) 1 by (simp add: pruneStaleAssociations_def bindL_def tryL_def)
    show ?thesis
    proof (cases r1)
      case (Inr managed)
      have "sends ?P (eachL ex (?f managed))" using managed_Inr 1 unfolding Inr by (intro each) blast
      from sendsD [OF this] run w1 Inr show ?thesis by force
    qed (use run w1 in \<open>simp add: retL_iff\<close>)
  qed (use assms(1) in \<open>auto simp: pruneStaleAssociations_def retL_iff split: if_splits\<close>)
qed

text \<open>The stages of a sweep: it stops before the removal, or it has seen all the entitlements.\<close>

lemma reconcileCluster_stages:
  assumes "reconcileCluster a c srv e w = (r, w')" "schema_ok (db (sw_core w))"
  obtains (stopped) qs where "sw_sent w' = sw_sent w @ qs" "list_all (\<lambda>q. \<not> is_delete q) qs"
  | (pruned) us ds ex w1 qs w2 where "set us = {u \<in> set (compute_cluster_users (db (sw_core w))). ccu_ComputeClusterID u = ccl_ID c}"
      "reconcile_users a ex us [] srv e w1 = (Inr ds, w2)" "db (sw_core w1) = db (sw_core w)"
      "sw_sent w2 = sw_sent w @ qs" "list_all (\<lambda>q. \<not> is_delete q) qs" "db (sw_core w2) = db (sw_core w)"
      "\<forall>(k, v)\<in>set ex. k = keyOf v" "pruneStaleAssociations c ex ds srv e w2 = (r, w')"
proof -
  have s: "sends (\<lambda>q. \<not> is_delete q) (coreL (ListComputeClusterUsersByCluster (ccl_ID c)))"
    "sends (\<lambda>q. \<not> is_delete q) (existingAssociations (ccl_Name c))"
    by (auto intro!: sends_coreL readonly_intros existing_sends)
  obtain r1 w1 where 1: "coreL (ListComputeClusterUsersByCluster (ccl_ID c)) srv e w = (r1, w1)" by fastforce
  obtain q1 where q1: "db (sw_core w1) = db (sw_core w)" "sw_sent w1 = sw_sent w @ q1" "list_all (\<lambda>q. \<not> is_delete q) q1"
    using sendsD [OF s(1) 1] by blast
  show thesis
  proof (cases r1)
    case (Inl x)
    then have "w' = w1" using assms(1) 1 by (auto simp: reconcileCluster_def bindL_any tryL_iff retL_iff)
    then show thesis using stopped q1 by blast
  next
    case (Inr us)
    then have us: "set us = {u \<in> set (compute_cluster_users (db (sw_core w))). ccu_ComputeClusterID u = ccl_ID c}"
      using 1 by (auto simp: lrun_simps run_simps store_defs ListComputeClusterUsersByCluster_def split: if_splits)
    obtain r2 w2 where 2: "existingAssociations (ccl_Name c) srv e w1 = (r2, w2)" by fastforce
    define ex where "ex = (case r2 of Inl _ \<Rightarrow> [] | Inr byKey \<Rightarrow> byKey)"
    have keys: "\<forall>(k, v)\<in>set ex. k = keyOf v"
      using existing_keys 2 unfolding ex_def by (cases r2) auto
    obtain q2 where q2: "db (sw_core w2) = db (sw_core w1)" "sw_sent w2 = sw_sent w1 @ q2" "list_all (\<lambda>q. \<not> is_delete q) q2"
      using sendsD [OF s(2) 2] by blast
    obtain r3 w3 where 3: "reconcile_users a ex us [] srv e w2 = (r3, w3)" by fastforce
    obtain q3 where q3: "db (sw_core w3) = db (sw_core w2)" "sw_sent w3 = sw_sent w2 @ q3" "list_all (\<lambda>q. \<not> is_delete q) q3"
      using sendsD [OF users_send 3] by blast
    have rest: "(case r3 of Inl _ \<Rightarrow> retL () | Inr ds \<Rightarrow> pruneStaleAssociations c ex ds) srv e w3 = (r, w')"
      using assms(1) 1 2 3 Inr
      by (simp add: reconcileCluster_def bindL_def tryL_def Let_def flip: ex_def)
    show thesis
    proof (cases r3)
      case (Inl x)
      then show thesis using rest q1 q2 q3 stopped [of "q1 @ q2 @ q3"] by (simp add: retL_iff)
    next
      case (Inr ds)
      then show thesis using rest 3 q1 q2 q3 keys us pruned [of us ex w2 ds w3 "q1 @ q2 @ q3"] by simp
    qed
  qed
qed

lemma entitled_membership:
  assumes "schema_ok d" "entitled d c k"
  obtains m u where "m \<in> set (compute_allocation_memberships d)" "mem_MembershipStatus m = AllocationACTIVE"
    "u \<in> set (compute_cluster_users d)" "ccu_ComputeClusterID u = c" "ccu_UserID u = mem_UserID m"
    "ccu_ProvisionedAt u \<noteq> None" "\<forall>K. covered d m K \<longrightarrow> k \<in> K"
proof -
  from assms(2) obtain al m u r where *: "al \<in> set (compute_allocations d)" "activeAllocation al"
    "alc_ComputeClusterID al = c" "m \<in> set (compute_allocation_memberships d)"
    "mem_ComputeAllocationID m = alc_ID al" "mem_MembershipStatus m = AllocationACTIVE"
    "u \<in> set (compute_cluster_users d)" "ccu_ComputeClusterID u = c"
    "ccu_UserID u = mem_UserID m" "ccu_ProvisionedAt u \<noteq> None" "mapped_resource d (alc_ID al) r"
    "k = (alc_Name al, ccu_LocalUsername u, res_Name r)"
    unfolding entitled_def by blast
  have "k \<in> K" if cov: "covered d m K" for K
  proof -
    obtain u' where u': "u' \<in> set (compute_cluster_users d)"
      "ccu_ComputeClusterID u' = alc_ComputeClusterID al" "ccu_UserID u' = mem_UserID m"
      "(alc_Name al, ccu_LocalUsername u', res_Name r) \<in> K"
      using cov *(1,2,5,11) unfolding covered_def by metis
    moreover have "u' = u" using uniqD [OF schema_keys(2) [OF assms(1)] u'(1) *(7)] u' * by simp
    ultimately show ?thesis using * by simp
  qed
  then show thesis using that [OF *(4,6-10)] by blast
qed

lemma entitled_wanted:
  assumes "schema_ok (db (sw_core w))" "entitled (db (sw_core w)) (ccl_ID c) k"
    and "set us = {u \<in> set (compute_cluster_users (db (sw_core w))). ccu_ComputeClusterID u = ccl_ID c}"
    and "reconcile_users a ex us [] srv e w1 = (Inr ds, w2)" "db (sw_core w1) = db (sw_core w)"
  shows "k \<in> set ds"
  using assms(1,2)
proof (rule entitled_membership)
  fix m u assume "m \<in> set (compute_allocation_memberships (db (sw_core w)))" "mem_MembershipStatus m = AllocationACTIVE"
    "u \<in> set (compute_cluster_users (db (sw_core w)))" "ccu_ComputeClusterID u = ccl_ID c" "ccu_UserID u = mem_UserID m"
    "ccu_ProvisionedAt u \<noteq> None" "\<forall>K. covered (db (sw_core w)) m K \<longrightarrow> k \<in> K"
  then show ?thesis using users_covered [OF assms(4), unfolded assms(5), OF assms(1)] assms(3) by simp
qed


text \<open>C36: A sweep that meets an active membership in an active allocation of any cluster on which the user
  has no provisioned account removes nothing on the cluster it sweeps, however stale.\<close>

theorem reconciler_stalls:
  assumes "schema_ok (db (sw_core w))" "reconcileCluster a c srv e w = (r, w')"
    and "u \<in> set (compute_cluster_users (db (sw_core w)))" "ccu_ComputeClusterID u = ccl_ID c" "ccu_ProvisionedAt u \<noteq> None"
    and "m \<in> set (compute_allocation_memberships (db (sw_core w)))" "mem_UserID m = ccu_UserID u"
      "mem_MembershipStatus m = AllocationACTIVE"
    and "al \<in> set (compute_allocations (db (sw_core w)))" "alc_ID al = mem_ComputeAllocationID m" "activeAllocation al"
    and "list_all (\<lambda>v. \<not> (ccu_ComputeClusterID v = alc_ComputeClusterID al \<and> ccu_UserID v = mem_UserID m \<and>
      ccu_ProvisionedAt v \<noteq> None)) (compute_cluster_users (db (sw_core w)))"
  shows "DeleteAssociations f \<notin> set (drop (length (sw_sent w)) (sw_sent w'))"
  using assms(2,1)
proof (cases rule: reconcileCluster_stages)
  case (stopped qs)
  then show ?thesis by (auto simp: list_all_iff)
next
  case (pruned us ds ex w1 qs w2)
  have "covered (db (sw_core w)) m (set ds)"
    using users_covered [OF pruned(2), unfolded pruned(3), OF assms(1)] assms(3-8) pruned(1) by simp
  then have False using assms(9-12) unfolding covered_def list_all_iff by blast
  then show ?thesis ..
qed

subsection \<open>What a sweep writes\<close>

definition served :: "existing \<Rightarrow> slurm_request list \<Rightarrow> association \<Rightarrow> bool" where
  "served ex qs a = (written_already ex a \<or> PostAssociations [MarshalJSON a] \<in> set qs)"

lemma served_append: "served ex qs a \<Longrightarrow> served ex (ps @ qs @ rs) a"
  by (auto simp: served_def)


lemma bind_request_sent:
  assumes "bindL (client_do q) f srv e w = (r, w')" "\<And>x. sends P (f x)"
  shows "\<exists>qs. sw_sent w' = sw_sent w @ q # qs"
proof (cases "srv (sw_sent w) q")
  case (Inr x)
  then have "f x srv e (w\<lparr>sw_sent := sw_sent w @ [q]\<rparr>) = (r, w')"
    using assms(1) by (simp add: bindL_def client_do_def)
  from sendsD [OF assms(2) this] show ?thesis by auto
qed (use assms(1) in \<open>auto simp: bindL_def client_do_def\<close>)

lemma upsert_posts:
  assumes "UpsertAssociation a srv e w = (r, w')"
  shows "\<exists>qs. sw_sent w' = sw_sent w @ PostAssociations [MarshalJSON a] # qs"
  using assms unfolding UpsertAssociation_def ListAssociations_def
  by (rule bind_request_sent [where P = "\<lambda>_. True"]) (intro sends_intros, auto)

lemma write_served:
  assumes "write_records ex rs srv e w = (r, w')"
  shows "r = Inr () \<and> db (sw_core w') = db (sw_core w) \<and>
    (\<exists>qs. sw_sent w' = sw_sent w @ qs \<and> (\<forall>a\<in>set rs. served ex qs a))"
  using assms unfolding write_records_def
proof (induction rs arbitrary: w)
  case (Cons a rs)
  let ?f = "\<lambda>record. if written_already ex record then retL () else bindL (tryL (UpsertAssociation record)) (\<lambda>_. retL ())"
  obtain w1 qs where 1: "?f a srv e w = (Inr (), w1)" "db (sw_core w1) = db (sw_core w)"
    "sw_sent w1 = sw_sent w @ qs" "served ex qs a"
  proof (cases "written_already ex a")
    case True
    then show thesis using that [of w "[]"] by (simp add: retL_def served_def)
  next
    case False
    obtain r1 w1 where u: "UpsertAssociation a srv e w = (r1, w1)" by fastforce
    have "sends (\<lambda>_. True) (UpsertAssociation a)" by (rule upsert_sends) auto
    with u upsert_posts [OF u] False show thesis
      using that [of w1] by (auto simp: bindL_def tryL_def retL_def served_def dest: sendsD)
  qed
  have "eachL rs ?f srv e w1 = (r, w')" using Cons.prems 1(1) by (simp add: bindL_def)
  from Cons.IH [OF this] obtain ps where "r = Inr ()" "db (sw_core w') = db (sw_core w1)"
    "sw_sent w' = sw_sent w1 @ ps" "\<forall>a\<in>set rs. served ex ps a" by blast
  then show ?case using 1 by (auto simp: served_def intro!: exI [of _ "qs @ ps"])
qed (auto simp: retL_iff)

definition past_grace :: "association_subscriber \<Rightarrow> compute_cluster_user \<Rightarrow> time \<Rightarrow> bool" where
  "past_grace a csu now = (case ccu_ProvisionedAt csu of None \<Rightarrow> False
   | Some t \<Rightarrow> (if sub_provisionGrace a \<le> 0 then DefaultProvisionGrace else sub_provisionGrace a) \<le> now - t)"

lemma ready_iff:
  "readyForAssociation a csu srv e w = (r, w') \<longleftrightarrow>
     r = Inr (past_grace a csu (clock e (ticks (sw_core w)))) \<and> w' = w"
  by (auto simp: readyForAssociation_def past_grace_def bindL_def coreL_def nowUTC_def retL_def Let_def
      split: option.splits prod.splits)

lemma memberships_served:
  assumes "reconcile_memberships a ex csu ms ds srv e w = (Inr ds', w')" "schema_ok (db (sw_core w))"
  shows "\<exists>qs. sw_sent w' = sw_sent w @ qs \<and> db (sw_core w') = db (sw_core w) \<and>
    ((\<forall>n. past_grace a csu (clock e n)) \<longrightarrow> (\<forall>m\<in>set ms. mem_MembershipStatus m = AllocationACTIVE \<longrightarrow>
       covered (db (sw_core w)) m (keyOf ` {x. served ex qs x})))"
  using assms
proof (induction ms arbitrary: ds w)
  case (Cons m ms)
  show ?case
  proof (cases "mem_MembershipStatus m = AllocationACTIVE")
    case True
    obtain rs w1 x w3 where 1: "desiredAssociationsForMembership m srv e w = (Inr rs, w1)"
      and 2: "readyForAssociation a csu srv e w1 = (Inr x, w1)"
      and 3: "(if x then write_records ex rs else retL ()) srv e w1 = (Inr (), w3)"
      and 4: "reconcile_memberships a ex csu ms (ds @ map keyOf rs) srv e w3 = (Inr ds', w')"
      using Cons.prems(1) True unfolding reconcile_memberships.simps by (simp add: bindL_Inr ready_iff) blast
    have w1: "db (sw_core w1) = db (sw_core w)" "sw_sent w1 = sw_sent w"
      using sendsD [OF desired_sends [where P = "\<lambda>_. False"] 1] by (auto simp: list_all_iff)
    obtain qs where q: "sw_sent w3 = sw_sent w @ qs" "db (sw_core w3) = db (sw_core w)"
      "x \<longrightarrow> (\<forall>a\<in>set rs. served ex qs a)"
    proof (cases x)
      case True
      then have "write_records ex rs srv e w1 = (Inr (), w3)" using 3 by simp
      from write_served [OF this] w1 that show thesis by auto
    next
      case False
      then show thesis using 3 w1 that [of "[]"] by (simp add: retL_iff)
    qed
    have "schema_ok (db (sw_core w3))" using Cons.prems(2) q(2) by simp
    from Cons.IH [OF 4 this] obtain ps where p: "sw_sent w' = sw_sent w3 @ ps" "db (sw_core w') = db (sw_core w3)"
      "(\<forall>n. past_grace a csu (clock e n)) \<longrightarrow> (\<forall>m\<in>set ms. mem_MembershipStatus m = AllocationACTIVE \<longrightarrow>
         covered (db (sw_core w)) m (keyOf ` {x. served ex ps x}))" unfolding q(2) by blast
    have mono: "keyOf ` {x. served ex ps x} \<subseteq> keyOf ` {x. served ex (qs @ ps) x}"
      "keyOf ` {x. served ex qs x} \<subseteq> keyOf ` {x. served ex (qs @ ps) x}"
      by (auto simp: served_def)
    have "covered (db (sw_core w)) m (keyOf ` {x. served ex (qs @ ps) x})" if "\<forall>n. past_grace a csu (clock e n)"
    proof -
      have "keyOf ` set rs \<subseteq> keyOf ` {x. served ex qs x}" using q(3) 2 that by (auto simp: ready_iff)
      from covered_mono [OF desired_covered [OF 1 Cons.prems(2)] subset_trans [OF this mono(2)]] show ?thesis .
    qed
    moreover have "covered (db (sw_core w)) m' (keyOf ` {x. served ex (qs @ ps) x})"
      if "\<forall>n. past_grace a csu (clock e n)" "m' \<in> set ms" "mem_MembershipStatus m' = AllocationACTIVE" for m'
      using p(3) that covered_mono [OF _ mono(1)] by simp
    ultimately have "(\<forall>n. past_grace a csu (clock e n)) \<longrightarrow> (\<forall>m\<in>set (m # ms).
        mem_MembershipStatus m = AllocationACTIVE \<longrightarrow> covered (db (sw_core w)) m (keyOf ` {x. served ex (qs @ ps) x}))"
      by simp
    moreover have "sw_sent w' = sw_sent w @ qs @ ps" "db (sw_core w') = db (sw_core w)" using p(1,2) q(1,2) by simp_all
    ultimately show ?thesis by blast
  next
    case False
    then show ?thesis using Cons.IH [of ds w] Cons.prems by simp
  qed
qed (simp add: retL_iff)

lemma users_served:
  assumes "reconcile_users a ex us ds srv e w = (Inr ds', w')" "schema_ok (db (sw_core w))"
  shows "\<exists>qs. sw_sent w' = sw_sent w @ qs \<and> (\<forall>u\<in>set us. (\<forall>n. past_grace a u (clock e n)) \<longrightarrow>
    (\<forall>m\<in>set (compute_allocation_memberships (db (sw_core w))). mem_UserID m = ccu_UserID u \<longrightarrow>
      mem_MembershipStatus m = AllocationACTIVE \<longrightarrow> covered (db (sw_core w)) m (keyOf ` {x. served ex qs x})))"
  using assms
proof (induction us arbitrary: ds w)
  case (Cons u us)
  show ?case
  proof (cases "ccu_ProvisionedAt u = None")
    case True
    then have "\<not> past_grace a u t" for t by (simp add: past_grace_def)
    then show ?thesis using Cons.IH [of ds w] Cons.prems True by simp
  next
    case False
    obtain ms w1 ds1 w2 where 1: "coreL (ListAllocationsForUser (ccu_UserID u)) srv e w = (Inr ms, w1)"
      and 2: "reconcile_memberships a ex u ms ds srv e w1 = (Inr ds1, w2)"
      and 3: "reconcile_users a ex us ds1 srv e w2 = (Inr ds', w')"
      using Cons.prems(1) False unfolding reconcile_users.simps by (simp add: bindL_Inr) blast
    have ms: "set ms = {m \<in> set (compute_allocation_memberships (db (sw_core w))). mem_UserID m = ccu_UserID u}"
      and d: "db (sw_core w1) = db (sw_core w)" "sw_sent w1 = sw_sent w"
      using 1 by (auto simp: lrun_simps run_simps store_defs ListAllocationsForUser_def split: if_splits)
    from memberships_served [OF 2, unfolded d, OF Cons.prems(2)] obtain qs where q: "sw_sent w2 = sw_sent w @ qs"
      "db (sw_core w2) = db (sw_core w)" "(\<forall>n. past_grace a u (clock e n)) \<longrightarrow> (\<forall>m\<in>set ms.
        mem_MembershipStatus m = AllocationACTIVE \<longrightarrow> covered (db (sw_core w)) m (keyOf ` {x. served ex qs x}))" by blast
    from Cons.IH [OF 3, unfolded q(2), OF Cons.prems(2)] obtain ps where p: "sw_sent w' = sw_sent w2 @ ps"
      "\<forall>u\<in>set us. (\<forall>n. past_grace a u (clock e n)) \<longrightarrow>
        (\<forall>m\<in>set (compute_allocation_memberships (db (sw_core w))). mem_UserID m = ccu_UserID u \<longrightarrow>
          mem_MembershipStatus m = AllocationACTIVE \<longrightarrow> covered (db (sw_core w)) m (keyOf ` {x. served ex ps x}))" by blast
    have mono: "keyOf ` {x. served ex ps x} \<subseteq> keyOf ` {x. served ex (qs @ ps) x}"
      "keyOf ` {x. served ex qs x} \<subseteq> keyOf ` {x. served ex (qs @ ps) x}"
      by (auto simp: served_def)
    have "\<forall>v\<in>set (u # us). (\<forall>n. past_grace a v (clock e n)) \<longrightarrow>
      (\<forall>m\<in>set (compute_allocation_memberships (db (sw_core w))). mem_UserID m = ccu_UserID v \<longrightarrow>
        mem_MembershipStatus m = AllocationACTIVE \<longrightarrow> covered (db (sw_core w)) m (keyOf ` {x. served ex (qs @ ps) x}))"
      using p(2) q(3) ms covered_mono [OF _ mono(1)] covered_mono [OF _ mono(2)] by simp
    then show ?thesis using p(1) q(1) by (intro exI [of _ "qs @ ps"]) simp
  qed
qed (simp add: retL_iff)

text \<open>No key is the empty string, which the core's queries refuse.\<close>

definition ids_named :: "database \<Rightarrow> bool" where
  "ids_named d = ('''' \<notin> ccl_ID ` set (compute_clusters d) \<and> '''' \<notin> usr_ID ` set (users d) \<and>
     '''' \<notin> alc_ID ` set (compute_allocations d) \<and> '''' \<notin> mem_ID ` set (compute_allocation_memberships d))"

lemma find_Some_ex: "x \<in> set xs \<Longrightarrow> P x \<Longrightarrow> \<exists>y. find P xs = Some y \<and> y \<in> set xs \<and> P y"
  by (induction xs) auto

lemma desired_total:
  assumes "\<And>n. \<not> fault e n" "schema_ok d" "ids_named d" "d = db (sw_core w)"
    and "m \<in> set (compute_allocation_memberships d)" "covered d m UNIV"
  shows "\<exists>rs w'. desiredAssociationsForMembership m srv e w = (Inr rs, w')"
proof -
  note c = schema_okD [OF assms(2), unfolded schema_defs, simplified]
  obtain al where al: "find (\<lambda>r. alc_ID r = mem_ComputeAllocationID m) (compute_allocations d) = Some al"
    "al \<in> set (compute_allocations d)" "alc_ID al = mem_ComputeAllocationID m"
    using c(15) assms(5) find_Some_ex [of _ "compute_allocations d" "\<lambda>r. alc_ID r = mem_ComputeAllocationID m"]
    unfolding refs_iff by metis
  obtain cl where cl: "find (\<lambda>r. ccl_ID r = alc_ComputeClusterID al) (compute_clusters d) = Some cl"
    "cl \<in> set (compute_clusters d)" "ccl_ID cl = alc_ComputeClusterID al"
    using c(8) al(2) find_Some_ex [of _ "compute_clusters d" "\<lambda>r. ccl_ID r = alc_ComputeClusterID al"]
    unfolding refs_iff by metis
  note run = desiredAssociationsForMembership_def bindL_def wrapL_def coreL_def retL_def dbq_def orNotFound_def
    wrapM_def bindM_def retM_def store_defs GetComputeAllocation_def GetComputeCluster_def tick_def
  show ?thesis
  proof (cases "activeAllocation al")
    case False
    then show ?thesis using assms(1,4) al(1) by (simp add: run)
  next
    case True
    obtain u where u: "u \<in> set (compute_cluster_users d)" "ccu_ComputeClusterID u = ccl_ID cl"
      "ccu_UserID u = mem_UserID m" "ccu_ProvisionedAt u \<noteq> None"
      using assms(6) al True cl(3) unfolding covered_def by auto
    then have f: "find (\<lambda>r. ccu_ComputeClusterID r = ccl_ID cl \<and> ccu_UserID r = mem_UserID m)
        (compute_cluster_users d) = Some u"
      using find_uniq_iff [OF schema_keys(2) [OF assms(2)], of "(ccl_ID cl, mem_UserID m)" u] by simp
    obtain v where "v \<in> set (users d)" "ccu_UserID u = usr_ID v" using c(5) u(1) unfolding refs_iff by blast
    then have n: "ccl_ID cl \<noteq> ''''" "mem_UserID m \<noteq> ''''" "alc_ID al \<noteq> ''''" "mem_ID m \<noteq> ''''"
      using assms(3,5) al(2) cl(2) u(3) unfolding ids_named_def by (simp_all add: image_iff) metis+
    obtain t where "ccu_ProvisionedAt u = Some t" using u(4) by blast
    then show ?thesis using assms(1,4) al(1) cl(1) f n True
      by (simp add: run GetComputeClusterUserByPair_def ListResourcesForAllocation_def ListOverridesForMembership_def)
  qed
qed

lemma memberships_total:
  assumes "\<And>n. \<not> fault e n" "schema_ok (db (sw_core w))" "ids_named (db (sw_core w))"
    and "\<And>m. m \<in> set ms \<Longrightarrow> m \<in> set (compute_allocation_memberships (db (sw_core w))) \<and>
      (mem_MembershipStatus m = AllocationACTIVE \<longrightarrow> covered (db (sw_core w)) m UNIV)"
  shows "\<exists>ds' w'. reconcile_memberships a ex csu ms ds srv e w = (Inr ds', w')"
  using assms(2-)
proof (induction ms arbitrary: ds w)
  case (Cons m ms)
  show ?case
  proof (cases "mem_MembershipStatus m = AllocationACTIVE")
    case True
    obtain rs w1 where 1: "desiredAssociationsForMembership m srv e w = (Inr rs, w1)"
      using desired_total [OF assms(1) Cons.prems(1,2) refl, of m srv] Cons.prems(3) [of m] True by auto
    let ?x = "past_grace a csu (clock e (ticks (sw_core w1)))"
    obtain r w2 where 2: "(if ?x then write_records ex rs else retL ()) srv e w1 = (r, w2)" by fastforce
    then have r: "r = Inr ()" using write_served by (auto simp: retL_iff split: if_splits)
    have s: "sends (\<lambda>q. \<not> is_delete q) (if ?x then write_records ex rs else retL ())"
      by (intro sends_intros write_sends)
    have d: "db (sw_core w2) = db (sw_core w)"
      using sendsD [OF desired_sends 1] sendsD [OF s 2] by simp
    obtain ds' w' where "reconcile_memberships a ex csu ms (ds @ map keyOf rs) srv e w2 = (Inr ds', w')"
      using Cons.IH [of w2 "ds @ map keyOf rs"] Cons.prems d by auto
    moreover have "readyForAssociation a csu srv e w1 = (Inr ?x, w1)" by (simp add: ready_iff)
    ultimately show ?thesis using True 1 2 r unfolding reconcile_memberships.simps by (simp add: bindL_def)
  next
    case False
    then show ?thesis using Cons.IH [of w ds] Cons.prems by simp
  qed
qed (simp add: retL_def)

lemma users_total:
  assumes "\<And>n. \<not> fault e n" "schema_ok (db (sw_core w))" "ids_named (db (sw_core w))"
    and "\<forall>u\<in>set us. u \<in> set (compute_cluster_users (db (sw_core w))) \<and> (ccu_ProvisionedAt u \<noteq> None \<longrightarrow>
      (\<forall>m\<in>set (compute_allocation_memberships (db (sw_core w))). mem_UserID m = ccu_UserID u \<longrightarrow>
        mem_MembershipStatus m = AllocationACTIVE \<longrightarrow> covered (db (sw_core w)) m UNIV))"
  shows "\<exists>ds' w'. reconcile_users a ex us ds srv e w = (Inr ds', w')"
  using assms(2-)
proof (induction us arbitrary: ds w)
  case (Cons u us)
  show ?case
  proof (cases "ccu_ProvisionedAt u = None")
    case True
    then show ?thesis using Cons.IH [of w ds] Cons.prems by simp
  next
    case False
    obtain v where "v \<in> set (users (db (sw_core w)))" "ccu_UserID u = usr_ID v"
      using schema_okD(5) [OF Cons.prems(1)] Cons.prems(3) by (auto simp: schema_defs refs_iff)
    then have n: "ccu_UserID u \<noteq> ''''" using Cons.prems(2) unfolding ids_named_def by force
    define w1 where "w1 = w\<lparr>sw_core := tick (sw_core w)\<rparr>"
    define ms where "ms = sort_key mem_StartTime (select_where (\<lambda>r. mem_UserID r = ccu_UserID u)
      (compute_allocation_memberships (db (sw_core w))))"
    have 1: "coreL (ListAllocationsForUser (ccu_UserID u)) srv e w = (Inr ms, w1)"
      using n assms(1) by (simp add: ListAllocationsForUser_def store_defs coreL_def wrapM_def dbq_def ms_def w1_def)
    have d: "db (sw_core w1) = db (sw_core w)" by (simp add: w1_def)
    obtain ds1 w2 where 2: "reconcile_memberships a ex u ms ds srv e w1 = (Inr ds1, w2)"
      using memberships_total [OF assms(1), of w1 ms a ex u ds srv] Cons.prems False
      by (auto simp: d ms_def)
    have d2: "db (sw_core w2) = db (sw_core w)" using sendsD [OF memberships_send 2] d by simp
    obtain ds' w' where "reconcile_users a ex us ds1 srv e w2 = (Inr ds', w')"
      using Cons.IH [of w2 ds1] Cons.prems by (auto simp: d2)
    with 1 2 have "bindL (coreL (ListAllocationsForUser (ccu_UserID u))) (\<lambda>memberships.
        bindL (reconcile_memberships a ex u memberships ds) (\<lambda>desired. reconcile_users a ex us desired)) srv e w =
      (Inr ds', w')" by (simp add: bindL_def)
    with False show ?thesis by auto
  qed
qed (simp add: retL_def)

definition cluster_filter :: "compute_cluster \<Rightarrow> assoc_filter" where
  "cluster_filter c = \<lparr> flt_Account = '''', flt_User = '''', flt_Cluster = ccl_Name c, flt_Partition = '''' \<rparr>"

lemma existing_from:
  assumes "existingAssociations (ccl_Name c) srv e w = (Inr ex, w')" "map_of ex k = Some x"
  shows "\<exists>ws. srv (sw_sent w) (GetAssociations (cluster_filter c)) = Inr ws \<and> x \<in> UnmarshalJSON ` set ws \<and> keyOf x = k"
proof -
  have f: "\<forall>k x. map_of (foldl (\<lambda>byKey assoc. AList.update (keyOf assoc) assoc byKey) xs as) k = Some x \<longrightarrow>
    x \<in> set as \<and> keyOf x = k \<or> map_of xs k = Some x" for xs as
  proof (induction as arbitrary: xs)
    case (Cons a as)
    show ?case
    proof (intro allI impI)
      fix k x assume "map_of (foldl (\<lambda>byKey assoc. AList.update (keyOf assoc) assoc byKey) xs (a # as)) k = Some x"
      then have "map_of (foldl (\<lambda>byKey assoc. AList.update (keyOf assoc) assoc byKey) (AList.update (keyOf a) a xs) as) k = Some x"
        by (simp only: foldl_Cons)
      from Cons.IH [rule_format, OF this]
      have "x \<in> set as \<and> keyOf x = k \<or> map_of (AList.update (keyOf a) a xs) k = Some x" .
      then show "x \<in> set (a # as) \<and> keyOf x = k \<or> map_of xs k = Some x"
        by (cases "k = keyOf a") (auto simp: update_conv)
    qed
  qed simp
  from assms(1) obtain ws where ws: "srv (sw_sent w) (GetAssociations (cluster_filter c)) = Inr ws"
    "ex = foldl (\<lambda>byKey assoc. AList.update (keyOf assoc) assoc byKey) [] (map UnmarshalJSON ws)"
    by (auto simp: existingAssociations_def ListAssociations_def bindL_Inr retL_iff client_do_def cluster_filter_def)
  from f [rule_format, OF assms(2) [unfolded ws(2)]] have "x \<in> UnmarshalJSON ` set ws" "keyOf x = k" by simp_all
  with ws(1) show ?thesis by blast
qed


subsection \<open>Sweeps of a small cluster\<close>

text \<open>The user bob has a provisioned account on the cluster and an active membership; in the second
  database also one in an allocation of another cluster, where bob has no account.  slurmrestd lists the
  given associations to every query and accepts everything else.\<close>

definition slurm_db :: database where
  "slurm_db = alloc_db\<lparr>
     compute_cluster_users := [\<lparr> ccu_ID = ''cu1'', ccu_ComputeClusterID = ''c1'', ccu_UserID = ''bob'',
       ccu_LocalUsername = ''b1'', ccu_ProvisionedAt = Some 1 \<rparr>],
     compute_allocation_resource_mappings := [\<lparr> rmp_ID = ''rm1'', rmp_ComputeAllocationID = ''a1'',
       rmp_ComputeAllocationResourceID = ''res1'', rmp_ResourceAmount = 1, rmp_ResourceTime = 0 \<rparr>]\<rparr>"

definition two_cluster_db :: database where
  "two_cluster_db = slurm_db\<lparr>
     compute_clusters := compute_clusters slurm_db @ [\<lparr> ccl_ID = ''c2'', ccl_Name = ''other'' \<rparr>],
     compute_allocations := compute_allocations slurm_db @
       [sample_allocation\<lparr>alc_ID := ''a2'', alc_Name := ''B'', alc_ComputeClusterID := ''c2''\<rparr>],
     compute_allocation_memberships := compute_allocation_memberships slurm_db @
       [\<lparr> mem_ID = ''m2'', mem_ComputeAllocationID = ''a2'', mem_UserID = ''bob'', mem_StartTime = 11,
          mem_EndTime = 1000, mem_MembershipStatus = ''ACTIVE'' \<rparr>]\<rparr>"

definition listed :: "string \<Rightarrow> assoc_wire" where
  "listed part = \<lparr> wir_Account = ''A'', wir_Cluster = ''cluster'', wir_User = ''b1'', wir_Partition = part,
     wir_ParentAccount = '''', wir_IsDefault = None, wir_ID = 7, wir_QoS = [], wir_Max = None \<rparr>"

definition listing :: "assoc_wire list \<Rightarrow> slurmrestd" where
  "listing ws sent q = (case q of GetAssociations _ \<Rightarrow> Inr ws | _ \<Rightarrow> Inr [])"

definition demo_sub :: association_subscriber where
  "demo_sub = \<lparr> sub_provisionGrace = 0, sub_Error = (\<lambda>_. '''') \<rparr>"

definition demo_cluster :: compute_cluster where
  "demo_cluster = \<lparr> ccl_ID = ''c1'', ccl_Name = ''cluster'' \<rparr>"

definition demo_env :: env where
  "demo_env = quiet_env\<lparr>clock := \<lambda>_. 100000000\<rparr>"

definition demo_world :: "database \<Rightarrow> slurm_world" where
  "demo_world d = \<lparr> sw_core = fresh_state d, sw_sent = [] \<rparr>"

definition sweep :: "slurmrestd \<Rightarrow> database \<Rightarrow> slurm_request list" where
  "sweep srv d = sw_sent (snd (reconcileCluster demo_sub demo_cluster srv demo_env (demo_world d)))"

definition removal :: "string \<Rightarrow> slurm_request" where
  "removal part = DeleteAssociations \<lparr> flt_Account = ''A'', flt_User = ''b1'', flt_Cluster = ''cluster'',
     flt_Partition = part \<rparr>"

lemma schema_ok_slurm_db: "schema_ok slurm_db" "schema_ok two_cluster_db"
  by code_simp+

lemma sweep_old: "removal ''old'' \<in> set (sweep (listing [listed ''old'']) slurm_db)"
  by code_simp

lemma demo_world_db [simp]: "db (sw_core (demo_world d)) = d" "sw_sent (demo_world d) = []"
  by (simp_all add: demo_world_def fresh_state_def)


theorem reconciler_stalls_witness: "removal ''old'' \<notin> set (sweep (listing [listed ''old'']) two_cluster_db)"
proof -
  have *: "\<lparr> ccu_ID = ''cu1'', ccu_ComputeClusterID = ''c1'', ccu_UserID = ''bob'',
       ccu_LocalUsername = ''b1'', ccu_ProvisionedAt = Some 1 \<rparr> \<in> set (compute_cluster_users two_cluster_db)"
    "\<lparr> mem_ID = ''m2'', mem_ComputeAllocationID = ''a2'', mem_UserID = ''bob'', mem_StartTime = 11,
       mem_EndTime = 1000, mem_MembershipStatus = ''ACTIVE'' \<rparr> \<in> set (compute_allocation_memberships two_cluster_db)"
    "sample_allocation\<lparr>alc_ID := ''a2'', alc_Name := ''B'', alc_ComputeClusterID := ''c2''\<rparr>
       \<in> set (compute_allocations two_cluster_db)"
    "list_all (\<lambda>v. \<not> (ccu_ComputeClusterID v = ''c2'' \<and> ccu_UserID v = ''bob'' \<and> ccu_ProvisionedAt v \<noteq> None))
       (compute_cluster_users two_cluster_db)"
    by (simp_all add: two_cluster_db_def slurm_db_def)
  show ?thesis
    using reconciler_stalls [of "demo_world two_cluster_db" demo_sub demo_cluster "listing [listed ''old'']" demo_env,
        OF _ surjective_pairing _ _ _ _ _ _ _ _ _ _, simplified demo_world_db,
        OF schema_ok_slurm_db(2) *(1) _ _ *(2) _ _ *(3)] *(4)
    by (simp add: sweep_def removal_def demo_cluster_def sample_allocation_def activeAllocation_def)
qed



end
