(* ===== verification/Usage_Monitor.thy ===== *)
theory Usage_Monitor
  imports Slurm_Client Posix
begin

text \<open>
  The SLURM usage monitor (connectors/SLURM/Usage-Monitor/internal/smonitor):
  each round lists the jobs of a time window and writes one usage row per job
  whose account is an allocation of the cluster.

  The lister of jobs is a parameter, as it is an interface in Go.  Instants of
  SLURM are seconds since 1970; the clock of the environment counts microseconds
  since Go's zero time.  Durations are in nanoseconds, as in Go.
\<close>

subsection \<open>Jobs\<close>

record job_time =
  jtm_Elapsed :: int
  jtm_Eligible :: int
  jtm_End :: int
  jtm_Start :: int
  jtm_Submission :: int
  jtm_Suspended :: int

record job_tres_info =
  jtr_Allocated :: "tres list"
  jtr_Requested :: "tres list"

record job_exit_info =
  jex_Status :: "string list"
  jex_ReturnCode :: slurm_number

record job_info =
  job_Account :: string
  job_Cluster :: string
  job_Time :: job_time
  job_JobID :: int
  job_Name :: string
  job_Partition :: string
  job_QoS :: string
  job_User :: string
  job_Nodes :: string
  job_Tres :: job_tres_info
  job_ExitCode :: job_exit_info
  job_DerivedExitCode :: job_exit_info

record job_filter =
  jfl_Users :: "string list"
  jfl_StartTime :: int
  jfl_EndTime :: int

subsection \<open>The language\<close>

text \<open>Seconds of the clock and back.\<close>

definition unix_epoch :: int where
  "unix_epoch = 62135596800"

definition toUnix :: "time \<Rightarrow> int" where
  "toUnix t = t div 1000000 - unix_epoch"

definition fromUnix :: "int \<Rightarrow> time" where
  "fromUnix sec = (sec + unix_epoch) * 1000000"

definition whole_seconds :: "int \<Rightarrow> int" where
  "whole_seconds d = (let sec = d div 1000000000; nsec = d mod 1000000000 in
     \<lfloor>round64 (round64 (of_int sec) + round64 (of_int nsec / 1000000000))\<rfloor>)"

definition tryM :: "'a M \<Rightarrow> (err + 'a) M" where
  "tryM m e s = (case m e s of (r, s') \<Rightarrow> (Inr r, s'))"

subsection \<open>smonitor.go\<close>

record slurm_monitor =
  mon_clusterId :: id
  mon_pollOverlap :: int
  mon_lastMonitorTime :: int

definition defaultPollOverlap :: int where
  "defaultPollOverlap = 15 * 60 * 1000000000"

definition NewSlurmMonitor :: "id \<Rightarrow> int \<Rightarrow> slurm_monitor" where
  "NewSlurmMonitor clusterId pollOverlap = \<lparr> mon_clusterId = clusterId,
     mon_pollOverlap = (if pollOverlap \<le> 0 then defaultPollOverlap else pollOverlap), mon_lastMonitorTime = 1 \<rparr>"

definition billing_amount :: "tres list \<Rightarrow> rat" where
  "billing_amount allocated =
     foldl (\<lambda>b t. if trs_Type t = ''billing'' then trs_Count t else b) 0 allocated"

definition raw_amount :: "rat \<Rightarrow> int \<Rightarrow> rat" where
  "raw_amount billingAmount jobDurationSec =
     round64 (round64 (billingAmount * round64 (of_int jobDurationSec)) / 3600)"

definition job_usage :: "id \<Rightarrow> id \<Rightarrow> id \<Rightarrow> string \<Rightarrow> rat \<Rightarrow> rat \<Rightarrow> time \<Rightarrow> compute_allocation_usage" where
  "job_usage allocID userID resourceID jobId raw rate now =
     \<lparr> usg_ID = '''', usg_ComputeAllocationID = allocID, usg_UsedRawAmount = raw,
       usg_UsedSUAmount = round64 (raw * rate), usg_CalculatedTime = now, usg_UserID = userID,
       usg_JobID = jobId, usg_ComputeAllocationResourceID = resourceID \<rparr>"

text \<open>The two writes at the end; their errors are ignored.\<close>

definition replace_usage :: "compute_allocation_usage option \<Rightarrow> compute_allocation_usage \<Rightarrow> unit M" where
  "replace_usage old u = bindM (case old of None \<Rightarrow> retM ()
     | Some v \<Rightarrow> bindM (tryM (DeleteComputeAllocationUsage (usg_ID v))) (\<lambda>_. retM ())) (\<lambda>_.
     bindM (tryM (CreateComputeAllocationUsage (Some u))) (\<lambda>_. retM ()))"

text \<open>The body of the loop for the first allocation with the job's account.\<close>

definition charge_job :: "job_info \<Rightarrow> compute_cluster \<Rightarrow> compute_allocation \<Rightarrow> unit M" where
  "charge_job job cluster alloc =
     bindM (tryM (GetComputeClusterUserByClusterAndLocalUsername (ccl_ID cluster) (job_User job))) (\<lambda>r.
     case r of Inl _ \<Rightarrow> retM () | Inr user \<Rightarrow>
     bindM (tryM (GetComputeAllocationResourceByNameAndCluster (job_Partition job) (ccl_ID cluster))) (\<lambda>r.
     case r of Inl _ \<Rightarrow> retM () | Inr resource \<Rightarrow>
     let jobId = FormatInt (job_JobID job) in
     bindM (tryM (GetComputeAllocationUsageByComputeAllocationIDAndJobID (alc_ID alloc) jobId)) (\<lambda>r.
     if (case r of Inl x \<Rightarrow> x \<noteq> ErrNotFound | Inr _ \<Rightarrow> False) then retM ()
     else
       let jobDurationSec = wrap64 (jtm_End (job_Time job) - jtm_Start (job_Time job)) in
       if jobDurationSec \<le> 0 then retM ()
       else
         let billingAmount = billing_amount (jtr_Allocated (job_Tres job)) in
         if billingAmount \<le> 0 then retM ()
         else
           bindM (tryM (GetEffectiveRateForResource (res_ID resource) (fromUnix (jtm_End (job_Time job))))) (\<lambda>rate.
           case rate of Inl _ \<Rightarrow> retM () | Inr rate \<Rightarrow>
           bindM nowUTC (\<lambda>now.
           replace_usage (case r of Inl _ \<Rightarrow> None | Inr existing \<Rightarrow> Some existing)
             (job_usage (alc_ID alloc) (ccu_UserID user) (res_ID resource) jobId
               (raw_amount billingAmount jobDurationSec) (rat_Rate rate) now))))))"

fun recordJob :: "job_info \<Rightarrow> compute_cluster \<Rightarrow> compute_allocation list \<Rightarrow> unit M" where
  "recordJob job cluster [] = retM ()"
| "recordJob job cluster (alloc # allocations) =
     (if alc_Name alloc \<noteq> job_Account job then recordJob job cluster allocations
      else charge_job job cluster alloc)"

definition poll :: "(job_filter \<Rightarrow> err + job_info list) \<Rightarrow> slurm_monitor \<Rightarrow> slurm_monitor M" where
  "poll ListJobs m =
     bindM (tryM (GetComputeCluster (mon_clusterId m))) (\<lambda>r.
     case r of Inl _ \<Rightarrow> retM m | Inr cluster \<Rightarrow>
     bindM (tryM (ListComputeAllocationsByCluster (ccl_ID cluster))) (\<lambda>r.
     case r of Inl _ \<Rightarrow> retM m | Inr allocations \<Rightarrow>
     bindM nowUTC (\<lambda>now.
     let windowStart = wrap64 (mon_lastMonitorTime m - whole_seconds (mon_pollOverlap m));
         jobFilter = \<lparr> jfl_Users = [], jfl_StartTime = (if windowStart < 1 then 1 else windowStart),
           jfl_EndTime = toUnix now \<rparr> in
     case ListJobs jobFilter of Inl _ \<Rightarrow> retM m
     | Inr jobs \<Rightarrow>
         bindM (eachM jobs (\<lambda>job. recordJob job cluster allocations)) (\<lambda>_.
         retM (m\<lparr>mon_lastMonitorTime := jfl_EndTime jobFilter\<rparr>)))))"

subsection \<open>A job is charged once\<close>

definition of_job :: "id \<Rightarrow> string \<Rightarrow> compute_allocation_usage \<Rightarrow> bool" where
  "of_job aid jid u = (usg_ComputeAllocationID u = aid \<and> usg_JobID u = jid)"


text \<open>What the code needs in order to charge a job: the account of the user, the resource of the
  partition and its rate at the end of the job.\<close>

definition chargeable :: "database \<Rightarrow> job_info \<Rightarrow> compute_cluster \<Rightarrow> compute_allocation \<Rightarrow> compute_cluster_user \<Rightarrow>
    compute_allocation_resource \<Rightarrow> compute_allocation_resource_rate \<Rightarrow> bool" where
  "chargeable d job c al user resource rate =
     (al \<in> set (compute_allocations d) \<and>
      find (\<lambda>r. ccu_ComputeClusterID r = ccl_ID c \<and> ccu_LocalUsername r = job_User job) (compute_cluster_users d) = Some user \<and>
      find (\<lambda>r. res_Name r = job_Partition job \<and> res_ComputeClusterID r = ccl_ID c) (compute_allocation_resources d) = Some resource \<and>
      effective_rate (compute_allocation_resource_rates d) (res_ID resource) (fromUnix (jtm_End (job_Time job))) = Some rate \<and>
      0 \<le> rat_Rate rate \<and> 0 < wrap64 (jtm_End (job_Time job) - jtm_Start (job_Time job)) \<and>
      0 < billing_amount (jtr_Allocated (job_Tres job)) \<and> fromUnix (jtm_End (job_Time job)) \<noteq> 0 \<and>
      list_all (\<lambda>x. x \<noteq> []) [ccl_ID c, job_User job, job_Partition job, alc_ID al, res_ID resource])"

lemmas step_defs = bindM_def wrapM_def dbq_def tick_def andReturn_def inTx_def TxFn_def txx_def no_cons_def
  retM_def orNotFound_def throwM_def nowUTC_def newID_def idOrNew_def tryM_def

lemma find_member: "x \<in> set xs \<Longrightarrow> \<exists>y. find (\<lambda>r. f r = f x) xs = Some y"
  by (induction xs) auto

lemma delete_usage_run:
  assumes "\<And>n. \<not> fault e n" "u \<in> set (compute_allocation_usages (db s))" "usg_ID u \<noteq> ''''"
  shows "\<exists>s'. DeleteComputeAllocationUsage (usg_ID u) e s = (Inr (), s') \<and>
    db s' = (db s)\<lparr>compute_allocation_usages := delete_where (\<lambda>r. usg_ID r = usg_ID u) (compute_allocation_usages (db s))\<rparr>"
proof -
  obtain v where "find (\<lambda>r. usg_ID r = usg_ID u) (compute_allocation_usages (db s)) = Some v"
    using find_member [OF assms(2), of usg_ID] by blast
  then show ?thesis using assms(1,3)
    by (simp add: DeleteComputeAllocationUsage_def store_defs step_defs)
qed

lemma create_usage_run:
  assumes "\<And>n. \<not> fault e n" "\<And>n. clock e n \<noteq> 0" "\<And>n. uuid e n \<notin> usg_ID ` set (compute_allocation_usages (db s))"
    and "uniq usg_ID (compute_allocation_usages (db s))" "al \<in> set (compute_allocations (db s))" "alc_ID al \<noteq> ''''"
    and "res \<in> set (compute_allocation_resources (db s))" "res_ID res \<noteq> ''''" "0 \<le> raw" "0 \<le> rate" "now \<noteq> 0"
  shows "\<exists>r s'. CreateComputeAllocationUsage (Some (job_usage (alc_ID al) uid (res_ID res) jid raw rate now)) e s = (Inr r, s') \<and>
    db s' = (db s)\<lparr>compute_allocation_usages := compute_allocation_usages (db s) @
      [(job_usage (alc_ID al) uid (res_ID res) jid raw rate now)\<lparr>usg_ID := uuid e (uuids s)\<rparr>]\<rparr>"
proof -
  obtain a r where "find (\<lambda>x. alc_ID x = alc_ID al) (compute_allocations (db s)) = Some a"
    "find (\<lambda>x. res_ID x = res_ID res) (compute_allocation_resources (db s)) = Some r"
    using find_member [OF assms(5), of alc_ID] find_member [OF assms(7), of res_ID] by blast
  moreover have "uniq usg_ID (compute_allocation_usages (db s) @ [v])" if "usg_ID v = uuid e n" for v n
    using assms(3,4) that by (auto simp: uniq_def)
  moreover have "\<not> raw < 0" "\<not> round64 (raw * rate) < 0" using assms(9,10) round64_nonneg [of "raw * rate"] by simp_all
  ultimately show ?thesis using assms(1-8,11)
    by (simp add: CreateComputeAllocationUsage_def job_usage_def store_defs step_defs schema_defs orElseTime_def
        insert_row_def Let_def)
qed

lemma delete_only:
  fixes us :: "compute_allocation_usage list"
  assumes "uniq usg_ID us" "length (filter P us) \<le> 1" "u \<in> set us" "P u"
  shows "delete_where (\<lambda>r. usg_ID r = usg_ID u) us = filter (\<lambda>x. \<not> P x) us"
proof -
  have one: "length xs \<le> 1 \<Longrightarrow> a \<in> set xs \<Longrightarrow> b \<in> set xs \<Longrightarrow> a = b" for a b :: compute_allocation_usage and xs
    by (cases xs) auto
  have "(usg_ID x = usg_ID u) \<longleftrightarrow> P x" if "x \<in> set us" for x
    using uniqD [OF assms(1) that assms(3)] one [OF assms(2), of x u] assms(3,4) that by auto
  then show ?thesis unfolding delete_where_def by (intro filter_cong) auto
qed

text \<open>Up to its two writes, the charging of a job only reads.\<close>

lemma charge_job_writes:
  assumes "\<And>n. n < ticks s + 4 \<Longrightarrow> \<not> fault e n" "chargeable (db s) job c al user resource rate"
  shows "charge_job job c al e s =
    replace_usage (find (of_job (alc_ID al) (FormatInt (job_JobID job))) (compute_allocation_usages (db s)))
      (job_usage (alc_ID al) (ccu_UserID user) (res_ID resource) (FormatInt (job_JobID job))
        (raw_amount (billing_amount (jtr_Allocated (job_Tres job)))
          (wrap64 (jtm_End (job_Time job) - jtm_Start (job_Time job)))) (rat_Rate rate) (clock e (ticks s + 4))) e
      (s\<lparr>ticks := ticks s + 4\<rparr>)"
proof -
  have jid: "FormatInt (job_JobID job) \<noteq> []" by (simp add: FormatInt_def Itoa_nonempty)
  have job: "find (of_job a j) us = find (\<lambda>r. usg_ComputeAllocationID r = a \<and> usg_JobID r = j) us" for a j us
    by (simp add: of_job_def [abs_def])
  have four: "Suc (Suc (Suc (Suc (ticks s)))) = ticks s + 4" by simp
  show ?thesis
    using assms jid unfolding chargeable_def job
    by (cases "find (\<lambda>r. usg_ComputeAllocationID r = alc_ID al \<and> usg_JobID r = FormatInt (job_JobID job)) (compute_allocation_usages (db s))")
       (simp_all add: charge_job_def GetComputeClusterUserByClusterAndLocalUsername_def
        GetComputeAllocationResourceByNameAndCluster_def GetComputeAllocationUsageByComputeAllocationIDAndJobID_def
        GetEffectiveRateForResource_def orElseTime_def store_defs step_defs Let_def four)
qed

lemma replace_usage_run:
  assumes "\<And>n. \<not> fault e n" "\<And>n. clock e n \<noteq> 0" "\<And>n. uuid e n \<notin> usg_ID ` set (compute_allocation_usages (db s))"
    and "uniq usg_ID (compute_allocation_usages (db s))" "'''' \<notin> usg_ID ` set (compute_allocation_usages (db s))"
    and "length (filter P (compute_allocation_usages (db s))) \<le> 1" "al \<in> set (compute_allocations (db s))" "alc_ID al \<noteq> ''''"
    and "res \<in> set (compute_allocation_resources (db s))" "res_ID res \<noteq> ''''" "0 \<le> raw" "0 \<le> rate" "now \<noteq> 0"
    and "replace_usage (find P (compute_allocation_usages (db s))) (job_usage (alc_ID al) uid (res_ID res) jid raw rate now) e s = (r, s')"
  shows "\<exists>x. compute_allocation_usages (db s') = filter (\<lambda>u. \<not> P u) (compute_allocation_usages (db s)) @
    [(job_usage (alc_ID al) uid (res_ID res) jid raw rate now)\<lparr>usg_ID := x\<rparr>]"
proof -
  let ?us = "compute_allocation_usages (db s)" and ?u = "job_usage (alc_ID al) uid (res_ID res) jid raw rate now"
  obtain s2 where s2: "db s2 = (db s)\<lparr>compute_allocation_usages := filter (\<lambda>u. \<not> P u) ?us\<rparr>"
    and del: "(case find P ?us of None \<Rightarrow> retM ()
      | Some v \<Rightarrow> bindM (tryM (DeleteComputeAllocationUsage (usg_ID v))) (\<lambda>_. retM ())) e s = (Inr (), s2)"
  proof (cases "find P ?us")
    case None
    then have "filter (\<lambda>u. \<not> P u) ?us = ?us" by (simp add: find_None_iff filter_id_conv)
    then show thesis using that [of s] None by (simp add: retM_def)
  next
    case (Some v)
    then have v: "v \<in> set ?us" "P v" by (auto dest: find_SomeD)
    with assms(5) have "usg_ID v \<noteq> ''''" by force
    from delete_usage_run [OF assms(1) v(1) this] delete_only [OF assms(4,6) v] show thesis
      using that Some by (auto simp: bindM_def tryM_def retM_def)
  qed
  have "uniq usg_ID (compute_allocation_usages (db s2))" "\<And>n. uuid e n \<notin> usg_ID ` set (compute_allocation_usages (db s2))"
    using assms(3,4) by (auto simp: s2 uniq_def distinct_map_filter)
  from create_usage_run [OF assms(1,2) this(2,1), of al res raw rate now uid jid] obtain v s3 where
    "CreateComputeAllocationUsage (Some ?u) e s2 = (Inr v, s3)"
    "db s3 = (db s2)\<lparr>compute_allocation_usages := compute_allocation_usages (db s2) @ [?u\<lparr>usg_ID := uuid e (uuids s2)\<rparr>]\<rparr>"
    using assms(7-13) by (auto simp: s2)
  moreover from this(1) have "s' = s3" using assms(14) del by (simp add: replace_usage_def bindM_def tryM_def retM_def)
  ultimately show ?thesis by (auto simp: s2)
qed

lemma recordJob_find:
  "find (\<lambda>a. alc_Name a = job_Account job) allocations = Some al \<Longrightarrow> recordJob job c allocations = charge_job job c al"
  by (induction allocations) (auto split: if_splits)

text \<open>C14: Without database faults a chargeable job ends up with exactly one usage row, whatever row an earlier
  round has left for it: the amounts are those of the job's billing, duration and rate, and no other row
  is touched.  Polling a job again does not charge it again.\<close>

theorem job_charged_once:
  assumes "\<And>n. \<not> fault e n" "\<And>n. clock e n \<noteq> 0" "\<And>n. uuid e n \<notin> usg_ID ` set (compute_allocation_usages (db s))"
    and "uniq usg_ID (compute_allocation_usages (db s))" "'''' \<notin> usg_ID ` set (compute_allocation_usages (db s))"
    and "find (\<lambda>a. alc_Name a = job_Account job) allocations = Some al" "chargeable (db s) job c al user resource rate"
    and "length (filter (of_job (alc_ID al) (FormatInt (job_JobID job))) (compute_allocation_usages (db s))) \<le> 1"
    and "recordJob job c allocations e s = (r, s')"
  shows "\<exists>u. compute_allocation_usages (db s') =
      filter (\<lambda>x. \<not> of_job (alc_ID al) (FormatInt (job_JobID job)) x) (compute_allocation_usages (db s)) @ [u] \<and>
    of_job (alc_ID al) (FormatInt (job_JobID job)) u \<and> usg_UserID u = ccu_UserID user \<and>
    usg_UsedRawAmount u = raw_amount (billing_amount (jtr_Allocated (job_Tres job)))
      (wrap64 (jtm_End (job_Time job) - jtm_Start (job_Time job))) \<and>
    usg_UsedSUAmount u = round64 (usg_UsedRawAmount u * rat_Rate rate)"
proof -
  let ?jid = "FormatInt (job_JobID job)" and ?us = "compute_allocation_usages (db s)"
  let ?P = "of_job (alc_ID al) ?jid"
  let ?raw = "raw_amount (billing_amount (jtr_Allocated (job_Tres job))) (wrap64 (jtm_End (job_Time job) - jtm_Start (job_Time job)))"
  have n: "ccl_ID c \<noteq> []" "job_User job \<noteq> []" "job_Partition job \<noteq> []" "alc_ID al \<noteq> []" "res_ID resource \<noteq> []"
    and f: "find (\<lambda>r. ccu_ComputeClusterID r = ccl_ID c \<and> ccu_LocalUsername r = job_User job) (compute_cluster_users (db s)) = Some user"
      "find (\<lambda>r. res_Name r = job_Partition job \<and> res_ComputeClusterID r = ccl_ID c) (compute_allocation_resources (db s)) = Some resource"
      "effective_rate (compute_allocation_resource_rates (db s)) (res_ID resource) (fromUnix (jtm_End (job_Time job))) = Some rate"
    and p: "0 \<le> rat_Rate rate" "0 < wrap64 (jtm_End (job_Time job) - jtm_Start (job_Time job))"
      "0 < billing_amount (jtr_Allocated (job_Tres job))" "fromUnix (jtm_End (job_Time job)) \<noteq> 0"
      "al \<in> set (compute_allocations (db s))"
    using assms(7) by (auto simp: chargeable_def)
  have raw: "0 \<le> ?raw" using p(2,3) unfolding raw_amount_def by (intro round64_nonneg divide_nonneg_pos mult_nonneg_nonneg) auto
  define s1 where "s1 = s\<lparr>ticks := ticks s + 4\<rparr>"
  have s1: "db s1 = db s" by (simp add: s1_def)
  have run: "charge_job job c al e s = replace_usage (find ?P ?us)
      (job_usage (alc_ID al) (ccu_UserID user) (res_ID resource) ?jid ?raw (rat_Rate rate) (clock e (ticks s1))) e s1"
    using charge_job_writes [OF _ assms(7)] assms(1) by (simp add: s1_def)
  have now: "clock e (ticks s1) \<noteq> 0" by (rule assms(2))
  have res: "resource \<in> set (compute_allocation_resources (db s))" using f(2) by (auto dest: find_SomeD)
  have "recordJob job c allocations e s = charge_job job c al e s" using recordJob_find [OF assms(6)] by simp
  with assms(9) run have "replace_usage (find ?P ?us) (job_usage (alc_ID al) (ccu_UserID user) (res_ID resource) ?jid ?raw
      (rat_Rate rate) (clock e (ticks s1))) e s1 = (r, s')" by simp
  from replace_usage_run [OF assms(1,2), of s1 ?P al resource ?raw "rat_Rate rate" "clock e (ticks s1)", unfolded s1,
      OF assms(3,4,5,8) p(5) n(4) res n(5) raw p(1) now this]
  show ?thesis by (auto simp: of_job_def job_usage_def)
qed

subsection \<open>A job of one hour\<close>

definition usage_db :: database where
  "usage_db = alloc_db\<lparr>
     compute_cluster_users := [\<lparr> ccu_ID = ''cu1'', ccu_ComputeClusterID = ''c1'', ccu_UserID = ''bob'',
       ccu_LocalUsername = ''b1'', ccu_ProvisionedAt = Some 1 \<rparr>],
     compute_allocation_resource_rates := [sample_rate ''t1'' 2 0 (10 ^ 17)],
     compute_allocation_usages := [\<lparr> usg_ID = ''old'', usg_ComputeAllocationID = ''a1'', usg_UsedRawAmount = 3,
       usg_UsedSUAmount = 6, usg_CalculatedTime = 1, usg_UserID = ''bob'', usg_JobID = ''42'',
       usg_ComputeAllocationResourceID = ''res1'' \<rparr>]\<rparr>"

definition demo_exit :: job_exit_info where
  "demo_exit = \<lparr> jex_Status = [], jex_ReturnCode = \<lparr> num_Set = True, num_Infinite = False, num_Number = 0 \<rparr> \<rparr>"

definition demo_job :: job_info where
  "demo_job = \<lparr> job_Account = ''A'', job_Cluster = ''cluster'',
     job_Time = \<lparr> jtm_Elapsed = 3600, jtm_Eligible = 0, jtm_End = 4600, jtm_Start = 1000, jtm_Submission = 0,
       jtm_Suspended = 0 \<rparr>,
     job_JobID = 42, job_Name = ''j'', job_Partition = ''cpu'', job_QoS = ''normal'', job_User = ''b1'',
     job_Nodes = ''n1'', job_Tres = \<lparr> jtr_Allocated = [\<lparr> trs_Type = ''billing'', trs_Name = '''', trs_Count = 4 \<rparr>],
       jtr_Requested = [] \<rparr>,
     job_ExitCode = demo_exit, job_DerivedExitCode = demo_exit \<rparr>"

definition demo_charge :: "(nat \<Rightarrow> bool) \<Rightarrow> compute_allocation_usage list" where
  "demo_charge faults = compute_allocation_usages (db (snd (recordJob demo_job \<lparr> ccl_ID = ''c1'', ccl_Name = ''cluster'' \<rparr>
     [sample_allocation] (quiet_env\<lparr>fault := faults, clock := \<lambda>_. 7\<rparr>) (fresh_state usage_db))))"

lemma job_amount: "raw_amount 4 3600 = 4" "round64 8 = 8"
proof -
  have "round64 3600 = 3600" "round64 14400 = 14400" "round64 4 = 4"
    using round64_int [of 3600] round64_int [of 14400] round64_int [of 4] by simp_all
  then show "raw_amount 4 3600 = 4" by (simp add: raw_amount_def)
  show "round64 8 = 8" using round64_int [of 8] by simp
qed

lemma usage_db_chargeable:
  "chargeable usage_db demo_job \<lparr> ccl_ID = ''c1'', ccl_Name = ''cluster'' \<rparr> sample_allocation
     \<lparr> ccu_ID = ''cu1'', ccu_ComputeClusterID = ''c1'', ccu_UserID = ''bob'', ccu_LocalUsername = ''b1'', ccu_ProvisionedAt = Some 1 \<rparr>
     \<lparr> res_ID = ''res1'', res_Name = ''cpu'', res_ResourceType = ''CPU'', res_ResourceAmount = 10, res_ComputeClusterID = ''c1'' \<rparr>
     (sample_rate ''t1'' 2 0 (10 ^ 17))"
  by code_simp

theorem job_charged_once_witness:
  "\<exists>u. demo_charge (\<lambda>_. False) = [u] \<and> usg_JobID u = ''42'' \<and> usg_UsedRawAmount u = 4 \<and> usg_UsedSUAmount u = 8"
proof -
  let ?e = "quiet_env\<lparr>fault := \<lambda>_. False, clock := \<lambda>_. 7\<rparr>"
  have us: "compute_allocation_usages (db (fresh_state usage_db)) = compute_allocation_usages usage_db" "db (fresh_state usage_db) = usage_db"
    by (simp_all add: fresh_state_def)
  have "uuid ?e n \<notin> usg_ID ` set (compute_allocation_usages usage_db)" for n by (simp add: quiet_env_def usage_db_def)
  moreover have "uniq usg_ID (compute_allocation_usages usage_db)" "'''' \<notin> usg_ID ` set (compute_allocation_usages usage_db)"
    "find (\<lambda>a. alc_Name a = job_Account demo_job) [sample_allocation] = Some sample_allocation"
    "length (filter (of_job (alc_ID sample_allocation) (FormatInt (job_JobID demo_job))) (compute_allocation_usages usage_db)) \<le> 1"
    "filter (\<lambda>x. \<not> of_job (alc_ID sample_allocation) (FormatInt (job_JobID demo_job)) x) (compute_allocation_usages usage_db) = []"
    "wrap64 (jtm_End (job_Time demo_job) - jtm_Start (job_Time demo_job)) = 3600"
    "billing_amount (jtr_Allocated (job_Tres demo_job)) = 4" "FormatInt (job_JobID demo_job) = ''42''"
    by code_simp+
  ultimately show ?thesis
    using job_charged_once [of ?e "fresh_state usage_db" demo_job "[sample_allocation]" sample_allocation, unfolded us,
        OF _ _ _ _ _ _ usage_db_chargeable _ surjective_pairing] job_amount
    by (auto simp: demo_charge_def of_job_def sample_rate_def)
qed



end
