(* ===== verification/Spec2Isabelle.thy ===== *)
theory Spec2Isabelle
  imports Core_System Http_Safety Merge_Safety Crud_Contract Change_Safety Bootstrap_Safety Query_Safety
    Amie_Replay Slurm_Safety Usage_Monitor
begin

text \<open>
  Custos: the core service of a research identity and allocation platform, its HTTP access control, the
  connector that feeds it from the ACCESS allocation exchange (AMIE), and the connectors that carry its
  allocations to SLURM clusters and the clusters' usage back.  This development models the Go code under
  src/ and proves what the parts promise to each other and to their callers.

  The program.  Requests enter through the HTTP server (internal/server), pass the middleware of
  pkg/identity, which turns a bearer token into a caller with privileges, and reach an operation of the
  core service (pkg/service).  An operation validates its arguments, works on the PostgreSQL tables
  through the stores (internal/store) inside one transaction (internal/db/tx.go), and publishes an event
  (pkg/events) after the commit.  The AMIE connector (connectors/ACCESS/AMIE-Processor) runs in the same
  process: a poller stores fetched packets, a processor runs each packet's handler in a transaction of
  the connector's own tables, and the handler calls the core service, whose commits do not depend on the
  connector's transaction.  The association mapper (connectors/SLURM/Association-Mapper) reacts to the
  core's events and sweeps every cluster from time to time, so that SLURM has an association for every
  active member of an active allocation and no other; the usage monitor (connectors/SLURM/Usage-Monitor)
  polls finished jobs and records what they cost.

  How a piece of Go reads here.  A struct is a record with the fields in order, a pointer argument an
  option, an enumeration a string.  An operation of the core is a function from an environment and a
  state to an error or a value and the new state (Runtime); the environment decides which round trips to
  the database fail, what the clock shows, which identifiers are drawn, what other code outside src/
  returns.  No property assumes that calls succeed unless it says so.  A table is a list of rows, a
  statement is accepted if the constraints it can violate hold afterwards.  Code that is not under src/
  (the token library, SUM over floating-point columns, the AMIE server, slurmrestd, PostgreSQL's
  failures) is a parameter or part of the environment; slurmrestd is an arbitrary function from the
  requests it has seen to an answer.

  The theories, with the code they follow.

  Foundations.  Prelude has tables, keys, references, paging and the lemma collections, Strconv decimal
  numbers and the string functions that several components use.  Models follows
  pkg/models, Database the migrations of internal/db/migrations, Runtime internal/db/tx.go and the
  plumbing of pkg/service (errors, identifiers, clock, publication).  Runtime also has the program logic:
  readonly, atomicM (a failure leaves nothing behind), keeps and txkeeps (a property of the database is
  kept), each with one rule per combinator, so that the proof for an operation is one call of a method
  with the collection of rules.

  Stores.  Store_Directory and Store_Allocation have one function per method of the stores of
  internal/store.  Store_Contract is the interface between stores and services: a locale per group of
  statements, with the law that a statement keeps a property of the database.  Schema_Invariant,
  PI_Invariant and Grant_Invariant interpret it for the relational schema, for one PI per project and for
  registered privilege keys; the services' lemmas are proved once in the locales.

  Services.  Svc_Directory, Svc_Project, Svc_Allocation, Svc_Change, Svc_Authz, Svc_Merge and
  Svc_Identity follow the files of pkg/service of those names, with every operation that changes state.
  Core_System makes them a transition system: a step is any operation with any arguments under any
  environment.  Authz_Safety, Bootstrap_Safety, Merge_Safety, Change_Safety, Query_Safety and
  Crud_Contract have what the operations promise; the last is a locale of create, get and delete,
  interpreted for fourteen entities.

  HTTP.  Http_Access follows pkg/identity, the error mapping of pkg/common/support.go, route_policy.go
  and the route table of internal/server; Http_Admin the handlers that change grants and roles.
  Http_Safety relies on the resolver through a locale and proves who can reach a handler.

  POSIX names.  Posix follows pkg/posix/username.go.

  AMIE.  Amie_Store has the connector's tables, stores, transactions and audit log; Amie_Worker the
  poller and the processor; Amie_Handlers the eleven packet handlers, their helpers and the router.
  Amie_Lifecycle proves the life of a packet and its event for every router that leaves these two tables
  alone (a locale), and that the stored statuses refine a small machine; Amie_Safety interprets it with
  the connector's own router and makes the connector and the core one transition system.  Amie_Replay
  says what a second attempt of a packet finds and does.

  SLURM.  Slurm_Client follows types.go, associations.go and accounts.go of the REST client, with the
  rounding of float64 arithmetic; Slurm_Mapper the association writer, the event subscribers and the
  reconciler; Usage_Monitor follows smonitor.go.  Slurm_Safety has a logic of the requests a computation
  sends, with one rule per combinator, and says which associations a sweep removes, writes and leaves.

  What is shown, by group.  Integrity: in every reachable state the database satisfies its schema, no
  project has two PIs, only registered keys are granted, a failed operation leaves no trace, and the
  connector keeps all of this.  Authorization: the two privilege queries agree, changes of grants need
  and record an authorized actor, revocations leave a holder of the meta privileges, a privileged route
  is reached only by a holder, a revocation takes effect at the next request, scoped reads admit exactly
  the callers the policy names.  Identity: linking by e-mail, cache round trip, merge of users, bootstrap.
  Allocations and queries: change requests and their log, effective rates, paging, create/read/delete
  round trips.  The connector: the invariant of packets and events, refinement of the retry machine,
  progress of due events, the delay before a retry, names of cluster accounts.  SLURM: a sweep removes
  nothing a member is entitled to and writes everything that is missing, the wire format of associations
  is a round trip, a job is charged once however often it is polled.  Some theorems show runs
  in which the code does not do what its comments say or what its callers need; they are named in the
  findings of the manifest.

  Bounds and fuel.  All functions are total and terminate; there is no fuel.  The allocator's loop over
  collision suffixes is bounded by MaxCollisionSuffix as in the code, the processor takes at most fifty
  events a round.  Integers are unbounded except in the delay before a retry, where the 64-bit product
  is a machine word, and in the usage monitor, whose times and durations wrap at 64 bits.  A float64 is a
  rational number, and each operation on it rounds to 53 significant bits, ties to even; infinities, NaN
  and the subnormal range are outside the values that occur.

  Conventions.  Error values keep the structure that errors.Is inspects and the format strings; in the
  connector's handlers the operands of a label are left out.  A Go panic is an error value, which the
  theorems on the parts concerned exclude.  Case mapping is exact on ASCII.  Operations run one after the
  other; within a handler of the connector the core may commit while the connector later rolls back.
  The manifest maps operations, helpers and data; string constants and fragments of a mapped function
  are mapped where they are of interest by themselves.

  Not modelled.  Pure input and output or wiring: process start-up, configuration, migrations runner,
  tracing, metrics, tickers, the HTTP transport of the AMIE and SLURM clients, the COmanage client,
  ServeMux matching, JSON encoding of responses, request logging.  The handlers of internal/server for other resources only
  decode JSON, call one modelled operation and encode its result.  The queries of the operator pages
  (ListPackets, ListPacketEvents, GetStats, audit traces) and the Analytics connector are SQL reports that
  change nothing.  The delivery of events to subscribers is concurrent: goroutines without an order;
  publication is an append to a log, and a subscriber a function of the event it is given.  The service's generated mock is test code.  The SSH certificate
  signer, the PAM module (C, inside the PAM stack) and the web portal (browser code) are separate
  programs.
\<close>

subsection \<open>A run of the system\<close>

fun run_ops :: "env \<Rightarrow> unit M list \<Rightarrow> state \<Rightarrow> state" where
  "run_ops e [] s = s"
| "run_ops e (m # ms) s = run_ops e ms (snd (m e s))"

definition demo_ops :: "unit M list" where
  "demo_ops = [voidM (CreateOrganization (Some sample_org)),
     voidM (CreateUser (Some (sample_user ''alice'' ''''))), voidM (CreateUser (Some (sample_user ''bob'' ''''))),
     voidM (CreateProject (Some sample_project)),
     voidM (EnsureProjectMembership ''p1'' ''alice'' ''PI''),
     voidM (EnsureProjectMembership ''p1'' ''bob'' ''PI''),
     voidM (EnsureProjectMembership ''p1'' ''bob'' ''CO_PI''),
     BootstrapSuperAdmin ''alice@x.org'' ''config'']"

definition demo_state :: state where
  "demo_state = run_ops quiet_env demo_ops (fresh_state empty_db)"

lemma length_filter_key: "distinct (map f t) \<Longrightarrow> length (filter (\<lambda>x. f x = k) t) \<le> 1"
proof (induction t)
  case (Cons x t)
  have "filter (\<lambda>y. f y = k) t = []" if "f x = k"
    using Cons.prems that by (auto simp: filter_empty_conv image_iff)
  then show ?case using Cons by (cases "f x = k") auto
qed simp

lemma reachable_run_ops:
  "reachable reg s \<Longrightarrow> registered e = reg \<Longrightarrow> \<forall>m\<in>set ms. core_op m \<Longrightarrow> reachable reg (run_ops e ms s)"
  by (induction ms arbitrary: s) (auto intro: reach_step core_step [OF _ _ surjective_pairing])

lemma demo_reachable: "reachable core_privileges demo_state"
proof -
  have "\<forall>m\<in>set demo_ops. core_op m"
    by (simp add: demo_ops_def core_op.intros atomic_op.intros)
  then show ?thesis
    unfolding demo_state_def
    by (intro reachable_run_ops reach_init) (simp_all add: fresh_state_def quiet_env_def)
qed

subsection \<open>Properties of the whole core\<close>



text \<open>C3: In every reachable state no project has two memberships with the role PI, although no
  constraint of the database says so.\<close>

theorem reachable_one_pi:
  assumes "reachable reg s"
  shows "length (filter (\<lambda>m. pmb_ProjectID m = pid \<and> pmb_Role m = ProjectRolePI)
    (project_memberships (db s))) \<le> 1"
proof -
  have "distinct (map pmb_ProjectID (pi_rows (db s)))"
    using reachable_invariants [OF assms] by (simp add: one_pi_def uniq_def)
  then have "length (filter (\<lambda>m. pmb_ProjectID m = pid) (pi_rows (db s))) \<le> 1"
    by (rule length_filter_key)
  then show ?thesis by (simp add: pi_rows_def conj_commute)
qed

theorem reachable_one_pi_witness:
  "length (filter (\<lambda>m. pmb_ProjectID m = ''p1'' \<and> pmb_Role m = ProjectRolePI)
     (project_memberships (db demo_state))) \<le> 1 \<and> 2 \<le> length (project_memberships (db demo_state))"
proof -
  have "2 \<le> length (project_memberships (db demo_state))" by code_simp
  then show ?thesis using reachable_one_pi [OF demo_reachable, of "''p1''"] by simp
qed

text \<open>C18: In every reachable state every privilege key granted to a user or carried by a role is
  registered, so HasPrivilege never refuses a key that somebody holds.\<close>

theorem reachable_known_grants:
  assumes "reachable reg s" "holds (db s) uid key"
  shows "IsKnownPrivilege reg key"
proof -
  have "known_grants reg (db s)" using reachable_invariants [OF assms(1)] by simp
  then show ?thesis using assms(2) by (auto simp: known_grants_def list_all_iff holds_iff)
qed

theorem reachable_known_grants_witness: "IsKnownPrivilege core_privileges RolesManage"
proof -
  have "holds (db demo_state) ''alice'' RolesManage" by code_simp
  from reachable_known_grants [OF demo_reachable this] show ?thesis .
qed

text \<open>C2: An operation that fails, for whatever reason and at whatever database call, leaves the
  committed database and the published events as they were; this covers the 61 operations of the
  service that write in one transaction.\<close>

theorem failed_op_leaves_no_trace:
  assumes "atomic_op m" "m e s = (Inl x, s')"
  shows "db s' = db s \<and> bus s' = bus s"
  using atomic_op_atomic [OF assms(1)] assms(2) by (auto simp: atomicM_def frame_def)

theorem failed_op_leaves_no_trace_witness:
  "bus (snd (voidM (CreateUser (Some (sample_user ''dave'' ''''))) (quiet_env\<lparr>fault := \<lambda>n. n = 4\<rparr>)
     (fresh_state sample_db))) = []"
proof -
  let ?m = "voidM (CreateUser (Some (sample_user ''dave'' '''')))"
  let ?e = "quiet_env\<lparr>fault := \<lambda>n. n = 4\<rparr>"
  have "isl (fst (?m ?e (fresh_state sample_db)))" by code_simp
  then have "fst (?m ?e (fresh_state sample_db)) = Inl (projl (fst (?m ?e (fresh_state sample_db))))" by simp
  from failed_op_leaves_no_trace [OF op_CreateUser run_fst [OF this]] show ?thesis
    by (simp add: fresh_state_def)
qed

end
